(* ===== verification/TE_Prelude.thy ===== *)
theory TE_Prelude
  imports Complex_Main "HOL-Library.Word"
begin

text \<open>
  The prelude of the development: error codes, the calls the suite makes to the test
  engine and to the agents, the environment that answers them, the effect type of the
  modelled functions, its combinators, and the event calculus that the component proofs
  share.

  The suite is a client of the OKTET Labs Test Environment (TE): every visible effect
  of its C code is a call of a TE function (the configurator, remote procedure calls,
  jobs, the measurement logger) whose code is not part of the repository. Those calls are
  therefore values of the type \<open>call\<close>, recorded in a trace, and their answers come
  from a parameter, the environment \<open>e\<close>, an argument of every definition that uses
  it. In-memory operations of TE that can fail (\<open>te_string_append\<close>,
  \<open>te_vec_append_str_fmt\<close>, allocations) are answered by the environment too, but leave
  no event.
\<close>

section \<open>Error codes\<close>

datatype te_module = TE_NOMODULE | TE_TAPI | TE_CS | TE_CONF_API | TE_RPC | TE_OTHER_MODULE nat

datatype te_code =
    TE_C_EINVAL | TE_C_ENOMEM | TE_C_EFAIL | TE_C_ENOENT | TE_C_ESRCH | TE_C_EINPROGRESS
  | TE_C_ENOBUFS | TE_C_ESHCMD | TE_C_EPROTO | TE_C_ESMALLBUF | TE_C_OTHER nat

text \<open>A \<open>te_errno\<close> is 0 for success, or an error code qualified by a module.\<close>

datatype te_errno = TE_OK | TE_RC te_module te_code

instantiation te_errno :: zero
begin
definition zero_te_errno :: te_errno where "zero_te_errno = TE_OK"
instance ..
end

abbreviation TE_EINVAL :: te_errno where
  "TE_EINVAL \<equiv> TE_RC TE_NOMODULE TE_C_EINVAL"
abbreviation TE_ENOMEM :: te_errno where
  "TE_ENOMEM \<equiv> TE_RC TE_NOMODULE TE_C_ENOMEM"
abbreviation TE_EFAIL :: te_errno where
  "TE_EFAIL \<equiv> TE_RC TE_NOMODULE TE_C_EFAIL"
abbreviation TE_ENOENT :: te_errno where
  "TE_ENOENT \<equiv> TE_RC TE_NOMODULE TE_C_ENOENT"
abbreviation TE_ESRCH :: te_errno where
  "TE_ESRCH \<equiv> TE_RC TE_NOMODULE TE_C_ESRCH"
abbreviation TE_EINPROGRESS :: te_errno where
  "TE_EINPROGRESS \<equiv> TE_RC TE_NOMODULE TE_C_EINPROGRESS"

lemma TE_RC_not_zero [simp]: "TE_RC m c \<noteq> 0" "0 \<noteq> TE_RC m c"
  by (simp_all add: zero_te_errno_def)

lemma TE_OK_zero [simp]: "TE_OK = 0"
  by (simp add: zero_te_errno_def)

section \<open>Calls of the outside world\<close>

record rcf_rpc_server =
  rpcs_ta :: string
  rpcs_name :: string

datatype wait_flag = EXITED | SIGNALED | UNKNOWN | OTHER_FLAG nat

type_synonym handle = nat

datatype cfg_op =
    CfgGet string
  | CfgGetSync string
  | CfgAdd string "string option"
  | CfgSet string string
  | CfgDel string
  | CfgFind string
  | CfgGetOid string
  | CfgGetInst string
  | CfgInstName string
  | CfgTreePrint string

datatype ps_op =
    PsAdd string bool
  | PsAddArg nat string
  | PsAddEnv string string
  | PsStart
  | PsStop
  | PsGetStatus
  | PsGetAutorestart
  | PsSetAutorestart nat

text \<open>Assignments to the handle of an RPC server: the timeout of the next call, and that an
  error of the next call is awaited.\<close>

datatype rpcs_op = RpcTimeout int | RpcAwaitError

datatype rpc_op =
    RpcSystem string
  | RpcSetenv string "string option" bool
  | RpcUnsetenv string
  | RpcMkdirp string
  | RpcRemoveDir string
  | RpcOpen string
  | RpcWriteClose int string

text \<open>What a job is created with: program, arguments, environment, the stdout filters
  that are made readable.\<close>

record job_desc =
  jd_program :: string
  jd_argv :: "string list"
  jd_env :: "string list"
  jd_regexps :: "string list"

datatype job_op =
    JobFactoryCreate rcf_rpc_server
  | JobFactorySetPath handle
  | JobFactoryTa handle
  | JobFactoryDestroy handle
  | JobCreate handle job_desc
  | JobStart handle
  | JobWait handle int
  | JobKill handle nat
  | JobStop handle int
  | JobDestroy handle int
  | JobAttachFilter handle string
  | JobFilterRegexp handle string
  | JobReceive handle int
  | JobClear handle
  | JobFiltersHaveData handle int

datatype reboot_type = WARM_REBOOT | COLD_REBOOT

text \<open>The parameters of the network emulator; a finite \<open>double\<close> is kept as the rational number
  it is.\<close>

datatype netem_setting =
    NetemDelay "32 word" | NetemDelayCorrelation rat
  | NetemLoss rat | NetemLossCorrelation rat
  | NetemDuplicate rat | NetemDuplicateCorrelation rat
  | NetemLimit "32 word"
  | NetemGap "32 word"
  | NetemReorder rat | NetemReorderCorrelation rat
  | NetemCorruption rat | NetemCorruptionCorrelation rat

datatype agent_op =
    PciByVendorDevice string string string
  | PciGetDevices string
  | PciBindDriver string string
  | PciBindByVendDev string string string nat string
  | PciUnbindByVendDev string string string nat
  | PciGetDriver string string string nat
  | ModuleAdd string string
  | ModuleLoad string string
  | ModuleUnload string string
  | IfDown string string
  | IfUp string string
  | GetAllThreads string
  | Name2Type string
  | TaGetFile string string string
  | TaPutFile string string string
  | ShEnvPathAppend string "string option"
  | RpcsCreateProcess rcf_rpc_server string
  | RpcsDestroy "rcf_rpc_server option"
  | RebootTa "string option" reboot_type
  | QdiscSetKind string string string
  | QdiscEnable string string
  | NetemSet string string netem_setting
  | BpfStimInit rcf_rpc_server string string
  | BpfStimDrop handle int
  | BpfStimDup handle int
  | BpfStimDelay handle int
  | BpfStimDel handle

datatype local_op =
    LocalSystem string
  | LocalReadFile string
  | LocalWriteFile string string
  | Sleep nat

text \<open>The options of the FIO tool (\<open>tapi_fio_opts\<close>); enumerators are kept by name.\<close>

record tapi_fio_opts =
  fio_name :: "string option"
  fio_filename :: "string option"
  fio_blocksize :: "32 word"
  fio_numjobs :: "32 word"
  fio_iodepth :: "32 word"
  fio_runtime_sec :: "32 word"
  fio_rwmixread :: "32 word"
  fio_rwtype :: string
  fio_ioengine :: string
  fio_direct :: bool
  fio_exit_on_error :: bool
  fio_rand_gen :: "string option"
  fio_user :: "string option"
  fio_rbdname :: "string option"
  fio_pool :: "string option"
  fio_size :: "string option"

text \<open>The options of \<open>mke2fs\<close> and of the traffic generator.\<close>

record tapi_mke2fs_opt =
  mk_block_size :: "32 word option"
  mk_use_journal :: bool
  mk_fs_type :: "string option"
  mk_device :: "string option"

record tapi_perf_opts =
  perf_host :: "string option"
  perf_protocol :: string
  perf_streams :: int
  perf_port :: int
  perf_duration_sec :: int

record tapi_gtest =
  g_bin :: "string option"
  g_group :: "string option"
  g_name :: "string option"
  g_out0 :: handle
  g_handle :: handle

text \<open>\<open>FioSetOpts\<close> is the assignment to the options kept in an instance. The stops of the stress
  tool and the wait for the traffic generator use the timeouts of TE.\<close>

datatype tool_op =
    FioCreate handle string tapi_fio_opts
  | FioSetOpts handle tapi_fio_opts
  | FioStart handle
  | FioWait handle int
  | FioStop handle
  | FioDestroy handle
  | FioGetReport handle
  | FioLogReport handle
  | FioMiReport handle
  | Mke2fsDo handle tapi_mke2fs_opt int
  | Mke2fsCheckJournal handle
  | Mke2fsDestroy handle
  | MiCreate string
  | MiMeasKey handle string string
  | MiDestroy handle
  | StressCreate handle "32 word"
  | StressStart handle
  | StressStop handle
  | StressDestroy handle
  | PerfClientCreate handle tapi_perf_opts
  | PerfServerCreate handle tapi_perf_opts
  | PerfClientStart handle
  | PerfServerStart handle
  | PerfClientWait handle
  | PerfClientReport handle
  | PerfServerReport handle
  | PerfClientDestroy handle
  | PerfServerDestroy handle
  | GtestInit tapi_gtest handle
  | GtestStart tapi_gtest
  | GtestWait tapi_gtest int
  | GtestStop tapi_gtest
  | GtestFini tapi_gtest

datatype test_op =
    GetParam string
  | FindParam string
  | GetRpcs string
  | EnvInit
  | NetworkSetup
  | StartEnv
  | EndEnv
  | GetNetEnv string
  | GetGtest
  | SigUsr2Caught

datatype call =
    Cfg cfg_op
  | Ps string string ps_op
  | Rpcs rcf_rpc_server rpcs_op
  | Rpc rcf_rpc_server rpc_op
  | Job job_op
  | Agent agent_op
  | Local local_op
  | Tool tool_op
  | Test test_op

datatype mem_op =
    StrAppend string
  | VecAppend string
  | Alloc nat
  | Strdup string

text \<open>The answer to a call. Each call uses the fields its C interface has: the status
  code (for a remote procedure call the remote \<open>errno\<close>), output strings, numbers,
  handles. A network address is known by a handle. A remote procedure call may leave by a long jump, as the TAPI does
  when an unexpected RPC error is met and no error is awaited.\<close>

record reply =
  r_rc :: te_errno
  r_str :: "string option"
  r_list :: "string list"
  r_num :: int
  r_rat :: rat
  r_handles :: "handle list"
  r_bool :: bool
  r_flag :: wait_flag
  r_jump :: bool

text \<open>Option bindings handed to \<open>tapi_job_opt_build_args\<close>.\<close>

datatype job_opt =
    OptUInt string "32 word"
  | OptUIntOmittable "string option" "32 word option"
  | OptString string "string option"
  | OptBool string bool
  | OptArgs "string list"

section \<open>The environment\<close>

text \<open>
  \<open>on_call\<close> and \<open>on_mem\<close> answer the calls over a world state of any type; the
  other fields are TE functions without effects: number parsing, the expansion of
  templates, operations on \<open>te_kvpair\<close> lists, the formatting of job options, the error a
  job status stands for (\<open>TAPI_JOB_CHECK_STATUS\<close>, 0 to go on).
  \<open>heap_tail n\<close> are the bytes found in memory behind an allocated block of \<open>n\<close>
  bytes, up to the next zero byte, \<open>stale_buf\<close> what a path buffer and \<open>stale_word\<close> what a number holds before it is
  written. \<open>printf0 f\<close> is the output of a format string without arguments,
  \<open>undefined_int\<close> what an out-of-range conversion of a floating-point number gives.
  \<open>fio_defaults\<close>, \<open>fio_max_numjobs\<close>, \<open>fio_timeout_default\<close> and the other defaults are constants of
  TE. \<open>strcmp_start p s\<close> compares the beginning of \<open>s\<close> with \<open>p\<close> and is 0 when
  \<open>s\<close> starts with \<open>p\<close>; a socket address is known by \<open>te_sockaddr_get_ipstr\<close> only.
\<close>

record 'w te_env =
  on_call :: "call \<Rightarrow> 'w \<Rightarrow> reply \<times> 'w"
  on_mem :: "mem_op \<Rightarrow> 'w \<Rightarrow> te_errno \<times> 'w"
  getenv :: "string \<Rightarrow> string option"
  te_strtoul :: "string \<Rightarrow> nat \<Rightarrow> te_errno \<times> 64 word"
  te_strtol :: "string \<Rightarrow> nat \<Rightarrow> te_errno \<times> int"
  te_strtoi :: "string \<Rightarrow> nat \<Rightarrow> te_errno \<times> 32 word"
  te_expand_kvpairs :: "string \<Rightarrow> (string \<times> string) list \<Rightarrow> te_errno \<times> string"
  te_replace_all :: "string \<Rightarrow> string \<Rightarrow> string \<Rightarrow> te_errno \<times> string"
  te_str_strip_spaces :: "string \<Rightarrow> string"
  te_kvpair_add :: "(string \<times> string) list \<Rightarrow> string \<Rightarrow> string \<Rightarrow>
                    te_errno \<times> (string \<times> string) list"
  te_kvpairs_get :: "(string \<times> string) list \<Rightarrow> string \<Rightarrow> string option"
  job_opt_build_args :: "string \<Rightarrow> job_opt list \<Rightarrow> te_errno \<times> string list"
  job_check_status :: "wait_flag \<Rightarrow> int \<Rightarrow> te_errno"
  heap_tail :: "nat \<Rightarrow> string"
  printf0 :: "string \<Rightarrow> string"
  undefined_int :: "32 word"
  fio_defaults :: tapi_fio_opts
  fio_max_numjobs :: nat
  fio_timeout_default :: "16 word"
  strcmp_start :: "string \<Rightarrow> string \<Rightarrow> int"
  te_sockaddr_get_ipstr :: "nat \<Rightarrow> string"
  stale_buf :: string
  stale_word :: "32 word"
  mke2fs_defaults :: tapi_mke2fs_opt
  perf_defaults :: tapi_perf_opts
  gtest_defaults :: tapi_gtest

section \<open>Effects\<close>

text \<open>
  A function runs in a state with the world, the trace of calls made so far, each with
  the answer it got, and the last remote error of each RPC server (\<open>RPC_ERRNO\<close>). It yields a value or leaves by a
  jump: \<open>TEST_FAIL\<close> (also taken by a failed \<open>CHECK_RC\<close>) and \<open>TEST_SKIP\<close>.
\<close>

type_synonym event = "call \<times> reply"

record 'w sys =
  world :: 'w
  trace :: "event list"
  rpc_errno :: "rcf_rpc_server \<Rightarrow> te_errno"

datatype verdict = Failed | Skipped

datatype 'a outcome = Val 'a | Jump verdict

type_synonym ('w, 'a) te = "'w sys \<Rightarrow> 'a outcome \<times> 'w sys"

definition ret :: "'a \<Rightarrow> ('w, 'a) te" where
  "ret x = (\<lambda>s. (Val x, s))"

definition jump :: "verdict \<Rightarrow> ('w, 'a) te" where
  "jump v = (\<lambda>s. (Jump v, s))"

definition bnd :: "('w, 'a) te \<Rightarrow> ('a \<Rightarrow> ('w, 'b) te) \<Rightarrow> ('w, 'b) te" where
  "bnd m f = (\<lambda>s. case m s of (Val x, s') \<Rightarrow> f x s' | (Jump v, s') \<Rightarrow> (Jump v, s'))"

fun is_rpc :: "call \<Rightarrow> bool" where
  "is_rpc (Rpc _ _) = True"
| "is_rpc _ = False"

fun note_errno :: "call \<Rightarrow> te_errno \<Rightarrow> (rcf_rpc_server \<Rightarrow> te_errno) \<Rightarrow> (rcf_rpc_server \<Rightarrow> te_errno)" where
  "note_errno (Rpc r _) rc f = f(r := rc)"
| "note_errno _ rc f = f"

text \<open>One call: the environment answers, the event is recorded.\<close>

definition te_call :: "'w te_env \<Rightarrow> call \<Rightarrow> ('w, reply) te" where
  "te_call e c = (\<lambda>s. case on_call e c (world s) of (r, w) \<Rightarrow>
     (if is_rpc c \<and> r_jump r then Jump Failed else Val r,
      s\<lparr>world := w, trace := trace s @ [(c, r)],
        rpc_errno := note_errno c (r_rc r) (rpc_errno s)\<rparr>))"

text \<open>One in-memory operation: no event.\<close>

definition mem :: "'w te_env \<Rightarrow> mem_op \<Rightarrow> ('w, te_errno) te" where
  "mem e op = (\<lambda>s. case on_mem e op (world s) of (rc, w) \<Rightarrow> (Val rc, s\<lparr>world := w\<rparr>))"

text \<open>A handle returned through an output parameter; 0 stands for NULL.\<close>

definition handle_of :: "nat \<Rightarrow> reply \<Rightarrow> handle" where
  "handle_of i r = (if i < length (r_handles r) then r_handles r ! i else 0)"

definition get_rpc_errno :: "rcf_rpc_server \<Rightarrow> ('w, te_errno) te" where
  "get_rpc_errno r = (\<lambda>s. (Val (rpc_errno s r), s))"

definition call_rc :: "'w te_env \<Rightarrow> call \<Rightarrow> ('w, te_errno) te" where
  "call_rc e c = bnd (te_call e c) (\<lambda>r. ret (r_rc r))"

subsection \<open>Control flow of the C code\<close>

text \<open>\<open>rc = m; if (rc != 0) return rc;\<close> followed by the rest.\<close>

definition on_ok :: "('w, te_errno) te \<Rightarrow> ('w, te_errno) te \<Rightarrow> ('w, te_errno) te" where
  "on_ok m k = bnd m (\<lambda>rc. if rc \<noteq> 0 then ret rc else k)"

text \<open>A chain of such statements over the elements of a list (a loop that returns at the
  first error), and over a list of statements.\<close>

fun for_rc :: "('a \<Rightarrow> ('w, te_errno) te) \<Rightarrow> 'a list \<Rightarrow> ('w, te_errno) te" where
  "for_rc f [] = ret 0"
| "for_rc f (x # xs) = on_ok (f x) (for_rc f xs)"

fun rc_seq :: "('w, te_errno) te list \<Rightarrow> ('w, te_errno) te" where
  "rc_seq [] = ret 0"
| "rc_seq (m # ms) = on_ok m (rc_seq ms)"

text \<open>\<open>CHECK_RC(m)\<close>: an error leaves by \<open>TEST_FAIL\<close>.\<close>

definition check_rc :: "('w, te_errno) te \<Rightarrow> ('w, unit) te" where
  "check_rc m = bnd m (\<lambda>rc. if rc \<noteq> 0 then jump Failed else ret ())"

fun do_all :: "('w, unit) te list \<Rightarrow> ('w, unit) te" where
  "do_all [] = ret ()"
| "do_all (m # ms) = bnd m (\<lambda>_. do_all ms)"

text \<open>\<open>goto out\<close> with cleanup code that runs on both paths and keeps \<open>rc\<close>. A jump
  passes it by.\<close>

definition ensure :: "('w, 'a) te \<Rightarrow> ('w, unit) te \<Rightarrow> ('w, 'a) te" where
  "ensure m c = bnd m (\<lambda>x. bnd c (\<lambda>_. ret x))"

section \<open>The event calculus\<close>

text \<open>
  \<open>obeys m T\<close>: whatever the environment and the state, \<open>m\<close> only extends the trace, and
  its outcome together with the events it added satisfies \<open>T\<close>. Events carry the answers,
  so \<open>T\<close> can say how the outcome depends on them. The rules push the predicate
  backwards through the combinators; they are collected in \<open>ev\<close>, to be used as
  \<open>(auto intro!: ev)\<close>.
\<close>

named_theorems ev

definition obeys :: "('w, 'a) te \<Rightarrow> ('a outcome \<Rightarrow> event list \<Rightarrow> bool) \<Rightarrow> bool" where
  "obeys m T \<longleftrightarrow> (\<forall>s. \<exists>t. trace (snd (m s)) = trace s @ t \<and> T (fst (m s)) t)"

lemma obeysD:
  assumes "obeys m T" and "m s = (r, s')"
  obtains t where "trace s' = trace s @ t" and "T r t"
  using assms by (metis fst_conv obeys_def snd_conv)

text \<open>The rule applied to a run from an empty trace.\<close>

lemma obeys_at: "obeys m T \<Longrightarrow> trace s = [] \<Longrightarrow> T (fst (m s)) (trace (snd (m s)))"
  unfolding obeys_def by (metis append_Nil)

lemma obeys_weaken:
  assumes "obeys m T" and "\<And>r t. T r t \<Longrightarrow> T' r t"
  shows "obeys m T'"
  using assms unfolding obeys_def by meson

lemma obeys_conj: "obeys m T \<Longrightarrow> obeys m T' \<Longrightarrow> obeys m (\<lambda>r t. T r t \<and> T' r t)"
  unfolding obeys_def by (metis append_eq_append_conv)

lemma obeys_ret [ev]: "T (Val x) [] \<Longrightarrow> obeys (ret x) T"
  by (simp add: obeys_def ret_def)

lemma obeys_jump [ev]: "T (Jump v) [] \<Longrightarrow> obeys (jump v) T"
  by (simp add: obeys_def jump_def)

lemma obeys_call [ev]:
  assumes "\<And>r. \<not> (is_rpc c \<and> r_jump r) \<Longrightarrow> T (Val r) [(c, r)]"
    and "\<And>r. is_rpc c \<Longrightarrow> r_jump r \<Longrightarrow> T (Jump Failed) [(c, r)]"
  shows "obeys (te_call e c) T"
  using assms by (auto simp: obeys_def te_call_def split: prod.splits)

lemma obeys_mem [ev]: "(\<And>rc. T (Val rc) []) \<Longrightarrow> obeys (mem e op) T"
  by (auto simp: obeys_def mem_def split: prod.splits)

lemma obeys_get_rpc_errno [ev]: "(\<And>rc. T (Val rc) []) \<Longrightarrow> obeys (get_rpc_errno r) T"
  by (auto simp: obeys_def get_rpc_errno_def)

lemma obeys_bnd [ev]:
  assumes "obeys m (\<lambda>r t. (\<forall>x. r = Val x \<longrightarrow> obeys (f x) (\<lambda>r' t'. T r' (t @ t'))) \<and>
                          (\<forall>v. r = Jump v \<longrightarrow> T (Jump v) t))"
  shows "obeys (bnd m f) T"
  unfolding obeys_def
proof
  fix s
  define P where "P = (\<lambda>r t. (\<forall>x. r = Val x \<longrightarrow> obeys (f x) (\<lambda>r' t'. T r' (t @ t'))) \<and>
                          (\<forall>v. r = Jump v \<longrightarrow> T (Jump v) t))"
  obtain r s1 where m: "m s = (r, s1)" by fastforce
  have "obeys m P" using assms by (simp add: P_def)
  then obtain t where t: "trace s1 = trace s @ t" and P: "P r t"
    using m by (elim obeysD) auto
  show "\<exists>t. trace (snd (bnd m f s)) = trace s @ t \<and> T (fst (bnd m f s)) t"
  proof (cases r)
    case (Val x)
    with P have "obeys (f x) (\<lambda>r' t'. T r' (t @ t'))" by (simp add: P_def)
    then obtain t' where "trace (snd (f x s1)) = trace s1 @ t'" "T (fst (f x s1)) (t @ t')"
      unfolding obeys_def by blast
    with Val m t show ?thesis by (auto simp: bnd_def)
  next
    case (Jump v)
    with P m t show ?thesis by (auto simp: bnd_def P_def)
  qed
qed

lemma obeys_call_rc [ev]:
  assumes "\<And>r. \<not> (is_rpc c \<and> r_jump r) \<Longrightarrow> T (Val (r_rc r)) [(c, r)]"
    and "\<And>r. is_rpc c \<Longrightarrow> r_jump r \<Longrightarrow> T (Jump Failed) [(c, r)]"
  shows "obeys (call_rc e c) T"
  unfolding call_rc_def by (auto intro!: ev assms)

lemma obeys_on_ok [ev]:
  assumes "obeys m (\<lambda>r t. (\<forall>rc. r = Val rc \<and> rc \<noteq> 0 \<longrightarrow> T (Val rc) t) \<and>
                          (r = Val 0 \<longrightarrow> obeys k (\<lambda>r' t'. T r' (t @ t'))) \<and>
                          (\<forall>v. r = Jump v \<longrightarrow> T (Jump v) t))"
  shows "obeys (on_ok m k) T"
  unfolding on_ok_def by (rule obeys_bnd, rule obeys_weaken [OF assms]) (auto intro: ev)

lemma obeys_check_rc [ev]:
  assumes "obeys m (\<lambda>r t. (\<forall>rc. r = Val rc \<and> rc \<noteq> 0 \<longrightarrow> T (Jump Failed) t) \<and>
                          (r = Val 0 \<longrightarrow> T (Val ()) t) \<and> (\<forall>v. r = Jump v \<longrightarrow> T (Jump v) t))"
  shows "obeys (check_rc m) T"
  unfolding check_rc_def by (rule obeys_bnd, rule obeys_weaken [OF assms]) (auto intro: ev)

lemma obeys_rc_seq_Nil [ev]: "T (Val 0) [] \<Longrightarrow> obeys (rc_seq []) T"
  by (simp add: obeys_ret)

lemma obeys_rc_seq_Cons [ev]: "obeys (on_ok m (rc_seq ms)) T \<Longrightarrow> obeys (rc_seq (m # ms)) T"
  by simp

lemma obeys_do_all_Nil [ev]: "T (Val ()) [] \<Longrightarrow> obeys (do_all []) T"
  by (simp add: obeys_ret)

lemma obeys_do_all_Cons [ev]: "obeys (bnd m (\<lambda>_. do_all ms)) T \<Longrightarrow> obeys (do_all (m # ms)) T"
  by simp

lemma obeys_ensure [ev]:
  assumes "obeys (bnd m (\<lambda>x. bnd c (\<lambda>_. ret x))) T"
  shows "obeys (ensure m c) T"
  using assms by (simp add: ensure_def)

lemma obeys_if [ev]: "(b \<Longrightarrow> obeys m T) \<Longrightarrow> (\<not> b \<Longrightarrow> obeys k T) \<Longrightarrow> obeys (if b then m else k) T"
  by simp

lemma obeys_option [ev]:
  "(z = None \<Longrightarrow> obeys m T) \<Longrightarrow> (\<And>x. z = Some x \<Longrightarrow> obeys (k x) T) \<Longrightarrow>
   obeys (case z of None \<Rightarrow> m | Some x \<Rightarrow> k x) T"
  by (simp split: option.split)

lemma obeys_prod [ev]: "(\<And>x y. z = (x, y) \<Longrightarrow> obeys (k x y) T) \<Longrightarrow> obeys (case z of (x, y) \<Rightarrow> k x y) T"
  by (simp split: prod.split)

lemma obeys_list [ev]:
  "(z = [] \<Longrightarrow> obeys m T) \<Longrightarrow> (\<And>x xs. z = x # xs \<Longrightarrow> obeys (k x xs) T) \<Longrightarrow>
   obeys (case z of [] \<Rightarrow> m | x # xs \<Rightarrow> k x xs) T"
  by (simp split: list.split)

subsection \<open>Chains and loops\<close>

text \<open>The outcome of a program that makes exactly the calls \<open>cs\<close> when it succeeds, and a
  prefix of them otherwise.\<close>

definition in_order :: "call list \<Rightarrow> te_errno outcome \<Rightarrow> event list \<Rightarrow> bool" where
  "in_order cs r t \<longleftrightarrow> map fst t = take (length t) cs \<and> (r = Val 0 \<longrightarrow> length t = length cs)"

lemma in_orderD: "in_order cs (Val 0) t \<Longrightarrow> map fst t = cs"
  by (auto simp: in_order_def)

lemma in_order_prefix: "in_order cs r t \<Longrightarrow> \<exists>zs. cs = map fst t @ zs"
  unfolding in_order_def by (metis append_take_drop_id)

lemma in_order_Nil [simp]: "in_order [] r t \<longleftrightarrow> t = []"
  by (auto simp: in_order_def)

lemma in_order_Nil2 [simp]: "in_order cs r [] \<longleftrightarrow> (r = Val 0 \<longrightarrow> cs = [])"
  by (auto simp: in_order_def)

lemma in_order_Cons [simp]:
  "in_order (c # cs) r (ev # t) \<longleftrightarrow> fst ev = c \<and> in_order cs r t"
  by (auto simp: in_order_def)

text \<open>A loop that returns at the first error, by an invariant on what each pass adds.\<close>

lemma obeys_for_rc:
  assumes step: "\<And>x. x \<in> set xs \<Longrightarrow> obeys (f x) (T x)"
    and nil: "Q [] (Val 0) []"
    and stop: "\<And>x xs rc t. T x (Val rc) t \<Longrightarrow> rc \<noteq> 0 \<Longrightarrow> Q (x # xs) (Val rc) t"
    and jmp: "\<And>x xs v t. T x (Jump v) t \<Longrightarrow> Q (x # xs) (Jump v) t"
    and cons: "\<And>x xs t r t'. T x (Val 0) t \<Longrightarrow> Q xs r t' \<Longrightarrow> Q (x # xs) r (t @ t')"
  shows "obeys (for_rc f xs) (Q xs)"
  using step
proof (induction xs)
  case Nil
  then show ?case by (simp add: obeys_ret nil)
next
  case (Cons x xs)
  have IH: "obeys (for_rc f xs) (Q xs)" using Cons by simp
  have "obeys (f x) (T x)" using Cons.prems by simp
  then have "obeys (on_ok (f x) (for_rc f xs)) (Q (x # xs))"
    by (intro obeys_on_ok, elim obeys_weaken)
       (auto intro: stop jmp cons obeys_weaken [OF IH])
  then show ?case by simp
qed

section \<open>Resources in a trace\<close>

text \<open>The job factories and FIO instances a trace creates and destroys, in their order, and
  the starts and destructions of jobs.\<close>

definition made_factory :: "event \<Rightarrow> handle list" where
  "made_factory ev = (case fst ev of
     Job (JobFactoryCreate _) \<Rightarrow> if r_rc (snd ev) = 0 then [handle_of 0 (snd ev)] else [] | _ \<Rightarrow> [])"

definition freed_factory :: "event \<Rightarrow> handle list" where
  "freed_factory ev = (case fst ev of Job (JobFactoryDestroy h) \<Rightarrow> [h] | _ \<Rightarrow> [])"

definition made_fio :: "event \<Rightarrow> handle list" where
  "made_fio ev = (case fst ev of Tool (FioCreate _ _ _) \<Rightarrow> [handle_of 0 (snd ev)] | _ \<Rightarrow> [])"

definition freed_fio :: "event \<Rightarrow> handle list" where
  "freed_fio ev = (case fst ev of Tool (FioDestroy h) \<Rightarrow> [h] | _ \<Rightarrow> [])"

datatype life_step = Started handle | Destroyed handle

definition job_step :: "event \<Rightarrow> life_step list" where
  "job_step ev = (case fst ev of
     Job (JobStart h) \<Rightarrow> [Started h] | Job (JobDestroy h _) \<Rightarrow> [Destroyed h] | _ \<Rightarrow> [])"

definition in_trace :: "(event \<Rightarrow> 'a list) \<Rightarrow> event list \<Rightarrow> 'a list" where
  "in_trace f t = concat (map f t)"

lemma in_trace_simps [simp]:
  "in_trace f [] = []" "in_trace f (ev # t) = f ev @ in_trace f t"
  "in_trace f (t @ t') = in_trace f t @ in_trace f t'"
  by (simp_all add: in_trace_def)

lemmas resource_defs = made_factory_def freed_factory_def made_fio_def freed_fio_def job_step_def

text \<open>A program that leaves nothing of a kind in its trace.\<close>

definition leaves_none :: "(event \<Rightarrow> 'b list) \<Rightarrow> ('w, 'a) te \<Rightarrow> bool" where
  "leaves_none f m \<longleftrightarrow> obeys m (\<lambda>r t. in_trace f t = [])"

lemma leaves_noneD: "leaves_none f m \<Longrightarrow> (\<And>r t. in_trace f t = [] \<Longrightarrow> T r t) \<Longrightarrow> obeys m T"
  unfolding leaves_none_def by (erule obeys_weaken)

end
