(* ===== verification/C_Strings.thy ===== *)
theory C_Strings
  imports TE_Prelude "HOL-Library.Sublist"
begin

text \<open>
  The parts of the C library the suite computes with: decimal output (\<open>%d\<close>, \<open>%u\<close>),
  \<open>strstr\<close>, \<open>strtok\<close> and \<open>fgets\<close>, on strings without their terminating zero, with
  the facts about them that the components share. Operations on \<open>te_string\<close> buffers that
  may fail are at the end.
\<close>

section \<open>Decimal output\<close>

definition digit :: "nat \<Rightarrow> char" where
  "digit d = ''0123456789'' ! d"

fun dec_of_nat :: "nat \<Rightarrow> string" where
  "dec_of_nat n = (if n < 10 then [digit n] else dec_of_nat (n div 10) @ [digit (n mod 10)])"

declare dec_of_nat.simps [simp del]

definition dec_of_int :: "int \<Rightarrow> string" where
  "dec_of_int i = (if i < 0 then ''-'' @ dec_of_nat (nat (- i)) else dec_of_nat (nat i))"

definition nat_of_dec :: "string \<Rightarrow> nat" where
  "nat_of_dec = foldl (\<lambda>n c. 10 * n + (of_char c - 48)) 0"

definition is_digit :: "char \<Rightarrow> bool" where
  "is_digit c \<longleftrightarrow> c \<in> set ''0123456789''"

lemma digit_is_digit [simp]: "d < 10 \<Longrightarrow> is_digit (digit d)"
  unfolding is_digit_def digit_def by (rule nth_mem) simp

lemma less_10_cases: "(d::nat) < 10 \<longleftrightarrow> d \<in> {0, 1, 2, 3, 4, 5, 6, 7, 8, 9}"
  by auto

lemma of_char_digit: "d < 10 \<Longrightarrow> of_char (digit d) = (48 + d::nat)"
  unfolding less_10_cases digit_def by auto

lemma nat_of_dec_snoc: "nat_of_dec (s @ [c]) = 10 * nat_of_dec s + (of_char c - 48)"
  by (simp add: nat_of_dec_def)

text \<open>Decimal output can be read back, so different numbers print differently.\<close>

lemma nat_of_dec_of_nat [simp]: "nat_of_dec (dec_of_nat n) = n"
proof (induction n rule: dec_of_nat.induct)
  case (1 n)
  show ?case
  proof (cases "n < 10")
    case True
    then have "nat_of_dec (dec_of_nat n) = of_char (digit n) - 48"
      by (subst dec_of_nat.simps) (simp add: nat_of_dec_def)
    with True show ?thesis by (simp add: of_char_digit)
  next
    case False
    then have "nat_of_dec (dec_of_nat n) = 10 * (n div 10) + (of_char (digit (n mod 10)) - 48)"
      using 1 by (subst dec_of_nat.simps) (simp add: nat_of_dec_snoc)
    then show ?thesis by (simp add: of_char_digit)
  qed
qed

lemma dec_of_nat_inject [simp]: "dec_of_nat m = dec_of_nat n \<longleftrightarrow> m = n"
  by (metis nat_of_dec_of_nat)

lemma dec_of_nat_digits: "c \<in> set (dec_of_nat n) \<Longrightarrow> is_digit c"
proof (induction n rule: dec_of_nat.induct)
  case (1 n)
  then show ?case by (subst (asm) (2) dec_of_nat.simps) (auto split: if_splits)
qed

lemma dec_of_nat_not_Nil [simp]: "dec_of_nat n \<noteq> []"
  by (subst dec_of_nat.simps) simp

text \<open>The same by recursion on an integer, for evaluation.\<close>

function dec_of_pos :: "int \<Rightarrow> string" where
  "dec_of_pos i = (if i < 10 then [digit (nat i)] else dec_of_pos (i div 10) @ [digit (nat (i mod 10))])"
  by pat_completeness auto
termination
  by (relation "measure nat") auto

declare dec_of_pos.simps [simp del]

lemma dec_of_pos: "dec_of_nat (nat i) = dec_of_pos i"
proof (induction i rule: dec_of_pos.induct)
  case (1 i)
  have small: "nat i < 10 \<longleftrightarrow> i < 10" by auto
  show ?case
  proof (cases "i < 10")
    case False
    then have "nat i div 10 = nat (i div 10)" "nat i mod 10 = nat (i mod 10)"
      by (simp_all add: nat_div_distrib nat_mod_distrib)
    with False 1 show ?thesis
      by (subst dec_of_nat.simps, subst dec_of_pos.simps) (simp add: small)
  qed (subst dec_of_nat.simps, subst dec_of_pos.simps, simp add: small)
qed

lemma dec_of_int_code [code]: "dec_of_int i = (if i < 0 then ''-'' @ dec_of_pos (- i) else dec_of_pos i)"
  by (simp add: dec_of_int_def dec_of_pos)

section \<open>Searching\<close>

text \<open>\<open>strstr\<close>: the offset of the first occurrence.\<close>

fun strstr :: "string \<Rightarrow> string \<Rightarrow> nat option" where
  "strstr [] pat = (if pat = [] then Some 0 else None)"
| "strstr (c # cs) pat =
     (if take (length pat) (c # cs) = pat then Some 0 else map_option Suc (strstr cs pat))"

lemma strstr_char_None: "strstr s [d] = None \<longleftrightarrow> d \<notin> set s"
  by (induction s) auto

lemma strstr_char [simp]: "d \<notin> set xs \<Longrightarrow> strstr (xs @ d # ys) [d] = Some (length xs)"
  by (induction xs) auto

lemma strstr_Some:
  "strstr s pat = Some i \<Longrightarrow> i + length pat \<le> length s \<and> take (length pat) (drop i s) = pat"
proof (induction s arbitrary: i)
  case Nil
  then show ?case by (simp split: if_splits)
next
  case (Cons c cs)
  show ?case
  proof (cases "take (length pat) (c # cs) = pat")
    case True
    with Cons.prems have "i = 0" by simp
    moreover have "length pat \<le> length (c # cs)"
      using True by (metis length_take min.cobounded1 min.commute)
    ultimately show ?thesis using True by simp
  next
    case False
    with Cons.prems obtain j where "strstr cs pat = Some j" "i = Suc j" by auto
    with Cons.IH show ?thesis by simp
  qed
qed

lemma strstr_char_split:
  assumes "strstr s [d] = Some i"
  shows "s = take i s @ d # drop (Suc i) s" and "d \<notin> set (take i s)"
proof -
  from strstr_Some [OF assms] have "i < length s" "s ! i = d"
    by (auto simp: take_Suc_conv_app_nth hd_drop_conv_nth take_Suc)
  then show "s = take i s @ d # drop (Suc i) s" by (metis id_take_nth_drop)
  show "d \<notin> set (take i s)" using assms
  proof (induction s arbitrary: i)
    case (Cons c cs)
    then show ?case by (auto split: if_splits)
  qed simp
qed

section \<open>\<open>strtok\<close>\<close>

text \<open>The pieces between single-character delimiters; \<open>strtok\<close> yields the non-empty ones.\<close>

fun split_at :: "char \<Rightarrow> string \<Rightarrow> string list" where
  "split_at d [] = [[]]"
| "split_at d (c # cs) =
     (if c = d then [] # split_at d cs
      else case split_at d cs of [] \<Rightarrow> [[c]] | t # ts \<Rightarrow> (c # t) # ts)"

definition strtok_all :: "char \<Rightarrow> string \<Rightarrow> string list" where
  "strtok_all d s = filter (\<lambda>t. t \<noteq> []) (split_at d s)"

lemma split_at_not_Nil [simp]: "split_at d s \<noteq> []"
  by (cases s) (auto split: list.splits)

lemma split_at_no_delim: "t \<in> set (split_at d s) \<Longrightarrow> d \<notin> set t"
  by (induction s arbitrary: t) (auto split: list.splits if_splits)

lemma split_at_append:
  "d \<notin> set xs \<Longrightarrow> split_at d (xs @ d # ys) = xs # split_at d ys"
  by (induction xs) auto

lemma split_at_single: "d \<notin> set xs \<Longrightarrow> split_at d xs = [xs]"
  by (induction xs) auto

text \<open>Tokens are non-empty and hold no delimiter, and joining tokens with the delimiter and
  splitting again gives the tokens.\<close>

lemma strtok_all_tokens: "t \<in> set (strtok_all d s) \<Longrightarrow> t \<noteq> [] \<and> d \<notin> set t"
  by (auto simp: strtok_all_def dest: split_at_no_delim)

fun join :: "char \<Rightarrow> string list \<Rightarrow> string" where
  "join d [] = []"
| "join d [t] = t"
| "join d (t # ts) = t @ d # join d ts"

lemma strtok_all_join:
  "\<forall>t \<in> set ts. t \<noteq> [] \<and> d \<notin> set t \<Longrightarrow> strtok_all d (join d ts) = ts"
  by (induction d ts rule: join.induct)
     (auto simp: strtok_all_def split_at_append split_at_single)

section \<open>\<open>fgets\<close>\<close>

abbreviation newline :: char where
  "newline \<equiv> CHR 0x0A"

text \<open>One call with a buffer for \<open>k\<close> characters (the size given in C is \<open>k + 1\<close>), and all
  the lines that a loop over a file reads.\<close>

fun fgets :: "nat \<Rightarrow> string \<Rightarrow> string \<times> string" where
  "fgets 0 s = ([], s)"
| "fgets (Suc k) [] = ([], [])"
| "fgets (Suc k) (c # cs) =
     (if c = newline then ([c], cs) else case fgets k cs of (l, r) \<Rightarrow> (c # l, r))"

lemma fgets_append: "fgets k s = (l, r) \<Longrightarrow> l @ r = s"
  by (induction k s arbitrary: l r rule: fgets.induct) (auto split: if_splits prod.splits)

lemma fgets_shorter: "length (snd (fgets k s)) \<le> length s"
  by (metis fgets_append le_add2 length_append prod.collapse)

lemma fgets_progress: "fgets (Suc k) (c # cs) = (l, r) \<Longrightarrow> length r < length (c # cs)"
  using fgets_shorter [of k cs] by (auto split: if_splits prod.splits)

function fgets_all :: "nat \<Rightarrow> string \<Rightarrow> string list" where
  "fgets_all 0 s = []"
| "fgets_all (Suc k) [] = []"
| "fgets_all (Suc k) (c # cs) = (case fgets (Suc k) (c # cs) of (l, r) \<Rightarrow> l # fgets_all (Suc k) r)"
  by pat_completeness auto
termination
  by (relation "measure (\<lambda>(k, s). length s)") (auto dest: fgets_progress [OF sym] simp del: fgets.simps)

lemma fgets_all_append: "concat (fgets_all (Suc k) s) = s"
proof (induction "Suc k" s rule: fgets_all.induct)
  case (3 c cs)
  obtain l r where lr: "fgets (Suc k) (c # cs) = (l, r)" by fastforce
  with 3 have "concat (fgets_all (Suc k) r) = r" by auto
  with lr show ?case by (simp add: fgets_append [OF lr] del: fgets.simps)
qed simp

lemma fgets_line:
  "newline \<notin> set l \<Longrightarrow> length l < k \<Longrightarrow> fgets k (l @ newline # r) = (l @ [newline], r)"
  by (induction l arbitrary: k; case_tac k) auto

lemma fgets_all_lines:
  assumes "\<forall>l \<in> set ls. newline \<notin> set l \<and> length l < Suc k"
  shows "fgets_all (Suc k) (concat (map (\<lambda>l. l @ [newline]) ls)) = map (\<lambda>l. l @ [newline]) ls"
  using assms
proof (induction ls)
  case (Cons l ls)
  let ?r = "concat (map (\<lambda>l. l @ [newline]) ls)"
  obtain c cs where c: "l @ newline # ?r = c # cs" by (cases "l @ newline # ?r") auto
  have "fgets (Suc k) (c # cs) = (l @ [newline], ?r)"
    unfolding c [symmetric] using Cons.prems by (intro fgets_line) auto
  with c Cons show ?case by (simp del: fgets.simps)
qed simp

section \<open>Buffers\<close>

text \<open>\<open>te_string_append\<close> with the formatted text: the new contents when it succeeds.\<close>

definition te_string_append :: "'w te_env \<Rightarrow> string \<Rightarrow> string \<Rightarrow> ('w, te_errno \<times> string) te" where
  "te_string_append e str txt =
     bnd (mem e (StrAppend txt)) (\<lambda>rc. ret (rc, if rc = 0 then str @ txt else str))"

text \<open>\<open>te_string_cut(str, n)\<close> removes the last \<open>n\<close> characters.\<close>

definition te_string_cut :: "string \<Rightarrow> nat \<Rightarrow> string" where
  "te_string_cut str n = take (length str - n) str"

text \<open>\<open>te_vec_append_str_fmt\<close> on a vector of strings.\<close>

definition te_vec_append_str :: "'w te_env \<Rightarrow> string list \<Rightarrow> string \<Rightarrow> ('w, te_errno \<times> string list) te" where
  "te_vec_append_str e v txt =
     bnd (mem e (VecAppend txt)) (\<lambda>rc. ret (rc, if rc = 0 then v @ [txt] else v))"

text \<open>A string output parameter, read as a C string.\<close>

definition out_str :: "reply \<Rightarrow> string" where
  "out_str r = (case r_str r of None \<Rightarrow> [] | Some s \<Rightarrow> s)"

text \<open>\<open>%s\<close> of a pointer that may be NULL.\<close>

definition ptr_str :: "string option \<Rightarrow> string" where
  "ptr_str p = (case p of None \<Rightarrow> ''(null)'' | Some s \<Rightarrow> s)"

text \<open>Size of a path buffer (\<open>PATH_MAX\<close>).\<close>

definition path_max :: nat where
  "path_max = 4096"

lemma obeys_te_string_append [ev]:
  "T (Val (0, str @ txt)) [] \<Longrightarrow> (\<And>rc. rc \<noteq> 0 \<Longrightarrow> T (Val (rc, str)) []) \<Longrightarrow>
   obeys (te_string_append e str txt) T"
  unfolding te_string_append_def by (auto intro!: ev)

lemma obeys_te_vec_append_str [ev]:
  "T (Val (0, v @ [txt])) [] \<Longrightarrow> (\<And>rc. rc \<noteq> 0 \<Longrightarrow> T (Val (rc, v)) []) \<Longrightarrow>
   obeys (te_vec_append_str e v txt) T"
  unfolding te_vec_append_str_def by (auto intro!: ev)

section \<open>Environments where memory never runs out\<close>

text \<open>In such an environment the in-memory operations always succeed; every definition that
  makes no call is then a pure function of its arguments.\<close>

definition mem_ok :: "'w te_env \<Rightarrow> bool" where
  "mem_ok e \<longleftrightarrow> (\<forall>op w. on_mem e op w = (0, w))"

lemma mem_ok_mem: "mem_ok e \<Longrightarrow> mem e op = ret 0"
  by (auto simp: mem_ok_def mem_def ret_def)

lemma bnd_ret [simp]: "bnd (ret x) f = f x"
  by (auto simp: bnd_def ret_def)

lemma bnd_jump [simp]: "bnd (jump v) f = jump v"
  by (auto simp: bnd_def jump_def)

text \<open>Inversion of a run that yields a value.\<close>

lemma bnd_ValE:
  assumes "bnd m f s = (Val y, s')"
  obtains x s1 where "m s = (Val x, s1)" and "f x s1 = (Val y, s')"
  using assms by (auto simp: bnd_def split: prod.splits outcome.splits)

lemma ret_Val [simp]: "ret x s = (Val y, s') \<longleftrightarrow> y = x \<and> s' = s"
  by (auto simp: ret_def)

lemma jump_Val [simp]: "jump v s = (Val y, s') \<longleftrightarrow> False"
  by (auto simp: jump_def)

lemma te_string_append_Val:
  assumes "te_string_append e str txt s = (Val (rc, str'), s')"
  shows "str' = (if rc = 0 then str @ txt else str)"
  using assms by (auto simp: te_string_append_def elim!: bnd_ValE)

lemma bnd_assoc: "bnd (bnd m f) g = bnd m (\<lambda>x. bnd (f x) g)"
  by (auto simp: bnd_def fun_eq_iff split: prod.splits outcome.splits)

lemma mem_ok_append: "mem_ok e \<Longrightarrow> te_string_append e str txt = ret (0, str @ txt)"
  by (simp add: te_string_append_def mem_ok_mem)

lemma mem_ok_vec_append: "mem_ok e \<Longrightarrow> te_vec_append_str e v txt = ret (0, v @ [txt])"
  by (simp add: te_vec_append_str_def mem_ok_mem)

lemma on_ok_ret [simp]: "on_ok (ret rc) k = (if rc \<noteq> 0 then ret rc else k)"
  by (simp add: on_ok_def)

lemmas mem_ok_simps = mem_ok_mem mem_ok_append mem_ok_vec_append

section \<open>Lists\<close>

lemma find_append:
  "find P (xs @ ys) = (case find P xs of None \<Rightarrow> find P ys | Some x \<Rightarrow> Some x)"
  by (induction xs) auto

lemma concat_concat_map: "concat (concat (map f xs)) = concat (map (\<lambda>x. concat (f x)) xs)"
  by (induction xs) auto

end
