(* ===== verification/Calm.thy ===== *)
theory Calm
  imports C_Strings
begin

text \<open>
  A concrete environment for evaluating the model: every call succeeds, memory never runs
  out, and the effect-free functions of the test engine do what their documentation says on
  simple inputs. The world is a list of prepared answers, given in turn; when there
  is none left the answer is \<open>ok_reply\<close>. Variants replace single fields.
\<close>

definition ok_reply :: reply where
  "ok_reply = \<lparr>r_rc = 0, r_str = Some [], r_list = [], r_num = 0, r_rat = 0, r_handles = [], r_bool = True,
               r_flag = EXITED, r_jump = False\<rparr>"

type_synonym script = "reply list"

definition scripted :: "call \<Rightarrow> script \<Rightarrow> reply \<times> script" where
  "scripted c w = (case w of [] \<Rightarrow> (ok_reply, []) | r # rs \<Rightarrow> (r, rs))"

definition never_full :: "mem_op \<Rightarrow> script \<Rightarrow> te_errno \<times> script" where
  "never_full op w = (0, w)"

definition hex_digit :: "char \<Rightarrow> nat option" where
  "hex_digit c = map_of (zip ''0123456789abcdefABCDEF'' ([0..<16] @ [10..<16])) c"

text \<open>A number in the given base; base 16 admits a leading \<open>0x\<close>.\<close>

fun parse_digits :: "nat \<Rightarrow> nat \<Rightarrow> string \<Rightarrow> nat option" where
  "parse_digits base acc [] = Some acc"
| "parse_digits base acc (c # cs) =
     (case hex_digit c of
        None \<Rightarrow> None
      | Some d \<Rightarrow> if d < base then parse_digits base (base * acc + d) cs else None)"

definition parse_nat :: "string \<Rightarrow> nat \<Rightarrow> nat option" where
  "parse_nat s base =
     (let s = (if base = 16 \<and> take 2 s = ''0x'' then drop 2 s else s)
      in if s = [] then None else parse_digits base 0 s)"

definition parse_word :: "string \<Rightarrow> nat \<Rightarrow> te_errno \<times> 'a::len word" where
  "parse_word s base = (case parse_nat s base of None \<Rightarrow> (TE_EINVAL, 0) | Some n \<Rightarrow> (0, of_nat n))"

definition parse_int :: "string \<Rightarrow> nat \<Rightarrow> te_errno \<times> int" where
  "parse_int s base = (case parse_nat s base of None \<Rightarrow> (TE_EINVAL, 0) | Some n \<Rightarrow> (0, int n))"

definition blank :: "char \<Rightarrow> bool" where
  "blank c \<longleftrightarrow> c \<in> set [CHR '' '', CHR 0x09, CHR 0x0A, CHR 0x0B, CHR 0x0C, CHR 0x0D]"

definition strip :: "string \<Rightarrow> string" where
  "strip s = rev (dropWhile blank (rev (dropWhile blank s)))"

definition starts_with :: "string \<Rightarrow> string \<Rightarrow> int" where
  "starts_with p s = (if take (length p) s = p then 0 else 1)"

definition calm_fio_opts :: tapi_fio_opts where
  "calm_fio_opts =
     \<lparr>fio_name = None, fio_filename = None, fio_blocksize = 512, fio_numjobs = 1, fio_iodepth = 1,
      fio_runtime_sec = 60, fio_rwmixread = 50, fio_rwtype = ''rand'', fio_ioengine = ''libaio'',
      fio_direct = False, fio_exit_on_error = False, fio_rand_gen = None, fio_user = None,
      fio_rbdname = None, fio_pool = None, fio_size = None\<rparr>"

definition opt_arg :: "job_opt \<Rightarrow> string list" where
  "opt_arg b = (case b of
       OptUInt k v \<Rightarrow> [k, dec_of_nat (unat v)]
     | OptUIntOmittable k v \<Rightarrow>
         (case v of None \<Rightarrow> [] | Some v \<Rightarrow> (case k of None \<Rightarrow> [] | Some k \<Rightarrow> [k]) @ [dec_of_nat (unat v)])
     | OptString k v \<Rightarrow> (case v of None \<Rightarrow> [] | Some v \<Rightarrow> [k, v])
     | OptBool k b \<Rightarrow> if b then [k] else []
     | OptArgs args \<Rightarrow> args)"

definition calm_env :: "script te_env" where
  "calm_env =
     \<lparr>on_call = scripted, on_mem = never_full, getenv = (\<lambda>_. None),
      te_strtoul = parse_word, te_strtol = parse_int, te_strtoi = parse_word,
      te_expand_kvpairs = (\<lambda>s _. (0, s)), te_replace_all = (\<lambda>s _ _. (0, s)),
      te_str_strip_spaces = strip, te_kvpair_add = (\<lambda>kvs k v. (0, kvs @ [(k, v)])),
      te_kvpairs_get = map_of, job_opt_build_args = (\<lambda>p bs. (0, p # concat (map opt_arg bs))),
      job_check_status = (\<lambda>f n. if f = EXITED \<and> n = 0 then 0 else TE_RC TE_TAPI TE_C_ESHCMD),
      heap_tail = (\<lambda>_. []), printf0 = (\<lambda>s. s), undefined_int = 0x80000000,
      fio_defaults = calm_fio_opts, fio_max_numjobs = 1024, fio_timeout_default = - 1,
      strcmp_start = starts_with, te_sockaddr_get_ipstr = (\<lambda>n. ''10.0.0.'' @ dec_of_nat n),
      stale_buf = [], stale_word = 0,
      mke2fs_defaults = \<lparr>mk_block_size = None, mk_use_journal = False, mk_fs_type = None, mk_device = None\<rparr>,
      perf_defaults = \<lparr>perf_host = None, perf_protocol = ''udp'', perf_streams = 1, perf_port = 0,
                        perf_duration_sec = 0\<rparr>,
      gtest_defaults = \<lparr>g_bin = None, g_group = None, g_name = None, g_out0 = 0, g_handle = 0\<rparr>\<rparr>"

definition calm_sys :: "script \<Rightarrow> script sys" where
  "calm_sys w = \<lparr>world = w, trace = [], rpc_errno = (\<lambda>_. 0)\<rparr>"

lemma calm_sys_trace [simp]: "trace (calm_sys w) = []"
  by (simp add: calm_sys_def)

text \<open>Answers: an error, a string, a number, a handle.\<close>

definition failing :: "te_errno \<Rightarrow> reply" where
  "failing rc = ok_reply\<lparr>r_rc := rc\<rparr>"

definition answering :: "string \<Rightarrow> reply" where
  "answering s = ok_reply\<lparr>r_str := Some s\<rparr>"

definition numbered :: "int \<Rightarrow> reply" where
  "numbered n = ok_reply\<lparr>r_num := n\<rparr>"

definition handing :: "handle list \<Rightarrow> reply" where
  "handing hs = ok_reply\<lparr>r_handles := hs\<rparr>"

lemma calm_mem_ok [simp]: "mem_ok calm_env"
  by (simp add: mem_ok_def calm_env_def never_full_def)

lemma calm_getenv_mem_ok [simp]: "mem_ok (calm_env\<lparr>getenv := f\<rparr>)"
  by (simp add: mem_ok_def calm_env_def never_full_def)

lemma calm_heap [simp]: "heap_tail calm_env n = []"
  by (simp add: calm_env_def)

text \<open>Memory runs out when a certain text is appended.\<close>

definition short_of :: "string \<Rightarrow> script te_env" where
  "short_of txt = calm_env\<lparr>on_mem := (\<lambda>op w. if op = StrAppend txt then (TE_ENOMEM, w) else (0, w))\<rparr>"

lemma short_of_mem [simp]:
  "on_mem (short_of txt) (StrAppend txt') w = (if txt' = txt then (TE_ENOMEM, w) else (0, w))"
  by (simp add: short_of_def)

text \<open>The trace of a run, without the answers.\<close>

definition calls :: "'w sys \<Rightarrow> call list" where
  "calls s = map fst (trace s)"

end
