(* ===== verification/Tsapi.thy ===== *)
theory Tsapi
  imports Calm
begin

text \<open>
  \<open>src/block-ts/lib/tsapi.c\<close> and \<open>tsapi.h\<close>: reading the parameters of the suite from the
  configuration tree, finding the Virtio block devices of an agent, binding their driver,
  mount directories, and writing files on the agent or locally.
\<close>

section \<open>Types and constants\<close>

datatype tsapi_backend_mode =
    TSAPI_BACKEND_MODE_CEPH
  | TSAPI_BACKEND_MODE_NVME
  | TSAPI_BACKEND_MODE_MALLOC
  | TSAPI_BACKEND_MODE_NULLBLOCK
  | TSAPI_BACKEND_MODE_UNKNOWN

definition TSAPI_VIRTIO_BLOCK_VENDOR_ID :: string where
  "TSAPI_VIRTIO_BLOCK_VENDOR_ID = ''1bf4''"
definition TSAPI_VIRTIO_BLOCK_MODERN_DEVICE_ID :: string where
  "TSAPI_VIRTIO_BLOCK_MODERN_DEVICE_ID = ''1042''"
definition TSAPI_VIRTIO_BLOCK_TRANSITIONAL_DEVICE_ID :: string where
  "TSAPI_VIRTIO_BLOCK_TRANSITIONAL_DEVICE_ID = ''1001''"
definition TSAPI_VIRTIO_BLOCK_DRIVER_NAME :: string where
  "TSAPI_VIRTIO_BLOCK_DRIVER_NAME = ''virtio-pci''"
definition TSAPI_VIRTBLK_CI_ANSIBLE_AGT_PATH :: string where
  "TSAPI_VIRTBLK_CI_ANSIBLE_AGT_PATH = ''tmp/virtblk-ci-ansible''"
definition TSAPI_HELPERS_AGT_DIR_NAME :: string where
  "TSAPI_HELPERS_AGT_DIR_NAME = ''backend-helpers''"

section \<open>Parameters\<close>

text \<open>Instances of the configuration tree.\<close>

definition backend_param_inst :: "string \<Rightarrow> string \<Rightarrow> string" where
  "backend_param_inst backend param = ''/local:/backend:'' @ backend @ ''/params:'' @ param"

definition agent_dir_inst :: "string \<Rightarrow> string" where
  "agent_dir_inst ta = ''/agent:'' @ ta @ ''/dir:''"

definition mount_dir_inst :: "string \<Rightarrow> string" where
  "mount_dir_inst ta = ''/local:/agent:'' @ ta @ ''/mount_dir_prefix:''"

definition tsapi_get_backend_param_str :: "'w te_env \<Rightarrow> string \<Rightarrow> string \<Rightarrow> ('w, string option) te" where
  "tsapi_get_backend_param_str e backend param =
     bnd (te_call e (Cfg (CfgGet (backend_param_inst backend param))))
       (\<lambda>r. ret (if r_rc r \<noteq> 0 then None else r_str r))"

definition tsapi_get_backend_param_int ::
    "'w te_env \<Rightarrow> string \<Rightarrow> string \<Rightarrow> ('w, te_errno \<times> 32 word) te" where
  "tsapi_get_backend_param_int e backend param_name =
     bnd (tsapi_get_backend_param_str e backend param_name)
       (\<lambda>val_str. case val_str of
            None \<Rightarrow> ret (TE_EINVAL, 0)
          | Some v \<Rightarrow> ret (te_strtoi e v 10))"

definition is_true_str :: "string \<Rightarrow> bool" where
  "is_true_str v \<longleftrightarrow> v = ''true'' \<or> v = ''yes''"

definition tsapi_get_backend_param_bool ::
    "'w te_env \<Rightarrow> string \<Rightarrow> string \<Rightarrow> ('w, te_errno \<times> bool) te" where
  "tsapi_get_backend_param_bool e backend param_name =
     bnd (tsapi_get_backend_param_str e backend param_name)
       (\<lambda>val_str. case val_str of
            None \<Rightarrow> ret (TE_EINVAL, False)
          | Some v \<Rightarrow> ret (0, is_true_str v))"

text \<open>\<open>CHECK_RC(cfg_get_instance_fmt(..., path))\<close> and the string it got.\<close>

definition cfg_get_checked :: "'w te_env \<Rightarrow> string \<Rightarrow> ('w, string) te" where
  "cfg_get_checked e path =
     bnd (te_call e (Cfg (CfgGet path)))
       (\<lambda>r. if r_rc r \<noteq> 0 then jump Failed else ret (out_str r))"

definition tsapi_use_onload :: "'w te_env \<Rightarrow> ('w, bool) te" where
  "tsapi_use_onload e = bnd (cfg_get_checked e ''/local:/use_onload:'') (\<lambda>v. ret (is_true_str v))"

definition tsapi_get_onload_path :: "'w te_env \<Rightarrow> ('w, string option) te" where
  "tsapi_get_onload_path e =
     bnd (cfg_get_checked e ''/local:/onload_path:'')
       (\<lambda>v. ret (if length v = 0 then None else Some v))"

definition tsapi_use_plugin :: "'w te_env \<Rightarrow> ('w, bool) te" where
  "tsapi_use_plugin e =
     bnd (cfg_get_checked e ''/local:/plugin:/use_plugin:'') (\<lambda>v. ret (is_true_str v))"

section \<open>Paths in the agent directory\<close>

text \<open>
  The path \<open>agent_dir/suffix\<close>, cut to the size of the buffer. When the agent directory is
  not known the buffer is returned as it was.
\<close>

definition tsapi_append_path_to_agt_dir :: "'w te_env \<Rightarrow> nat \<Rightarrow> string \<Rightarrow> string \<Rightarrow> ('w, string) te" where
  "tsapi_append_path_to_agt_dir e sz ta sfx =
     bnd (te_call e (Cfg (CfgGet (agent_dir_inst ta))))
       (\<lambda>r. case r_str r of
            None \<Rightarrow> ret (stale_buf e)
          | Some agent_dir \<Rightarrow>
              if r_rc r \<noteq> 0 then ret (stale_buf e)
              else ret (take (sz - 1) (agent_dir @ ''/'' @ sfx)))"

abbreviation "agt_path e ta sfx \<equiv> tsapi_append_path_to_agt_dir e path_max ta sfx"

definition tsapi_blkproxy_bin :: "'w te_env \<Rightarrow> string \<Rightarrow> ('w, string) te" where
  "tsapi_blkproxy_bin e ta_name = agt_path e ta_name ''blk_proxy''"

section \<open>Virtio block devices\<close>

definition virtio_device_id :: "string option \<Rightarrow> string" where
  "virtio_device_id pciid_type =
     (case pciid_type of
        None \<Rightarrow> TSAPI_VIRTIO_BLOCK_MODERN_DEVICE_ID
      | Some t \<Rightarrow> if t = ''transitional'' then TSAPI_VIRTIO_BLOCK_TRANSITIONAL_DEVICE_ID
                  else TSAPI_VIRTIO_BLOCK_MODERN_DEVICE_ID)"

definition tsapi_get_virtio_blocks :: "'w te_env \<Rightarrow> string \<Rightarrow> ('w, te_errno \<times> string list) te" where
  "tsapi_get_virtio_blocks e ta =
     bnd (te_call e (Agent (PciByVendorDevice ta TSAPI_VIRTIO_BLOCK_VENDOR_ID
                              (virtio_device_id (getenv e ''MC_FW_PCIID_TYPE'')))))
       (\<lambda>r. ret (r_rc r, r_list r))"

definition virtio_blocks_checked :: "'w te_env \<Rightarrow> string \<Rightarrow> ('w, string list) te" where
  "virtio_blocks_checked e ta =
     bnd (tsapi_get_virtio_blocks e ta)
       (\<lambda>(rc, devs). if rc \<noteq> 0 then jump Failed else ret devs)"

definition tsapi_virtio_blocks_count :: "'w te_env \<Rightarrow> string \<Rightarrow> ('w, 32 word) te" where
  "tsapi_virtio_blocks_count e ta =
     bnd (virtio_blocks_checked e ta) (\<lambda>devs. ret (of_nat (length devs)))"

definition tsapi_virtio_blocks_bind_driver :: "'w te_env \<Rightarrow> rcf_rpc_server \<Rightarrow> string \<Rightarrow> ('w, unit) te" where
  "tsapi_virtio_blocks_bind_driver e rpcs driver =
     bnd (virtio_blocks_checked e (rpcs_ta rpcs))
       (\<lambda>devs. bnd (do_all (map (\<lambda>d. check_rc (call_rc e (Agent (PciBindDriver d driver)))) devs))
         (\<lambda>_. if driver \<noteq> ''''
              then bnd (te_call e (Rpc rpcs (RpcSystem ''echo none > /sys/block/vda/queue/scheduler'')))
                     (\<lambda>_. ret ())
              else ret ()))"

text \<open>The loop over the devices of one PCI function: every name becomes a path, until an
  append fails.\<close>

fun append_dev_names :: "'w te_env \<Rightarrow> string list \<Rightarrow> string list \<Rightarrow> ('w, te_errno \<times> string list) te" where
  "append_dev_names e v [] = ret (0, v)"
| "append_dev_names e v (d # ds) =
     bnd (te_vec_append_str e v (''/dev/'' @ d))
       (\<lambda>(rc, v). if rc \<noteq> 0 then ret (rc, v) else append_dev_names e v ds)"

fun collect_devices :: "'w te_env \<Rightarrow> string list \<Rightarrow> string list \<Rightarrow> ('w, te_errno \<times> string list) te" where
  "collect_devices e v [] = ret (0, v)"
| "collect_devices e v (pci # pcis) =
     bnd (te_call e (Agent (PciGetDevices pci)))
       (\<lambda>r. if r_rc r \<noteq> 0 then ret (r_rc r, v)
            else bnd (append_dev_names e v (r_list r))
                   (\<lambda>(rc, v). if rc \<noteq> 0 then ret (rc, v) else collect_devices e v pcis))"

text \<open>The block devices of the agent, or NULL with an error. Each name is counted as it is
  appended, so the count is the length of the vector.\<close>

definition tsapi_get_devices :: "'w te_env \<Rightarrow> string \<Rightarrow> ('w, te_errno \<times> string list option) te" where
  "tsapi_get_devices e ta =
     bnd (tsapi_get_virtio_blocks e ta)
       (\<lambda>(rc, virtio_pci). if rc \<noteq> 0 then ret (rc, None)
          else bnd (collect_devices e [] virtio_pci)
                 (\<lambda>(rc, v). if rc \<noteq> 0 then ret (rc, None)
                    else if length v = 0 then ret (TE_ENOENT, None)
                    else ret (0, Some v)))"

section \<open>Mount directories and files\<close>

definition tsapi_get_mount_dir_name :: "'w te_env \<Rightarrow> string \<Rightarrow> int \<Rightarrow> ('w, string) te" where
  "tsapi_get_mount_dir_name e ta index =
     bnd (cfg_get_checked e (mount_dir_inst ta))
       (\<lambda>pfx. bnd (mem e (StrAppend (pfx @ dec_of_int index)))
         (\<lambda>rc. if rc \<noteq> 0 then jump Failed else ret (pfx @ dec_of_int index)))"

text \<open>An RPC with a non-zero result gives \<open>RPC_ERRNO\<close>; one made after
  \<open>RPC_AWAIT_IUT_ERROR\<close> does not jump.\<close>

definition rpc_or_errno :: "'w te_env \<Rightarrow> rcf_rpc_server \<Rightarrow> rpc_op \<Rightarrow> ('w, te_errno) te" where
  "rpc_or_errno e rpcs op =
     bnd (te_call e (Rpc rpcs op)) (\<lambda>r. if r_num r \<noteq> 0 then get_rpc_errno rpcs else ret 0)"

definition awaited_rpc :: "'w te_env \<Rightarrow> rcf_rpc_server \<Rightarrow> rpc_op \<Rightarrow> ('w, te_errno) te" where
  "awaited_rpc e rpcs op =
     bnd (te_call e (Rpcs rpcs RpcAwaitError)) (\<lambda>_. rpc_or_errno e rpcs op)"

definition tsapi_create_mount_dir :: "'w te_env \<Rightarrow> rcf_rpc_server \<Rightarrow> int \<Rightarrow> ('w, te_errno) te" where
  "tsapi_create_mount_dir e rpcs index =
     bnd (tsapi_get_mount_dir_name e (rpcs_ta rpcs) index)
       (\<lambda>mount_dir. awaited_rpc e rpcs (RpcMkdirp mount_dir))"

definition tsapi_remove_mount_dir :: "'w te_env \<Rightarrow> rcf_rpc_server \<Rightarrow> int \<Rightarrow> ('w, te_errno) te" where
  "tsapi_remove_mount_dir e rpcs index =
     bnd (tsapi_get_mount_dir_name e (rpcs_ta rpcs) index)
       (\<lambda>mount_dir. awaited_rpc e rpcs (RpcRemoveDir mount_dir))"

definition tsapi_put_str_to_agt_file :: "'w te_env \<Rightarrow> rcf_rpc_server \<Rightarrow> string \<Rightarrow> string \<Rightarrow> ('w, te_errno) te" where
  "tsapi_put_str_to_agt_file e rpcs str path =
     bnd (te_call e (Rpc rpcs (RpcOpen path)))
       (\<lambda>r. if r_num r < 0 then get_rpc_errno rpcs
            else bnd (te_call e (Rpc rpcs (RpcWriteClose (r_num r) str)))
                   (\<lambda>r. if r_num r \<noteq> int (length str) then get_rpc_errno rpcs else ret 0))"

text \<open>Locally, \<open>r_num\<close> is the number of bytes written, negative when the file could not
  be opened, and \<open>r_rc\<close> the system error.\<close>

definition tsapi_put_str_to_local_file :: "'w te_env \<Rightarrow> string \<Rightarrow> string \<Rightarrow> ('w, te_errno) te" where
  "tsapi_put_str_to_local_file e str path =
     bnd (te_call e (Local (LocalWriteFile path str)))
       (\<lambda>r. if r_num r \<noteq> int (length str) then ret (r_rc r) else ret 0)"

section \<open>Event rules\<close>

lemma obeys_cfg_get_checked [ev]:
  assumes "\<And>r. r_rc r = 0 \<Longrightarrow> T (Val (out_str r)) [(Cfg (CfgGet path), r)]"
    and "\<And>r. r_rc r \<noteq> 0 \<Longrightarrow> T (Jump Failed) [(Cfg (CfgGet path), r)]"
  shows "obeys (cfg_get_checked e path) T"
  unfolding cfg_get_checked_def by (auto intro!: ev assms)

lemma obeys_agt_path [ev]:
  assumes "\<And>r p. T (Val p) [(Cfg (CfgGet (agent_dir_inst ta)), r)]"
  shows "obeys (tsapi_append_path_to_agt_dir e sz ta sfx) T"
  unfolding tsapi_append_path_to_agt_dir_def
  by (auto intro!: ev assms simp del: append_Cons take_append)

end
