(* ===== verification/Conf.thy ===== *)
theory Conf
  imports Tsapi
begin

text \<open>
  \<open>src/block-ts/lib/tsapi-conf.c\<close>: configuration files made of sections of key-value
  pairs. The model of the handle, its operations, the printing and the reading of files,
  the configuration strings \<open>Section-Key=Value\<close>; the interface \<open>section_store\<close> that the
  users of the handle rely on; and the correctness of each operation.
\<close>

section \<open>Data\<close>

record tsapi_conf_kv =
  kv_key :: string
  kv_value :: string

record tsapi_conf_section =
  sec_name :: string
  sec_delimiter :: string
  sec_items :: "tsapi_conf_kv list"

record tsapi_conf_t =
  conf_sections :: "tsapi_conf_section list"

definition TSAPI_CONF_INIT :: tsapi_conf_t where
  "TSAPI_CONF_INIT = \<lparr>conf_sections = []\<rparr>"

section \<open>Sections and items\<close>

definition tsapi_conf_section_get :: "tsapi_conf_t \<Rightarrow> string \<Rightarrow> tsapi_conf_section option" where
  "tsapi_conf_section_get conf section_name =
     find (\<lambda>sec. sec_name sec = section_name) (conf_sections conf)"

definition add_section :: "tsapi_conf_t \<Rightarrow> string \<Rightarrow> string \<Rightarrow> tsapi_conf_t" where
  "add_section conf section_name delimiter =
     conf\<lparr>conf_sections := conf_sections conf @
       [\<lparr>sec_name = section_name, sec_delimiter = delimiter, sec_items = []\<rparr>]\<rparr>"

definition tsapi_conf_create_section ::
    "'w te_env \<Rightarrow> tsapi_conf_t \<Rightarrow> string \<Rightarrow> string \<Rightarrow> ('w, te_errno \<times> tsapi_conf_t) te" where
  "tsapi_conf_create_section e conf section_name delimiter =
     bnd (mem e (VecAppend section_name))
       (\<lambda>rc. ret (rc, if rc = 0 then add_section conf section_name delimiter else conf))"

text \<open>The item goes to the section the lookup finds: the first one of that name, which C
  updates through the pointer.\<close>

fun add_to_first :: "string \<Rightarrow> tsapi_conf_kv \<Rightarrow> tsapi_conf_section list \<Rightarrow> tsapi_conf_section list" where
  "add_to_first name kv [] = []"
| "add_to_first name kv (sec # secs) =
     (if sec_name sec = name then sec\<lparr>sec_items := sec_items sec @ [kv]\<rparr> # secs
      else sec # add_to_first name kv secs)"

definition add_item :: "tsapi_conf_t \<Rightarrow> string \<Rightarrow> tsapi_conf_kv \<Rightarrow> tsapi_conf_t" where
  "add_item conf name kv = conf\<lparr>conf_sections := add_to_first name kv (conf_sections conf)\<rparr>"

text \<open>The handle is passed by pointer and may be NULL.\<close>

definition tsapi_conf_append ::
    "'w te_env \<Rightarrow> tsapi_conf_t option \<Rightarrow> string \<Rightarrow> string \<Rightarrow> string \<Rightarrow>
     ('w, te_errno \<times> tsapi_conf_t option) te" where
  "tsapi_conf_append e cp section_name key value =
     (case cp of
        None \<Rightarrow> ret (TE_EINVAL, None)
      | Some conf \<Rightarrow>
          (case tsapi_conf_section_get conf section_name of
             None \<Rightarrow> ret (TE_EFAIL, Some conf)
           | Some _ \<Rightarrow>
               bnd (mem e (Strdup key)) (\<lambda>rc. if rc \<noteq> 0 then ret (TE_ENOMEM, Some conf) else
               bnd (mem e (Strdup value)) (\<lambda>rc. if rc \<noteq> 0 then ret (TE_ENOMEM, Some conf) else
               bnd (mem e (VecAppend key))
                 (\<lambda>rc. ret (rc, Some (if rc = 0
                    then add_item conf section_name \<lparr>kv_key = key, kv_value = value\<rparr>
                    else conf)))))))"

text \<open>The call on the address of a handle.\<close>

definition conf_append ::
    "'w te_env \<Rightarrow> tsapi_conf_t \<Rightarrow> string \<Rightarrow> string \<Rightarrow> string \<Rightarrow> ('w, te_errno \<times> tsapi_conf_t) te" where
  "conf_append e conf section_name key value =
     bnd (tsapi_conf_append e (Some conf) section_name key value)
       (\<lambda>(rc, cp). ret (rc, case cp of None \<Rightarrow> conf | Some conf' \<Rightarrow> conf'))"

section \<open>Freeing\<close>

text \<open>The blocks of memory a handle owns, by the section and the item they belong to.\<close>

datatype conf_block =
    KeyBlock nat nat | ValueBlock nat nat | NameBlock nat | DelimiterBlock nat | ItemsBlock nat | SectionsBlock

definition free_section :: "nat \<Rightarrow> tsapi_conf_section \<Rightarrow> conf_block list" where
  "free_section i sec =
     concat (map (\<lambda>j. [KeyBlock i j, ValueBlock i j]) [0..<length (sec_items sec)]) @
     [NameBlock i, DelimiterBlock i, ItemsBlock i]"

text \<open>The blocks in the order they are freed.\<close>

definition tsapi_conf_free :: "tsapi_conf_t \<Rightarrow> conf_block list" where
  "tsapi_conf_free conf =
     concat (map (\<lambda>i. free_section i (conf_sections conf ! i)) [0..<length (conf_sections conf)]) @ [SectionsBlock]"

section \<open>Printing\<close>

definition print_header :: "tsapi_conf_section \<Rightarrow> string" where
  "print_header sec = ''['' @ sec_name sec @ '']'' @ [newline]"

definition print_item :: "string \<Rightarrow> tsapi_conf_kv \<Rightarrow> string" where
  "print_item delimiter kv = kv_key kv @ '' '' @ delimiter @ '' '' @ kv_value kv @ [newline]"

fun flush_items :: "'w te_env \<Rightarrow> string \<Rightarrow> tsapi_conf_kv list \<Rightarrow> te_errno \<Rightarrow> string \<Rightarrow> ('w, te_errno \<times> string) te" where
  "flush_items e delimiter [] rc str = ret (rc, str)"
| "flush_items e delimiter (kv # kvs) _ str =
     bnd (te_string_append e str (print_item delimiter kv))
       (\<lambda>(rc, str). if rc \<noteq> 0 then ret (rc, str) else flush_items e delimiter kvs rc str)"

text \<open>The inner \<open>break\<close> leaves the loop over the items only; the loop over the sections
  goes on and \<open>rc\<close> is assigned again.\<close>

fun flush_sections :: "'w te_env \<Rightarrow> tsapi_conf_section list \<Rightarrow> te_errno \<Rightarrow> string \<Rightarrow> ('w, te_errno \<times> string) te" where
  "flush_sections e [] rc str = ret (rc, str)"
| "flush_sections e (sec # secs) _ str =
     bnd (te_string_append e str (print_header sec))
       (\<lambda>(rc, str). if rc \<noteq> 0 then ret (rc, str)
          else bnd (flush_items e (sec_delimiter sec) (sec_items sec) rc str)
                 (\<lambda>(rc, str). flush_sections e secs rc str))"

definition flush_conf_to_str :: "'w te_env \<Rightarrow> tsapi_conf_t \<Rightarrow> string \<Rightarrow> ('w, te_errno \<times> string) te" where
  "flush_conf_to_str e conf str =
     bnd (flush_sections e (conf_sections conf) 0 str)
       (\<lambda>(rc, str). ret (rc, if rc \<noteq> 0 then '''' else str))"

definition tsapi_conf_flush :: "'w te_env \<Rightarrow> rcf_rpc_server \<Rightarrow> tsapi_conf_t \<Rightarrow> string \<Rightarrow> ('w, te_errno) te" where
  "tsapi_conf_flush e rpcs conf path =
     bnd (flush_conf_to_str e conf '''')
       (\<lambda>(rc, config_str). if rc \<noteq> 0 then ret rc else tsapi_put_str_to_agt_file e rpcs config_str path)"

definition tsapi_conf_flush_local :: "'w te_env \<Rightarrow> tsapi_conf_t \<Rightarrow> string \<Rightarrow> ('w, te_errno) te" where
  "tsapi_conf_flush_local e conf path =
     bnd (flush_conf_to_str e conf '''')
       (\<lambda>(rc, config_str). if rc \<noteq> 0 then ret rc else tsapi_put_str_to_local_file e config_str path)"

section \<open>Configuration strings\<close>

text \<open>The loop over the arguments. An argument that starts with the prefix loses the prefix
  and the character after it.\<close>

fun opts_read_loop :: "'w te_env \<Rightarrow> string \<Rightarrow> string list \<Rightarrow> string list \<Rightarrow> ('w, te_errno \<times> string list) te" where
  "opts_read_loop e pfx [] vec = ret (0, vec)"
| "opts_read_loop e pfx (arg # args) vec =
     (if strcmp_start e pfx arg \<noteq> 0 then opts_read_loop e pfx args vec
      else bnd (te_vec_append_str e vec (drop (length pfx + 1) arg))
             (\<lambda>(rc, vec). if rc \<noteq> 0 then ret (rc, vec) else opts_read_loop e pfx args vec))"

definition tsapi_conf_opts_read :: "'w te_env \<Rightarrow> string list \<Rightarrow> string \<Rightarrow> string list \<Rightarrow> ('w, te_errno \<times> string list) te" where
  "tsapi_conf_opts_read e argv pfx vec =
     bnd (opts_read_loop e pfx argv vec)
       (\<lambda>(rc, vec). if rc \<noteq> 0 then ret (rc, vec)
          else if length vec = 0 then ret (TE_EFAIL, vec) else ret (0, vec))"

definition extract_section_name ::
    "'w te_env \<Rightarrow> string \<Rightarrow> string \<Rightarrow> string \<Rightarrow> ('w, te_errno \<times> string) te" where
  "extract_section_name e str delim section_name =
     (case strstr str delim of
        None \<Rightarrow> ret (TE_EFAIL, section_name)
      | Some ch \<Rightarrow>
          bnd (te_string_append e section_name str)
            (\<lambda>(rc, section_name). if rc \<noteq> 0 then ret (rc, section_name)
               else ret (0, te_string_cut section_name (length str - ch))))"

text \<open>
  \<open>TE_ALLOC(ch - str)\<close> leaves no room for a terminating zero and \<open>strncpy\<close> writes none:
  read as a C string the key goes on with what follows the block in memory.
\<close>

definition extract_key_value ::
    "'w te_env \<Rightarrow> string \<Rightarrow> string \<Rightarrow> tsapi_conf_kv \<Rightarrow> ('w, te_errno \<times> tsapi_conf_kv) te" where
  "extract_key_value e str delim kv =
     (case strstr str delim of
        None \<Rightarrow> ret (TE_EFAIL, kv)
      | Some ch \<Rightarrow>
          bnd (mem e (Strdup (drop (ch + 1) str)))
            (\<lambda>rc. if rc \<noteq> 0 then ret (TE_ENOMEM, kv\<lparr>kv_key := take ch str @ heap_tail e ch\<rparr>)
               else ret (0, \<lparr>kv_key = take ch str @ heap_tail e ch, kv_value = drop (ch + 1) str\<rparr>)))"

definition tsapi_conf_parse_string ::
    "'w te_env \<Rightarrow> string \<Rightarrow> string \<Rightarrow> tsapi_conf_kv \<Rightarrow> ('w, te_errno \<times> string \<times> tsapi_conf_kv) te" where
  "tsapi_conf_parse_string e str section_name kv =
     bnd (extract_section_name e str ''-'' section_name)
       (\<lambda>(rc, section_name). if rc \<noteq> 0 then ret (rc, section_name, kv)
          else bnd (extract_key_value e (drop (length section_name + 1) str) ''='' kv)
                 (\<lambda>(rc, kv). ret (rc, section_name, kv)))"

section \<open>Reading a file\<close>

definition no_kv :: tsapi_conf_kv where
  "no_kv = \<lparr>kv_key = '''', kv_value = ''''\<rparr>"

text \<open>One line: a section header, or a key and a value.\<close>

definition read_line ::
    "'w te_env \<Rightarrow> string \<Rightarrow> tsapi_conf_t \<Rightarrow> string \<Rightarrow> ('w, te_errno \<times> tsapi_conf_t \<times> string) te" where
  "read_line e buf conf section_name =
     (if take 1 buf = ''['' then
        bnd (extract_section_name e (drop 1 buf) '']'' '''')
          (\<lambda>(rc, section_name). if rc \<noteq> 0 then ret (rc, conf, section_name)
             else bnd (tsapi_conf_create_section e conf section_name '' '')
                    (\<lambda>(rc, conf). ret (rc, conf, section_name)))
      else
        bnd (extract_key_value e (te_str_strip_spaces e buf) '' '' no_kv)
          (\<lambda>(rc, kv). if rc \<noteq> 0 then ret (rc, conf, section_name)
             else bnd (conf_append e conf section_name (kv_key kv) (kv_value kv))
                    (\<lambda>(rc, conf). ret (rc, conf, section_name))))"

fun read_lines ::
    "'w te_env \<Rightarrow> string list \<Rightarrow> tsapi_conf_t \<Rightarrow> string \<Rightarrow> ('w, te_errno \<times> tsapi_conf_t) te" where
  "read_lines e [] conf section_name = ret (0, conf)"
| "read_lines e (buf # bufs) conf section_name =
     bnd (read_line e buf conf section_name)
       (\<lambda>(rc, conf, section_name). if rc \<noteq> 0 then ret (rc, conf)
          else read_lines e bufs conf section_name)"

definition local_conf_path :: "'w te_env \<Rightarrow> string" where
  "local_conf_path e =
     ptr_str (getenv e ''TE_TMP'') @ ''/bp.conf''"

definition tsapi_conf_read_from_file ::
    "'w te_env \<Rightarrow> string \<Rightarrow> string \<Rightarrow> tsapi_conf_t \<Rightarrow> ('w, te_errno \<times> tsapi_conf_t) te" where
  "tsapi_conf_read_from_file e ta filename conf =
     bnd (te_string_append e '''' (local_conf_path e)) (\<lambda>(_, path).
     bnd (call_rc e (Agent (TaGetFile ta filename path))) (\<lambda>rc. if rc \<noteq> 0 then ret (rc, conf) else
     bnd (te_call e (Local (LocalReadFile path))) (\<lambda>r. case r_str r of
         None \<Rightarrow> ret (r_rc r, conf)
       | Some contents \<Rightarrow>
           bnd (read_lines e (fgets_all (path_max - 1) contents) conf '''')
             (\<lambda>(rc, conf). if rc \<noteq> 0 then ret (rc, conf)
                else bnd (flush_conf_to_str e conf '''') (\<lambda>(rc, _). ret (rc, conf))))))"

section \<open>The interface of the section store\<close>

text \<open>
  What the users of the handle rely on: a created section can be found and is empty, an
  appended item is the last one of its section, and other sections are not touched. The
  user's pattern, shared by \<open>tsapi_blkproxy_create_conf\<close> and the ceph configuration, is to
  create the section of a request when it is missing and to append the item.
\<close>

fun store_all ::
    "('c \<Rightarrow> string \<Rightarrow> 's option) \<Rightarrow> ('c \<Rightarrow> string \<Rightarrow> 'c) \<Rightarrow> ('c \<Rightarrow> string \<Rightarrow> 'kv \<Rightarrow> 'c) \<Rightarrow>
     'c \<Rightarrow> (string \<times> 'kv) list \<Rightarrow> 'c" where
  "store_all get create add c [] = c"
| "store_all get create add c ((n, kv) # reqs) =
     store_all get create add (add (if get c n = None then create c n else c) n kv) reqs"

definition items_in :: "('c \<Rightarrow> string \<Rightarrow> 's option) \<Rightarrow> ('s \<Rightarrow> 'kv list) \<Rightarrow> 'c \<Rightarrow> string \<Rightarrow> 'kv list" where
  "items_in get items c n = (case get c n of None \<Rightarrow> [] | Some sec \<Rightarrow> items sec)"

locale section_store =
  fixes get :: "'c \<Rightarrow> string \<Rightarrow> 's option"
    and create :: "'c \<Rightarrow> string \<Rightarrow> 'c"
    and add :: "'c \<Rightarrow> string \<Rightarrow> 'kv \<Rightarrow> 'c"
    and items :: "'s \<Rightarrow> 'kv list"
  assumes create_new: "get c n = None \<Longrightarrow> \<exists>sec. get (create c n) n = Some sec \<and> items sec = []"
    and create_other: "m \<noteq> n \<Longrightarrow> get (create c n) m = get c m"
    and add_same: "get c n = Some sec \<Longrightarrow>
      \<exists>sec'. get (add c n kv) n = Some sec' \<and> items sec' = items sec @ [kv]"
    and add_other: "m \<noteq> n \<Longrightarrow> get (add c n kv) m = get c m"
begin

lemma put_items:
  "items_in get items (add (if get c n = None then create c n else c) n kv) m =
     items_in get items c m @ (if m = n then [kv] else [])"
proof (cases "m = n")
  case True
  show ?thesis
  proof (cases "get c n")
    case None
    with create_new [OF None] show ?thesis
      using True by (auto simp: items_in_def dest: add_same [where kv = kv])
  next
    case (Some sec)
    with True show ?thesis by (auto simp: items_in_def dest: add_same [where kv = kv])
  qed
next
  case False
  then show ?thesis by (auto simp: items_in_def add_other create_other)
qed

lemma store_all_items:
  "items_in get items (store_all get create add c reqs) m =
     items_in get items c m @ map snd (filter (\<lambda>req. fst req = m) reqs)"
proof (induction reqs arbitrary: c)
  case (Cons req reqs)
  obtain n kv where "req = (n, kv)" by fastforce
  with Cons show ?case by (simp add: put_items)
qed simp

end

section \<open>Laws of the model\<close>

lemma section_get_add_section:
  "tsapi_conf_section_get (add_section conf n d) m =
     (case tsapi_conf_section_get conf m of
        Some sec \<Rightarrow> Some sec
      | None \<Rightarrow> if m = n then Some \<lparr>sec_name = n, sec_delimiter = d, sec_items = []\<rparr> else None)"
  by (auto simp: tsapi_conf_section_get_def add_section_def find_append split: option.splits)

lemma find_add_to_first:
  "find (\<lambda>sec. sec_name sec = m) (add_to_first n kv secs) =
     (if m = n then map_option (\<lambda>sec. sec\<lparr>sec_items := sec_items sec @ [kv]\<rparr>)
                      (find (\<lambda>sec. sec_name sec = n) secs)
      else find (\<lambda>sec. sec_name sec = m) secs)"
  by (induction secs) auto

lemma section_get_add_item:
  "tsapi_conf_section_get (add_item conf n kv) m =
     (if m = n then map_option (\<lambda>sec. sec\<lparr>sec_items := sec_items sec @ [kv]\<rparr>)
                      (tsapi_conf_section_get conf n)
      else tsapi_conf_section_get conf m)"
  by (simp add: tsapi_conf_section_get_def add_item_def find_add_to_first)

interpretation conf_store: section_store tsapi_conf_section_get
    "\<lambda>c n. add_section c n d" add_item sec_items for d
  by unfold_locales (auto simp: section_get_add_section section_get_add_item split: option.splits)

definition section_names :: "tsapi_conf_t \<Rightarrow> string list" where
  "section_names conf = map sec_name (conf_sections conf)"

lemma section_names_add_section [simp]:
  "section_names (add_section conf n d) = section_names conf @ [n]"
  by (simp add: section_names_def add_section_def)

lemma names_add_to_first [simp]: "map sec_name (add_to_first n kv secs) = map sec_name secs"
  by (induction secs) auto

lemma section_names_add_item [simp]: "section_names (add_item conf n kv) = section_names conf"
  by (simp add: section_names_def add_item_def)

lemma section_get_None: "tsapi_conf_section_get conf n = None \<longleftrightarrow> n \<notin> set (section_names conf)"
  by (auto simp: tsapi_conf_section_get_def section_names_def find_None_iff)

text \<open>A handle filled by requests never holds two sections of one name.\<close>

lemma store_all_distinct:
  "distinct (section_names c) \<Longrightarrow>
   distinct (section_names (store_all tsapi_conf_section_get (\<lambda>c n. add_section c n d) add_item c reqs))"
proof (induction reqs arbitrary: c)
  case (Cons req reqs)
  obtain n kv where "req = (n, kv)" by fastforce
  with Cons show ?case by (auto simp: section_get_None)
qed simp

section \<open>The operations where memory suffices\<close>

lemma create_section_ok:
  "mem_ok e \<Longrightarrow> tsapi_conf_create_section e conf n d = ret (0, add_section conf n d)"
  by (simp add: tsapi_conf_create_section_def mem_ok_simps)

lemma conf_append_ok:
  "mem_ok e \<Longrightarrow> n \<in> set (section_names conf) \<Longrightarrow>
   conf_append e conf n k v = ret (0, add_item conf n \<lparr>kv_key = k, kv_value = v\<rparr>)"
  using section_get_None [of conf n]
  by (auto simp: conf_append_def tsapi_conf_append_def mem_ok_simps split: option.splits)

definition render_section :: "tsapi_conf_section \<Rightarrow> string" where
  "render_section sec = print_header sec @ concat (map (print_item (sec_delimiter sec)) (sec_items sec))"

definition render_conf :: "tsapi_conf_t \<Rightarrow> string" where
  "render_conf conf = concat (map render_section (conf_sections conf))"

lemma flush_items_ok:
  "mem_ok e \<Longrightarrow> flush_items e d kvs 0 str = ret (0, str @ concat (map (print_item d) kvs))"
  by (induction kvs arbitrary: str) (auto simp: mem_ok_simps)

lemma flush_sections_ok:
  "mem_ok e \<Longrightarrow> flush_sections e secs 0 str = ret (0, str @ concat (map render_section secs))"
  by (induction secs arbitrary: str) (auto simp: mem_ok_simps flush_items_ok render_section_def)

lemma flush_conf_ok: "mem_ok e \<Longrightarrow> flush_conf_to_str e conf str = ret (0, str @ render_conf conf)"
  by (simp add: flush_conf_to_str_def flush_sections_ok render_conf_def)

lemma extract_section_name_ok:
  "mem_ok e \<Longrightarrow> d \<notin> set n \<Longrightarrow>
   extract_section_name e (n @ d # r) [d] '''' = ret (0, n)"
  by (simp add: extract_section_name_def mem_ok_simps te_string_cut_def)

lemma extract_section_name_Val:
  assumes "extract_section_name e str [d] '''' s = (Val (0, n), s')"
  shows "\<exists>r. str = n @ d # r \<and> d \<notin> set n"
proof -
  from assms obtain i where i: "strstr str [d] = Some i"
    and n: "n = te_string_cut str (length str - i)"
    by (auto simp: extract_section_name_def elim!: bnd_ValE split: option.splits if_splits
        dest!: te_string_append_Val)
  with strstr_char_split [OF i] strstr_Some [OF i] show ?thesis
    by (auto simp: te_string_cut_def)
qed

lemma extract_key_value_Val:
  assumes "extract_key_value e str [d] kv0 s = (Val (0, kv), s')"
  shows "\<exists>k. str = k @ d # kv_value kv \<and> d \<notin> set k \<and> kv_key kv = k @ heap_tail e (length k)"
proof -
  from assms obtain i where i: "strstr str [d] = Some i"
    and kv: "kv = \<lparr>kv_key = take i str @ heap_tail e i, kv_value = drop (i + 1) str\<rparr>"
    by (auto simp: extract_key_value_def elim!: bnd_ValE split: option.splits if_splits)
  with strstr_char_split [OF i] strstr_Some [OF i] show ?thesis
    by (intro exI [of _ "take i str"]) simp
qed

lemma extract_key_value_ok:
  "mem_ok e \<Longrightarrow> d \<notin> set k \<Longrightarrow>
   extract_key_value e (k @ d # v) [d] kv =
     ret (0, \<lparr>kv_key = k @ heap_tail e (length k), kv_value = v\<rparr>)"
  by (simp add: extract_key_value_def mem_ok_simps)

section \<open>Freeing: correctness\<close>

fun owned :: "tsapi_conf_t \<Rightarrow> conf_block \<Rightarrow> bool" where
  "owned conf (KeyBlock i j) = (i < length (conf_sections conf) \<and> j < length (sec_items (conf_sections conf ! i)))"
| "owned conf (ValueBlock i j) = (i < length (conf_sections conf) \<and> j < length (sec_items (conf_sections conf ! i)))"
| "owned conf (NameBlock i) = (i < length (conf_sections conf))"
| "owned conf (DelimiterBlock i) = (i < length (conf_sections conf))"
| "owned conf (ItemsBlock i) = (i < length (conf_sections conf))"
| "owned conf SectionsBlock = True"

fun block_section :: "conf_block \<Rightarrow> nat option" where
  "block_section (KeyBlock i _) = Some i"
| "block_section (ValueBlock i _) = Some i"
| "block_section (NameBlock i) = Some i"
| "block_section (DelimiterBlock i) = Some i"
| "block_section (ItemsBlock i) = Some i"
| "block_section SectionsBlock = None"

lemma free_section_owner: "b \<in> set (free_section i sec) \<Longrightarrow> block_section b = Some i"
  by (auto simp: free_section_def)

lemma distinct_free_section: "distinct (free_section i sec)"
proof -
  have "distinct (concat (map (\<lambda>j. [KeyBlock i j, ValueBlock i j]) [0..<n]))" for n
    by (induction n) auto
  then show ?thesis by (auto simp: free_section_def)
qed

lemma distinct_free_sections: "distinct (concat (map (\<lambda>i. free_section i (f i)) [0..<n]))"
  by (induction n) (auto simp: distinct_free_section dest!: free_section_owner)

text \<open>Every block of the handle is freed, each once, and nothing else.\<close>

lemma conf_free_once: "distinct (tsapi_conf_free conf)" "set (tsapi_conf_free conf) = {b. owned conf b}"
proof -
  show "distinct (tsapi_conf_free conf)"
    by (auto simp: tsapi_conf_free_def distinct_free_sections dest: free_section_owner)
  show "set (tsapi_conf_free conf) = {b. owned conf b}"
  proof (rule set_eqI)
    fix b show "b \<in> set (tsapi_conf_free conf) \<longleftrightarrow> b \<in> {b. owned conf b}"
      by (cases b) (auto simp: tsapi_conf_free_def free_section_def)
  qed
qed

section \<open>Configuration strings\<close>

lemmas parse_string_simps =
  tsapi_conf_parse_string_def extract_section_name_def extract_key_value_def

text \<open>
  C5. Whatever the memory does, when \<open>tsapi_conf_parse_string\<close> returns 0 the string was of the
  form \<open>Section-Key=Value\<close> with the section up to the first dash and the key up to the
  first equals sign after it, the value is the rest, and the key is the text of the key
  followed by the bytes that lie behind its block (which has no terminating zero).
\<close>

theorem parse_string_sound:
  assumes "tsapi_conf_parse_string e str '''' kv0 s = (Val (0, sec, kv), s')"
  shows "\<exists>key. str = sec @ CHR ''-'' # key @ CHR ''='' # kv_value kv \<and>
           CHR ''-'' \<notin> set sec \<and> CHR ''='' \<notin> set key \<and> kv_key kv = key @ heap_tail e (length key)"
proof -
  from assms obtain s1 where
    sec: "extract_section_name e str ''-'' '''' s = (Val (0, sec), s1)" and
    kv: "extract_key_value e (drop (length sec + 1) str) ''='' kv0 s1 = (Val (0, kv), s')"
    by (auto simp: tsapi_conf_parse_string_def elim!: bnd_ValE split: if_splits)
  from extract_section_name_Val [OF sec] obtain r where
    "str = sec @ CHR ''-'' # r" "CHR ''-'' \<notin> set sec" by blast
  with extract_key_value_Val [OF kv] show ?thesis by auto
qed

lemma parse_string_sound_witness:
  "\<exists>key. ''Malloc-Size=4-5'' = ''Malloc'' @ CHR ''-'' # key @ CHR ''='' # ''4-5'' \<and>
     CHR ''-'' \<notin> set ''Malloc'' \<and> CHR ''='' \<notin> set key \<and> ''Size'' = key @ heap_tail calm_env (length key)"
proof -
  have "tsapi_conf_parse_string calm_env ''Malloc-Size=4-5'' '''' no_kv (calm_sys []) =
      (Val (0, ''Malloc'', \<lparr>kv_key = ''Size'', kv_value = ''4-5''\<rparr>), calm_sys [])"
    by (simp add: parse_string_simps mem_ok_simps te_string_cut_def)
  from parse_string_sound [OF this] show ?thesis by simp
qed

lemma parse_string_ok:
  assumes "mem_ok e" and "CHR ''-'' \<notin> set sec" and "CHR ''='' \<notin> set key"
  shows "tsapi_conf_parse_string e (sec @ CHR ''-'' # key @ CHR ''='' # val) '''' kv0 =
    ret (0, sec, \<lparr>kv_key = key @ heap_tail e (length key), kv_value = val\<rparr>)"
  using assms
  by (simp add: tsapi_conf_parse_string_def extract_section_name_ok extract_key_value_ok)



text \<open>The documented behaviour of \<open>strcmp_start\<close>.\<close>

definition strcmp_start_ok :: "'w te_env \<Rightarrow> bool" where
  "strcmp_start_ok e \<longleftrightarrow> (\<forall>p s. strcmp_start e p s = 0 \<longleftrightarrow> take (length p) s = p)"

lemma opts_read_loop_ok:
  "mem_ok e \<Longrightarrow> strcmp_start_ok e \<Longrightarrow>
   opts_read_loop e pfx args vec =
     ret (0, vec @ map (drop (length pfx + 1)) (filter (\<lambda>a. take (length pfx) a = pfx) args))"
  by (induction args arbitrary: vec) (auto simp: mem_ok_simps strcmp_start_ok_def)


lemma calm_strcmp_start [simp]: "strcmp_start_ok calm_env"
  by (simp add: strcmp_start_ok_def calm_env_def starts_with_def)


section \<open>A file is read back\<close>

text \<open>The documented behaviour of \<open>te_str_strip_spaces\<close>: white space is removed at both
  ends.\<close>

definition is_space :: "char \<Rightarrow> bool" where
  "is_space c \<longleftrightarrow> c \<in> set [CHR '' '', CHR 0x09, CHR 0x0A, CHR 0x0B, CHR 0x0C, CHR 0x0D]"

definition strip_ok :: "'w te_env \<Rightarrow> bool" where
  "strip_ok e \<longleftrightarrow> (\<forall>str. te_str_strip_spaces e str =
     rev (dropWhile is_space (rev (dropWhile is_space str))))"

definition line_ok :: "string \<Rightarrow> bool" where
  "line_ok l \<longleftrightarrow> newline \<notin> set l \<and> length l < path_max - 1"

definition item_line :: "string \<Rightarrow> tsapi_conf_kv \<Rightarrow> string" where
  "item_line d kv = kv_key kv @ '' '' @ d @ '' '' @ kv_value kv"

definition header_line :: "tsapi_conf_section \<Rightarrow> string" where
  "header_line sec = ''['' @ sec_name sec @ '']''"

definition item_ok :: "string \<Rightarrow> tsapi_conf_kv \<Rightarrow> bool" where
  "item_ok d kv \<longleftrightarrow> kv_key kv \<noteq> [] \<and> (\<forall>c \<in> set (kv_key kv). \<not> is_space c) \<and> hd (kv_key kv) \<noteq> CHR ''['' \<and>
     kv_value kv \<noteq> [] \<and> \<not> is_space (last (kv_value kv)) \<and> line_ok (item_line d kv)"

definition section_ok :: "tsapi_conf_section \<Rightarrow> bool" where
  "section_ok sec \<longleftrightarrow> CHR '']'' \<notin> set (sec_name sec) \<and> line_ok (header_line sec) \<and>
     (\<forall>kv \<in> set (sec_items sec). item_ok (sec_delimiter sec) kv)"

definition conf_ok :: "tsapi_conf_t \<Rightarrow> bool" where
  "conf_ok conf \<longleftrightarrow> distinct (section_names conf) \<and> (\<forall>sec \<in> set (conf_sections conf). section_ok sec)"

definition conf_lines :: "tsapi_conf_section list \<Rightarrow> string list" where
  "conf_lines secs =
     concat (map (\<lambda>sec. header_line sec # map (item_line (sec_delimiter sec)) (sec_items sec)) secs)"

lemma render_lines: "render_conf conf = concat (map (\<lambda>l. l @ [newline]) (conf_lines (conf_sections conf)))"
proof -
  have "render_section sec = concat (map (\<lambda>l. l @ [newline])
      (header_line sec # map (item_line (sec_delimiter sec)) (sec_items sec)))" for sec
    by (simp add: render_section_def print_header_def header_line_def print_item_def [abs_def]
        item_line_def [abs_def] comp_def)
  then have "render_section = (\<lambda>sec. concat (map (\<lambda>l. l @ [newline])
      (header_line sec # map (item_line (sec_delimiter sec)) (sec_items sec))))" by (rule ext)
  then show ?thesis
    by (simp add: render_conf_def conf_lines_def map_concat comp_def concat_concat_map)
qed

text \<open>What comes back: the delimiter of the file is read as part of the value, so that a
  value printed after the delimiter \<open>d\<close> is read as \<open>d\<close>, a space and the value.\<close>

definition reread_item :: "string \<Rightarrow> tsapi_conf_kv \<Rightarrow> tsapi_conf_kv" where
  "reread_item d kv = \<lparr>kv_key = kv_key kv, kv_value = d @ '' '' @ kv_value kv\<rparr>"

definition reread_section :: "tsapi_conf_section \<Rightarrow> tsapi_conf_section" where
  "reread_section sec =
     \<lparr>sec_name = sec_name sec, sec_delimiter = '' '',
      sec_items = map (reread_item (sec_delimiter sec)) (sec_items sec)\<rparr>"

definition reread_conf :: "tsapi_conf_t \<Rightarrow> tsapi_conf_t" where
  "reread_conf conf = \<lparr>conf_sections = map reread_section (conf_sections conf)\<rparr>"

lemma strip_item_line:
  assumes "strip_ok e" and "item_ok d kv"
  shows "te_str_strip_spaces e (item_line d kv @ [newline]) = item_line d kv"
proof -
  obtain c k where k: "kv_key kv = c # k" and c: "\<not> is_space c"
    using assms(2) by (cases "kv_key kv") (auto simp: item_ok_def)
  obtain v z where v: "kv_value kv = v @ [z]" and z: "\<not> is_space z"
    using assms(2) by (cases "kv_value kv" rule: rev_cases) (auto simp: item_ok_def)
  have "is_space newline" by (simp add: is_space_def)
  then show ?thesis
    using assms(1) c z by (simp add: strip_ok_def item_line_def k v)
qed

lemma read_line_header:
  assumes "mem_ok e" and "CHR '']'' \<notin> set n"
  shows "read_line e (''['' @ n @ '']'' @ [newline]) conf sn = ret (0, add_section conf n '' '', n)"
  using assms extract_section_name_ok [of e "CHR '']''" n "[newline]"]
  by (simp add: read_line_def create_section_ok)

lemma read_line_item:
  assumes e: "mem_ok e" "strip_ok e" "\<forall>n. heap_tail e n = []" and "item_ok d kv"
    and "sn \<in> set (section_names conf)"
  shows "read_line e (item_line d kv @ [newline]) conf sn = ret (0, add_item conf sn (reread_item d kv), sn)"
proof -
  have h: "take 1 (item_line d kv @ [newline]) \<noteq> ''[''" and sp: "CHR '' '' \<notin> set (kv_key kv)"
    using assms(4) by (cases "kv_key kv"; force simp: item_ok_def item_line_def is_space_def)+
  have "extract_key_value e (item_line d kv) '' '' no_kv = ret (0, reread_item d kv)"
    using extract_key_value_ok [OF e(1) sp, of "d @ '' '' @ kv_value kv" no_kv] e(3)
    by (simp add: item_line_def reread_item_def)
  with h assms show ?thesis
    by (simp add: read_line_def strip_item_line conf_append_ok reread_item_def)
qed

lemma add_item_last:
  assumes "sn \<notin> set (map sec_name secs)"
  shows "add_item \<lparr>conf_sections = secs @ [\<lparr>sec_name = sn, sec_delimiter = d, sec_items = kvs\<rparr>]\<rparr> sn kv =
    \<lparr>conf_sections = secs @ [\<lparr>sec_name = sn, sec_delimiter = d, sec_items = kvs @ [kv]\<rparr>]\<rparr>"
proof -
  have "add_to_first sn kv (secs @ [\<lparr>sec_name = sn, sec_delimiter = d, sec_items = kvs\<rparr>]) =
    secs @ [\<lparr>sec_name = sn, sec_delimiter = d, sec_items = kvs @ [kv]\<rparr>]"
    using assms by (induction secs) auto
  then show ?thesis by (simp add: add_item_def)
qed

lemma read_lines_items:
  assumes e: "mem_ok e" "strip_ok e" "\<forall>n. heap_tail e n = []"
    and "\<forall>kv \<in> set kvs. item_ok d kv" and new: "sn \<notin> set (map sec_name secs)"
  shows "read_lines e (map (\<lambda>kv. item_line d kv @ [newline]) kvs @ bufs)
      \<lparr>conf_sections = secs @ [\<lparr>sec_name = sn, sec_delimiter = '' '', sec_items = acc\<rparr>]\<rparr> sn =
    read_lines e bufs
      \<lparr>conf_sections = secs @ [\<lparr>sec_name = sn, sec_delimiter = '' '', sec_items = acc @ map (reread_item d) kvs\<rparr>]\<rparr> sn"
  using assms(4)
proof (induction kvs arbitrary: acc)
  case (Cons kv kvs)
  let ?conf = "\<lparr>conf_sections = secs @ [\<lparr>sec_name = sn, sec_delimiter = '' '', sec_items = acc\<rparr>]\<rparr>"
  have "sn \<in> set (section_names ?conf)" by (simp add: section_names_def)
  with Cons.prems read_line_item [OF e, of d kv sn ?conf]
  have "read_line e (item_line d kv @ [newline]) ?conf sn = ret (0, add_item ?conf sn (reread_item d kv), sn)"
    by simp
  with Cons show ?case by (simp add: add_item_last [OF new])
qed simp

lemma read_lines_sections:
  assumes e: "mem_ok e" "strip_ok e" "\<forall>n. heap_tail e n = []"
    and "\<forall>sec \<in> set secs. section_ok sec" and "distinct (map sec_name (done @ secs))"
  shows "read_lines e (map (\<lambda>l. l @ [newline]) (conf_lines secs)) \<lparr>conf_sections = done\<rparr> sn =
    ret (0, \<lparr>conf_sections = done @ map reread_section secs\<rparr>)"
  using assms(4,5)
proof (induction secs arbitrary: "done" sn)
  case (Cons sec secs)
  let ?n = "sec_name sec"
  let ?new = "\<lparr>sec_name = ?n, sec_delimiter = '' '', sec_items = map (reread_item (sec_delimiter sec)) (sec_items sec)\<rparr>"
  let ?rest = "map (\<lambda>l. l @ [newline]) (conf_lines secs)"
  have lines: "map (\<lambda>l. l @ [newline]) (conf_lines (sec # secs)) =
      (''['' @ ?n @ '']'' @ [newline]) # map (\<lambda>kv. item_line (sec_delimiter sec) kv @ [newline]) (sec_items sec) @ ?rest"
    by (simp add: conf_lines_def header_line_def)
  have ok: "CHR '']'' \<notin> set ?n" "\<forall>kv \<in> set (sec_items sec). item_ok (sec_delimiter sec) kv"
    using Cons.prems by (auto simp: section_ok_def)
  have new: "?n \<notin> set (map sec_name done)" using Cons.prems(2) by auto
  have "read_lines e (map (\<lambda>l. l @ [newline]) (conf_lines (sec # secs))) \<lparr>conf_sections = done\<rparr> sn =
      read_lines e ?rest \<lparr>conf_sections = done @ [?new]\<rparr> ?n"
    using read_lines_items [OF e ok(2) new, of ?rest "[]"]
    by (simp add: lines read_line_header [OF e(1) ok(1), simplified] add_section_def)
  also have "\<dots> = ret (0, \<lparr>conf_sections = (done @ [?new]) @ map reread_section secs\<rparr>)"
    using Cons.prems by (intro Cons.IH) auto
  finally show ?case by (simp add: reread_section_def [of sec])
qed (simp add: conf_lines_def)

lemma conf_lines_ok:
  assumes "\<forall>sec \<in> set secs. section_ok sec" and "l \<in> set (conf_lines secs)"
  shows "newline \<notin> set l \<and> length l < path_max - 1"
  using assms by (auto simp: conf_lines_def section_ok_def item_ok_def line_ok_def)


definition sample_conf :: tsapi_conf_t where
  "sample_conf = \<lparr>conf_sections =
     [\<lparr>sec_name = ''Malloc'', sec_delimiter = '''', sec_items = [\<lparr>kv_key = ''Size'', kv_value = ''64''\<rparr>]\<rparr>,
      \<lparr>sec_name = ''Nvme'', sec_delimiter = ''='', sec_items = []\<rparr>]\<rparr>"

lemma sample_conf_ok: "conf_ok sample_conf"
  by code_simp

lemma calm_strip_ok [simp]: "strip_ok calm_env"
proof -
  have "blank = is_space" by (auto simp: blank_def is_space_def)
  then show ?thesis by (simp add: strip_ok_def calm_env_def strip_def)
qed


section \<open>Printing where memory runs out\<close>

text \<open>The texts that are appended when a list of sections is printed.\<close>

definition section_texts :: "tsapi_conf_section \<Rightarrow> string list" where
  "section_texts sec = print_header sec # map (print_item (sec_delimiter sec)) (sec_items sec)"

definition appends_ok :: "'w te_env \<Rightarrow> string list \<Rightarrow> bool" where
  "appends_ok e txts \<longleftrightarrow> (\<forall>txt \<in> set txts. \<forall>w. on_mem e (StrAppend txt) w = (0, w))"

lemma append_ok: "appends_ok e txts \<Longrightarrow> txt \<in> set txts \<Longrightarrow> te_string_append e str txt = ret (0, str @ txt)"
  by (auto simp: appends_ok_def te_string_append_def mem_def bnd_def ret_def fun_eq_iff)

lemma append_fails:
  "\<forall>w. on_mem e (StrAppend txt) w = (rc, w) \<Longrightarrow> rc \<noteq> 0 \<Longrightarrow> te_string_append e str txt = ret (rc, str)"
  by (auto simp: te_string_append_def mem_def bnd_def ret_def fun_eq_iff)

lemma flush_items_partial:
  assumes "appends_ok e (map (print_item d) kvs)" and "\<forall>w. on_mem e (StrAppend (print_item d kv)) w = (err, w)" and "err \<noteq> 0"
  shows "flush_items e d (kvs @ kv # kvs') rc str = ret (err, str @ concat (map (print_item d) kvs))"
  using assms(1)
proof (induction kvs arbitrary: rc str)
  case Nil
  then show ?case by (simp add: append_fails [OF assms(2,3)] assms(3))
next
  case (Cons kv0 kvs)
  then have "appends_ok e (map (print_item d) kvs)" by (simp add: appends_ok_def)
  with Cons append_ok [of e "map (print_item d) (kv0 # kvs)" "print_item d kv0"] show ?case by simp
qed

lemma flush_items_appends_ok:
  "appends_ok e (map (print_item d) kvs) \<Longrightarrow>
   flush_items e d kvs 0 str = ret (0, str @ concat (map (print_item d) kvs))"
proof (induction kvs arbitrary: str)
  case (Cons kv0 kvs)
  then have "appends_ok e (map (print_item d) kvs)" by (simp add: appends_ok_def)
  with Cons append_ok [of e "map (print_item d) (kv0 # kvs)" "print_item d kv0"] show ?case by simp
qed simp

text \<open>
  An item that could not be printed is lost without an error when another section
  follows: the rest of its section is dropped, the status of the loop over the items is overwritten, and
  the file is written as if all had gone well.
\<close>

theorem flush_loses_item_error:
  assumes "\<forall>w. on_mem e (StrAppend (print_item d kv)) w = (err, w)" and "err \<noteq> 0"
    and "appends_ok e (map (print_item d) kvs)"
    and "appends_ok e (print_header \<lparr>sec_name = n, sec_delimiter = d, sec_items = kvs\<rparr> # section_texts sec)"
  shows "tsapi_conf_flush_local e
      \<lparr>conf_sections = [\<lparr>sec_name = n, sec_delimiter = d, sec_items = kvs @ kv # kvs'\<rparr>, sec]\<rparr> path =
    tsapi_put_str_to_local_file e
      (render_conf \<lparr>conf_sections = [\<lparr>sec_name = n, sec_delimiter = d, sec_items = kvs\<rparr>, sec]\<rparr>) path"
proof -
  let ?full = "\<lparr>sec_name = n, sec_delimiter = d, sec_items = kvs @ kv # kvs'\<rparr>"
  let ?cut = "\<lparr>sec_name = n, sec_delimiter = d, sec_items = kvs\<rparr>"
  have hd: "te_string_append e str (print_header ?full) = ret (0, str @ print_header ?cut)" for str
    using append_ok [OF assms(4), of "print_header ?cut"] by (simp add: print_header_def)
  have hd2: "te_string_append e str (print_header sec) = ret (0, str @ print_header sec)" for str
    using append_ok [OF assms(4), of "print_header sec"] by (simp add: section_texts_def)
  have "appends_ok e (map (print_item (sec_delimiter sec)) (sec_items sec))"
    using assms(4) by (simp add: appends_ok_def section_texts_def)
  then have "flush_conf_to_str e \<lparr>conf_sections = [?full, sec]\<rparr> '''' =
      ret (0, render_conf \<lparr>conf_sections = [?cut, sec]\<rparr>)"
    using flush_items_partial [OF assms(3,1,2)]
    by (simp add: flush_conf_to_str_def hd hd2 assms(2) flush_items_appends_ok render_conf_def render_section_def)
  then show ?thesis by (simp add: tsapi_conf_flush_local_def)
qed

definition lost_kv :: tsapi_conf_kv where
  "lost_kv = \<lparr>kv_key = ''Size'', kv_value = ''64''\<rparr>"

definition next_section :: tsapi_conf_section where
  "next_section = \<lparr>sec_name = ''Nvme'', sec_delimiter = '''', sec_items = []\<rparr>"

lemma flush_loses_item_error_witness:
  "tsapi_conf_flush_local (short_of (print_item '''' lost_kv)) \<lparr>conf_sections =
      [\<lparr>sec_name = ''Malloc'', sec_delimiter = '''', sec_items = [lost_kv]\<rparr>, next_section]\<rparr> ''f'' =
    tsapi_put_str_to_local_file (short_of (print_item '''' lost_kv))
      (''[Malloc]'' @ [newline] @ ''[Nvme]'' @ [newline]) ''f''"
  using flush_loses_item_error [of "short_of (print_item '''' lost_kv)" "''''" lost_kv TE_ENOMEM "[]"
      "''Malloc''" next_section "[]" "''f''"]
  by (simp add: appends_ok_def section_texts_def print_item_def print_header_def lost_kv_def
      next_section_def render_conf_def render_section_def)

end
