(* ===== verification/Inventory.thy ===== *)
theory Inventory
  imports Conf
begin

text \<open>
  \<open>src/block-ts/lib/tsapi-inventory.c\<close>: the inventory of a backend is kept in the local
  configuration tree as strings; an inventory file is made from a template whose variables
  are expanded line by line, and put on the agent.
\<close>

definition TSAPI_INVENTORY_LOCAL_DIR :: string where
  "TSAPI_INVENTORY_LOCAL_DIR = ''backend_tmpls''"

text \<open>Size of the buffer a template line is read into.\<close>

definition TSAPI_INVENTORY_INPUT_STR_BUF_SIZE :: nat where
  "TSAPI_INVENTORY_INPUT_STR_BUF_SIZE = 256"

fun inventory_names :: "tsapi_backend_mode \<Rightarrow> string option" where
  "inventory_names TSAPI_BACKEND_MODE_CEPH = Some ''ceph_inventory''"
| "inventory_names TSAPI_BACKEND_MODE_NVME = Some ''nvme_inventory''"
| "inventory_names TSAPI_BACKEND_MODE_MALLOC = None"
| "inventory_names TSAPI_BACKEND_MODE_NULLBLOCK = None"
| "inventory_names TSAPI_BACKEND_MODE_UNKNOWN = None"

definition inventory_inst :: "string \<Rightarrow> string \<Rightarrow> string" where
  "inventory_inst backend name = ''/local:/backend:'' @ backend @ ''/inventory:'' @ name"

definition tmpl_path_str :: "string \<Rightarrow> string \<Rightarrow> string" where
  "tmpl_path_str ts_dir name = ts_dir @ ''/'' @ TSAPI_INVENTORY_LOCAL_DIR @ ''/'' @ name @ ''_tmpl.yml''"

definition tsapi_inventory_get_tmpl_path ::
    "'w te_env \<Rightarrow> string \<Rightarrow> tsapi_backend_mode \<Rightarrow> ('w, te_errno \<times> string) te" where
  "tsapi_inventory_get_tmpl_path e tmpl_path mode =
     (case getenv e ''TE_TS_DIR'' of
        None \<Rightarrow> ret (TE_EFAIL, tmpl_path)
      | Some ts_dir \<Rightarrow>
          (case inventory_names mode of
             None \<Rightarrow> ret (TE_EINVAL, tmpl_path)
           | Some name \<Rightarrow> te_string_append e tmpl_path (tmpl_path_str ts_dir name)))"

definition tsapi_inventory_get_ta_path ::
    "'w te_env \<Rightarrow> string \<Rightarrow> tsapi_backend_mode \<Rightarrow> ('w, string option) te" where
  "tsapi_inventory_get_ta_path e ta mode =
     (case inventory_names mode of
        None \<Rightarrow> ret None
      | Some name \<Rightarrow> bnd (agt_path e ta (name @ ''.yml'')) (\<lambda>p. ret (Some p)))"

text \<open>One pass of the loop over the template: a buffer is refused when the one before did
  not end with a newline after its expansion.\<close>

fun expand_lines ::
    "'w te_env \<Rightarrow> (string \<times> string) list \<Rightarrow> string list \<Rightarrow> bool \<Rightarrow> string \<Rightarrow> ('w, te_errno \<times> string) te" where
  "expand_lines e kv [] newline_not_found inventory = ret (0, inventory)"
| "expand_lines e kv (source_buf # bufs) newline_not_found inventory =
     (if newline_not_found then ret (TE_EFAIL, inventory)
      else case te_expand_kvpairs e source_buf kv of
        (rc, target_buf) \<Rightarrow>
          if rc \<noteq> 0 then ret (rc, inventory)
          else bnd (te_string_append e inventory (printf0 e target_buf))
                 (\<lambda>(rc, inventory). if rc \<noteq> 0 then ret (rc, inventory)
                    else expand_lines e kv bufs
                           (target_buf = [] \<or> last target_buf \<noteq> newline) inventory))"

text \<open>The answer to reading a file: no contents when it cannot be opened, and \<open>r_bool\<close> for
  \<open>ferror\<close> after the contents.\<close>

definition tsapi_inventory_expand_template ::
    "'w te_env \<Rightarrow> string \<Rightarrow> (string \<times> string) list \<Rightarrow> string \<Rightarrow> ('w, te_errno \<times> string) te" where
  "tsapi_inventory_expand_template e tmpl_path kv_params inventory =
     bnd (te_call e (Local (LocalReadFile tmpl_path)))
       (\<lambda>r. case r_str r of
           None \<Rightarrow> ret (r_rc r, inventory)
         | Some contents \<Rightarrow>
             bnd (expand_lines e kv_params
                    (fgets_all (TSAPI_INVENTORY_INPUT_STR_BUF_SIZE - 1) contents) False inventory)
               (\<lambda>(rc, inventory). if rc \<noteq> 0 then ret (rc, inventory)
                  else if r_bool r then ret (r_rc r, inventory)
                  else ret (0, inventory)))"

definition tsapi_inventory_prepare ::
    "'w te_env \<Rightarrow> rcf_rpc_server \<Rightarrow> (string \<times> string) list \<Rightarrow> tsapi_backend_mode \<Rightarrow>
     ('w, te_errno \<times> string option) te" where
  "tsapi_inventory_prepare e rpcs kv_params mode =
     bnd (tsapi_inventory_get_tmpl_path e '''' mode) (\<lambda>(rc, tmpl_path).
       if rc \<noteq> 0 then ret (rc, None) else
     bnd (tsapi_inventory_expand_template e tmpl_path kv_params '''') (\<lambda>(rc, inventory).
       if rc \<noteq> 0 then ret (rc, None) else
     bnd (tsapi_inventory_get_ta_path e (rpcs_ta rpcs) mode) (\<lambda>dst_path.
       case dst_path of
         None \<Rightarrow> ret (rc, None)
       | Some dst \<Rightarrow>
           bnd (tsapi_put_str_to_agt_file e rpcs inventory dst)
             (\<lambda>rc. ret (rc, if rc \<noteq> 0 then None else Some dst)))))"

definition tsapi_inventory_local_add_str :: "'w te_env \<Rightarrow> string \<Rightarrow> string \<Rightarrow> string \<Rightarrow> ('w, te_errno) te" where
  "tsapi_inventory_local_add_str e backend name val =
     call_rc e (Cfg (CfgAdd (inventory_inst backend name) (Some val)))"

definition tsapi_inventory_local_add_int :: "'w te_env \<Rightarrow> string \<Rightarrow> string \<Rightarrow> 32 word \<Rightarrow> ('w, te_errno) te" where
  "tsapi_inventory_local_add_int e backend name val =
     bnd (te_string_append e '''' (dec_of_int (sint val)))
       (\<lambda>(rc, str). if rc \<noteq> 0 then ret rc else tsapi_inventory_local_add_str e backend name str)"

text \<open>Each instance below the inventory becomes a pair of its name and its value.\<close>

fun inventory_pairs ::
    "'w te_env \<Rightarrow> string list \<Rightarrow> (string \<times> string) list \<Rightarrow> ('w, te_errno \<times> (string \<times> string) list) te" where
  "inventory_pairs e [] params = ret (0, params)"
| "inventory_pairs e (inst # insts) params =
     bnd (te_call e (Cfg (CfgGetOid inst))) (\<lambda>oid. if r_rc oid \<noteq> 0 then ret (r_rc oid, params) else
     bnd (te_call e (Cfg (CfgGetInst inst))) (\<lambda>val. if r_rc val \<noteq> 0 then ret (r_rc val, params) else
       (case te_kvpair_add e params (out_str oid) (out_str val) of
          (rc, params) \<Rightarrow> if rc \<noteq> 0 then ret (rc, params) else inventory_pairs e insts params)))"

definition tsapi_inventory_local_to_kv_pair ::
    "'w te_env \<Rightarrow> string option \<Rightarrow> (string \<times> string) list \<Rightarrow> ('w, te_errno \<times> (string \<times> string) list) te" where
  "tsapi_inventory_local_to_kv_pair e backend params =
     bnd (te_call e (Cfg (CfgFind (inventory_inst (ptr_str backend) ''*''))))
       (\<lambda>r. if r_rc r \<noteq> 0 then ret (r_rc r, params)
            else bnd (inventory_pairs e (r_list r) params)
                   (\<lambda>(rc, params). ret (rc, if rc \<noteq> 0 then [] else params)))"

section \<open>Expanding the template: correctness\<close>

definition ends_line :: "string \<Rightarrow> bool" where
  "ends_line s \<longleftrightarrow> s \<noteq> [] \<and> last s = newline"

definition expanded :: "'w te_env \<Rightarrow> (string \<times> string) list \<Rightarrow> string \<Rightarrow> string" where
  "expanded e kv buf = printf0 e (snd (te_expand_kvpairs e buf kv))"

lemma expand_lines_ok:
  assumes "mem_ok e" and "\<forall>b \<in> set bufs. \<exists>x. te_expand_kvpairs e b kv = (0, x) \<and> ends_line x"
  shows "expand_lines e kv bufs False acc = ret (0, acc @ concat (map (expanded e kv) bufs))"
  using assms(2)
proof (induction bufs arbitrary: acc)
  case (Cons b bufs)
  then obtain x where "te_expand_kvpairs e b kv = (0, x)" "ends_line x" by auto
  with Cons show ?case by (auto simp: mem_ok_append [OF assms(1)] expanded_def ends_line_def)
qed simp



lemma fgets_full: "k \<le> length l \<Longrightarrow> newline \<notin> set (take k l) \<Longrightarrow> fgets k (l @ r) = (take k l, drop k l @ r)"
proof (induction l arbitrary: k)
  case (Cons c l)
  show ?case
  proof (cases k)
    case (Suc j)
    with Cons have "fgets j (l @ r) = (take j l, drop j l @ r)" by simp
    moreover have "c \<noteq> newline" using Cons.prems(2) Suc by auto
    ultimately show ?thesis using Suc by simp
  qed simp
qed simp

text \<open>
  A template line that does not fit the buffer of 255 characters is refused with an error, never
  expanded in two pieces, unless the expansion of its beginning ends a line itself.
\<close>

theorem long_template_line_refused:
  assumes "mem_ok e" and "newline \<notin> set l" and "255 \<le> length l"
    and "te_expand_kvpairs e (take 255 l) kv = (0, x)" and "\<not> ends_line x"
  shows "\<exists>acc. expand_lines e kv
      (fgets_all (TSAPI_INVENTORY_INPUT_STR_BUF_SIZE - 1) (l @ newline # rest)) False '''' = ret (TE_EFAIL, acc)"
proof -
  have size: "TSAPI_INVENTORY_INPUT_STR_BUF_SIZE - 1 = Suc 254"
    by (simp add: TSAPI_INVENTORY_INPUT_STR_BUF_SIZE_def)
  have "fgets 255 (l @ newline # rest) = (take 255 l, drop 255 l @ newline # rest)"
    using assms(2,3) by (intro fgets_full) (auto dest: in_set_takeD)
  then have f: "fgets (Suc 254) (l @ newline # rest) = (take 255 l, drop 255 l @ newline # rest)" by simp
  obtain c cs where c: "l @ newline # rest = c # cs" by (cases l) auto
  obtain d ds where d: "drop 255 l @ newline # rest = d # ds" by (cases "drop 255 l") auto
  have all: "fgets_all (Suc k) (y # ys) = fst (fgets (Suc k) (y # ys)) # fgets_all (Suc k) (snd (fgets (Suc k) (y # ys)))"
    for k y ys by (simp only: fgets_all.simps case_prod_unfold)
  have "fgets_all (Suc 254) (l @ newline # rest) = take 255 l # fgets_all (Suc 254) (d # ds)"
    using all [of 254 c cs] f by (simp only: c d fst_conv snd_conv)
  moreover obtain b bs where "fgets_all (Suc 254) (d # ds) = b # bs"
    using all [of 254 d ds] by blast
  ultimately have "fgets_all (Suc 254) (l @ newline # rest) = take 255 l # b # bs" by simp
  moreover have "x = [] \<or> last x \<noteq> newline" using assms(5) by (simp add: ends_line_def)
  ultimately show ?thesis
    unfolding size using assms(4)
    by (intro exI [of _ "printf0 e x"]) (simp add: mem_ok_append [OF assms(1)])
qed

lemma long_template_line_refused_witness:
  "\<exists>acc. expand_lines calm_env [] (fgets_all (TSAPI_INVENTORY_INPUT_STR_BUF_SIZE - 1)
      (replicate 300 CHR ''a'' @ newline # [])) False '''' = ret (TE_EFAIL, acc)"
proof (rule long_template_line_refused)
  show "te_expand_kvpairs calm_env (take 255 (replicate 300 CHR ''a'')) [] = (0, replicate 255 CHR ''a'')"
    by (simp add: calm_env_def)
  show "\<not> ends_line (replicate 255 CHR ''a'')" by (simp add: ends_line_def)
qed simp_all

end
