(* ===== verification/Nvme.thy ===== *)
theory Nvme
  imports Inventory
begin

text \<open>
  \<open>src/block-ts/lib/tsapi-nvme.c\<close>: the inventory parameters of an NVMe target, and the
  helper scripts that create and remove it.
\<close>

definition TSAPI_NVME_SERVER_CREATION_TIMEOUT :: int where
  "TSAPI_NVME_SERVER_CREATION_TIMEOUT = 5 * 60 * 1000"
definition TSAPI_NVME_SERVER_REMOVAL_TIMEOUT :: int where
  "TSAPI_NVME_SERVER_REMOVAL_TIMEOUT = 1 * 60 * 1000"

datatype tsapi_nvme_server_act = TSAPI_NVME_CREATE | TSAPI_NVME_REMOVE

fun nvme_prepare_scripts :: "tsapi_nvme_server_act \<Rightarrow> string" where
  "nvme_prepare_scripts TSAPI_NVME_CREATE = ''create_ansible_nvme_server.sh''"
| "nvme_prepare_scripts TSAPI_NVME_REMOVE = ''remove_ansible_nvme_server.sh''"

text \<open>The parameters written to the inventory, as a chain of status codes. The division is
  unsigned; by zero it ends the test program.\<close>

definition nvme_add_params ::
    "'w te_env \<Rightarrow> string \<Rightarrow> nat \<Rightarrow> 32 word \<Rightarrow> 32 word \<Rightarrow> 32 word \<Rightarrow> ('w, te_errno) te" where
  "nvme_add_params e host_name addr port block_count disk_size_gb =
     rc_seq
       [tsapi_inventory_local_add_str e ''nvme'' ''NVME_SERVER_HOST'' host_name,
        tsapi_inventory_local_add_str e ''nvme'' ''NVME_ADDR'' (te_sockaddr_get_ipstr e addr),
        tsapi_inventory_local_add_int e ''nvme'' ''NVME_PORT'' port,
        tsapi_inventory_local_add_int e ''nvme'' ''NVME_DISK_NUM'' block_count,
        tsapi_inventory_local_add_int e ''nvme'' ''NVME_DISK_SIZE'' disk_size_gb]"

definition tsapi_nvme_prepare_params :: "'w te_env \<Rightarrow> nat \<Rightarrow> 32 word \<Rightarrow> ('w, te_errno) te" where
  "tsapi_nvme_prepare_params e addr block_count =
     bnd (tsapi_get_backend_param_str e ''nvme'' ''host_name'') (\<lambda>host_name. case host_name of
       None \<Rightarrow> ret TE_EFAIL
     | Some host_name \<Rightarrow>
     bnd (tsapi_get_backend_param_int e ''nvme'' ''port'') (\<lambda>(rc, port). if rc \<noteq> 0 then ret rc else
     bnd (tsapi_get_backend_param_int e ''nvme'' ''stor_size_gb'') (\<lambda>(rc, stor_size_gb).
       if rc \<noteq> 0 then ret rc
       else if sint stor_size_gb \<le> 0 then ret TE_EINVAL
       else if block_count = 0 then jump Failed
       else nvme_add_params e host_name addr port block_count (stor_size_gb div block_count))))"

text \<open>A helper script run with a timeout; a non-zero status is an error.\<close>

definition run_helper :: "'w te_env \<Rightarrow> rcf_rpc_server \<Rightarrow> string \<Rightarrow> ('w, te_errno) te" where
  "run_helper e rpcs cmd =
     bnd (te_call e (Rpc rpcs (RpcSystem cmd)))
       (\<lambda>status. if r_num status \<noteq> 0 then ret TE_EFAIL else ret 0)"

definition server_cmd :: "string \<Rightarrow> string \<Rightarrow> string \<Rightarrow> string \<Rightarrow> string" where
  "server_cmd helpers_path script ansible_path inventory_path =
     helpers_path @ ''/'' @ script @ '' '' @ ansible_path @ '' '' @ inventory_path"

definition tsapi_nvme_start_server ::
    "'w te_env \<Rightarrow> rcf_rpc_server \<Rightarrow> string \<Rightarrow> string \<Rightarrow> string \<Rightarrow> ('w, te_errno) te" where
  "tsapi_nvme_start_server e rpcs helpers_path virtblk_ci_ansible_path inventory_path =
     bnd (te_call e (Rpcs rpcs (RpcTimeout TSAPI_NVME_SERVER_CREATION_TIMEOUT)))
       (\<lambda>_. run_helper e rpcs (server_cmd helpers_path (nvme_prepare_scripts TSAPI_NVME_CREATE)
                                  virtblk_ci_ansible_path inventory_path))"

definition tsapi_nvme_stop_server :: "'w te_env \<Rightarrow> rcf_rpc_server \<Rightarrow> string \<Rightarrow> ('w, te_errno) te" where
  "tsapi_nvme_stop_server e rpcs helpers_path =
     bnd (te_call e (Rpcs rpcs (RpcTimeout TSAPI_NVME_SERVER_REMOVAL_TIMEOUT)))
       (\<lambda>_. run_helper e rpcs (helpers_path @ ''/'' @ nvme_prepare_scripts TSAPI_NVME_REMOVE))"

end
