(* ===== verification/Backend_Mode.thy ===== *)
theory Backend_Mode
  imports Nvme "HOL-Library.Countable"
begin

text \<open>
  The first half of \<open>src/block-ts/lib/tsapi-backend.c\<close>: which backend the local
  configuration tree names, and of which type it is. (The callbacks of the types and the
  servers are in the theory \<open>Backend\<close>, after the components they call.)
\<close>

datatype tsapi_backend_types =
    TSAPI_BACKEND_TYPES_CEPH_CONTAINER
  | TSAPI_BACKEND_TYPES_CEPH_CONNECT
  | TSAPI_BACKEND_TYPES_CEPH_QEMU
  | TSAPI_BACKEND_TYPES_NVME
  | TSAPI_BACKEND_TYPES_NVME_CONNECT
  | TSAPI_BACKEND_TYPES_MALLOC
  | TSAPI_BACKEND_TYPES_NULLBLOCK
  | TSAPI_BACKEND_TYPES_NONE

text \<open>The enumerators in their order, so that statements over all of them compute.\<close>

instantiation tsapi_backend_types :: enum
begin

definition enum_tsapi_backend_types :: "tsapi_backend_types list" where
  "enum_tsapi_backend_types =
     [TSAPI_BACKEND_TYPES_CEPH_CONTAINER, TSAPI_BACKEND_TYPES_CEPH_CONNECT,
      TSAPI_BACKEND_TYPES_CEPH_QEMU, TSAPI_BACKEND_TYPES_NVME, TSAPI_BACKEND_TYPES_NVME_CONNECT,
      TSAPI_BACKEND_TYPES_MALLOC, TSAPI_BACKEND_TYPES_NULLBLOCK, TSAPI_BACKEND_TYPES_NONE]"

definition enum_all_tsapi_backend_types :: "(tsapi_backend_types \<Rightarrow> bool) \<Rightarrow> bool" where
  "enum_all_tsapi_backend_types P \<longleftrightarrow> list_all P enum_class.enum"

definition enum_ex_tsapi_backend_types :: "(tsapi_backend_types \<Rightarrow> bool) \<Rightarrow> bool" where
  "enum_ex_tsapi_backend_types P \<longleftrightarrow> list_ex P enum_class.enum"

instance
proof
  show univ: "UNIV = set (enum_class.enum :: tsapi_backend_types list)"
    unfolding enum_tsapi_backend_types_def using tsapi_backend_types.exhaust by auto
  show "distinct (enum_class.enum :: tsapi_backend_types list)"
    by (simp add: enum_tsapi_backend_types_def)
  show "enum_class.enum_all P \<longleftrightarrow> Ball UNIV P" for P :: "tsapi_backend_types \<Rightarrow> bool"
    by (simp add: enum_all_tsapi_backend_types_def univ list_all_iff)
  show "enum_class.enum_ex P \<longleftrightarrow> Bex UNIV P" for P :: "tsapi_backend_types \<Rightarrow> bool"
    by (simp add: enum_ex_tsapi_backend_types_def univ list_ex_iff)
qed

end

fun tsapi_backend_mode2str :: "tsapi_backend_mode \<Rightarrow> string option" where
  "tsapi_backend_mode2str TSAPI_BACKEND_MODE_MALLOC = Some ''malloc''"
| "tsapi_backend_mode2str TSAPI_BACKEND_MODE_CEPH = Some ''ceph''"
| "tsapi_backend_mode2str TSAPI_BACKEND_MODE_NULLBLOCK = Some ''nullblock''"
| "tsapi_backend_mode2str TSAPI_BACKEND_MODE_NVME = Some ''nvme''"
| "tsapi_backend_mode2str _ = None"

text \<open>The chain of comparisons on the instance name.\<close>

definition backend_str2mode :: "string \<Rightarrow> tsapi_backend_mode" where
  "backend_str2mode name =
     (if name = ''malloc'' then TSAPI_BACKEND_MODE_MALLOC
      else if name = ''ceph'' then TSAPI_BACKEND_MODE_CEPH
      else if name = ''nullblock'' then TSAPI_BACKEND_MODE_NULLBLOCK
      else if name = ''nvme'' then TSAPI_BACKEND_MODE_NVME
      else TSAPI_BACKEND_MODE_UNKNOWN)"

text \<open>\<open>instances[0]\<close> is read without a check that there is one: with none the program
  reads past the array, taken here to end the test.\<close>

definition tsapi_backend_get_mode :: "'w te_env \<Rightarrow> ('w, tsapi_backend_mode) te" where
  "tsapi_backend_get_mode e =
     bnd (te_call e (Cfg (CfgFind ''/local:/backend:*''))) (\<lambda>r.
       if r_rc r \<noteq> 0 then ret TSAPI_BACKEND_MODE_UNKNOWN
       else if length (r_list r) > 1 then ret TSAPI_BACKEND_MODE_UNKNOWN
       else case r_list r of
          [] \<Rightarrow> jump Failed
        | inst # _ \<Rightarrow>
            bnd (te_call e (Cfg (CfgGetOid inst))) (\<lambda>oid.
              if r_rc oid \<noteq> 0 then ret TSAPI_BACKEND_MODE_UNKNOWN
              else ret (backend_str2mode (out_str oid))))"

definition type_maps :: "(tsapi_backend_mode \<times> string \<times> tsapi_backend_types) list" where
  "type_maps =
     [(TSAPI_BACKEND_MODE_CEPH, ''container'', TSAPI_BACKEND_TYPES_CEPH_CONTAINER),
      (TSAPI_BACKEND_MODE_CEPH, ''qemu'', TSAPI_BACKEND_TYPES_CEPH_QEMU),
      (TSAPI_BACKEND_MODE_CEPH, ''connect'', TSAPI_BACKEND_TYPES_CEPH_CONNECT),
      (TSAPI_BACKEND_MODE_MALLOC, ''none'', TSAPI_BACKEND_TYPES_MALLOC),
      (TSAPI_BACKEND_MODE_NULLBLOCK, ''none'', TSAPI_BACKEND_TYPES_NULLBLOCK),
      (TSAPI_BACKEND_MODE_NVME, ''none'', TSAPI_BACKEND_TYPES_NVME),
      (TSAPI_BACKEND_MODE_NVME, ''connect'', TSAPI_BACKEND_TYPES_NVME_CONNECT)]"

text \<open>The loop over the table: the first entry with this mode and type string.\<close>

definition find_type :: "tsapi_backend_mode \<Rightarrow> string \<Rightarrow> tsapi_backend_types" where
  "find_type mode val =
     (case find (\<lambda>(m, str, _). mode = m \<and> val = str) type_maps of
        None \<Rightarrow> TSAPI_BACKEND_TYPES_NONE
      | Some (_, _, t) \<Rightarrow> t)"

definition backend_type_inst :: "string option \<Rightarrow> string" where
  "backend_type_inst backend = ''/local:/backend:'' @ ptr_str backend @ ''/type:''"

definition tsapi_backend_get_type :: "'w te_env \<Rightarrow> ('w, tsapi_backend_types) te" where
  "tsapi_backend_get_type e =
     bnd (tsapi_backend_get_mode e) (\<lambda>mode.
     bnd (te_call e (Cfg (CfgGet (backend_type_inst (tsapi_backend_mode2str mode))))) (\<lambda>r.
       if r_rc r \<noteq> 0 then ret TSAPI_BACKEND_TYPES_NONE else ret (find_type mode (out_str r))))"

definition tsapi_backend_need_env :: "'w te_env \<Rightarrow> ('w, bool) te" where
  "tsapi_backend_need_env e =
     bnd (tsapi_backend_get_mode e)
       (\<lambda>mode. ret (mode = TSAPI_BACKEND_MODE_CEPH \<or> mode = TSAPI_BACKEND_MODE_NVME))"

end
