(* ===== verification/Blkproxy.thy ===== *)
theory Blkproxy
  imports Backend_Mode
begin

text \<open>
  \<open>src/block-ts/lib/tsapi-blkproxy.c\<close> (without its logging half, see \<open>Blkproxy_Log\<close>): the
  handle of the blk-proxy process, its options and arguments, its start and stop, and the
  creation of its configuration files from the test arguments.
\<close>

section \<open>Data\<close>

definition TSAPI_BLKPROXY_CONFIG_PREFIX :: string where
  "TSAPI_BLKPROXY_CONFIG_PREFIX = ''bp''"
definition TSAPI_BLKPROXY_MASK_FOR_16_CPU :: string where
  "TSAPI_BLKPROXY_MASK_FOR_16_CPU = ''0xFFFE''"
definition TSAPI_BLKPROXY_MASK_FOR_8_CPU :: string where
  "TSAPI_BLKPROXY_MASK_FOR_8_CPU = ''0xFE''"
definition TSAPI_BLKPROXY_CONFIG_CONVERT_NAME :: string where
  "TSAPI_BLKPROXY_CONFIG_CONVERT_NAME = ''config_converter.py''"
definition TSAPI_BLKPROXY_PCI_NUMBER :: nat where
  "TSAPI_BLKPROXY_PCI_NUMBER = 0"
definition TSAPI_BLKPROXY_PCI_ADDRESS :: string where
  "TSAPI_BLKPROXY_PCI_ADDRESS = ''01:00.1''"
definition TSAPI_BLOCK_PROXY_PS_NAME :: string where
  "TSAPI_BLOCK_PROXY_PS_NAME = ''blk-proxy''"
definition TSAPI_BLKPROXY_CONFIG_NAME :: string where
  "TSAPI_BLKPROXY_CONFIG_NAME = ''bp_map''"

record tsapi_blkproxy_handle =
  bp_rpcs :: rcf_rpc_server
  bp_ps_name :: string
  bp_config_name :: string
  bp_config_local_dir :: string
  bp_config_agent_dir :: string
  bp_is_old_spdk :: bool

record tsapi_blkproxy_opts =
  bpo_mem_size :: "32 word"
  bpo_cpu_mask :: string
  bpo_config :: "string option"
  bpo_pci_whitelist :: string
  bpo_logflags :: "string option"

definition tsapi_blkproxy_opts_default_opt :: tsapi_blkproxy_opts where
  "tsapi_blkproxy_opts_default_opt =
     \<lparr>bpo_mem_size = 1200, bpo_cpu_mask = TSAPI_BLKPROXY_MASK_FOR_8_CPU, bpo_config = None,
      bpo_pci_whitelist = TSAPI_BLKPROXY_PCI_ADDRESS, bpo_logflags = None\<rparr>"

definition tsapi_blkproxy_get_logflags :: "'w te_env \<Rightarrow> ('w, string option) te" where
  "tsapi_blkproxy_get_logflags e =
     bnd (cfg_get_checked e ''/local:/blk_proxy:/logflags:'')
       (\<lambda>v. ret (if length v = 0 then None else Some v))"

definition is_old_spdk :: "'w te_env \<Rightarrow> bool" where
  "is_old_spdk e = (case getenv e ''TE_OLD_SPDK'' of None \<Rightarrow> False | Some v \<Rightarrow> v = ''true'')"

section \<open>Paths of the configuration files\<close>

definition config_file_name :: "string \<Rightarrow> string \<Rightarrow> bool \<Rightarrow> string" where
  "config_file_name dir name json = dir @ ''/'' @ name @ ''.'' @ (if json then ''json'' else ''conf'')"

text \<open>NULL when the buffer could not be allocated.\<close>

definition alloc_str :: "'w te_env \<Rightarrow> string \<Rightarrow> ('w, string option) te" where
  "alloc_str e txt = bnd (te_string_append e '''' txt) (\<lambda>(rc, str). ret (if rc \<noteq> 0 then None else Some str))"

definition get_local_config_name :: "'w te_env \<Rightarrow> tsapi_blkproxy_handle \<Rightarrow> bool \<Rightarrow> ('w, string option) te" where
  "get_local_config_name e h json =
     alloc_str e (config_file_name (bp_config_local_dir h) (bp_config_name h) json)"

definition get_agent_config_name :: "'w te_env \<Rightarrow> tsapi_blkproxy_handle \<Rightarrow> bool \<Rightarrow> ('w, string option) te" where
  "get_agent_config_name e h json =
     alloc_str e (config_file_name (bp_config_agent_dir h) (bp_config_name h) json)"

definition tsapi_blkproxy_get_config_path ::
    "'w te_env \<Rightarrow> tsapi_blkproxy_handle \<Rightarrow> bool \<Rightarrow> ('w, string option) te" where
  "tsapi_blkproxy_get_config_path e h json =
     bnd (te_call e (Cfg (CfgGet (agent_dir_inst (rpcs_ta (bp_rpcs h))))))
       (\<lambda>r. ret (if r_rc r \<noteq> 0 then None
                 else Some (take (path_max - 1) (config_file_name (out_str r) (bp_config_name h) json))))"

section \<open>Environment and arguments of the process\<close>

fun onload_env_pairs ::
    "'w te_env \<Rightarrow> string list \<Rightarrow> (string \<times> string) list \<Rightarrow> ('w, te_errno \<times> (string \<times> string) list) te" where
  "onload_env_pairs e [] envs = ret (0, envs)"
| "onload_env_pairs e (inst # insts) envs =
     bnd (te_call e (Cfg (CfgInstName inst))) (\<lambda>name. if r_rc name \<noteq> 0 then ret (r_rc name, envs) else
     bnd (te_call e (Cfg (CfgGetInst inst))) (\<lambda>val. if r_rc val \<noteq> 0 then ret (r_rc val, envs) else
       (case te_kvpair_add e envs (out_str name) (out_str val) of
          (rc, envs) \<Rightarrow> if rc \<noteq> 0 then ret (rc, envs) else onload_env_pairs e insts envs)))"

definition build_blk_proxy_onload_env ::
    "'w te_env \<Rightarrow> (string \<times> string) list \<Rightarrow> ('w, te_errno \<times> (string \<times> string) list) te" where
  "build_blk_proxy_onload_env e envs =
     bnd (te_call e (Cfg (CfgFind ''/local:/blk_proxy:/onload_env:*'')))
       (\<lambda>r. if r_rc r \<noteq> 0 then ret (r_rc r, envs) else onload_env_pairs e (r_list r) envs)"

definition build_blkproxy_env ::
    "'w te_env \<Rightarrow> (string \<times> string) list \<Rightarrow> ('w, te_errno \<times> (string \<times> string) list) te" where
  "build_blkproxy_env e envs =
     bnd (build_blk_proxy_onload_env e envs)
       (\<lambda>(rc, envs). if rc \<noteq> 0 then ret (rc, envs) else ret (0, envs))"

text \<open>Two arguments per log flag. A failed append ends the loop, and the function returns 0
  all the same: the arguments built so far are all it yields.\<close>

fun logflag_args :: "'w te_env \<Rightarrow> string list \<Rightarrow> string list \<Rightarrow> ('w, string list) te" where
  "logflag_args e [] args = ret args"
| "logflag_args e (tok # toks) args =
     bnd (te_vec_append_str e args ''--logflag'') (\<lambda>(rc, args). if rc \<noteq> 0 then ret args else
     bnd (te_vec_append_str e args tok) (\<lambda>(rc, args). if rc \<noteq> 0 then ret args else
       logflag_args e toks args))"

definition create_optional_logflags ::
    "'w te_env \<Rightarrow> string option \<Rightarrow> string list \<Rightarrow> ('w, te_errno \<times> string list) te" where
  "create_optional_logflags e str args =
     (case str of
        None \<Rightarrow> ret (0, args)
      | Some s \<Rightarrow> bnd (logflag_args e (strtok_all CHR '','' s) args) (\<lambda>args. ret (0, args)))"

definition blkproxy_binds :: "'w te_env \<Rightarrow> tsapi_blkproxy_opts \<Rightarrow> string list \<Rightarrow> job_opt list" where
  "blkproxy_binds e opts logflags =
     [OptUInt ''-s'' (bpo_mem_size opts),
      OptString ''-m'' (Some (bpo_cpu_mask opts)),
      OptString ''-c'' (bpo_config opts),
      OptString (if is_old_spdk e then ''-W'' else ''-A'') (Some (bpo_pci_whitelist opts)),
      OptArgs logflags]"

text \<open>The wrapper in front of the program, when Onload is used.\<close>

definition onload_args :: "'w te_env \<Rightarrow> ('w, te_errno \<times> string list) te" where
  "onload_args e =
     bnd (tsapi_use_onload e) (\<lambda>use_onload. if \<not> use_onload then ret (0, []) else
     bnd (tsapi_get_onload_path e) (\<lambda>path. case path of
         None \<Rightarrow> ret (TE_ENOENT, [])
       | Some path \<Rightarrow> bnd (te_vec_append_str e [] path)
           (\<lambda>(rc, args). ret (if rc \<noteq> 0 then TE_EFAIL else 0, args))))"

definition fill_opts ::
    "'w te_env \<Rightarrow> tsapi_blkproxy_handle \<Rightarrow> tsapi_blkproxy_opts \<Rightarrow> ('w, tsapi_blkproxy_opts) te" where
  "fill_opts e h opts =
     bnd (case bpo_config opts of
            None \<Rightarrow> get_agent_config_name e h (\<not> bp_is_old_spdk h)
          | Some c \<Rightarrow> ret (Some c)) (\<lambda>config.
     bnd (case bpo_logflags opts of
            None \<Rightarrow> tsapi_blkproxy_get_logflags e
          | Some l \<Rightarrow> ret (Some l)) (\<lambda>logflags.
       ret (opts\<lparr>bpo_config := config, bpo_logflags := logflags\<rparr>)))"

definition build_blkproxy_args ::
    "'w te_env \<Rightarrow> tsapi_blkproxy_handle \<Rightarrow> tsapi_blkproxy_opts \<Rightarrow>
     ('w, te_errno \<times> string list \<times> tsapi_blkproxy_opts) te" where
  "build_blkproxy_args e h opts =
     bnd (onload_args e) (\<lambda>(rc, result_args). if rc \<noteq> 0 then ret (rc, [], opts) else
     bnd (fill_opts e h opts) (\<lambda>opts.
     bnd (tsapi_blkproxy_bin e (rpcs_ta (bp_rpcs h))) (\<lambda>path.
     bnd (create_optional_logflags e (bpo_logflags opts) []) (\<lambda>(_, logflags).
       case job_opt_build_args e path (blkproxy_binds e opts logflags) of
         (rc, tmp_args) \<Rightarrow>
           if rc \<noteq> 0 then ret (rc, [], opts)
           else bnd (mem e (VecAppend path))
                  (\<lambda>rc. if rc \<noteq> 0 then ret (rc, [], opts)
                        else ret (0, result_args @ tmp_args, opts))))))"

section \<open>The handle\<close>

definition build_config_local_dir :: "'w te_env \<Rightarrow> string \<Rightarrow> string \<Rightarrow> ('w, te_errno \<times> string) te" where
  "build_config_local_dir e ta path =
     bnd (te_call e (Agent (Name2Type ta))) (\<lambda>r. if r_rc r \<noteq> 0 then ret (r_rc r, path) else
       (case getenv e ''TE_INSTALL'' of
          None \<Rightarrow> ret (TE_ENOENT, path)
        | Some installdir \<Rightarrow>
            te_string_append e path (installdir @ ''/agents/'' @ out_str r @ ''/'')))"

definition build_config_agent_dir :: "'w te_env \<Rightarrow> string \<Rightarrow> string \<Rightarrow> ('w, te_errno \<times> string) te" where
  "build_config_agent_dir e ta path =
     bnd (te_call e (Cfg (CfgGet (agent_dir_inst ta))))
       (\<lambda>r. if r_rc r \<noteq> 0 then ret (r_rc r, path) else te_string_append e path (out_str r))"

definition or_default :: "string option \<Rightarrow> string \<Rightarrow> string" where
  "or_default p d = (case p of None \<Rightarrow> d | Some s \<Rightarrow> s)"

definition tsapi_blkproxy_handle_init ::
    "'w te_env \<Rightarrow> rcf_rpc_server option \<Rightarrow> string option \<Rightarrow> string option \<Rightarrow>
     ('w, te_errno \<times> tsapi_blkproxy_handle option) te" where
  "tsapi_blkproxy_handle_init e rpcs ps_name config_name =
     (case rpcs of
        None \<Rightarrow> ret (TE_EINVAL, None)
      | Some rpcs \<Rightarrow>
          bnd (mem e (Alloc 1)) (\<lambda>rc. if rc \<noteq> 0 then ret (TE_ENOMEM, None) else
          bnd (build_config_agent_dir e (rpcs_ta rpcs) '''') (\<lambda>(rc, agent_dir).
            if rc \<noteq> 0 then ret (rc, None) else
          bnd (build_config_local_dir e (rpcs_ta rpcs) '''') (\<lambda>(rc, local_dir).
            if rc \<noteq> 0 then ret (rc, None)
            else ret (0, Some
              \<lparr>bp_rpcs = rpcs,
               bp_ps_name = or_default ps_name TSAPI_BLOCK_PROXY_PS_NAME,
               bp_config_name = or_default config_name TSAPI_BLKPROXY_CONFIG_NAME,
               bp_config_local_dir = local_dir,
               bp_config_agent_dir = agent_dir,
               bp_is_old_spdk = is_old_spdk e\<rparr>)))))"

definition set_cpu_mask ::
    "'w te_env \<Rightarrow> string \<Rightarrow> tsapi_blkproxy_opts \<Rightarrow> ('w, te_errno \<times> tsapi_blkproxy_opts) te" where
  "set_cpu_mask e ta opts =
     bnd (te_call e (Agent (GetAllThreads ta))) (\<lambda>r.
       if r_rc r \<noteq> 0 then ret (r_rc r, opts)
       else if r_num r = 8 then ret (0, opts\<lparr>bpo_cpu_mask := TSAPI_BLKPROXY_MASK_FOR_8_CPU\<rparr>)
       else if r_num r = 16 then ret (0, opts\<lparr>bpo_cpu_mask := TSAPI_BLKPROXY_MASK_FOR_16_CPU\<rparr>)
       else ret (TE_EFAIL, opts))"

section \<open>The process\<close>

definition add_ps_env :: "'w te_env \<Rightarrow> string \<Rightarrow> string \<Rightarrow> (string \<times> string) list \<Rightarrow> ('w, te_errno) te" where
  "add_ps_env e ta ps_name = for_rc (\<lambda>(k, v). call_rc e (Ps ta ps_name (PsAddEnv k v)))"

definition add_ps_args :: "'w te_env \<Rightarrow> string \<Rightarrow> string \<Rightarrow> string list \<Rightarrow> ('w, te_errno) te" where
  "add_ps_args e ta ps_name args =
     for_rc (\<lambda>(i, arg). call_rc e (Ps ta ps_name (PsAddArg i arg))) (enumerate 1 args)"

definition describe_process ::
    "'w te_env \<Rightarrow> string \<Rightarrow> string \<Rightarrow> string \<Rightarrow> (string \<times> string) list \<Rightarrow> string list \<Rightarrow> ('w, te_errno) te" where
  "describe_process e ta ps_name prog envs args =
     rc_seq
       [call_rc e (Ps ta ps_name (PsAdd prog False)),
        add_ps_env e ta ps_name envs,
        add_ps_args e ta ps_name args]"

text \<open>The first argument is the program. (The vector is never empty; an index out of range
  is an assertion failure of \<open>te_vec\<close>.)\<close>

definition tsapi_blkproxy_init ::
    "'w te_env \<Rightarrow> tsapi_blkproxy_handle \<Rightarrow> tsapi_blkproxy_opts \<Rightarrow> ('w, te_errno \<times> tsapi_blkproxy_opts) te" where
  "tsapi_blkproxy_init e h opts =
     (let ta = rpcs_ta (bp_rpcs h); ps_name = bp_ps_name h in
     bnd (set_cpu_mask e ta opts) (\<lambda>(rc, opts). if rc \<noteq> 0 then ret (rc, opts) else
     bnd (build_blkproxy_args e h opts) (\<lambda>(rc, args, opts). if rc \<noteq> 0 then ret (rc, opts) else
     bnd (build_blkproxy_env e []) (\<lambda>(rc, envs). if rc \<noteq> 0 then ret (rc, opts) else
       (case args of
          [] \<Rightarrow> jump Failed
        | prog # rest \<Rightarrow>
            bnd (describe_process e ta ps_name prog envs rest) (\<lambda>rc. ret (rc, opts)))))))"

definition tsapi_blkproxy_kill_orphaned_stacks :: "'w te_env \<Rightarrow> rcf_rpc_server \<Rightarrow> ('w, te_errno) te" where
  "tsapi_blkproxy_kill_orphaned_stacks e rpcs =
     bnd (tsapi_use_onload e) (\<lambda>use_onload. if \<not> use_onload then ret 0 else
     bnd (te_call e (Rpc rpcs (RpcSystem ''onload_stackdump -z kill'')))
       (\<lambda>status. if r_num status \<noteq> 0 then ret TE_EFAIL else ret 0))"

definition tsapi_blkproxy_get_status ::
    "'w te_env \<Rightarrow> tsapi_blkproxy_handle \<Rightarrow> ('w, te_errno \<times> bool) te" where
  "tsapi_blkproxy_get_status e h =
     bnd (te_call e (Ps (rpcs_ta (bp_rpcs h)) (bp_ps_name h) PsGetStatus))
       (\<lambda>r. ret (r_rc r, r_bool r))"

definition tsapi_blkproxy_start :: "'w te_env \<Rightarrow> tsapi_blkproxy_handle \<Rightarrow> ('w, te_errno) te" where
  "tsapi_blkproxy_start e h =
     on_ok (tsapi_blkproxy_kill_orphaned_stacks e (bp_rpcs h))
    (on_ok (call_rc e (Ps (rpcs_ta (bp_rpcs h)) (bp_ps_name h) PsStart))
    (bnd (te_call e (Local (Sleep 15))) (\<lambda>_.
     bnd (tsapi_blkproxy_get_status e h)
       (\<lambda>(rc, status). if rc \<noteq> 0 then ret rc else if \<not> status then ret TE_EFAIL else ret 0))))"

definition tsapi_blkproxy_stop :: "'w te_env \<Rightarrow> tsapi_blkproxy_handle \<Rightarrow> ('w, te_errno) te" where
  "tsapi_blkproxy_stop e h = call_rc e (Ps (rpcs_ta (bp_rpcs h)) (bp_ps_name h) PsStop)"

section \<open>Configuration files\<close>

definition json_cmd :: "tsapi_blkproxy_handle \<Rightarrow> string" where
  "json_cmd h =
     (let dir = bp_config_local_dir h; name = bp_config_name h in
      dir @ ''/'' @ TSAPI_BLKPROXY_CONFIG_CONVERT_NAME @ '' < '' @ config_file_name dir name False @
      '' > '' @ config_file_name dir name True)"

definition create_blkproxy_json_config :: "'w te_env \<Rightarrow> tsapi_blkproxy_handle \<Rightarrow> ('w, te_errno) te" where
  "create_blkproxy_json_config e h =
     bnd (te_string_append e '''' (json_cmd h)) (\<lambda>(rc, cmd). if rc \<noteq> 0 then ret rc else
     bnd (te_call e (Local (LocalSystem cmd)))
       (\<lambda>r. if r_num r = - 1 then ret TE_EINVAL else ret 0))"

definition copy_config_to_agent :: "'w te_env \<Rightarrow> tsapi_blkproxy_handle \<Rightarrow> bool \<Rightarrow> ('w, te_errno) te" where
  "copy_config_to_agent e h json =
     bnd (get_local_config_name e h json) (\<lambda>local. case local of None \<Rightarrow> ret TE_ENOMEM | Some local \<Rightarrow>
     bnd (get_agent_config_name e h json) (\<lambda>remote. case remote of None \<Rightarrow> ret TE_ENOMEM | Some remote \<Rightarrow>
       call_rc e (Agent (TaPutFile (rpcs_ta (bp_rpcs h)) local remote))))"

definition copy_configs_to_agent :: "'w te_env \<Rightarrow> tsapi_blkproxy_handle \<Rightarrow> ('w, te_errno) te" where
  "copy_configs_to_agent e h = on_ok (copy_config_to_agent e h True) (copy_config_to_agent e h False)"

text \<open>The loop over the lines of a file gathers them in a buffer.\<close>

fun append_lines :: "'w te_env \<Rightarrow> string list \<Rightarrow> string \<Rightarrow> ('w, te_errno \<times> string) te" where
  "append_lines e [] str = ret (0, str)"
| "append_lines e (l # ls) str =
     bnd (te_string_append e str l)
       (\<lambda>(rc, str). if rc \<noteq> 0 then ret (rc, str) else append_lines e ls str)"

definition print_blkproxy_conf :: "'w te_env \<Rightarrow> tsapi_blkproxy_handle \<Rightarrow> ('w, te_errno) te" where
  "print_blkproxy_conf e h =
     bnd (get_local_config_name e h (\<not> bp_is_old_spdk h)) (\<lambda>path.
     bnd (te_call e (Local (LocalReadFile (ptr_str path)))) (\<lambda>r. case r_str r of
         None \<Rightarrow> ret (r_rc r)
       | Some contents \<Rightarrow> bnd (append_lines e (fgets_all 255 contents) '''') (\<lambda>(rc, _). ret rc)))"

definition expand_section_val ::
    "'w te_env \<Rightarrow> string \<Rightarrow> (string \<times> string) list \<Rightarrow> ('w, te_errno \<times> string) te" where
  "expand_section_val e val conf_params =
     bnd (te_string_append e '''' (printf0 e val)) (\<lambda>(rc, tmp). if rc \<noteq> 0 then ret (rc, '''') else
       (case te_replace_all e tmp ''${'' ''#{'' of (rc, tmp) \<Rightarrow>
          if rc \<noteq> 0 then ret (rc, '''') else ret (te_expand_kvpairs e tmp conf_params)))"

definition ensure_section ::
    "'w te_env \<Rightarrow> tsapi_conf_t \<Rightarrow> string \<Rightarrow> ('w, te_errno \<times> tsapi_conf_t) te" where
  "ensure_section e conf name =
     (case tsapi_conf_section_get conf name of
        None \<Rightarrow> tsapi_conf_create_section e conf name ''''
      | Some _ \<Rightarrow> ret (0, conf))"

text \<open>One configuration string: the value \<open>none\<close> is skipped, a value with \<open>#{\<close> is expanded.\<close>

definition add_conf_string ::
    "'w te_env \<Rightarrow> (string \<times> string) list \<Rightarrow> tsapi_conf_t \<Rightarrow> string \<Rightarrow> ('w, te_errno \<times> tsapi_conf_t) te" where
  "add_conf_string e params conf str =
     bnd (tsapi_conf_parse_string e str '''' no_kv) (\<lambda>(rc, name, kv).
       if rc \<noteq> 0 then ret (rc, conf)
       else if kv_value kv = ''none'' then ret (0, conf)
       else
     bnd (ensure_section e conf name) (\<lambda>(rc, conf). if rc \<noteq> 0 then ret (rc, conf) else
     bnd (if strstr (kv_value kv) ''#{'' \<noteq> None then expand_section_val e (kv_value kv) params
          else ret (0, kv_value kv)) (\<lambda>(rc, val). if rc \<noteq> 0 then ret (rc, conf) else
       conf_append e conf name (kv_key kv) val)))"

fun add_conf_strings ::
    "'w te_env \<Rightarrow> (string \<times> string) list \<Rightarrow> tsapi_conf_t \<Rightarrow> string list \<Rightarrow> ('w, te_errno \<times> tsapi_conf_t) te" where
  "add_conf_strings e params conf [] = ret (0, conf)"
| "add_conf_strings e params conf (str # strs) =
     bnd (add_conf_string e params conf str)
       (\<lambda>(rc, conf). if rc \<noteq> 0 then ret (rc, conf) else add_conf_strings e params conf strs)"

text \<open>The end of \<open>tsapi_blkproxy_create_conf\<close>: write the file, convert it, print it (a
  failure is only a warning) and copy both forms to the agent.\<close>

definition publish_conf ::
    "'w te_env \<Rightarrow> tsapi_blkproxy_handle \<Rightarrow> tsapi_conf_t \<Rightarrow> ('w, te_errno) te" where
  "publish_conf e h conf =
     bnd (get_local_config_name e h False) (\<lambda>path. case path of
         None \<Rightarrow> ret TE_EFAIL
       | Some path \<Rightarrow>
           on_ok (tsapi_conf_flush_local e conf path)
          (on_ok (if \<not> bp_is_old_spdk h then create_blkproxy_json_config e h else ret 0)
          (bnd (print_blkproxy_conf e h) (\<lambda>_. copy_configs_to_agent e h))))"

text \<open>The status of collecting the inventory parameters is overwritten before it is
  looked at.\<close>

definition tsapi_blkproxy_create_conf ::
    "'w te_env \<Rightarrow> tsapi_blkproxy_handle \<Rightarrow> string list \<Rightarrow> ('w, te_errno) te" where
  "tsapi_blkproxy_create_conf e h argv =
     bnd (tsapi_conf_opts_read e argv TSAPI_BLKPROXY_CONFIG_PREFIX []) (\<lambda>(rc, vec). if rc \<noteq> 0 then ret rc else
     bnd (tsapi_backend_get_mode e) (\<lambda>mode.
     bnd (tsapi_inventory_local_to_kv_pair e (tsapi_backend_mode2str mode) []) (\<lambda>(_, params).
     bnd (add_conf_strings e params TSAPI_CONF_INIT vec) (\<lambda>(rc, conf).
       if rc \<noteq> 0 then ret rc else publish_conf e h conf))))"

definition hugepages_inst :: "string \<Rightarrow> string" where
  "hugepages_inst ta = ''/agent:'' @ ta @ ''/mem:/hugepages:2048/mountpoint:$dev$hugepages-2M''"

definition do_mount_umount :: "'w te_env \<Rightarrow> tsapi_blkproxy_handle \<Rightarrow> bool \<Rightarrow> ('w, te_errno) te" where
  "do_mount_umount e h do_mount =
     (if do_mount then call_rc e (Cfg (CfgAdd (hugepages_inst (rpcs_ta (bp_rpcs h))) None))
      else call_rc e (Cfg (CfgDel (hugepages_inst (rpcs_ta (bp_rpcs h))))))"

definition tsapi_blkproxy_mount_hugepage_dir :: "'w te_env \<Rightarrow> tsapi_blkproxy_handle \<Rightarrow> ('w, te_errno) te" where
  "tsapi_blkproxy_mount_hugepage_dir e h = do_mount_umount e h True"

definition tsapi_blkproxy_umount_hugepage_dir :: "'w te_env \<Rightarrow> tsapi_blkproxy_handle \<Rightarrow> ('w, te_errno) te" where
  "tsapi_blkproxy_umount_hugepage_dir e h = do_mount_umount e h False"

section \<open>The sections of a created configuration\<close>

text \<open>A request: section, key and value, with the configuration string that expresses it.\<close>

type_synonym conf_request = "string \<times> string \<times> string"

definition conf_string :: "conf_request \<Rightarrow> string" where
  "conf_string req = (case req of (sec, key, val) \<Rightarrow> sec @ CHR ''-'' # key @ CHR ''='' # val)"

definition plain_request :: "conf_request \<Rightarrow> bool" where
  "plain_request req \<longleftrightarrow> (case req of (sec, key, val) \<Rightarrow>
     CHR ''-'' \<notin> set sec \<and> CHR ''='' \<notin> set key \<and> strstr val ''#{'' = None)"

definition stored_requests :: "conf_request list \<Rightarrow> (string \<times> tsapi_conf_kv) list" where
  "stored_requests reqs = map (\<lambda>(sec, key, val). (sec, \<lparr>kv_key = key, kv_value = val\<rparr>))
     (filter (\<lambda>(sec, key, val). val \<noteq> ''none'') reqs)"

abbreviation "conf_store_all \<equiv>
  store_all tsapi_conf_section_get (\<lambda>c n. add_section c n '''') add_item"

lemma ensure_section_ok:
  "mem_ok e \<Longrightarrow> ensure_section e conf name =
     ret (0, if tsapi_conf_section_get conf name = None then add_section conf name '''' else conf)"
  by (auto simp: ensure_section_def create_section_ok split: option.splits)

lemma add_conf_string_ok:
  assumes "mem_ok e" and "\<forall>n. heap_tail e n = []" and "plain_request (sec, key, val)"
  shows "add_conf_string e params conf (conf_string (sec, key, val)) =
    ret (0, conf_store_all conf (stored_requests [(sec, key, val)]))"
proof -
  let ?conf = "if tsapi_conf_section_get conf sec = None then add_section conf sec '''' else conf"
  have "sec \<in> set (section_names ?conf)"
    using section_get_None [of conf sec] by auto
  with assms show ?thesis
    by (simp add: add_conf_string_def conf_string_def plain_request_def parse_string_ok
        ensure_section_ok conf_append_ok stored_requests_def)
qed

lemma add_conf_strings_ok:
  assumes "mem_ok e" and "\<forall>n. heap_tail e n = []" and "\<forall>req \<in> set reqs. plain_request req"
  shows "add_conf_strings e params conf (map conf_string reqs) =
    ret (0, conf_store_all conf (stored_requests reqs))"
  using assms(3)
proof (induction reqs arbitrary: conf)
  case (Cons req reqs)
  obtain sec key val where "req = (sec, key, val)" by (cases req)
  with Cons show ?case by (simp add: add_conf_string_ok [OF assms(1,2)] stored_requests_def)
qed (simp add: stored_requests_def)



subsection \<open>The type of a configuration\<close>

text \<open>What holds of a configuration however far its creation came: names are distinct and have no dash, and
  the delimiter is the empty one that this package uses.\<close>

definition well_formed :: "tsapi_conf_t \<Rightarrow> bool" where
  "well_formed conf \<longleftrightarrow> distinct (section_names conf) \<and>
     list_all (\<lambda>sec. CHR ''-'' \<notin> set (sec_name sec) \<and> sec_delimiter sec = '''') (conf_sections conf)"

text \<open>When it was created, no section is empty.\<close>

definition filled :: "tsapi_conf_t \<Rightarrow> bool" where
  "filled conf \<longleftrightarrow> list_all (\<lambda>sec. sec_items sec \<noteq> []) (conf_sections conf)"

definition conf_typed :: "te_errno \<Rightarrow> tsapi_conf_t \<Rightarrow> bool" where
  "conf_typed rc conf \<longleftrightarrow> well_formed conf \<and> (rc = 0 \<longrightarrow> filled conf)"

lemma well_formed_add_item: "well_formed conf \<Longrightarrow> well_formed (add_item conf name kv)"
proof -
  have "list_all P (add_to_first name kv secs) \<longleftrightarrow> list_all P secs"
    if "\<And>sec items. P (sec\<lparr>sec_items := items\<rparr>) = P sec" for P secs
    using that by (induction secs) auto
  then show "well_formed conf \<Longrightarrow> well_formed (add_item conf name kv)"
    by (simp add: well_formed_def add_item_def section_names_def)
qed

lemma well_formed_add_section:
  "well_formed conf \<Longrightarrow> tsapi_conf_section_get conf name = None \<Longrightarrow> CHR ''-'' \<notin> set name \<Longrightarrow>
   well_formed (add_section conf name '''')"
  by (simp add: well_formed_def section_get_None) (simp add: add_section_def)

text \<open>Between the lookup and the item, the section of the item is the only one that may be empty.\<close>

definition filled_but :: "string \<Rightarrow> tsapi_conf_t \<Rightarrow> bool" where
  "filled_but name conf \<longleftrightarrow> list_all (\<lambda>sec. sec_name sec = name \<or> sec_items sec \<noteq> []) (conf_sections conf)"

lemma filled_add_item: "well_formed conf \<Longrightarrow> filled_but name conf \<Longrightarrow> filled (add_item conf name kv)"
proof -
  have "list_all (\<lambda>sec. sec_items sec \<noteq> []) (add_to_first name kv secs)"
    if "distinct (map sec_name secs)" "list_all (\<lambda>sec. sec_name sec = name \<or> sec_items sec \<noteq> []) secs" for secs
    using that
  proof (induction secs)
    case (Cons sec secs)
    have "sec_name sec = name \<Longrightarrow> list_all (\<lambda>sec. sec_items sec \<noteq> []) secs"
      using Cons.prems by (simp add: list_all_iff) (metis imageI)
    with Cons show ?case by auto
  qed simp
  then show "well_formed conf \<Longrightarrow> filled_but name conf \<Longrightarrow> filled (add_item conf name kv)"
    by (simp add: well_formed_def filled_but_def filled_def add_item_def section_names_def)
qed

lemma filled_add_section:
  "filled conf \<Longrightarrow> filled_but name (add_section conf name d)" "filled conf \<Longrightarrow> filled_but name conf"
  by (auto simp: filled_def filled_but_def add_section_def list_all_iff)

lemma ensure_section_type:
  assumes "well_formed conf" and "CHR ''-'' \<notin> set name"
  shows "obeys (ensure_section e conf name) (\<lambda>r t. \<exists>rc conf'. r = Val (rc, conf') \<and> well_formed conf' \<and>
    (rc = 0 \<longrightarrow> filled conf \<longrightarrow> filled_but name conf'))"
  using assms unfolding ensure_section_def tsapi_conf_create_section_def
  by (cases "tsapi_conf_section_get conf name")
     (auto intro!: ev well_formed_add_section filled_add_section(1) intro: filled_add_section(2))

lemma conf_append_type:
  assumes "well_formed conf"
  shows "obeys (conf_append e conf name key val) (\<lambda>r t. \<exists>rc conf'. r = Val (rc, conf') \<and> well_formed conf' \<and>
    (rc = 0 \<longrightarrow> filled_but name conf \<longrightarrow> filled conf'))"
  using assms unfolding conf_append_def tsapi_conf_append_def
  by (cases "tsapi_conf_section_get conf name")
     (auto intro!: ev well_formed_add_item filled_add_item)

lemma parsed_name:
  "obeys (tsapi_conf_parse_string e str '''' kv0) (\<lambda>r t. \<exists>rc name kv. r = Val (rc, name, kv) \<and>
     (rc = 0 \<longrightarrow> CHR ''-'' \<notin> set name))"
proof -
  have cut: "CHR ''-'' \<notin> set (te_string_cut str (length str - i))" if "strstr str ''-'' = Some i" for i
    using strstr_char_split [OF that] strstr_Some [OF that] by (auto simp: te_string_cut_def)
  have "obeys (extract_section_name e str ''-'' '''') (\<lambda>r t. \<exists>rc name. r = Val (rc, name) \<and> (rc = 0 \<longrightarrow> CHR ''-'' \<notin> set name))"
    unfolding extract_section_name_def
    by (auto intro!: ev split: option.split dest: cut)
  then show ?thesis
    unfolding tsapi_conf_parse_string_def extract_key_value_def
    by (intro obeys_bnd) (erule obeys_weaken, auto intro!: ev split: option.split)
qed

lemma add_conf_string_type:
  assumes "well_formed conf"
  shows "obeys (add_conf_string e params conf str) (\<lambda>r t. \<exists>rc conf'. r = Val (rc, conf') \<and> well_formed conf' \<and>
    (rc = 0 \<longrightarrow> filled conf \<longrightarrow> filled conf'))"
proof -
  have val: "obeys (if strstr v ''#{'' \<noteq> None then expand_section_val e v params else ret (0, v))
      (\<lambda>r t. \<exists>rc v'. r = Val (rc, v'))" for v
    unfolding expand_section_val_def by (auto intro!: ev split: prod.split)
  have item: "obeys (bnd m (\<lambda>(rc, val). if rc \<noteq> 0 then ret (rc, conf') else conf_append e conf' name key val))
      (\<lambda>r t. \<exists>rc conf''. r = Val (rc, conf'') \<and> well_formed conf'' \<and> (rc = 0 \<longrightarrow> filled conf \<longrightarrow> filled conf''))"
    if "well_formed conf'" "filled conf \<longrightarrow> filled_but name conf'" "obeys m (\<lambda>r t. \<exists>rc v. r = Val (rc, v))" for conf' name key m
    by (rule obeys_bnd, rule obeys_weaken [OF that(3)])
       (use that(1,2) in \<open>auto intro!: obeys_ret obeys_weaken [OF conf_append_type]\<close>)
  have found: "obeys (bnd (ensure_section e conf name) (\<lambda>(rc, conf). if rc \<noteq> 0 then ret (rc, conf) else
      bnd m (\<lambda>(rc, val). if rc \<noteq> 0 then ret (rc, conf) else conf_append e conf name key val)))
      (\<lambda>r t. \<exists>rc conf'. r = Val (rc, conf') \<and> well_formed conf' \<and> (rc = 0 \<longrightarrow> filled conf \<longrightarrow> filled conf'))"
    if "CHR ''-'' \<notin> set name" "obeys m (\<lambda>r t. \<exists>rc v. r = Val (rc, v))" for name key m
    by (rule obeys_bnd, rule obeys_weaken [OF ensure_section_type [OF assms that(1)]])
       (auto intro!: obeys_ret item that(2))
  have step: "obeys (if rc \<noteq> 0 then ret (rc, conf) else if kv_value kv = ''none'' then ret (0, conf) else
      bnd (ensure_section e conf name) (\<lambda>(rc, conf). if rc \<noteq> 0 then ret (rc, conf) else
      bnd m (\<lambda>(rc, val). if rc \<noteq> 0 then ret (rc, conf) else conf_append e conf name (kv_key kv) val)))
      (\<lambda>r t. \<exists>rc conf'. r = Val (rc, conf') \<and> well_formed conf' \<and> (rc = 0 \<longrightarrow> filled conf \<longrightarrow> filled conf'))"
    if "rc = 0 \<longrightarrow> CHR ''-'' \<notin> set name" "obeys m (\<lambda>r t. \<exists>rc v. r = Val (rc, v))" for rc name kv m
    using assms that by (auto intro!: obeys_ret found)
  show ?thesis unfolding add_conf_string_def
    by (rule obeys_bnd, rule obeys_weaken [OF parsed_name])
       (auto intro!: step val simp del: not_None_eq split del: if_split)
qed


section \<open>The process: correctness\<close>

fun is_ps :: "call \<Rightarrow> bool" where
  "is_ps (Ps _ _ _) = True"
| "is_ps _ = False"

abbreviation "ps_events t \<equiv> filter (\<lambda>ev. is_ps (fst ev)) t"

definition status_of :: "(te_errno \<times> 'a) outcome \<Rightarrow> te_errno outcome" where
  "status_of r = (case r of Val (rc, _) \<Rightarrow> Val rc | Jump v \<Rightarrow> Jump v)"

lemma status_of_simps [simp]: "status_of (Val (rc, x)) = Val rc" "status_of (Jump v) = Jump v"
  by (simp_all add: status_of_def)

text \<open>The calls that describe a process: the program, its environment, its arguments from
  number 1 on.\<close>

definition ps_description :: "string \<Rightarrow> string \<Rightarrow> string \<Rightarrow> (string \<times> string) list \<Rightarrow> string list \<Rightarrow> call list" where
  "ps_description ta name prog envs args =
     Ps ta name (PsAdd prog False) # map (\<lambda>(k, v). Ps ta name (PsAddEnv k v)) envs @
     map (\<lambda>(i, arg). Ps ta name (PsAddArg i arg)) (enumerate 1 args)"

lemma no_ps_onload_env_pairs: "obeys (onload_env_pairs e insts envs) (\<lambda>r t. ps_events t = [])"
  by (induction insts arbitrary: envs) (auto intro!: ev elim!: obeys_weaken)

lemma no_ps_use_onload: "obeys (tsapi_use_onload e) (\<lambda>r t. ps_events t = [])"
  unfolding tsapi_use_onload_def by (auto intro!: ev)

lemma no_ps_logflag_args: "obeys (logflag_args e toks args) (\<lambda>r t. t = [])"
  by (induction toks arbitrary: args) (auto intro!: ev elim!: obeys_weaken)

lemma no_ps_env: "obeys (build_blkproxy_env e envs) (\<lambda>r t. ps_events t = [])"
  unfolding build_blkproxy_env_def build_blk_proxy_onload_env_def
  by (auto intro!: ev obeys_weaken [OF no_ps_onload_env_pairs])

lemma no_ps_onload_args: "obeys (onload_args e) (\<lambda>r t. ps_events t = [])"
  unfolding onload_args_def tsapi_get_onload_path_def
  by (auto intro!: ev obeys_weaken [OF no_ps_use_onload])

lemma no_ps_fill_opts: "obeys (fill_opts e h opts) (\<lambda>r t. ps_events t = [])"
  unfolding fill_opts_def get_agent_config_name_def alloc_str_def tsapi_blkproxy_get_logflags_def
  by (auto intro!: ev)

lemma no_ps_create_logflags: "obeys (create_optional_logflags e str args) (\<lambda>r t. ps_events t = [])"
  unfolding create_optional_logflags_def by (auto intro!: ev obeys_weaken [OF no_ps_logflag_args])

lemma no_ps_args: "obeys (build_blkproxy_args e h opts) (\<lambda>r t. ps_events t = [])"
  unfolding build_blkproxy_args_def tsapi_blkproxy_bin_def
  by (auto intro!: ev obeys_weaken [OF no_ps_onload_args] obeys_weaken [OF no_ps_fill_opts]
      obeys_weaken [OF no_ps_create_logflags])

lemma no_ps_set_cpu_mask: "obeys (set_cpu_mask e ta opts) (\<lambda>r t. ps_events t = [])"
  unfolding set_cpu_mask_def by (auto intro!: ev)

text \<open>A loop of calls makes them in order.\<close>

lemma in_order_append:
  "in_order cs (Val 0) t \<Longrightarrow> in_order (cs @ cs') r (t @ t') = in_order cs' r t'"
  by (auto simp: in_order_def)

lemma in_order_stop: "in_order cs (Val rc) t \<Longrightarrow> rc \<noteq> 0 \<Longrightarrow> in_order (cs @ cs') (Val rc) t"
  by (auto simp: in_order_def dest: arg_cong [where f = length])

lemma in_order_jump: "in_order cs (Jump v) t \<Longrightarrow> in_order (cs @ cs') (Jump v) t"
  by (auto simp: in_order_def dest: arg_cong [where f = length])

lemma obeys_calls:
  "obeys (for_rc (\<lambda>x. call_rc e (f x)) xs) (\<lambda>r t. in_order (map f xs) r t)" if "\<And>x. \<not> is_rpc (f x)"
proof (rule obeys_for_rc [where T = "\<lambda>x r t. \<exists>a. t = [(f x, a)] \<and> r = Val (r_rc a)"])
  show "obeys (call_rc e (f x)) (\<lambda>r t. \<exists>a. t = [(f x, a)] \<and> r = Val (r_rc a))" for x
    using that by (auto intro!: ev)
qed auto

lemma ps_events_all: "list_all is_ps cs \<Longrightarrow> in_order cs r t \<Longrightarrow> ps_events t = t"
proof -
  assume cs: "list_all is_ps cs" and t: "in_order cs r t"
  have "is_ps (fst ev)" if "ev \<in> set t" for ev
  proof -
    have "fst ev \<in> set (map fst t)" using that by simp
    with t have "fst ev \<in> set cs" by (metis in_order_def in_set_takeD)
    with cs show ?thesis by (simp add: list_all_iff)
  qed
  then show ?thesis by (simp add: filter_id_conv)
qed

lemma obeys_on_ok_in_order:
  assumes "obeys m (in_order cs)" and "obeys k (in_order cs')"
  shows "obeys (on_ok m k) (in_order (cs @ cs'))"
  by (rule obeys_on_ok, rule obeys_weaken [OF assms(1)])
     (auto intro: in_order_stop in_order_jump obeys_weaken [OF assms(2)] simp: in_order_append)

lemma obeys_rc_seq_in_order:
  assumes "list_all2 (\<lambda>m cs. obeys m (in_order cs)) ms css"
  shows "obeys (rc_seq ms) (in_order (concat css))"
  using assms
proof (induction ms css rule: list_all2_induct)
  case Nil
  then show ?case by (auto intro!: ev)
next
  case (Cons m ms cs css)
  then show ?case by (simp add: obeys_on_ok_in_order)
qed

lemma describe_ps:
  "obeys (describe_process e ta name prog envs args) (in_order (ps_description ta name prog envs args))"
proof -
  have env: "obeys (add_ps_env e ta name envs) (in_order (map (\<lambda>(k, v). Ps ta name (PsAddEnv k v)) envs))"
    using obeys_calls [where f = "\<lambda>(k, v). Ps ta name (PsAddEnv k v)" and e = e and xs = envs]
    by (simp add: add_ps_env_def case_prod_unfold)
  have arg: "obeys (add_ps_args e ta name args)
      (in_order (map (\<lambda>(i, arg). Ps ta name (PsAddArg i arg)) (enumerate 1 args)))"
    using obeys_calls [where f = "\<lambda>(i, arg). Ps ta name (PsAddArg i arg)" and e = e and xs = "enumerate 1 args"]
    by (simp add: add_ps_args_def case_prod_unfold)
  have prg: "obeys (call_rc e (Ps ta name (PsAdd prog False))) (in_order [Ps ta name (PsAdd prog False)])"
    by (auto intro!: ev)
  have "obeys (describe_process e ta name prog envs args) (in_order (concat
      [[Ps ta name (PsAdd prog False)], map (\<lambda>(k, v). Ps ta name (PsAddEnv k v)) envs,
       map (\<lambda>(i, arg). Ps ta name (PsAddArg i arg)) (enumerate 1 args)]))"
    unfolding describe_process_def
    by (intro obeys_rc_seq_in_order list.rel_intros env arg prg)
  then show ?thesis by (simp add: ps_description_def)
qed

lemma ps_description_all: "list_all is_ps (ps_description ta name prog envs args)"
  by (auto simp: ps_description_def list_all_iff)


definition starting :: "call \<Rightarrow> bool" where
  "starting c \<longleftrightarrow> is_ps c \<or> (\<exists>n. c = Local (Sleep n))"

lemma starting_simps [simp]:
  "starting (Ps ta name op)" "starting (Local (Sleep n))" "\<not> starting (Cfg x)" "\<not> starting (Rpc r op2)"
  by (auto simp: starting_def)

lemma not_starting_kill:
  "obeys (tsapi_blkproxy_kill_orphaned_stacks e rpcs) (\<lambda>r t. filter (\<lambda>ev. starting (fst ev)) t = [])"
  unfolding tsapi_blkproxy_kill_orphaned_stacks_def tsapi_use_onload_def
  by (auto intro!: ev)

text \<open>
  C3. \<open>tsapi_blkproxy_start\<close> starts the process, waits 15 seconds and asks for its status, in this
  order and before anything else about the process; it returns 0 only
  when the process was then reported to run.
\<close>

theorem blkproxy_start_checks_status:
  "obeys (tsapi_blkproxy_start e h) (\<lambda>res t.
     in_order [Ps (rpcs_ta (bp_rpcs h)) (bp_ps_name h) PsStart, Local (Sleep 15),
               Ps (rpcs_ta (bp_rpcs h)) (bp_ps_name h) PsGetStatus]
       res (filter (\<lambda>ev. starting (fst ev)) t) \<and>
     (res = Val 0 \<longrightarrow> r_rc (snd (last t)) = 0 \<and> r_bool (snd (last t))))"
  unfolding tsapi_blkproxy_start_def tsapi_blkproxy_get_status_def
  by (auto intro!: ev obeys_weaken [OF not_starting_kill])

definition sample_handle :: tsapi_blkproxy_handle where
  "sample_handle =
     \<lparr>bp_rpcs = \<lparr>rpcs_ta = ''Agt_ARM'', rpcs_name = ''pco''\<rparr>, bp_ps_name = ''blk-proxy'',
      bp_config_name = ''bp_map'', bp_config_local_dir = ''/l'', bp_config_agent_dir = ''/a'',
      bp_is_old_spdk = False\<rparr>"

lemma blkproxy_start_checks_status_witness:
  "fst (tsapi_blkproxy_start calm_env sample_handle (calm_sys [])) = Val 0 \<and>
   r_bool (snd (last (trace (snd (tsapi_blkproxy_start calm_env sample_handle (calm_sys []))))))"
proof -
  have "fst (tsapi_blkproxy_start calm_env sample_handle (calm_sys [])) = Val 0" by code_simp
  with obeys_at [OF blkproxy_start_checks_status [of calm_env sample_handle], of "calm_sys []"]
  show ?thesis by simp
qed

end
