(* ===== verification/Blkproxy_Log.thy ===== *)
theory Blkproxy_Log
  imports Blkproxy
begin

text \<open>
  The logging half of \<open>src/block-ts/lib/tsapi-blkproxy.c\<close>: the blk-proxy configuration is
  summed up as measurement keys: the number of devices, the threads of each CPU mask, and
  whether the read and write masks of a device cross its reactor mask.
\<close>

unbundle bit_operations_syntax

definition TSAPI_BLKPROXY_PROXY_DEV_PREFIX :: string where
  "TSAPI_BLKPROXY_PROXY_DEV_PREFIX = ''MapVirtioBlk''"

definition mi_meas_key :: "'w te_env \<Rightarrow> handle \<Rightarrow> string \<Rightarrow> string \<Rightarrow> ('w, te_errno) te" where
  "mi_meas_key e logger key val = call_rc e (Tool (MiMeasKey logger key val))"

section \<open>Counting bits\<close>

text \<open>Clearing the lowest set bit makes a word smaller.\<close>

lemma clear_lowest_less:
  fixes m :: "64 word"
  assumes "m \<noteq> 0"
  shows "unat (m AND (m - 1)) < unat m"
proof -
  have "unat (m AND (m - 1)) \<le> unat (m - 1)"
    by (metis word_and_le1 word_le_nat_alt)
  also have "unat (m - 1) = unat m - 1"
    using assms by (rule unat_minus_one)
  also have "\<dots> < unat m"
    using assms by (simp add: unat_eq_0 [symmetric] del: unat_eq_0)
  finally show ?thesis .
qed

text \<open>\<open>for (; mask != 0; (*count)++) mask &= (mask - 1);\<close>\<close>

function count_bits :: "64 word \<Rightarrow> 32 word \<Rightarrow> 32 word" where
  "count_bits msk count =
     (if msk \<noteq> 0 then count_bits (msk AND (msk - 1)) (count + 1) else count)"
  by pat_completeness auto
termination
  by (relation "measure (\<lambda>(msk, count). unat msk)") (auto intro: clear_lowest_less)

declare count_bits.simps [simp del]

definition count_bits_in_mask :: "'w te_env \<Rightarrow> string \<Rightarrow> te_errno \<times> 32 word" where
  "count_bits_in_mask e mask_str =
     (case te_strtoul e mask_str 16 of
        (rc, msk) \<Rightarrow> if rc \<noteq> 0 then (rc, 0) else (0, count_bits msk 0))"

section \<open>Masks\<close>

definition map_bp_conf_mask2mi_log_mask :: "string \<Rightarrow> string option" where
  "map_bp_conf_mask2mi_log_mask mask_name =
     map_of [(''Cpumask'', ''Q''), (''R_Cpumask'', ''R''), (''W_Cpumask'', ''W'')] mask_name"

text \<open>The device number is a \<open>long\<close> printed with \<open>%d\<close>: its low 32 bits.\<close>

definition dev_str :: "int \<Rightarrow> string" where
  "dev_str dev_number = ''Dev'' @ dec_of_int (sint (word_of_int dev_number :: 32 word))"

definition add_thread_mask_to_mi_log ::
    "'w te_env \<Rightarrow> handle \<Rightarrow> int \<Rightarrow> string \<Rightarrow> string \<Rightarrow> ('w, te_errno) te" where
  "add_thread_mask_to_mi_log e logger dev_number mask_name mask_value =
     bnd (te_string_append e '''' (dev_str dev_number @ ''-'' @ mask_name @ ''-Threads''))
       (\<lambda>(rc, key). if rc \<noteq> 0 then ret rc else
        (case count_bits_in_mask e mask_value of
           (rc, bits_count) \<Rightarrow> if rc \<noteq> 0 then ret rc
             else mi_meas_key e logger key (dec_of_int (sint bits_count))))"

text \<open>The keys and the values of the masks are appended to two buffers.\<close>

fun qrw_loop ::
    "'w te_env \<Rightarrow> (string \<times> string) list \<Rightarrow> string \<Rightarrow> string \<Rightarrow> ('w, te_errno \<times> string \<times> string) te" where
  "qrw_loop e [] keys vals = ret (0, keys, vals)"
| "qrw_loop e ((k, v) # masks) keys vals =
     bnd (te_string_append e keys k) (\<lambda>(rc, keys). if rc \<noteq> 0 then ret (rc, keys, vals) else
     bnd (te_string_append e vals (v @ '','')) (\<lambda>(rc, vals). if rc \<noteq> 0 then ret (rc, keys, vals) else
       qrw_loop e masks keys vals))"

definition add_qrw_masks_to_mi_log ::
    "'w te_env \<Rightarrow> handle \<Rightarrow> (string \<times> string) list \<Rightarrow> int \<Rightarrow> ('w, te_errno) te" where
  "add_qrw_masks_to_mi_log e logger masks dev_number =
     bnd (te_string_append e '''' (dev_str dev_number @ ''-'')) (\<lambda>(rc, keys). if rc \<noteq> 0 then ret rc else
     bnd (qrw_loop e masks keys '''') (\<lambda>(rc, keys, vals). if rc \<noteq> 0 then ret rc else
     bnd (te_string_append e keys ''-Mask'') (\<lambda>(rc, keys). if rc \<noteq> 0 then ret rc else
       mi_meas_key e logger keys vals)))"

text \<open>\<open>CHECK_CROSS_MASK\<close>: a mask that is not given leaves the crossing as it is.\<close>

definition check_cross_mask ::
    "'w te_env \<Rightarrow> (string \<times> string) list \<Rightarrow> string \<Rightarrow> (64 word \<Rightarrow> 64 word \<Rightarrow> 64 word) \<Rightarrow>
     64 word \<Rightarrow> te_errno \<times> 64 word" where
  "check_cross_mask e masks mask_name oper crossed =
     (case te_kvpairs_get e masks mask_name of
        None \<Rightarrow> (0, crossed)
      | Some v \<Rightarrow> (case te_strtoul e v 16 of (rc, msk) \<Rightarrow> (rc, if rc \<noteq> 0 then crossed else oper crossed msk)))"

definition crossed_mask :: "'w te_env \<Rightarrow> (string \<times> string) list \<Rightarrow> te_errno \<times> 64 word" where
  "crossed_mask e masks =
     (case check_cross_mask e masks ''W'' (OR) 0 of (rc, m) \<Rightarrow> if rc \<noteq> 0 then (rc, m) else
      case check_cross_mask e masks ''R'' (OR) m of (rc, m) \<Rightarrow> if rc \<noteq> 0 then (rc, m) else
      check_cross_mask e masks ''Q'' (AND) m)"

definition add_crossed_masks_info_to_mi_log ::
    "'w te_env \<Rightarrow> handle \<Rightarrow> (string \<times> string) list \<Rightarrow> int \<Rightarrow> ('w, te_errno) te" where
  "add_crossed_masks_info_to_mi_log e logger masks dev_number =
     bnd (te_string_append e '''' (dev_str dev_number @ ''-Threads-Crossed''))
       (\<lambda>(rc, key). if rc \<noteq> 0 then ret rc else
        (case crossed_mask e masks of
           (rc, m) \<Rightarrow> if rc \<noteq> 0 then ret rc
             else mi_meas_key e logger key (if m = 0 then ''FALSE'' else ''TRUE'')))"

section \<open>Sections\<close>

text \<open>The loop over the items of a device section. The status of logging one mask is not
  looked at.\<close>

fun mapvirtblk_items ::
    "'w te_env \<Rightarrow> handle \<Rightarrow> int \<Rightarrow> tsapi_conf_kv list \<Rightarrow> (string \<times> string) list \<Rightarrow>
     ('w, te_errno \<times> (string \<times> string) list) te" where
  "mapvirtblk_items e logger dev_number [] masks = ret (0, masks)"
| "mapvirtblk_items e logger dev_number (item # items) masks =
     (case map_bp_conf_mask2mi_log_mask (kv_key item) of
        None \<Rightarrow> mapvirtblk_items e logger dev_number items masks
      | Some mi_mask_name \<Rightarrow>
          bnd (add_thread_mask_to_mi_log e logger dev_number mi_mask_name (kv_value item)) (\<lambda>_.
            (case te_kvpair_add e masks mi_mask_name (kv_value item) of
               (rc, masks) \<Rightarrow> if rc \<noteq> 0 then ret (rc, masks)
                 else mapvirtblk_items e logger dev_number items masks)))"

definition add_mapvirtblk_section_to_mi_log ::
    "'w te_env \<Rightarrow> handle \<Rightarrow> tsapi_conf_section \<Rightarrow> ('w, te_errno) te" where
  "add_mapvirtblk_section_to_mi_log e logger sec =
     (case te_strtol e (drop (length TSAPI_BLKPROXY_PROXY_DEV_PREFIX) (sec_name sec)) 10 of
        (rc, dev_number) \<Rightarrow> if rc \<noteq> 0 then ret rc else
     bnd (mapvirtblk_items e logger dev_number (sec_items sec) []) (\<lambda>(rc, masks). if rc \<noteq> 0 then ret rc else
     on_ok (add_crossed_masks_info_to_mi_log e logger masks dev_number)
           (add_qrw_masks_to_mi_log e logger masks dev_number)))"

definition add_dev_type_section_to_mi_log ::
    "'w te_env \<Rightarrow> handle \<Rightarrow> tsapi_conf_section \<Rightarrow> ('w, te_errno) te" where
  "add_dev_type_section_to_mi_log e logger sec = mi_meas_key e logger ''Dev-Type'' (sec_name sec)"

definition is_dev_section :: "'w te_env \<Rightarrow> tsapi_conf_section \<Rightarrow> bool" where
  "is_dev_section e sec \<longleftrightarrow> strcmp_start e TSAPI_BLKPROXY_PROXY_DEV_PREFIX (sec_name sec) = 0"

definition add_dev_count_to_mi_log :: "'w te_env \<Rightarrow> handle \<Rightarrow> tsapi_conf_t \<Rightarrow> ('w, te_errno) te" where
  "add_dev_count_to_mi_log e logger conf =
     mi_meas_key e logger ''Dev''
       (dec_of_nat (length (filter (is_dev_section e) (conf_sections conf))))"

text \<open>Device sections are logged one by one, and the first other section as the device
  type.\<close>

fun mi_log_sections ::
    "'w te_env \<Rightarrow> handle \<Rightarrow> tsapi_conf_section list \<Rightarrow> bool \<Rightarrow> ('w, te_errno) te" where
  "mi_log_sections e logger [] is_dev_type_add = ret 0"
| "mi_log_sections e logger (sec # secs) is_dev_type_add =
     (if is_dev_section e sec
      then on_ok (add_mapvirtblk_section_to_mi_log e logger sec)
                 (mi_log_sections e logger secs is_dev_type_add)
      else if \<not> is_dev_type_add
      then on_ok (add_dev_type_section_to_mi_log e logger sec) (mi_log_sections e logger secs True)
      else mi_log_sections e logger secs is_dev_type_add)"

definition tsapi_blkproxy_add_conf_to_mi_log ::
    "'w te_env \<Rightarrow> handle \<Rightarrow> tsapi_conf_t \<Rightarrow> bool \<Rightarrow> ('w, te_errno) te" where
  "tsapi_blkproxy_add_conf_to_mi_log e logger conf multipath =
     on_ok (mi_meas_key e logger ''Multipath'' (if multipath then ''True'' else ''False''))
    (on_ok (add_dev_count_to_mi_log e logger conf)
           (mi_log_sections e logger (conf_sections conf) False))"

section \<open>Counting bits: correctness\<close>

fun popcount :: "nat \<Rightarrow> nat" where
  "popcount n = (if n = 0 then 0 else n mod 2 + popcount (n div 2))"

declare popcount.simps [simp del]

lemma popcount_double [simp]: "popcount (2 * n) = popcount n"
  by (cases "n = 0") (simp_all add: popcount.simps [of "2 * n"])

lemma popcount_odd [simp]: "popcount (Suc (2 * n)) = Suc (popcount n)"
  by (simp add: popcount.simps [of "Suc (2 * n)"])

lemma and_even_odd: "(2 * a) AND Suc (2 * b) = 2 * (a AND (b :: nat))"
  by (simp add: and_nat_rec [of "2 * a"])

lemma and_odd_even: "Suc (2 * a) AND (2 * a) = 2 * (a :: nat)"
  by (simp add: and_nat_rec [of "Suc (2 * a)"])

lemma popcount_clear: "0 < n \<Longrightarrow> popcount n = Suc (popcount (n AND (n - 1)))"
proof (induction n rule: less_induct)
  case (less n)
  show ?case
  proof (cases "even n")
    case True
    then obtain y where y: "n = 2 * y" by (auto elim: evenE)
    with less.prems obtain z where z: "y = Suc z" by (cases y) auto
    have "n AND (n - 1) = 2 * (y AND z)" using and_even_odd [of y z] by (simp add: y z)
    moreover have "popcount n = popcount (Suc z)" using popcount_double [of "Suc z"] by (simp add: y z)
    ultimately show ?thesis using less.IH [of y] by (simp add: y z)
  next
    case False
    then obtain y where y: "n = Suc (2 * y)" by (auto elim: oddE)
    then show ?thesis using and_odd_even [of y] by simp
  qed
qed

lemma popcount_card: "popcount n = card {i. bit n i} \<and> finite {i. bit n i}"
proof (induction n rule: popcount.induct)
  case (1 n)
  show ?case
  proof (cases "n = 0")
    case True
    then show ?thesis by (simp add: popcount.simps)
  next
    case False
    have bits: "{i. bit n i} = (if odd n then {0} else {}) \<union> Suc ` {i. bit (n div 2) i}"
    proof (rule set_eqI)
      show "i \<in> {i. bit n i} \<longleftrightarrow> i \<in> (if odd n then {0} else {}) \<union> Suc ` {i. bit (n div 2) i}" for i
        by (cases i) (auto simp: bit_0 bit_Suc)
    qed
    have "card (Suc ` {i. bit (n div 2) i}) = card {i. bit (n div 2) i}"
      by (rule card_image) simp
    with 1 False bits show ?thesis
      by (auto simp: popcount.simps [of n] card_insert_if odd_iff_mod_2_eq_one)
  qed
qed

lemma count_bits_popcount: "count_bits m c = c + of_nat (popcount (unat m))"
proof (induction m c rule: count_bits.induct)
  case (1 m c)
  show ?case
  proof (cases "m = 0")
    case True
    then show ?thesis by (simp add: count_bits.simps popcount.simps)
  next
    case False
    then have "unat (m AND (m - 1)) = unat m AND (unat m - 1)"
      by (simp add: unsigned_and_eq unat_minus_one)
    moreover have "popcount (unat m) = Suc (popcount (unat m AND (unat m - 1)))"
      using False by (intro popcount_clear) (simp add: unat_gt_0)
    ultimately show ?thesis using 1 False by (simp add: count_bits.simps [of m])
  qed
qed

text \<open>
  C32. The loop that counts the threads of a CPU mask ends for every mask and counts its set bits.
\<close>

theorem count_bits_correct: "count_bits m 0 = of_nat (card {i. bit m i})"
proof -
  have "{i. bit (unat m) i} = {i. bit m i}" by (simp add: bit_unsigned_iff)
  then show ?thesis using popcount_card [of "unat m"] by (simp add: count_bits_popcount)
qed

lemma count_bits_of_masks: "count_bits 0xFE 0 = 7" "count_bits 0xFFFE 0 = 15"
  by code_simp+

section \<open>Crossed masks: correctness\<close>

definition mask_or :: "'w te_env \<Rightarrow> (string \<times> string) list \<Rightarrow> string \<Rightarrow> 64 word \<Rightarrow> 64 word" where
  "mask_or e masks name d =
     (case te_kvpairs_get e masks name of None \<Rightarrow> d | Some v \<Rightarrow> snd (te_strtoul e v 16))"

definition masks_parse :: "'w te_env \<Rightarrow> (string \<times> string) list \<Rightarrow> bool" where
  "masks_parse e masks \<longleftrightarrow> (\<forall>name \<in> {''W'', ''R'', ''Q''}.
     case te_kvpairs_get e masks name of None \<Rightarrow> True | Some v \<Rightarrow> fst (te_strtoul e v 16) = 0)"

lemma check_cross_mask_ok:
  assumes "masks_parse e masks" and "name \<in> {''W'', ''R'', ''Q''}"
  shows "check_cross_mask e masks name oper crossed =
    (0, case te_kvpairs_get e masks name of None \<Rightarrow> crossed | Some v \<Rightarrow> oper crossed (mask_or e masks name 0))"
  using assms by (auto simp: check_cross_mask_def masks_parse_def mask_or_def split: option.splits prod.splits)

text \<open>
  C33. With masks that parse, the crossing is the union of the write and read masks, cut with
  the reactor mask; a missing read or write mask counts as empty, and a missing reactor mask
  as full: then every device with a thread is reported as crossed.
\<close>

theorem crossed_mask_correct:
  assumes "masks_parse e masks"
  shows "crossed_mask e masks =
    (0, (mask_or e masks ''W'' 0 OR mask_or e masks ''R'' 0) AND mask_or e masks ''Q'' (- 1))"
  using assms
  by (auto simp: crossed_mask_def check_cross_mask_ok mask_or_def split: option.splits)

lemma crossed_mask_correct_witness:
  "crossed_mask calm_env [(''W'', ''0x6''), (''R'', ''8''), (''Q'', ''c'')] = (0, 0xc)"
proof -
  have "masks_parse calm_env [(''W'', ''0x6''), (''R'', ''8''), (''Q'', ''c'')]" by code_simp
  from crossed_mask_correct [OF this] show ?thesis by (simp only:) code_simp
qed

end
