(* ===== verification/Fio.thy ===== *)
theory Fio
  imports Blkproxy_Log "HOL-Library.Signed_Division"
begin

text \<open>
  \<open>src/block-ts/lib/tsapi-fio.c\<close>: reading the options of the FIO tool from the test
  parameters, how long to wait for it, running it on several devices from forked RPC
  servers, and logging its arguments.
\<close>

section \<open>Options\<close>

text \<open>Test parameters: a missing or ill-formed one fails the test inside TE.\<close>

definition test_param_str :: "'w te_env \<Rightarrow> string \<Rightarrow> ('w, string) te" where
  "test_param_str e name =
     bnd (te_call e (Test (GetParam name))) (\<lambda>r. if r_rc r \<noteq> 0 then jump Failed else ret (out_str r))"

definition test_param_num :: "'w te_env \<Rightarrow> string \<Rightarrow> ('w, 32 word) te" where
  "test_param_num e name =
     bnd (te_call e (Test (GetParam name)))
       (\<lambda>r. if r_rc r \<noteq> 0 then jump Failed else ret (word_of_int (r_num r)))"

definition test_has_param :: "'w te_env \<Rightarrow> string \<Rightarrow> ('w, bool) te" where
  "test_has_param e name = bnd (te_call e (Test (FindParam name))) (\<lambda>r. ret (r_bool r))"

definition fio_suffix :: "string \<Rightarrow> string \<Rightarrow> string" where
  "fio_suffix opt sfx = take 255 (opt @ sfx)"

text \<open>\<open>FIO_HAS_PARAM(name, suffix)\<close> ignores the suffix: it looks the bare name up. The value
  is read under the name with the suffix.\<close>

definition fio_optional :: "'w te_env \<Rightarrow> string \<Rightarrow> string \<Rightarrow> string option \<Rightarrow> ('w, string option) te" where
  "fio_optional e name sfx old =
     bnd (test_has_param e name) (\<lambda>has. if \<not> has then ret old
       else bnd (test_param_str e (fio_suffix name sfx)) (\<lambda>v. ret (Some v)))"

definition tsapi_fio_opts_read_suf ::
    "'w te_env \<Rightarrow> tapi_fio_opts \<Rightarrow> string \<Rightarrow> ('w, tapi_fio_opts) te" where
  "tsapi_fio_opts_read_suf e opts sfx =
     bnd (test_param_num e (fio_suffix ''blocksize'' sfx)) (\<lambda>blocksize.
     bnd (test_param_str e (fio_suffix ''ioengine'' sfx)) (\<lambda>ioengine.
     bnd (test_param_str e (fio_suffix ''rwtype'' sfx)) (\<lambda>rwtype.
     bnd (test_param_num e (fio_suffix ''runtime_sec'' sfx)) (\<lambda>runtime_sec.
     bnd (test_param_num e (fio_suffix ''iodepth'' sfx)) (\<lambda>iodepth.
     bnd (test_param_num e (fio_suffix ''numjobs'' sfx)) (\<lambda>numjobs.
     bnd (test_param_num e (fio_suffix ''rwmixread'' sfx)) (\<lambda>rwmixread.
     bnd (fio_optional e ''name'' sfx (fio_name opts)) (\<lambda>name.
     bnd (fio_optional e ''user'' sfx (fio_user opts)) (\<lambda>user.
     bnd (fio_optional e ''rbdname'' sfx (fio_rbdname opts)) (\<lambda>rbdname.
     bnd (fio_optional e ''pool'' sfx (fio_pool opts)) (\<lambda>pool.
     bnd (fio_optional e ''size'' sfx (fio_size opts)) (\<lambda>sz.
       ret (opts\<lparr>fio_direct := True, fio_rand_gen := Some ''tausworthe64'',
                 fio_blocksize := blocksize, fio_ioengine := ioengine, fio_rwtype := rwtype,
                 fio_runtime_sec := runtime_sec, fio_iodepth := iodepth, fio_numjobs := numjobs,
                 fio_rwmixread := rwmixread, fio_name := name, fio_user := user,
                 fio_rbdname := rbdname, fio_pool := pool, fio_size := sz\<rparr>)))))))))))))"

definition tsapi_fio_opts_read ::
    "'w te_env \<Rightarrow> tapi_fio_opts \<Rightarrow> string \<Rightarrow> ('w, tapi_fio_opts) te" where
  "tsapi_fio_opts_read e opts ta =
     bnd (tsapi_get_devices e ta) (\<lambda>(rc, blocks). case blocks of
         None \<Rightarrow> jump Failed
       | Some blocks \<Rightarrow> if rc \<noteq> 0 then jump Failed
           else tsapi_fio_opts_read_suf e (opts\<lparr>fio_filename := Some (hd blocks)\<rparr>) '''')"

section \<open>Waiting\<close>

text \<open>\<open>round(300 * numjobs / max)\<close> on non-negative numbers: halves are rounded up.\<close>

definition round_ratio :: "int \<Rightarrow> int \<Rightarrow> int" where
  "round_ratio a b = (2 * a + b) div (2 * b)"

text \<open>All variables are \<open>int16_t\<close>; sums are computed as \<open>int\<close> (the first one as a floating
  point number) and cut to 16 bits when they are stored.\<close>

definition get_timeout :: "'w te_env \<Rightarrow> tapi_fio_opts \<Rightarrow> 16 word \<Rightarrow> 16 word" where
  "get_timeout e opts additional_timeout =
     (let error = 30; five_minutes = 5 * 60;
          timeout = word_of_int (sint (fio_runtime_sec opts)
            + round_ratio (five_minutes * uint (fio_numjobs opts)) (int (fio_max_numjobs e)) + error) :: 16 word
      in if sint timeout > 0 then timeout + additional_timeout else timeout)"

text \<open>\<open>TE_SEC2MS(60)\<close> is 60000, passed as \<open>int16_t\<close>.\<close>

definition flex_timeout :: "'w te_env \<Rightarrow> tapi_fio_opts \<Rightarrow> 16 word" where
  "flex_timeout e opts =
     (if fio_numjobs opts > 248 \<or> fio_blocksize opts > 1024
      then get_timeout e opts (word_of_int 60000) else fio_timeout_default e)"

text \<open>A FIO instance: the handle of TE with the options it was created with.\<close>

record tapi_fio =
  fio_handle :: handle
  fio_opts :: tapi_fio_opts

definition tsapi_fio_flex_wait :: "'w te_env \<Rightarrow> tapi_fio \<Rightarrow> ('w, te_errno) te" where
  "tsapi_fio_flex_wait e fio =
     call_rc e (Tool (FioWait (fio_handle fio) (sint (flex_timeout e (fio_opts fio)))))"

text \<open>Creation always reports success; the instance may be NULL.\<close>

definition tsapi_fio_create ::
    "'w te_env \<Rightarrow> tapi_fio_opts \<Rightarrow> handle \<Rightarrow> string option \<Rightarrow> ('w, te_errno \<times> tapi_fio) te" where
  "tsapi_fio_create e options factory ta =
     bnd (case ta of None \<Rightarrow> ret (stale_buf e) | Some ta \<Rightarrow> agt_path e ta ''fio'') (\<lambda>path.
     bnd (te_call e (Tool (FioCreate factory path options)))
       (\<lambda>r. ret (0, \<lparr>fio_handle = handle_of 0 r, fio_opts = options\<rparr>)))"

section \<open>Several instances\<close>

record tsapi_fio_context =
  ctx_fio :: tapi_fio
  ctx_opts :: tapi_fio_opts
  ctx_forked_rpcs :: "rcf_rpc_server option"
  ctx_forked_factory :: handle

definition forked_name :: "nat \<Rightarrow> string" where
  "forked_name i = ''fio'' @ dec_of_nat i"

text \<open>One pass of the loop: the process, the default options, the factory.\<close>

definition multi_init_one ::
    "'w te_env \<Rightarrow> rcf_rpc_server \<Rightarrow> nat \<Rightarrow> ('w, te_errno \<times> tsapi_fio_context) te" where
  "multi_init_one e rpcs i =
     bnd (te_string_append e '''' (forked_name i)) (\<lambda>(_, name).
     bnd (call_rc e (Agent (RpcsCreateProcess rpcs name))) (\<lambda>rc.
       let forked = \<lparr>rpcs_ta = rpcs_ta rpcs, rpcs_name = name\<rparr>;
           ctx = \<lparr>ctx_fio = \<lparr>fio_handle = 0, fio_opts = fio_defaults e\<rparr>, ctx_opts = fio_defaults e,
                  ctx_forked_rpcs = (if rc = 0 then Some forked else None), ctx_forked_factory = 0\<rparr>
       in if rc \<noteq> 0 then ret (rc, ctx)
          else bnd (te_call e (Job (JobFactoryCreate forked)))
                 (\<lambda>r. ret (r_rc r, if r_rc r = 0 then ctx\<lparr>ctx_forked_factory := handle_of 0 r\<rparr> else ctx))))"

fun multi_init_loop ::
    "'w te_env \<Rightarrow> rcf_rpc_server \<Rightarrow> nat list \<Rightarrow> tsapi_fio_context list \<Rightarrow>
     ('w, te_errno \<times> tsapi_fio_context list) te" where
  "multi_init_loop e rpcs [] ctxs = ret (0, ctxs)"
| "multi_init_loop e rpcs (i # is) ctxs =
     bnd (multi_init_one e rpcs i)
       (\<lambda>(rc, ctx). if rc \<noteq> 0 then ret (rc, ctxs @ [ctx])
          else multi_init_loop e rpcs is (ctxs @ [ctx]))"

definition tsapi_fio_multi_init ::
    "'w te_env \<Rightarrow> rcf_rpc_server \<Rightarrow> nat \<Rightarrow> ('w, te_errno \<times> tsapi_fio_context list) te" where
  "tsapi_fio_multi_init e rpcs n = multi_init_loop e rpcs [0..<n] []"

definition tsapi_fio_multi_fini :: "'w te_env \<Rightarrow> tsapi_fio_context list \<Rightarrow> ('w, te_errno) te" where
  "tsapi_fio_multi_fini e =
     for_rc (\<lambda>ctx. bnd (te_call e (Job (JobFactoryDestroy (ctx_forked_factory ctx))))
                     (\<lambda>_. call_rc e (Agent (RpcsDestroy (ctx_forked_rpcs ctx)))))"

section \<open>Logging\<close>

text \<open>The part of \<open>key=value\<close> before the sign, with \<open>FIO-\<close> in front, and the part after it.\<close>

definition add_fio_arg_to_mi_log :: "'w te_env \<Rightarrow> handle \<Rightarrow> string \<Rightarrow> ('w, te_errno) te" where
  "add_fio_arg_to_mi_log e logger arg =
     (case strstr arg ''='' of
        None \<Rightarrow> ret TE_EFAIL
      | Some ch \<Rightarrow>
          bnd (te_string_append e '''' (''FIO-'' @ arg)) (\<lambda>(rc, key). if rc \<noteq> 0 then ret rc else
          bnd (te_string_append e '''' (drop (ch + 1) arg)) (\<lambda>(rc, val). if rc \<noteq> 0 then ret rc else
            mi_meas_key e logger (te_string_cut key (length arg - ch)) val)))"

definition TSAPI_FIO_ARGS_FOR_MI_LOG :: "string list" where
  "TSAPI_FIO_ARGS_FOR_MI_LOG = [''iodepth'', ''blocksize'', ''rwmixread'', ''readwrite'', ''numjobs'']"

definition list_exclude_args :: "string list" where
  "list_exclude_args = [''output'']"

definition log_listed_arg :: "'w te_env \<Rightarrow> handle \<Rightarrow> string \<Rightarrow> ('w, te_errno) te" where
  "log_listed_arg e logger arg =
     for_rc (\<lambda>l. if strcmp_start e l arg = 0 then add_fio_arg_to_mi_log e logger arg else ret 0)
       TSAPI_FIO_ARGS_FOR_MI_LOG"

fun append_not_excluded ::
    "'w te_env \<Rightarrow> string list \<Rightarrow> string \<Rightarrow> string \<Rightarrow> ('w, te_errno \<times> string) te" where
  "append_not_excluded e [] arg cmd = ret (0, cmd)"
| "append_not_excluded e (x # xs) arg cmd =
     (if strcmp_start e x (drop 2 arg) \<noteq> 0
      then bnd (te_string_append e cmd ('' '' @ arg))
             (\<lambda>(rc, cmd). if rc \<noteq> 0 then ret (rc, cmd) else append_not_excluded e xs arg cmd)
      else append_not_excluded e xs arg cmd)"

fun log_fio_args :: "'w te_env \<Rightarrow> handle \<Rightarrow> string list \<Rightarrow> string \<Rightarrow> ('w, te_errno \<times> string) te" where
  "log_fio_args e logger [] cmd = ret (0, cmd)"
| "log_fio_args e logger (arg # args) cmd =
     (if strcmp_start e ''--'' arg \<noteq> 0 then log_fio_args e logger args cmd
      else bnd (log_listed_arg e logger (drop 2 arg)) (\<lambda>rc. if rc \<noteq> 0 then ret (rc, cmd) else
           bnd (append_not_excluded e list_exclude_args arg cmd) (\<lambda>(rc, cmd). if rc \<noteq> 0 then ret (rc, cmd)
             else log_fio_args e logger args cmd)))"

text \<open>The arguments are those TE built for the instance, up to the NULL that ends them.\<close>

definition tsapi_fio_args_to_mi_log :: "'w te_env \<Rightarrow> handle \<Rightarrow> string list \<Rightarrow> ('w, te_errno) te" where
  "tsapi_fio_args_to_mi_log e logger args =
     bnd (te_string_append e '''' ''fio'') (\<lambda>(rc, cmd). if rc \<noteq> 0 then ret rc else
     bnd (log_fio_args e logger args cmd) (\<lambda>(rc, cmd). if rc \<noteq> 0 then ret rc else
       mi_meas_key e logger ''FIO-cmd'' cmd))"

definition tsapi_fio_mi_report ::
    "'w te_env \<Rightarrow> string list \<Rightarrow> handle \<Rightarrow> string \<Rightarrow> string \<Rightarrow> bool \<Rightarrow> ('w, te_errno) te" where
  "tsapi_fio_mi_report e args report blk_proxy_conf ta multipath =
     bnd (te_call e (Tool (MiCreate ''fio''))) (\<lambda>r. if r_rc r \<noteq> 0 then ret (r_rc r) else
       let logger = handle_of 0 r in
     on_ok (call_rc e (Tool (FioMiReport report)))
    (bnd (agt_path e ta (blk_proxy_conf @ ''.conf'')) (\<lambda>config_path.
     bnd (tsapi_conf_read_from_file e ta config_path TSAPI_CONF_INIT) (\<lambda>(rc, conf). if rc \<noteq> 0 then ret rc else
     on_ok (tsapi_blkproxy_add_conf_to_mi_log e logger conf multipath)
    (on_ok (tsapi_fio_args_to_mi_log e logger args)
    (bnd (te_call e (Tool (MiDestroy logger))) (\<lambda>_. ret 0)))))))"

section \<open>Waiting: correctness\<close>

text \<open>The time a run is expected to take: the run time, the part of five minutes that the
  number of jobs deserves, and half a minute.\<close>

definition expected_sec :: "'w te_env \<Rightarrow> tapi_fio_opts \<Rightarrow> int" where
  "expected_sec e opts = sint (fio_runtime_sec opts)
     + round_ratio (300 * uint (fio_numjobs opts)) (int (fio_max_numjobs e)) + 30"

definition flexible :: "tapi_fio_opts \<Rightarrow> bool" where
  "flexible opts \<longleftrightarrow> fio_numjobs opts > 248 \<or> fio_blocksize opts > 1024"

lemma sint_16: "- 32768 \<le> i \<Longrightarrow> i < 32768 \<Longrightarrow> sint (word_of_int i :: 16 word) = i"
  by (simp add: signed_take_bit_int_eq_self sint_sbintrunc')

text \<open>
  C40. The minute that is added for heavy runs is given in milliseconds to a 16-bit integer, where
  60000 is -5536: a run expected to take up to 5535 seconds is waited for with a negative
  timeout, although the sum of the expected time and one minute would fit.
\<close>

theorem flex_timeout_negative:
  assumes "flexible opts" and "0 < expected_sec e opts" and "expected_sec e opts \<le> 5535"
  shows "sint (flex_timeout e opts) = expected_sec e opts - 5536"
proof -
  let ?t = "expected_sec e opts"
  have pos: "sint (word_of_int ?t :: 16 word) > 0" using assms(2,3) by (simp add: sint_16)
  have "flex_timeout e opts = word_of_int ?t + word_of_int 60000"
    using assms(1) pos
    by (simp add: flex_timeout_def get_timeout_def flexible_def Let_def expected_sec_def del: of_int_add of_int_of_nat_eq)
  also have "\<dots> = word_of_int (?t - 5536)"
    by (simp add: word_of_int_eq_iff)
  finally show ?thesis using assms(2,3) by (simp only:) (simp add: sint_16 del: of_int_diff)
qed

definition big_blocks :: tapi_fio_opts where
  "big_blocks = calm_fio_opts\<lparr>fio_blocksize := 4096\<rparr>"

lemma flex_timeout_negative_witness: "sint (flex_timeout calm_env big_blocks) = - 5446"
proof -
  have "flexible big_blocks" and t: "expected_sec calm_env big_blocks = 90" by code_simp+
  with flex_timeout_negative [of big_blocks calm_env] show ?thesis by simp
qed

section \<open>Several instances: correctness\<close>

definition forked_server :: "rcf_rpc_server \<Rightarrow> nat \<Rightarrow> rcf_rpc_server" where
  "forked_server rpcs i = \<lparr>rpcs_ta = rpcs_ta rpcs, rpcs_name = forked_name i\<rparr>"

definition fork_calls :: "rcf_rpc_server \<Rightarrow> nat \<Rightarrow> call list" where
  "fork_calls rpcs i =
     [Agent (RpcsCreateProcess rpcs (forked_name i)), Job (JobFactoryCreate (forked_server rpcs i))]"

lemma forked_name_inject: "forked_name i = forked_name j \<longleftrightarrow> i = j"
  by (simp add: forked_name_def)

text \<open>What one pass makes: its calls in order, and on success the context of the process.\<close>

lemma multi_init_one_calls:
  assumes "mem_ok e"
  shows "obeys (multi_init_one e rpcs i) (\<lambda>res t. in_order (fork_calls rpcs i) (status_of res) t \<and>
    (\<forall>ctx. res = Val (0, ctx) \<longrightarrow> ctx_forked_rpcs ctx = Some (forked_server rpcs i)))"
  unfolding multi_init_one_def mem_ok_append [OF assms] bnd_ret prod.case Let_def
  by (auto intro!: ev simp: fork_calls_def forked_server_def)

lemma multi_init_loop_calls:
  assumes "mem_ok e"
  shows "obeys (multi_init_loop e rpcs is ctxs) (\<lambda>res t.
    in_order (concat (map (fork_calls rpcs) is)) (status_of res) t \<and>
    (\<forall>ctxs'. res = Val (0, ctxs') \<longrightarrow>
       map ctx_forked_rpcs ctxs' = map ctx_forked_rpcs ctxs @ map (Some \<circ> forked_server rpcs) is))"
proof (induction "is" arbitrary: ctxs)
  case Nil
  then show ?case by (auto intro!: ev)
next
  case (Cons i "is")
  show ?case
    unfolding multi_init_loop.simps
    by (rule obeys_bnd, rule obeys_weaken [OF multi_init_one_calls [OF assms]])
       (auto intro!: ev obeys_weaken [OF Cons] intro: in_order_stop in_order_jump simp: in_order_append)
qed


definition host_rpcs :: rcf_rpc_server where
  "host_rpcs = \<lparr>rpcs_ta = ''Agt_host'', rpcs_name = ''pco''\<rparr>"


definition release_calls :: "tsapi_fio_context \<Rightarrow> call list" where
  "release_calls ctx = [Job (JobFactoryDestroy (ctx_forked_factory ctx)), Agent (RpcsDestroy (ctx_forked_rpcs ctx))]"

text \<open>
  C16. \<open>tsapi_fio_multi_fini\<close> releases the contexts in their order, of each the job factory before the
  process it works on, and returns 0 only when all of them are released.
\<close>

theorem multi_fini_releases_all:
  "obeys (tsapi_fio_multi_fini e ctxs) (in_order (concat (map release_calls ctxs)))"
  unfolding tsapi_fio_multi_fini_def
proof (rule obeys_for_rc [where T = "\<lambda>ctx. in_order (release_calls ctx)"])
  show "obeys (bnd (te_call e (Job (JobFactoryDestroy (ctx_forked_factory ctx))))
      (\<lambda>_. call_rc e (Agent (RpcsDestroy (ctx_forked_rpcs ctx))))) (in_order (release_calls ctx))" for ctx
    by (auto intro!: ev simp: release_calls_def)
qed (auto intro: in_order_stop in_order_jump simp: in_order_append)

section \<open>Logging: correctness\<close>

text \<open>
  An argument \<open>key=value\<close> of FIO is logged under \<open>FIO-key\<close> with its value, which may itself
  hold equals signs; one without an equals sign is refused and logs nothing.
\<close>

theorem fio_arg_logged:
  assumes "mem_ok e" and "CHR ''='' \<notin> set key"
  shows "add_fio_arg_to_mi_log e logger (key @ CHR ''='' # val) = mi_meas_key e logger (''FIO-'' @ key) val \<and>
    add_fio_arg_to_mi_log e logger key = ret TE_EFAIL"
proof
  have "te_string_cut (''FIO-'' @ key @ CHR ''='' # val) (length (key @ CHR ''='' # val) - length key) = ''FIO-'' @ key"
    by (simp add: te_string_cut_def eval_nat_numeral)
  with assms show "add_fio_arg_to_mi_log e logger (key @ CHR ''='' # val) = mi_meas_key e logger (''FIO-'' @ key) val"
    by (simp add: add_fio_arg_to_mi_log_def mem_ok_simps)
  have "strstr key ''='' = None" using assms(2) by (simp add: strstr_char_None)
  then show "add_fio_arg_to_mi_log e logger key = ret TE_EFAIL"
    by (simp add: add_fio_arg_to_mi_log_def)
qed

lemma fio_arg_logged_witness:
  "add_fio_arg_to_mi_log calm_env 5 ''iodepth=1=2'' = mi_meas_key calm_env 5 ''FIO-iodepth'' ''1=2''"
  using fio_arg_logged [of calm_env "''iodepth''" 5 "''1=2''"] by simp

end
