(* ===== verification/Ceph.thy ===== *)
theory Ceph
  imports Fio
begin

text \<open>
  \<open>src/block-ts/lib/tsapi-ceph.c\<close> and \<open>tsapi-ceph.h\<close>: the ceph tools run as jobs (their
  options, command lines, life cycle), filling the block devices, the inventory parameters
  of a ceph server, and the helper scripts that create and remove it.
\<close>

section \<open>Data\<close>

definition TSAPI_CEPH_RECEIVE_FSID_TIMEOUT_MS :: int where
  "TSAPI_CEPH_RECEIVE_FSID_TIMEOUT_MS = 1000"
definition TSAPI_CEPH_SERVER_REMOVAL_TIMEOUT :: int where
  "TSAPI_CEPH_SERVER_REMOVAL_TIMEOUT = 3 * 60 * 1000"
definition TSAPI_CEPH_SERVER_CREATION_TIMEOUT :: int where
  "TSAPI_CEPH_SERVER_CREATION_TIMEOUT = 20 * 60 * 1000"
definition TSAPI_CEPH_BLK_DEV_NAME :: string where
  "TSAPI_CEPH_BLK_DEV_NAME = ''ramdev''"
definition TSAPI_CEPH_BLK_NUM_MAX :: nat where
  "TSAPI_CEPH_BLK_NUM_MAX = 3"
definition TSAPI_CEPH_AUX_INFO_SZ_GB :: "32 word" where
  "TSAPI_CEPH_AUX_INFO_SZ_GB = 2"

record tsapi_ceph_mmt_add_opt =
  mmt_add_name :: string
  mmt_add_ip :: "string option"
  mmt_add_port :: "32 word"

datatype tsapi_ceph_container_act =
  TSAPI_CEPH_CREATE | TSAPI_CEPH_REMOVE | TSAPI_CEPH_PREPARE_CLIENT

record tsapi_ceph_mmt_opts =
  mmt_config :: "string option"
  mmt_monmap :: "string option"
  mmt_fsid :: "string option"
  mmt_need_create :: bool
  mmt_need_print :: bool
  mmt_add :: "tsapi_ceph_mmt_add_opt option"

definition TSAPI_CEPH_MMT_OPTS_INIT :: tsapi_ceph_mmt_opts where
  "TSAPI_CEPH_MMT_OPTS_INIT =
     \<lparr>mmt_config = None, mmt_monmap = None, mmt_fsid = None, mmt_need_create = False,
      mmt_need_print = False, mmt_add = None\<rparr>"

record tsapi_ceph_common_opts =
  co_config :: "string option"
  co_monmap :: "string option"
  co_id :: "string option"
  co_mkfs :: bool

definition TSAPI_CEPH_COMMON_OPTS_INIT :: tsapi_ceph_common_opts where
  "TSAPI_CEPH_COMMON_OPTS_INIT =
     \<lparr>co_config = None, co_monmap = None, co_id = None, co_mkfs = False\<rparr>"

text \<open>A subcommand is a pointer to a structure with one flag.\<close>

record tsapi_ceph_opts =
  ceph_common_opts :: tsapi_ceph_common_opts
  ceph_osd_create :: "bool option"
  ceph_get_fsid :: "bool option"
  ceph_status :: bool

definition TSAPI_CEPH_OPTS_INIT :: tsapi_ceph_opts where
  "TSAPI_CEPH_OPTS_INIT =
     \<lparr>ceph_common_opts = TSAPI_CEPH_COMMON_OPTS_INIT, ceph_osd_create = None,
      ceph_get_fsid = None, ceph_status = False\<rparr>"

text \<open>The shared part of the tool handles: the job, its factory and its channels.\<close>

record tsapi_ceph_common_t =
  cc_job :: handle
  cc_factory :: handle
  cc_out0 :: handle
  cc_out1 :: handle
  cc_fsid_filter :: handle

definition TSAPI_CEPH_COMMON_T_INIT :: tsapi_ceph_common_t where
  "TSAPI_CEPH_COMMON_T_INIT =
     \<lparr>cc_job = 0, cc_factory = 0, cc_out0 = 0, cc_out1 = 0, cc_fsid_filter = 0\<rparr>"

fun tsapi_ceph_container_act2str :: "tsapi_ceph_container_act \<Rightarrow> string" where
  "tsapi_ceph_container_act2str TSAPI_CEPH_CREATE = ''create''"
| "tsapi_ceph_container_act2str TSAPI_CEPH_REMOVE = ''remove''"
| "tsapi_ceph_container_act2str TSAPI_CEPH_PREPARE_CLIENT = ''prepare client for''"

section \<open>Command lines\<close>

text \<open>\<open>ADD_OPTION\<close> appends a string when its condition holds, \<open>ADD_OPTION_KV\<close> a key and a
  value; both return at the first failed append. A chain of them is the list of the strings
  to append.\<close>

definition add_flag :: "bool \<Rightarrow> string \<Rightarrow> string list" where
  "add_flag cond opt = (if cond then [opt] else [])"

definition add_option_kv :: "string option \<Rightarrow> string \<Rightarrow> string list" where
  "add_option_kv val key = (case val of None \<Rightarrow> [] | Some v \<Rightarrow> [key, v])"

fun add_options :: "'w te_env \<Rightarrow> string list \<Rightarrow> string list \<Rightarrow> ('w, te_errno \<times> string list) te" where
  "add_options e [] vec_opts = ret (0, vec_opts)"
| "add_options e (opt # opts) vec_opts =
     bnd (te_vec_append_str e vec_opts opt)
       (\<lambda>(rc, vec_opts). if rc \<noteq> 0 then ret (rc, vec_opts) else add_options e opts vec_opts)"

definition common_opts_args :: "tsapi_ceph_common_opts \<Rightarrow> string list" where
  "common_opts_args opts =
     add_option_kv (co_id opts) ''--id'' @ add_option_kv (co_config opts) ''--conf'' @
     add_option_kv (co_monmap opts) ''--monmap'' @ add_flag (co_mkfs opts) ''--mkfs''"

definition ceph_common_build_command ::
    "'w te_env \<Rightarrow> tsapi_ceph_common_opts \<Rightarrow> string list \<Rightarrow> ('w, te_errno \<times> string list) te" where
  "ceph_common_build_command e opts vec_opts = add_options e (common_opts_args opts) vec_opts"

definition ceph_subcommand_args :: "tsapi_ceph_opts \<Rightarrow> string list" where
  "ceph_subcommand_args opts =
     (case ceph_osd_create opts of None \<Rightarrow> [] | Some create \<Rightarrow> ''osd'' # add_flag create ''create'') @
     (case ceph_get_fsid opts of None \<Rightarrow> [] | Some get_fsid \<Rightarrow> add_flag get_fsid ''fsid'') @
     add_flag (ceph_status opts) ''-s''"

definition ceph_build_command ::
    "'w te_env \<Rightarrow> tsapi_ceph_opts \<Rightarrow> string list \<Rightarrow> ('w, te_errno \<times> string list) te" where
  "ceph_build_command e opts vec_opts =
     bnd (ceph_common_build_command e (ceph_common_opts opts) vec_opts)
       (\<lambda>(rc, vec_opts). if rc \<noteq> 0 then ret (rc, vec_opts)
          else add_options e (ceph_subcommand_args opts) vec_opts)"

definition ceph_osd_build_command ::
    "'w te_env \<Rightarrow> tsapi_ceph_common_opts \<Rightarrow> string list \<Rightarrow> ('w, te_errno \<times> string list) te" where
  "ceph_osd_build_command e opts vec_opts = ceph_common_build_command e opts vec_opts"

definition ceph_mon_build_command ::
    "'w te_env \<Rightarrow> tsapi_ceph_common_opts \<Rightarrow> string list \<Rightarrow> ('w, te_errno \<times> string list) te" where
  "ceph_mon_build_command e opts vec_opts = ceph_common_build_command e opts vec_opts"

text \<open>Building the host string: a status is returned, and the caller does not look at it.\<close>

definition ceph_mmt_add_opt_host_str ::
    "'w te_env \<Rightarrow> tsapi_ceph_mmt_add_opt \<Rightarrow> ('w, string) te" where
  "ceph_mmt_add_opt_host_str e opt =
     bnd (case mmt_add_ip opt of None \<Rightarrow> ret (0, '''') | Some ip \<Rightarrow> te_string_append e '''' ip) (\<lambda>(_, str).
     bnd (if mmt_add_port opt \<noteq> 0
          then te_string_append e str ('':'' @ dec_of_int (sint (mmt_add_port opt)))
          else ret (0, str)) (\<lambda>(_, str). ret str))"

definition mmt_add_args :: "'w te_env \<Rightarrow> tsapi_ceph_mmt_opts \<Rightarrow> ('w, string list) te" where
  "mmt_add_args e opts =
     (case mmt_add opts of
        None \<Rightarrow> ret []
      | Some add \<Rightarrow> bnd (ceph_mmt_add_opt_host_str e add) (\<lambda>host. ret [''--add'', mmt_add_name add, host]))"

definition ceph_mmt_build_command ::
    "'w te_env \<Rightarrow> tsapi_ceph_mmt_opts \<Rightarrow> string list \<Rightarrow> ('w, te_errno \<times> string list) te" where
  "ceph_mmt_build_command e opts vec_opts =
     bnd (add_options e
            (add_flag (mmt_need_create opts) ''--create'' @ add_flag (mmt_need_print opts) ''--print'')
            vec_opts) (\<lambda>(rc, vec_opts). if rc \<noteq> 0 then ret (rc, vec_opts) else
     bnd (mmt_add_args e opts) (\<lambda>add.
       add_options e
         (add @ add_option_kv (mmt_fsid opts) ''--fsid'' @ add_option_kv (mmt_config opts) ''--conf'' @
          (case mmt_monmap opts of None \<Rightarrow> [] | Some m \<Rightarrow> [m]))
         vec_opts))"

section \<open>Creating the jobs\<close>

text \<open>
  \<open>CEPH_GENERIC_DESC_INIT\<close>: the program and its options, the end marker, the factory, the
  job. A factory is destroyed again when the job could not be created, and the handle keeps
  the stale pointer.
\<close>

definition ceph_generic_desc_init ::
    "'w te_env \<Rightarrow> rcf_rpc_server \<Rightarrow> string \<Rightarrow> tsapi_ceph_common_t \<Rightarrow>
     (string list \<Rightarrow> ('w, te_errno \<times> string list) te) \<Rightarrow> ('w, te_errno \<times> tsapi_ceph_common_t) te" where
  "ceph_generic_desc_init e rpcs bin common build =
     bnd (te_vec_append_str e [] bin) (\<lambda>(rc, argv). if rc \<noteq> 0 then ret (rc, common) else
     bnd (build argv) (\<lambda>(rc, argv). if rc \<noteq> 0 then ret (rc, common) else
     bnd (mem e (VecAppend '''')) (\<lambda>rc. if rc \<noteq> 0 then ret (rc, common) else
     bnd (te_call e (Job (JobFactoryCreate rpcs))) (\<lambda>r. if r_rc r \<noteq> 0 then ret (r_rc r, common) else
       let common = common\<lparr>cc_factory := handle_of 0 r\<rparr> in
     bnd (te_call e (Job (JobCreate (cc_factory common)
            \<lparr>jd_program = bin, jd_argv = argv, jd_env = [], jd_regexps = []\<rparr>))) (\<lambda>r.
       if r_rc r \<noteq> 0
       then bnd (te_call e (Job (JobFactoryDestroy (cc_factory common)))) (\<lambda>_. ret (r_rc r, common))
       else ret (0, common\<lparr>cc_job := handle_of 0 r, cc_out0 := handle_of 1 r, cc_out1 := handle_of 2 r\<rparr>))))))"

definition tsapi_ceph_osd_init ::
    "'w te_env \<Rightarrow> rcf_rpc_server \<Rightarrow> tsapi_ceph_common_t \<Rightarrow> tsapi_ceph_common_opts \<Rightarrow>
     ('w, te_errno \<times> tsapi_ceph_common_t) te" where
  "tsapi_ceph_osd_init e rpcs common opts =
     ceph_generic_desc_init e rpcs ''ceph-osd'' common (ceph_osd_build_command e opts)"

definition tsapi_ceph_mon_init ::
    "'w te_env \<Rightarrow> rcf_rpc_server \<Rightarrow> tsapi_ceph_common_t \<Rightarrow> tsapi_ceph_common_opts \<Rightarrow>
     ('w, te_errno \<times> tsapi_ceph_common_t) te" where
  "tsapi_ceph_mon_init e rpcs common opts =
     ceph_generic_desc_init e rpcs ''ceph-mon'' common (ceph_mon_build_command e opts)"

definition fsid_regexp :: string where
  "fsid_regexp = ''^[a-f0-9]{8}-[a-f0-9]{4}-[a-f0-9]{4}-[a-f0-9]{4}-[a-f0-9]{12}$''"

definition tsapi_ceph_attach_fsid_filter ::
    "'w te_env \<Rightarrow> tsapi_ceph_common_t \<Rightarrow> ('w, te_errno \<times> tsapi_ceph_common_t) te" where
  "tsapi_ceph_attach_fsid_filter e ceph =
     bnd (te_call e (Job (JobAttachFilter (cc_out0 ceph) ''FSID filter''))) (\<lambda>r.
       if r_rc r \<noteq> 0 then ret (r_rc r, ceph) else
       let ceph = ceph\<lparr>cc_fsid_filter := handle_of 0 r\<rparr> in
     bnd (call_rc e (Job (JobFilterRegexp (cc_fsid_filter ceph) fsid_regexp))) (\<lambda>rc. ret (rc, ceph)))"

text \<open>The answer to a receive: the message in \<open>r_str\<close>, the end of the stream in \<open>r_bool\<close>.
  The string of the caller is NULL before its first append, and again when a failed append
  has freed it.\<close>

definition tsapi_ceph_get_fsid_result ::
    "'w te_env \<Rightarrow> tsapi_ceph_common_t \<Rightarrow> string option \<Rightarrow> ('w, te_errno \<times> string option) te" where
  "tsapi_ceph_get_fsid_result e ceph fsid =
     bnd (te_call e (Job (JobReceive (cc_fsid_filter ceph) TSAPI_CEPH_RECEIVE_FSID_TIMEOUT_MS))) (\<lambda>buf.
       if r_rc buf \<noteq> 0 then ret (r_rc buf, fsid)
       else if r_bool buf then ret (TE_RC TE_TAPI TE_C_EFAIL, fsid)
       else bnd (te_string_append e (case fsid of None \<Rightarrow> '''' | Some s \<Rightarrow> s) (out_str buf))
              (\<lambda>(rc, str). ret (rc, if rc \<noteq> 0 then None else Some str)))"

definition tsapi_ceph_init ::
    "'w te_env \<Rightarrow> rcf_rpc_server \<Rightarrow> tsapi_ceph_common_t \<Rightarrow> tsapi_ceph_opts \<Rightarrow>
     ('w, te_errno \<times> tsapi_ceph_common_t) te" where
  "tsapi_ceph_init e rpcs common opts =
     bnd (ceph_generic_desc_init e rpcs ''ceph'' common (ceph_build_command e opts)) (\<lambda>(rc, ceph).
       if rc \<noteq> 0 then ret (rc, ceph)
       else if ceph_get_fsid opts = Some True then tsapi_ceph_attach_fsid_filter e ceph
       else ret (0, ceph))"

definition tsapi_ceph_mmt_init ::
    "'w te_env \<Rightarrow> rcf_rpc_server \<Rightarrow> tsapi_ceph_common_t \<Rightarrow> tsapi_ceph_mmt_opts \<Rightarrow>
     ('w, te_errno \<times> tsapi_ceph_common_t) te" where
  "tsapi_ceph_mmt_init e rpcs common opts =
     ceph_generic_desc_init e rpcs ''monmaptool'' common (ceph_mmt_build_command e opts)"

section \<open>Running the jobs\<close>

definition ceph_start :: "'w te_env \<Rightarrow> tsapi_ceph_common_t \<Rightarrow> ('w, te_errno) te" where
  "ceph_start e common = call_rc e (Job (JobStart (cc_job common)))"

definition tsapi_ceph_osd_start :: "'w te_env \<Rightarrow> tsapi_ceph_common_t \<Rightarrow> ('w, te_errno) te" where
  "tsapi_ceph_osd_start e osd = ceph_start e osd"

definition tsapi_ceph_mon_start :: "'w te_env \<Rightarrow> tsapi_ceph_common_t \<Rightarrow> ('w, te_errno) te" where
  "tsapi_ceph_mon_start e mon = ceph_start e mon"

definition tsapi_ceph_start :: "'w te_env \<Rightarrow> tsapi_ceph_common_t \<Rightarrow> ('w, te_errno) te" where
  "tsapi_ceph_start e ceph = ceph_start e ceph"

definition tsapi_ceph_mmt_start :: "'w te_env \<Rightarrow> tsapi_ceph_common_t \<Rightarrow> ('w, te_errno) te" where
  "tsapi_ceph_mmt_start e monmaptool = ceph_start e monmaptool"

fun ceph_common_status_handle :: "wait_flag \<Rightarrow> int \<Rightarrow> te_errno" where
  "ceph_common_status_handle EXITED val = (if val \<noteq> 0 then TE_EFAIL else 0)"
| "ceph_common_status_handle SIGNALED val = (if val \<noteq> 0 then TE_EFAIL else 0)"
| "ceph_common_status_handle UNKNOWN val = TE_EFAIL"
| "ceph_common_status_handle (OTHER_FLAG n) val = TE_EFAIL"

text \<open>\<open>CEPH_RC(tapi_job_wait(...))\<close>: the macro evaluates its argument twice, so the wait is made
  twice and the outcome of the first one is dropped.\<close>

definition ceph_wait :: "'w te_env \<Rightarrow> tsapi_ceph_common_t \<Rightarrow> ('w, te_errno) te" where
  "ceph_wait e common =
     bnd (te_call e (Job (JobWait (cc_job common) 60000))) (\<lambda>_.
     bnd (te_call e (Job (JobWait (cc_job common) 60000))) (\<lambda>r.
       if r_rc r \<noteq> 0 then ret (r_rc r)
       else ret (ceph_common_status_handle (r_flag r) (r_num r))))"

definition tsapi_ceph_osd_wait :: "'w te_env \<Rightarrow> tsapi_ceph_common_t \<Rightarrow> ('w, te_errno) te" where
  "tsapi_ceph_osd_wait e osd = ceph_wait e osd"

definition tsapi_ceph_mon_wait :: "'w te_env \<Rightarrow> tsapi_ceph_common_t \<Rightarrow> ('w, te_errno) te" where
  "tsapi_ceph_mon_wait e mon = ceph_wait e mon"

definition tsapi_ceph_wait :: "'w te_env \<Rightarrow> tsapi_ceph_common_t \<Rightarrow> ('w, te_errno) te" where
  "tsapi_ceph_wait e ceph = ceph_wait e ceph"

definition tsapi_ceph_mmt_wait :: "'w te_env \<Rightarrow> tsapi_ceph_common_t \<Rightarrow> ('w, te_errno) te" where
  "tsapi_ceph_mmt_wait e monmaptool = ceph_wait e monmaptool"

definition ceph_cleanup :: "'w te_env \<Rightarrow> tsapi_ceph_common_t \<Rightarrow> ('w, te_errno) te" where
  "ceph_cleanup e common =
     bnd (call_rc e (Job (JobDestroy (cc_job common) 30000))) (\<lambda>rc.
     bnd (te_call e (Job (JobFactoryDestroy (cc_factory common)))) (\<lambda>_. ret rc))"

definition tsapi_ceph_osd_cleanup :: "'w te_env \<Rightarrow> tsapi_ceph_common_t \<Rightarrow> ('w, te_errno) te" where
  "tsapi_ceph_osd_cleanup e osd = ceph_cleanup e osd"

definition tsapi_ceph_mon_cleanup :: "'w te_env \<Rightarrow> tsapi_ceph_common_t \<Rightarrow> ('w, te_errno) te" where
  "tsapi_ceph_mon_cleanup e mon = ceph_cleanup e mon"

definition tsapi_ceph_cleanup :: "'w te_env \<Rightarrow> tsapi_ceph_common_t \<Rightarrow> ('w, te_errno) te" where
  "tsapi_ceph_cleanup e ceph = ceph_cleanup e ceph"

definition tsapi_ceph_mmt_cleanup :: "'w te_env \<Rightarrow> tsapi_ceph_common_t \<Rightarrow> ('w, te_errno) te" where
  "tsapi_ceph_mmt_cleanup e monmaptool = ceph_cleanup e monmaptool"

section \<open>Filling the block devices\<close>

definition fill_fio_opts :: "string option \<Rightarrow> string \<Rightarrow> tapi_fio_opts" where
  "fill_fio_opts sz block =
     \<lparr>fio_name = Some ''job'', fio_filename = Some block, fio_blocksize = 1048576, fio_numjobs = 1,
      fio_iodepth = 32, fio_runtime_sec = 0, fio_rwmixread = 0, fio_rwtype = ''TAPI_FIO_RWTYPE_SEQ'',
      fio_ioengine = ''TAPI_FIO_IOENGINE_LIBAIO'', fio_direct = True, fio_exit_on_error = True,
      fio_rand_gen = None, fio_user = None, fio_rbdname = None, fio_pool = None, fio_size = sz\<rparr>"

definition no_fio :: "'w te_env \<Rightarrow> tapi_fio" where
  "no_fio e = \<lparr>fio_handle = 0, fio_opts = fio_defaults e\<rparr>"

text \<open>One pass: the last pointers the locals \<open>fio_factory\<close> and \<open>fio\<close> were given come with the
  status. On success both objects were destroyed, and the pointers stay.\<close>

definition fill_device ::
    "'w te_env \<Rightarrow> rcf_rpc_server \<Rightarrow> string option \<Rightarrow> string \<Rightarrow> handle \<Rightarrow> tapi_fio \<Rightarrow>
     ('w, te_errno \<times> handle \<times> tapi_fio) te" where
  "fill_device e rpcs sz block fio_factory fio =
     bnd (te_call e (Job (JobFactoryCreate rpcs))) (\<lambda>r.
       if r_rc r \<noteq> 0 then ret (r_rc r, fio_factory, fio) else
       let fio_factory = handle_of 0 r in
     bnd (tsapi_fio_create e (fill_fio_opts sz block) fio_factory (Some (rpcs_ta rpcs))) (\<lambda>(rc, fio).
       if rc \<noteq> 0 then ret (rc, fio_factory, fio) else
     bnd (rc_seq [call_rc e (Tool (FioStart (fio_handle fio))),
                  tsapi_fio_flex_wait e fio,
                  call_rc e (Tool (FioStop (fio_handle fio)))]) (\<lambda>rc.
       if rc \<noteq> 0 then ret (rc, fio_factory, fio) else
     bnd (te_call e (Tool (FioDestroy (fio_handle fio)))) (\<lambda>_.
     bnd (te_call e (Job (JobFactoryDestroy fio_factory))) (\<lambda>_. ret (0, fio_factory, fio))))))"

fun fill_loop ::
    "'w te_env \<Rightarrow> rcf_rpc_server \<Rightarrow> string option \<Rightarrow> string list \<Rightarrow> handle \<Rightarrow> tapi_fio \<Rightarrow>
     ('w, te_errno \<times> handle \<times> tapi_fio) te" where
  "fill_loop e rpcs sz [] fio_factory fio = ret (0, fio_factory, fio)"
| "fill_loop e rpcs sz (block # blocks) fio_factory fio =
     bnd (fill_device e rpcs sz block fio_factory fio) (\<lambda>(rc, fio_factory, fio).
       if rc \<noteq> 0 then ret (rc, fio_factory, fio) else fill_loop e rpcs sz blocks fio_factory fio)"

definition tsapi_ceph_fill_devices ::
    "'w te_env \<Rightarrow> rcf_rpc_server \<Rightarrow> string option \<Rightarrow> ('w, te_errno) te" where
  "tsapi_ceph_fill_devices e rpcs sz =
     bnd (bnd (tsapi_get_devices e (rpcs_ta rpcs)) (\<lambda>(rc, blocks).
            if rc \<noteq> 0 then ret (rc, 0, no_fio e)
            else fill_loop e rpcs sz (case blocks of None \<Rightarrow> [] | Some bs \<Rightarrow> bs) 0 (no_fio e)))
       (\<lambda>(rc, fio_factory, fio).
          if rc \<noteq> 0
          then bnd (te_call e (Tool (FioDestroy (fio_handle fio)))) (\<lambda>_.
               bnd (te_call e (Job (JobFactoryDestroy fio_factory))) (\<lambda>_. ret rc))
          else ret 0)"

section \<open>The server\<close>

fun ceph_prepare_scripts :: "tsapi_ceph_container_act \<Rightarrow> string" where
  "ceph_prepare_scripts TSAPI_CEPH_CREATE = ''create_ansible_ceph_server.sh''"
| "ceph_prepare_scripts TSAPI_CEPH_REMOVE = ''remove_ansible_ceph_server.sh''"
| "ceph_prepare_scripts TSAPI_CEPH_PREPARE_CLIENT = ''prepare_ceph_client.sh''"

text \<open>\<open>(double)stor_size_gb / osd_num\<close>, passed as an \<open>int\<close>: the quotient is cut towards zero
  (no rounding of a \<open>double\<close> reaches the next integer for 32-bit operands); by zero
  the conversion of the infinity is not defined.\<close>

definition osd_size_int :: "'w te_env \<Rightarrow> 32 word \<Rightarrow> 32 word \<Rightarrow> 32 word" where
  "osd_size_int e stor_size_gb osd_num =
     (if osd_num = 0 then undefined_int e else word_of_int (sint stor_size_gb sdiv sint osd_num))"

text \<open>An \<open>int\<close> divided by an \<open>unsigned int\<close>: the operation is unsigned, and so is the
  multiplication after it.\<close>

definition ceph_dev_size_mb :: "32 word \<Rightarrow> 32 word \<Rightarrow> 32 word" where
  "ceph_dev_size_mb stor_size_gb block_count =
     (stor_size_gb - TSAPI_CEPH_AUX_INFO_SZ_GB) div block_count * 1024"

text \<open>One pass of the loop over the devices. The status of the first append is overwritten by
  the second one.\<close>

definition ceph_add_device ::
    "'w te_env \<Rightarrow> 32 word \<Rightarrow> 32 word \<Rightarrow> nat \<Rightarrow> ('w, te_errno) te" where
  "ceph_add_device e block_count dev_size_mb i =
     (let present = of_nat i < block_count in
     bnd (te_string_append e ''''
            (if present then ''- name: '' @ TSAPI_CEPH_BLK_DEV_NAME @ dec_of_nat i else '''')) (\<lambda>(_, name_val).
     bnd (te_string_append e ''''
            (if present then ''  size_mb: '' @ dec_of_int (sint dev_size_mb) else '''')) (\<lambda>(rc, size_val).
       if rc \<noteq> 0 then ret rc else
     bnd (te_string_append e '''' (''CEPH_DEV'' @ dec_of_nat i @ ''_NAME'')) (\<lambda>(rc, name_key).
       if rc \<noteq> 0 then ret rc else
     bnd (te_string_append e '''' (''CEPH_DEV'' @ dec_of_nat i @ ''_SIZE'')) (\<lambda>(rc, size_key).
       if rc \<noteq> 0 then ret rc else
     on_ok (tsapi_inventory_local_add_str e ''ceph'' name_key name_val)
           (tsapi_inventory_local_add_str e ''ceph'' size_key size_val))))))"

definition ceph_add_params ::
    "'w te_env \<Rightarrow> string \<Rightarrow> nat \<Rightarrow> 32 word \<Rightarrow> 32 word \<Rightarrow> 32 word \<Rightarrow> 32 word \<Rightarrow> ('w, te_errno) te" where
  "ceph_add_params e host_name mon_addr osd_size osd_num dev_size_mb block_count =
     rc_seq
       ([tsapi_inventory_local_add_str e ''ceph'' ''CEPH_SERVER_HOST'' host_name,
         tsapi_inventory_local_add_str e ''ceph'' ''CEPH_MON_IP'' (te_sockaddr_get_ipstr e mon_addr),
         tsapi_inventory_local_add_int e ''ceph'' ''CEPH_OSD_SIZE'' osd_size,
         tsapi_inventory_local_add_int e ''ceph'' ''CEPH_OSD_NUM'' osd_num] @
        map (ceph_add_device e block_count dev_size_mb) [0..<TSAPI_CEPH_BLK_NUM_MAX])"

text \<open>Without block devices the unsigned division ends the test program.\<close>

definition tsapi_ceph_prepare_params :: "'w te_env \<Rightarrow> nat \<Rightarrow> 32 word \<Rightarrow> ('w, te_errno) te" where
  "tsapi_ceph_prepare_params e mon_addr block_count =
     bnd (tsapi_get_backend_param_str e ''ceph'' ''host_name'') (\<lambda>host_name. case host_name of
       None \<Rightarrow> ret TE_EFAIL
     | Some host_name \<Rightarrow>
     bnd (tsapi_get_backend_param_int e ''ceph'' ''osd_num'') (\<lambda>(rc, osd_num). if rc \<noteq> 0 then ret rc else
     bnd (tsapi_get_backend_param_int e ''ceph'' ''stor_size_gb'') (\<lambda>(rc, stor_size_gb).
       if rc \<noteq> 0 then ret rc
       else if sint stor_size_gb \<le> 0 then ret TE_EINVAL
       else if block_count = 0 then jump Failed
       else ceph_add_params e host_name mon_addr (osd_size_int e stor_size_gb osd_num) osd_num
              (ceph_dev_size_mb stor_size_gb block_count) block_count)))"

definition tsapi_ceph_start_server ::
    "'w te_env \<Rightarrow> rcf_rpc_server \<Rightarrow> string \<Rightarrow> string \<Rightarrow> string \<Rightarrow> ('w, te_errno) te" where
  "tsapi_ceph_start_server e rpcs helpers_path virtblk_ci_ansible_path inventory_path =
     bnd (te_call e (Rpcs rpcs (RpcTimeout TSAPI_CEPH_SERVER_CREATION_TIMEOUT)))
       (\<lambda>_. run_helper e rpcs (server_cmd helpers_path (ceph_prepare_scripts TSAPI_CEPH_CREATE)
                                  virtblk_ci_ansible_path inventory_path))"

definition tsapi_ceph_stop_server :: "'w te_env \<Rightarrow> rcf_rpc_server \<Rightarrow> string \<Rightarrow> ('w, te_errno) te" where
  "tsapi_ceph_stop_server e rpcs helpers_path =
     bnd (te_call e (Rpcs rpcs (RpcTimeout TSAPI_CEPH_SERVER_REMOVAL_TIMEOUT)))
       (\<lambda>_. run_helper e rpcs (helpers_path @ ''/'' @ ceph_prepare_scripts TSAPI_CEPH_REMOVE))"

text \<open>The arguments of the script are evaluated in the order they are written.\<close>

definition true_false :: "bool \<Rightarrow> string" where
  "true_false b = (if b then ''true'' else ''false'')"

definition tsapi_ceph_prepare_client :: "'w te_env \<Rightarrow> rcf_rpc_server \<Rightarrow> nat \<Rightarrow> ('w, te_errno) te" where
  "tsapi_ceph_prepare_client e rpcs clt_addr =
     bnd (agt_path e (rpcs_ta rpcs) TSAPI_HELPERS_AGT_DIR_NAME) (\<lambda>helpers_path.
     bnd (tsapi_use_onload e) (\<lambda>use_onload.
     bnd (tsapi_use_plugin e) (\<lambda>use_plugin.
       run_helper e rpcs
         (helpers_path @ ''/'' @ ceph_prepare_scripts TSAPI_CEPH_PREPARE_CLIENT @ '' '' @
          te_sockaddr_get_ipstr e clt_addr @ '' '' @ true_false use_onload @ '' '' @
          true_false use_plugin))))"

section \<open>The life of a job\<close>

text \<open>
  What the users of a job handle rely on: starting it starts its job and no other, waiting
  neither starts nor destroys one, and cleaning up destroys its job, once. The users run
  the three under \<open>CHECK_RC\<close>.
\<close>

definition run_checked ::
    "('h \<Rightarrow> ('w, te_errno) te) \<Rightarrow> ('h \<Rightarrow> ('w, te_errno) te) \<Rightarrow> ('h \<Rightarrow> ('w, te_errno) te) \<Rightarrow> 'h \<Rightarrow>
     ('w, unit) te" where
  "run_checked start wait cleanup h = do_all [check_rc (start h), check_rc (wait h), check_rc (cleanup h)]"

locale job_life =
  fixes job :: "'h \<Rightarrow> handle"
    and start wait cleanup :: "'h \<Rightarrow> ('w, te_errno) te"
  assumes start_step: "obeys (start h) (\<lambda>r t. in_trace job_step t \<in> {[], [Started (job h)]} \<and>
      (r = Val 0 \<longrightarrow> in_trace job_step t = [Started (job h)]))"
    and wait_step: "leaves_none job_step (wait h)"
    and cleanup_step: "obeys (cleanup h) (\<lambda>r t. in_trace job_step t = [Destroyed (job h)])"
begin

lemma run_life:
  "obeys (run_checked start wait cleanup h) (\<lambda>r t.
     in_trace job_step t \<in> {[], [Started (job h)], [Started (job h), Destroyed (job h)]} \<and>
     (r = Val () \<longrightarrow> in_trace job_step t = [Started (job h), Destroyed (job h)]))"
  unfolding run_checked_def
  by (auto intro!: ev obeys_weaken [OF start_step] leaves_noneD [OF wait_step]
      obeys_weaken [OF cleanup_step])

end

text \<open>The four ceph tools; the lemmas on the shared functions discharge the laws.\<close>

lemma ceph_start_step:
  "obeys (ceph_start e c) (\<lambda>r t. in_trace job_step t \<in> {[], [Started (cc_job c)]} \<and>
     (r = Val 0 \<longrightarrow> in_trace job_step t = [Started (cc_job c)]))"
  unfolding ceph_start_def by (auto intro!: ev simp: resource_defs)

lemma ceph_wait_step: "leaves_none job_step (ceph_wait e c)"
  unfolding ceph_wait_def leaves_none_def by (auto intro!: ev simp: resource_defs)

lemma ceph_cleanup_step: "obeys (ceph_cleanup e c) (\<lambda>r t. in_trace job_step t = [Destroyed (cc_job c)])"
  unfolding ceph_cleanup_def by (auto intro!: ev simp: resource_defs)

interpretation ceph_osd: job_life cc_job "tsapi_ceph_osd_start e" "tsapi_ceph_osd_wait e" "tsapi_ceph_osd_cleanup e"
  for e :: "'w te_env"
  by unfold_locales
     (simp_all add: tsapi_ceph_osd_start_def tsapi_ceph_osd_wait_def tsapi_ceph_osd_cleanup_def
       ceph_start_step [simplified] ceph_wait_step ceph_cleanup_step)

interpretation ceph_mon: job_life cc_job "tsapi_ceph_mon_start e" "tsapi_ceph_mon_wait e" "tsapi_ceph_mon_cleanup e"
  for e :: "'w te_env"
  by unfold_locales
     (simp_all add: tsapi_ceph_mon_start_def tsapi_ceph_mon_wait_def tsapi_ceph_mon_cleanup_def
       ceph_start_step [simplified] ceph_wait_step ceph_cleanup_step)

interpretation ceph_tool: job_life cc_job "tsapi_ceph_start e" "tsapi_ceph_wait e" "tsapi_ceph_cleanup e"
  for e :: "'w te_env"
  by unfold_locales
     (simp_all add: tsapi_ceph_start_def tsapi_ceph_wait_def tsapi_ceph_cleanup_def
       ceph_start_step [simplified] ceph_wait_step ceph_cleanup_step)

interpretation ceph_mmt: job_life cc_job "tsapi_ceph_mmt_start e" "tsapi_ceph_mmt_wait e" "tsapi_ceph_mmt_cleanup e"
  for e :: "'w te_env"
  by unfold_locales
     (simp_all add: tsapi_ceph_mmt_start_def tsapi_ceph_mmt_wait_def tsapi_ceph_mmt_cleanup_def
       ceph_start_step [simplified] ceph_wait_step ceph_cleanup_step)

section \<open>Tools: correctness\<close>

lemma add_options_ok: "mem_ok e \<Longrightarrow> add_options e opts v = ret (0, v @ opts)"
  by (induction opts arbitrary: v) (simp_all add: mem_ok_simps)

text \<open>The factories of an initialisation: one, kept in the handle, when it succeeds; none
  left otherwise.\<close>

definition one_factory :: "(te_errno \<times> tsapi_ceph_common_t) outcome \<Rightarrow> event list \<Rightarrow> bool" where
  "one_factory res t = (case res of
     Val (rc, c) \<Rightarrow>
       if rc = 0 then in_trace made_factory t = [cc_factory c] \<and> in_trace freed_factory t = []
       else in_trace freed_factory t = in_trace made_factory t
   | Jump v \<Rightarrow> False)"

definition creates_only :: "string list \<Rightarrow> event list \<Rightarrow> bool" where
  "creates_only argv t = list_all (\<lambda>ev. case fst ev of Job (JobCreate f d) \<Rightarrow> jd_argv d = argv | _ \<Rightarrow> True) t"

lemma desc_init_ok:
  assumes "mem_ok e" and "\<And>v. build v = ret (0, v @ args)"
  shows "obeys (ceph_generic_desc_init e rpcs bin common build) (\<lambda>res t.
    one_factory res t \<and> creates_only (bin # args) t)"
  unfolding ceph_generic_desc_init_def Let_def
  by (auto intro!: ev simp: mem_ok_simps assms one_factory_def creates_only_def resource_defs)



text \<open>
  Waiting for a ceph tool waits for its job twice, a minute each at most, and only the second
  answer counts: 0 is returned exactly when that one is a success with status 0.
\<close>

theorem ceph_wait_waits_twice:
  "obeys (tsapi_ceph_osd_wait e osd) (\<lambda>res t. \<exists>a b.
     t = [(Job (JobWait (cc_job osd) 60000), a), (Job (JobWait (cc_job osd) 60000), b)] \<and>
     (res = Val 0) = (r_rc b = 0 \<and> r_num b = 0 \<and> r_flag b \<in> {EXITED, SIGNALED}))"
proof -
  have status: "(ceph_common_status_handle f n = 0) = (n = 0 \<and> f \<in> {EXITED, SIGNALED})" for f n
    by (cases f) auto
  show ?thesis
    unfolding tsapi_ceph_osd_wait_def ceph_wait_def by (auto intro!: ev simp: status)
qed

section \<open>Filling the devices: correctness\<close>

definition balanced :: "event list \<Rightarrow> bool" where
  "balanced t \<longleftrightarrow> in_trace freed_factory t = in_trace made_factory t \<and>
     in_trace freed_fio t = in_trace made_fio t"

lemma balanced_Nil [simp]: "balanced []"
  by (simp add: balanced_def)

lemma balanced_append: "balanced t \<Longrightarrow> balanced t' \<Longrightarrow> balanced (t @ t')"
  by (simp add: balanced_def)

lemma no_resources_append_dev_names: "obeys (append_dev_names e v ds) (\<lambda>r t. t = [])"
  by (induction ds arbitrary: v) (auto intro!: ev elim!: obeys_weaken)

lemma no_resources_collect: "obeys (collect_devices e v pcis) (\<lambda>r t. balanced t)"
proof (induction pcis arbitrary: v)
  case (Cons pci pcis)
  have *: "balanced ((Agent (PciGetDevices pci), r) # t) = balanced t" for r t
    by (simp add: balanced_def resource_defs)
  show ?case
    by (auto intro!: ev obeys_weaken [OF no_resources_append_dev_names] obeys_weaken [OF Cons] simp: *)
qed (auto intro!: ev)

lemma no_resources_get_devices: "obeys (tsapi_get_devices e ta) (\<lambda>r t. balanced t)"
  unfolding tsapi_get_devices_def tsapi_get_virtio_blocks_def
  by (auto intro!: ev obeys_weaken [OF no_resources_collect] simp: balanced_def resource_defs)

lemma fill_device_balanced:
  "obeys (fill_device e rpcs sz block fac fio) (\<lambda>res t. \<forall>x. res = Val (0, x) \<longrightarrow> balanced t)"
  unfolding fill_device_def tsapi_fio_create_def tsapi_fio_flex_wait_def Let_def
  by (auto intro!: ev simp: balanced_def resource_defs)

lemma fill_loop_balanced:
  "obeys (fill_loop e rpcs sz blocks fac fio) (\<lambda>res t. \<forall>x. res = Val (0, x) \<longrightarrow> balanced t)"
proof (induction blocks arbitrary: fac fio)
  case (Cons block blocks)
  show ?case
    by (auto intro!: ev obeys_weaken [OF fill_device_balanced] obeys_weaken [OF Cons] balanced_append)
qed (auto intro!: ev)

text \<open>
  C11. When the devices were filled without an error, every job factory and every FIO instance made
  on the way was destroyed, once, in the order they were made.
\<close>

theorem fill_devices_balanced:
  "obeys (tsapi_ceph_fill_devices e rpcs sz) (\<lambda>res t. res = Val 0 \<longrightarrow> balanced t)"
  unfolding tsapi_ceph_fill_devices_def
  by (auto intro!: ev obeys_weaken [OF no_resources_get_devices] obeys_weaken [OF fill_loop_balanced]
      balanced_append)

text \<open>Answers for two devices, the second of which is reached with factory 5 and FIO 6 already
  destroyed.\<close>

definition two_devices :: script where
  "two_devices =
     [ok_reply\<lparr>r_list := [''pci0'']\<rparr>, ok_reply\<lparr>r_list := [''vda'', ''vdb'']\<rparr>, handing [5],
      answering ''/agt'', handing [6], ok_reply, ok_reply, ok_reply, ok_reply, ok_reply]"

lemma fill_devices_balanced_witness:
  "balanced (trace (snd (tsapi_ceph_fill_devices calm_env host_rpcs None (calm_sys two_devices)))) \<and>
   fst (tsapi_ceph_fill_devices calm_env host_rpcs None (calm_sys two_devices)) = Val 0"
proof -
  have "fst (tsapi_ceph_fill_devices calm_env host_rpcs None (calm_sys two_devices)) = Val 0" by code_simp
  with obeys_at [OF fill_devices_balanced [of calm_env host_rpcs None], of "calm_sys two_devices"]
  show ?thesis by simp
qed

text \<open>
  The error path destroys what is already gone: when the factory of the second device cannot be
  made, the instance and the factory of the first one are destroyed a second time.
\<close>

theorem fill_devices_double_destroy:
  "fst (tsapi_ceph_fill_devices calm_env host_rpcs None (calm_sys (two_devices @ [failing TE_EFAIL]))) = Val TE_EFAIL \<and>
   in_trace made_factory (trace (snd (tsapi_ceph_fill_devices calm_env host_rpcs None
     (calm_sys (two_devices @ [failing TE_EFAIL]))))) = [5] \<and>
   in_trace freed_factory (trace (snd (tsapi_ceph_fill_devices calm_env host_rpcs None
     (calm_sys (two_devices @ [failing TE_EFAIL]))))) = [5, 5] \<and>
   in_trace freed_fio (trace (snd (tsapi_ceph_fill_devices calm_env host_rpcs None
     (calm_sys (two_devices @ [failing TE_EFAIL]))))) = [6, 6]"
  by (intro conjI; code_simp)

section \<open>Parameters of the server: correctness\<close>

lemma size_word:
  assumes "0 \<le> i" and "i < 2147483648"
  shows "sint (word_of_int i :: 32 word) = i" and "uint (word_of_int i :: 32 word) = i"
  using assms by (simp_all add: sint_sbintrunc' signed_take_bit_int_eq_self take_bit_int_eq_self unsigned_of_int)

lemma ceph_dev_size_exact:
  assumes "2 \<le> sint stor" and "sint stor \<le> 2097152" and "block_count \<noteq> 0"
  shows "sint (ceph_dev_size_mb stor block_count) = (sint stor - 2) div uint block_count * 1024"
proof -
  let ?s = "sint stor - 2" and ?n = "uint block_count"
  have n: "1 \<le> ?n" using assms(3)
    by (metis uint_0_iff uint_ge_0 order.order_iff_strict int_one_le_iff_zero_less)
  have q: "0 \<le> ?s div ?n" "?s div ?n \<le> ?s"
    using assms(1) n zdiv_mono2 [of ?s 1 ?n] by (simp_all add: pos_imp_zdiv_nonneg_iff)
  have "stor - 2 = word_of_int ?s" by (simp add: of_int_diff)
  moreover have "uint (word_of_int ?s :: 32 word) = ?s" using assms(1,2) by (intro size_word) auto
  ultimately have "ceph_dev_size_mb stor block_count = word_of_int (?s div ?n) * 1024"
    unfolding ceph_dev_size_mb_def TSAPI_CEPH_AUX_INFO_SZ_GB_def word_div_def by simp
  also have "\<dots> = word_of_int (?s div ?n * 1024)" by simp
  finally show ?thesis using q assms(2) by (simp only:) (intro size_word; linarith)
qed

text \<open>
  C12. For a store of 2 to 2097152 GB no arithmetic overflows: the size given to each device is not
  negative, and all devices together fit the store beside the 2 GB of service data.
\<close>

theorem ceph_devices_fit:
  assumes "2 \<le> sint stor" and "sint stor \<le> 2097152" and "block_count \<noteq> 0"
  shows "0 \<le> sint (ceph_dev_size_mb stor block_count) \<and>
    sint (ceph_dev_size_mb stor block_count) * uint block_count \<le> (sint stor - 2) * 1024"
proof -
  have n: "0 < uint block_count" using assms(3) by (metis uint_0_iff uint_ge_0 order.order_iff_strict)
  then have "(sint stor - 2) div uint block_count * uint block_count \<le> sint stor - 2"
    using pos_mod_sign [OF n, of "sint stor - 2"] div_mult_mod_eq [of "sint stor - 2" "uint block_count"] by linarith
  with n assms(1) show ?thesis
    by (simp add: ceph_dev_size_exact [OF assms] pos_imp_zdiv_nonneg_iff algebra_simps)
qed

lemma ceph_devices_fit_witness: "sint (ceph_dev_size_mb 10 3) * 3 \<le> 8 * 1024"
  using ceph_devices_fit [of 10 3] by simp

lemma inventory_add_str_calls:
  "obeys (tsapi_inventory_local_add_str e backend name val)
     (in_order [Cfg (CfgAdd (inventory_inst backend name) (Some val))])"
  unfolding tsapi_inventory_local_add_str_def by (auto intro!: ev)

lemma inventory_add_int_ok:
  "mem_ok e \<Longrightarrow> tsapi_inventory_local_add_int e backend name val =
     tsapi_inventory_local_add_str e backend name (dec_of_int (sint val))"
  by (simp add: tsapi_inventory_local_add_int_def mem_ok_simps)

definition ceph_param :: "string \<Rightarrow> string \<Rightarrow> call" where
  "ceph_param name val = Cfg (CfgAdd (inventory_inst ''ceph'' name) (Some val))"

text \<open>The two entries of a device slot; the slots behind the last device are empty.\<close>

definition device_params :: "32 word \<Rightarrow> 32 word \<Rightarrow> nat \<Rightarrow> call list" where
  "device_params block_count dev_size i =
     [ceph_param (''CEPH_DEV'' @ dec_of_nat i @ ''_NAME'')
        (if of_nat i < block_count then ''- name: ramdev'' @ dec_of_nat i else ''''),
      ceph_param (''CEPH_DEV'' @ dec_of_nat i @ ''_SIZE'')
        (if of_nat i < block_count then ''  size_mb: '' @ dec_of_int (sint dev_size) else '''')]"

lemma ceph_add_device_calls:
  assumes "mem_ok e"
  shows "obeys (ceph_add_device e block_count dev_size i) (in_order (device_params block_count dev_size i))"
  unfolding ceph_add_device_def Let_def mem_ok_append [OF assms] bnd_ret prod.case device_params_def
    ceph_param_def TSAPI_CEPH_BLK_DEV_NAME_def
  using obeys_on_ok_in_order [OF inventory_add_str_calls inventory_add_str_calls]
  by (simp only: simp_thms if_False append_Nil append.simps)

text \<open>
  C13. Where memory suffices the parameters of a ceph server are written in a fixed order up to the first
  failure: host, monitor, OSD size and number, then a name and a size for each of three device
  slots, of which those without a device are written empty.
\<close>

theorem ceph_params_order:
  assumes "mem_ok e"
  shows "obeys (ceph_add_params e host addr osd_size osd_num dev_size block_count)
    (in_order
      ([ceph_param ''CEPH_SERVER_HOST'' host, ceph_param ''CEPH_MON_IP'' (te_sockaddr_get_ipstr e addr),
        ceph_param ''CEPH_OSD_SIZE'' (dec_of_int (sint osd_size)),
        ceph_param ''CEPH_OSD_NUM'' (dec_of_int (sint osd_num))] @
       concat (map (device_params block_count dev_size) [0, 1, 2])))"
proof -
  have "obeys (rc_seq ([tsapi_inventory_local_add_str e ''ceph'' ''CEPH_SERVER_HOST'' host,
         tsapi_inventory_local_add_str e ''ceph'' ''CEPH_MON_IP'' (te_sockaddr_get_ipstr e addr),
         tsapi_inventory_local_add_str e ''ceph'' ''CEPH_OSD_SIZE'' (dec_of_int (sint osd_size)),
         tsapi_inventory_local_add_str e ''ceph'' ''CEPH_OSD_NUM'' (dec_of_int (sint osd_num)),
         ceph_add_device e block_count dev_size 0, ceph_add_device e block_count dev_size 1,
         ceph_add_device e block_count dev_size 2]))
    (in_order (concat [[ceph_param ''CEPH_SERVER_HOST'' host],
         [ceph_param ''CEPH_MON_IP'' (te_sockaddr_get_ipstr e addr)],
         [ceph_param ''CEPH_OSD_SIZE'' (dec_of_int (sint osd_size))],
         [ceph_param ''CEPH_OSD_NUM'' (dec_of_int (sint osd_num))],
         device_params block_count dev_size 0, device_params block_count dev_size 1,
         device_params block_count dev_size 2]))"
    unfolding ceph_param_def
    by (intro obeys_rc_seq_in_order list.rel_intros inventory_add_str_calls ceph_add_device_calls assms)
  moreover have "[0..<TSAPI_CEPH_BLK_NUM_MAX] = [0, 1, 2]" by code_simp
  ultimately show ?thesis
    unfolding ceph_add_params_def inventory_add_int_ok [OF assms] by simp
qed

lemma ceph_params_order_witness:
  "drop 8 (map fst (trace (snd (ceph_add_params calm_env ''h'' 1 4 2 4096 2 (calm_sys []))))) =
     [ceph_param ''CEPH_DEV2_NAME'' [], ceph_param ''CEPH_DEV2_SIZE'' []]"
proof -
  have "fst (ceph_add_params calm_env ''h'' 1 4 2 4096 2 (calm_sys [])) = Val 0" by code_simp
  with obeys_at [OF ceph_params_order [of calm_env "''h''" 1 4 2 4096 2], of "calm_sys []"]
  have t: "map fst (trace (snd (ceph_add_params calm_env ''h'' 1 4 2 4096 2 (calm_sys [])))) =
    [ceph_param ''CEPH_SERVER_HOST'' ''h'', ceph_param ''CEPH_MON_IP'' (te_sockaddr_get_ipstr calm_env 1),
        ceph_param ''CEPH_OSD_SIZE'' (dec_of_int 4), ceph_param ''CEPH_OSD_NUM'' (dec_of_int 2)] @
       concat (map (device_params 2 4096) [0, 1, 2])"
    by (simp add: in_orderD)
  have two: "dec_of_nat 2 = ''2''" by code_simp
  show ?thesis unfolding t by (simp add: device_params_def two)
qed

text \<open>
  With a store of 1 GB and one device the unsigned arithmetic wraps and a negative size is written to
  the inventory, without an error.
\<close>

theorem ceph_params_wrap:
  "fst (tsapi_ceph_prepare_params calm_env 1 1 (calm_sys [answering ''h'', answering ''1'', answering ''1''])) = Val 0 \<and>
   ceph_param ''CEPH_DEV0_SIZE'' ''  size_mb: -1024'' \<in> set (calls (snd
     (tsapi_ceph_prepare_params calm_env 1 1 (calm_sys [answering ''h'', answering ''1'', answering ''1'']))))"
  by (intro conjI; code_simp)

end
