(* ===== verification/Block_Ts.thy ===== *)
theory Block_Ts
  imports Ceph
begin

text \<open>
  \<open>src/block-ts/lib/block-ts.c\<close> and \<open>block-ts.h\<close>: the environment of the gtest binaries, the
  RBD features, the conversion of messages into test skips, and the creation of a ceph
  cluster with its configuration, monitor, OSD and logger.
\<close>

section \<open>Constants\<close>

definition BLOCK_TS_CEPH_CONF :: string where
  "BLOCK_TS_CEPH_CONF = ''/etc/ceph/ceph.conf''"
definition BLOCK_TS_CEPH_MONMAP :: string where
  "BLOCK_TS_CEPH_MONMAP = ''/tmp/monmap''"
definition BLOCK_TS_CEPH_FSID :: string where
  "BLOCK_TS_CEPH_FSID = ''6cac38af-505c-4c8d-9aeb-4fbe814313b0''"
definition BLOCK_TS_CEPH_MON_NAME :: string where
  "BLOCK_TS_CEPH_MON_NAME = ''main''"
definition BLOCK_TS_CEPH_MON_PORT :: "32 word" where
  "BLOCK_TS_CEPH_MON_PORT = 6789"
definition BLOCK_TS_CEPH_OSD_FIRST :: string where
  "BLOCK_TS_CEPH_OSD_FIRST = ''0''"
definition BLOCK_TS_CEPH_OSD_HOST :: string where
  "BLOCK_TS_CEPH_OSD_HOST = ''disk_host''"
definition BLOCK_TS_CEPH_MON_DATA :: string where
  "BLOCK_TS_CEPH_MON_DATA = ''/var/lib/ceph/mon''"
definition BLOCK_TS_CEPH_OSD_DATA :: string where
  "BLOCK_TS_CEPH_OSD_DATA = ''/var/lib/ceph/osd''"
definition BLOCK_TS_CEPH_LOG_DIR_PATH :: string where
  "BLOCK_TS_CEPH_LOG_DIR_PATH = ''/var/log/ceph''"
definition BLOCK_TS_CEPH_LOG_FILE_NAME :: string where
  "BLOCK_TS_CEPH_LOG_FILE_NAME = ''ceph.log''"
definition BLOCK_TS_CEPH_LOG_TOOL_NAME :: string where
  "BLOCK_TS_CEPH_LOG_TOOL_NAME = ''tail''"
definition TSAPI_CEPH_LOGGER_NAME :: string where
  "TSAPI_CEPH_LOGGER_NAME = ''ceph_logger''"

section \<open>RBD features\<close>

text \<open>The table of the features with their bits, and the set of features as an unsigned.\<close>

definition block_ts_rbd_feature_map_entries :: "(string \<times> 32 word) list" where
  "block_ts_rbd_feature_map_entries =
     [(''LAYERING'', 1), (''STRIPINGV2'', 2), (''EXCLUSIVE_LOCK'', 4), (''OBJECT_MAP'', 8),
      (''FAST_DIFF'', 16), (''DEEP_FLATTEN'', 32), (''JOURNALING'', 64), (''DATA_POOL'', 128),
      (''OPERATIONS'', 256), (''MIGRATING'', 512)]"

definition block_ts_rbd_feature_str2feat :: "string \<Rightarrow> te_errno \<times> 32 word" where
  "block_ts_rbd_feature_str2feat feature =
     (case find (\<lambda>entry. fst entry = feature) block_ts_rbd_feature_map_entries of
        None \<Rightarrow> (TE_ESRCH, 0)
      | Some entry \<Rightarrow> (0, snd entry))"

fun features_string_loop ::
    "'w te_env \<Rightarrow> (string \<times> 32 word) list \<Rightarrow> 32 word \<Rightarrow> string \<Rightarrow> ('w, te_errno \<times> string) te" where
  "features_string_loop e [] features str = ret (0, str)"
| "features_string_loop e ((name, feat) # entries) features str =
     (if features AND feat \<noteq> 0
      then bnd (te_string_append e str (name @ '' ('' @ dec_of_int (sint feat) @ '')'' @ [newline]))
             (\<lambda>(rc, str). if rc \<noteq> 0 then ret (rc, '''')
                else features_string_loop e entries features str)
      else features_string_loop e entries features str)"

definition block_ts_rbd_features_string :: "'w te_env \<Rightarrow> 32 word \<Rightarrow> string \<Rightarrow> ('w, te_errno \<times> string) te" where
  "block_ts_rbd_features_string e features str =
     features_string_loop e block_ts_rbd_feature_map_entries features str"

definition block_ts_test_get_features_disable :: "32 word \<Rightarrow> string \<Rightarrow> te_errno \<times> 32 word" where
  "block_ts_test_get_features_disable features feature =
     (case block_ts_rbd_feature_str2feat feature of
        (rc, feat) \<Rightarrow> if rc \<noteq> 0 then (rc, features) else (0, features AND NOT feat))"

definition block_ts_test_get_features_keyword :: "32 word \<Rightarrow> string \<Rightarrow> te_errno \<times> 32 word" where
  "block_ts_test_get_features_keyword features keyword =
     (if keyword = ''UNSET_FEATURES'' then (0, 0) else (TE_EINVAL, features))"

definition default_features :: "32 word" where
  "default_features = 1 OR 2 OR 4 OR 8 OR 16 OR 32 OR 64 OR 128"

definition features_step :: "32 word \<Rightarrow> string \<Rightarrow> te_errno \<times> 32 word" where
  "features_step result fstr =
     (if hd fstr = CHR ''-'' then block_ts_test_get_features_disable result (tl fstr)
      else block_ts_test_get_features_keyword result fstr)"

fun features_loop :: "32 word \<Rightarrow> string list \<Rightarrow> te_errno \<times> 32 word" where
  "features_loop result [] = (0, result)"
| "features_loop result (fstr # fstrs) =
     (case features_step result fstr of
        (rc, result) \<Rightarrow> if rc \<noteq> 0 then (rc, result) else features_loop result fstrs)"

text \<open>On an error the features of the caller are not written.\<close>

definition block_ts_test_get_features :: "string \<Rightarrow> 32 word \<Rightarrow> te_errno \<times> 32 word" where
  "block_ts_test_get_features features_string features =
     (case features_loop default_features (strtok_all CHR '':'' features_string) of
        (rc, result) \<Rightarrow> if rc \<noteq> 0 then (rc, features) else (0, result))"

section \<open>The environment of the gtest binaries\<close>

definition preload_libs :: "string list" where
  "preload_libs = [''libcls_cas.so'', ''libcls_log.so'', ''libcls_lua.so'', ''libcls_rgw.so'', ''libcls_user.so'']"

text \<open>The strings are appended one after the other until an append fails.\<close>

fun append_all :: "'w te_env \<Rightarrow> string list \<Rightarrow> string \<Rightarrow> ('w, te_errno \<times> string) te" where
  "append_all e [] str = ret (0, str)"
| "append_all e (txt # txts) str =
     bnd (te_string_append e str txt)
       (\<lambda>(rc, str). if rc \<noteq> 0 then ret (rc, str) else append_all e txts str)"

definition gtest_setenv_ld_preload ::
    "'w te_env \<Rightarrow> rcf_rpc_server \<Rightarrow> string \<Rightarrow> string option \<Rightarrow> ('w, te_errno) te" where
  "gtest_setenv_ld_preload e rpcs ceph_lib onload_lib =
     bnd (append_all e (map (\<lambda>lib. ceph_lib @ ''/'' @ lib @ '':'') preload_libs) '''') (\<lambda>(rc, val).
       if rc \<noteq> 0 then ret rc else
     bnd (te_string_append e val (ptr_str onload_lib @ ''/'' @ ''libonload_ext.so.2'')) (\<lambda>(rc, val).
       if rc \<noteq> 0 then ret rc
       else rpc_or_errno e rpcs (RpcSetenv ''LD_PRELOAD'' (Some val) False)))"

definition block_ts_test_specific_setenv :: "'w te_env \<Rightarrow> rcf_rpc_server \<Rightarrow> ('w, te_errno) te" where
  "block_ts_test_specific_setenv e rpcs =
     bnd (test_has_param e ''features'') (\<lambda>has.
     bnd (if has then test_param_str e ''features'' else ret '''') (\<lambda>features.
       (case block_ts_test_get_features features 0 of (rc, rbd_features) \<Rightarrow>
          if rc \<noteq> 0 then ret rc
          else if rbd_features = 0 then rpc_or_errno e rpcs (RpcUnsetenv ''RBD_FEATURES'')
          else
     bnd (te_string_append e '''' (dec_of_int (sint rbd_features))) (\<lambda>(rc, val). if rc \<noteq> 0 then ret rc else
     bnd (block_ts_rbd_features_string e rbd_features '''') (\<lambda>(rc, ring_val). if rc \<noteq> 0 then ret rc else
       rpc_or_errno e rpcs (RpcSetenv ''RBD_FEATURES'' (Some val) True))))))"

text \<open>When \<open>LD_PRELOAD\<close> could not be set, the status returned is the remote error, whatever
  the failure was.\<close>

definition block_ts_gtest_setenv :: "'w te_env \<Rightarrow> rcf_rpc_server \<Rightarrow> ('w, te_errno) te" where
  "block_ts_gtest_setenv e rpcs =
     (case getenv e ''CEPH_LIB'' of
        None \<Rightarrow> ret 0
      | Some ceph_lib \<Rightarrow>
          bnd (te_call e (Rpc rpcs (RpcSetenv ''CEPH_LIB'' (Some ceph_lib) False))) (\<lambda>r.
            if r_num r \<noteq> 0 then get_rpc_errno rpcs else
          on_ok (block_ts_test_specific_setenv e rpcs)
         (bnd (gtest_setenv_ld_preload e rpcs ceph_lib (getenv e ''ONLOAD_LIB'')) (\<lambda>rc.
            if rc \<noteq> 0 then get_rpc_errno rpcs else
          bnd (te_call e (Job (JobFactoryCreate rpcs))) (\<lambda>r. if r_rc r \<noteq> 0 then ret (r_rc r) else
          bnd (call_rc e (Job (JobFactorySetPath (handle_of 0 r)))) (\<lambda>rc.
          bnd (te_call e (Job (JobFactoryDestroy (handle_of 0 r)))) (\<lambda>_. ret rc)))))))"

definition block_ts_gtest_absbin :: "'w te_env \<Rightarrow> string \<Rightarrow> ('w, string option) te" where
  "block_ts_gtest_absbin e bin =
     (case getenv e ''CEPH_BIN'' of
        None \<Rightarrow> ret None
      | Some path \<Rightarrow> bnd (te_string_append e '''' (path @ ''/'' @ bin))
                      (\<lambda>(rc, absbin). ret (if rc \<noteq> 0 then None else Some absbin)))"

section \<open>Log conversion\<close>

text \<open>The only action skips the test. The global vector \<open>log_convs\<close> is passed along.\<close>

datatype block_ts_log_conv_action = BLOCK_TS_LOG_CONV_TEST_SKIP

record log_conv =
  lc_re :: string
  lc_action :: block_ts_log_conv_action
  lc_channel :: handle

definition block_ts_log_conv_add ::
    "'w te_env \<Rightarrow> handle \<Rightarrow> string \<Rightarrow> block_ts_log_conv_action \<Rightarrow> log_conv list \<Rightarrow>
     ('w, te_errno \<times> log_conv list) te" where
  "block_ts_log_conv_add e chan re action log_convs =
     bnd (te_call e (Job (JobAttachFilter chan ''Log Conversation''))) (\<lambda>r.
       if r_rc r \<noteq> 0 then ret (r_rc r, log_convs) else
     bnd (call_rc e (Job (JobFilterRegexp (handle_of 0 r) re))) (\<lambda>rc.
       if rc \<noteq> 0 then ret (rc, log_convs) else
     bnd (mem e (VecAppend re)) (\<lambda>rc.
       ret (rc, if rc = 0
                then log_convs @ [\<lparr>lc_re = re, lc_action = action, lc_channel = handle_of 0 r\<rparr>]
                else log_convs))))"

text \<open>\<open>while (!buffer.eos)\<close>: at most \<open>fuel\<close> receives; \<open>None\<close> when the stream did not end
  within them. The answer holds the contents of the buffer after the call.\<close>

fun receive_until_eos ::
    "'w te_env \<Rightarrow> nat \<Rightarrow> handle \<Rightarrow> ('w, (te_errno \<times> string) option) te" where
  "receive_until_eos e 0 chan = ret None"
| "receive_until_eos e (Suc fuel) chan =
     bnd (te_call e (Job (JobReceive chan (- 1)))) (\<lambda>buf.
       if r_rc buf \<noteq> 0 then ret (Some (r_rc buf, out_str buf))
       else if r_bool buf then ret (Some (0, out_str buf))
       else receive_until_eos e fuel chan)"

definition log_conv_action_test_skip :: "('w, te_errno option) te" where
  "log_conv_action_test_skip = jump Skipped"

text \<open>The vector is freed on every way out.\<close>

fun block_ts_log_conv_run :: "'w te_env \<Rightarrow> nat \<Rightarrow> log_conv list \<Rightarrow> ('w, te_errno option) te" where
  "block_ts_log_conv_run e fuel [] = ret (Some 0)"
| "block_ts_log_conv_run e fuel (log_conv # log_convs) =
     bnd (receive_until_eos e fuel (lc_channel log_conv)) (\<lambda>r. case r of
         None \<Rightarrow> ret None
       | Some (rc, contents) \<Rightarrow>
           if rc \<noteq> 0 then ret (Some rc)
           else if contents \<noteq> '''' then
             (case lc_action log_conv of BLOCK_TS_LOG_CONV_TEST_SKIP \<Rightarrow> log_conv_action_test_skip)
           else block_ts_log_conv_run e fuel log_convs)"

section \<open>The ceph cluster\<close>

text \<open>Whether the \<open>PATH\<close> of the agent holds the path (the pointer \<open>strstr\<close> returns, taken as
  a truth value). Any other error fails the test.\<close>

definition env_path_inst :: "string \<Rightarrow> string" where
  "env_path_inst ta = ''/agent:'' @ ta @ ''/env:PATH''"

definition ceph_sh_env_contain_path :: "'w te_env \<Rightarrow> string \<Rightarrow> string \<Rightarrow> ('w, bool) te" where
  "ceph_sh_env_contain_path e ta path =
     bnd (te_call e (Cfg (CfgGet (env_path_inst ta)))) (\<lambda>r.
       if r_rc r = TE_RC TE_CONF_API TE_C_ENOENT then ret False
       else if r_rc r = 0 then ret (strstr (out_str r) path \<noteq> None)
       else jump Failed)"

definition block_ts_ceph_cluster_env_prepare ::
    "'w te_env \<Rightarrow> rcf_rpc_server \<Rightarrow> tsapi_ceph_common_t \<Rightarrow> ('w, te_errno) te" where
  "block_ts_ceph_cluster_env_prepare e rpcs common =
     (case getenv e ''CEPH_LIB'' of
        None \<Rightarrow> ret 0
      | Some ceph_lib \<Rightarrow>
          (case getenv e ''CEPH_BIN'' of
             None \<Rightarrow> ret TE_EFAIL
           | Some ceph_bin \<Rightarrow>
               bnd (ceph_sh_env_contain_path e (rpcs_ta rpcs) ceph_bin) (\<lambda>contained.
               on_ok (if contained then ret 0
                      else call_rc e (Agent (ShEnvPathAppend (rpcs_ta rpcs) (Some ceph_bin))))
              (on_ok (rpc_or_errno e rpcs (RpcSetenv ''LD_LIBRARY_PATH'' (Some ceph_lib) True))
              (on_ok (rpc_or_errno e rpcs (RpcSetenv ''PYTHONPATH'' (getenv e ''CEPH_PYBIND'') True))
              (call_rc e (Job (JobFactorySetPath (cc_factory common)))))))))"

text \<open>\<open>CEPH_CONF(key, value)\<close> for each pair, in the section \<open>global\<close>; the first error ends it.\<close>

fun ceph_conf ::
    "'w te_env \<Rightarrow> (string \<times> string) list \<Rightarrow> tsapi_conf_t \<Rightarrow> ('w, te_errno \<times> tsapi_conf_t) te" where
  "ceph_conf e [] conf = ret (0, conf)"
| "ceph_conf e ((k, v) # kvs) conf =
     bnd (conf_append e conf ''global'' k v) (\<lambda>(rc, conf).
       if rc \<noteq> 0 then ret (rc, conf) else ceph_conf e kvs conf)"

definition ceph_base_conf :: "string \<Rightarrow> string \<Rightarrow> (string \<times> string) list" where
  "ceph_base_conf ceph_net ceph_mon_addr =
     [(''fsid'', BLOCK_TS_CEPH_FSID),
      (''public network'', ceph_net),
      (''cluster network'', ceph_net),
      (''ms bind msgr1'', ''true''),
      (''ms bind msgr2'', ''false''),
      (''mon warn on pool no redundancy'', ''false''),
      (''mon warn on pool pg num not power of two'', ''false''),
      (''auth cluster required'', ''none''),
      (''auth service required'', ''none''),
      (''auth client required'', ''none''),
      (''osd crush update on start'', ''false''),
      (''osd objectstore'', ''filestore''),
      (''osd pool default size'', ''1''),
      (''osd pool default min size'', ''1''),
      (''osd crush chooseleaf type'', ''0''),
      (''mon initial members'', BLOCK_TS_CEPH_MON_NAME),
      (''mon host'', ceph_mon_addr),
      (''mon addr'', ceph_mon_addr)]"

definition ceph_onload_conf :: "(string \<times> string) list" where
  "ceph_onload_conf =
     [(''ms type'', ''async+onload''),
      (''ms async onload buffer pool size'', ''2M''),
      (''ms nocrc'', ''true''),
      (''ms crc data'', ''false''),
      (''rbd cache'', ''false'')]"

definition ceph_conf_onload :: "'w te_env \<Rightarrow> tsapi_conf_t \<Rightarrow> ('w, te_errno \<times> tsapi_conf_t) te" where
  "ceph_conf_onload e conf =
     bnd (tsapi_use_onload e) (\<lambda>use_onload. if \<not> use_onload then ret (0, conf) else
     bnd (ceph_conf e ceph_onload_conf conf) (\<lambda>(rc, conf). if rc \<noteq> 0 then ret (rc, conf) else
     bnd (tsapi_use_plugin e) (\<lambda>use_plugin.
       if use_plugin then ceph_conf e [(''ms async onload rx plugin'', ''true'')] conf
       else ret (0, conf))))"

definition ceph_log_path :: "string \<Rightarrow> string" where
  "ceph_log_path fsid = BLOCK_TS_CEPH_LOG_DIR_PATH @ ''/'' @ fsid @ ''/'' @ BLOCK_TS_CEPH_LOG_FILE_NAME"

definition ceph_conf_logging :: "'w te_env \<Rightarrow> tsapi_conf_t \<Rightarrow> ('w, te_errno \<times> tsapi_conf_t) te" where
  "ceph_conf_logging e conf =
     bnd (tsapi_get_backend_param_bool e ''ceph'' ''enable_logging'') (\<lambda>(rc, is_enabled_logging).
       if rc \<noteq> 0 then ret (rc, conf) else if \<not> is_enabled_logging then ret (0, conf) else
     bnd (te_string_append e '''' (ceph_log_path BLOCK_TS_CEPH_FSID)) (\<lambda>(rc, path).
       if rc \<noteq> 0 then ret (rc, conf)
       else ceph_conf e [(''log_to_file'', ''true''), (''log_file'', path)] conf))"

text \<open>The status of creating the section is not looked at: without the section the first
  append fails.\<close>

definition block_ts_ceph_cluster_conf_create ::
    "'w te_env \<Rightarrow> rcf_rpc_server \<Rightarrow> nat \<Rightarrow> nat \<Rightarrow> 32 word \<Rightarrow> ('w, te_errno) te" where
  "block_ts_ceph_cluster_conf_create e rpcs ceph_net_ip ceph_mon_addr ceph_net_ip_pfx =
     bnd (te_string_append e '''' (te_sockaddr_get_ipstr e ceph_net_ip @ ''/'' @
            dec_of_int (sint ceph_net_ip_pfx))) (\<lambda>(rc, net). if rc \<noteq> 0 then ret rc else
     bnd (te_string_append e '''' (te_sockaddr_get_ipstr e ceph_mon_addr @ '':'' @
            dec_of_int (sint BLOCK_TS_CEPH_MON_PORT) @ ''/0'')) (\<lambda>(rc, mon). if rc \<noteq> 0 then ret rc else
     bnd (tsapi_conf_create_section e TSAPI_CONF_INIT ''global'' ''='') (\<lambda>(_, conf).
     bnd (ceph_conf e (ceph_base_conf net mon) conf) (\<lambda>(rc, conf). if rc \<noteq> 0 then ret rc else
     bnd (ceph_conf_onload e conf) (\<lambda>(rc, conf). if rc \<noteq> 0 then ret rc else
     bnd (ceph_conf_logging e conf) (\<lambda>(rc, conf). if rc \<noteq> 0 then ret rc
       else tsapi_conf_flush e rpcs conf BLOCK_TS_CEPH_CONF))))))"

subsection \<open>Running the tools\<close>

text \<open>
  The five \<open>CHECK_RC\<close> lines that every tool is run with: initialise, prepare the
  environment, start, wait, clean up. A failure leaves by a jump, the job is then not
  destroyed.
\<close>

definition run_ceph_tool ::
    "'w te_env \<Rightarrow> rcf_rpc_server \<Rightarrow> ('w, te_errno \<times> tsapi_ceph_common_t) te \<Rightarrow>
     (tsapi_ceph_common_t \<Rightarrow> ('w, te_errno) te) \<Rightarrow> (tsapi_ceph_common_t \<Rightarrow> ('w, te_errno) te) \<Rightarrow>
     (tsapi_ceph_common_t \<Rightarrow> ('w, te_errno) te) \<Rightarrow> ('w, unit) te" where
  "run_ceph_tool e rpcs init start wait cleanup =
     bnd init (\<lambda>(rc, common). if rc \<noteq> 0 then jump Failed else
       bnd (check_rc (block_ts_ceph_cluster_env_prepare e rpcs common)) (\<lambda>_.
         run_checked start wait cleanup common))"

definition monmap_opts :: "'w te_env \<Rightarrow> nat \<Rightarrow> tsapi_ceph_mmt_opts" where
  "monmap_opts e ceph_mon_addr = TSAPI_CEPH_MMT_OPTS_INIT
     \<lparr>mmt_config := Some BLOCK_TS_CEPH_CONF, mmt_fsid := Some BLOCK_TS_CEPH_FSID,
      mmt_need_create := True, mmt_monmap := Some BLOCK_TS_CEPH_MONMAP,
      mmt_add := Some \<lparr>mmt_add_name = BLOCK_TS_CEPH_MON_NAME,
                       mmt_add_ip = Some (te_sockaddr_get_ipstr e ceph_mon_addr),
                       mmt_add_port = BLOCK_TS_CEPH_MON_PORT\<rparr>\<rparr>"

definition block_ts_ceph_cluster_monmap_create ::
    "'w te_env \<Rightarrow> rcf_rpc_server \<Rightarrow> nat \<Rightarrow> ('w, te_errno) te" where
  "block_ts_ceph_cluster_monmap_create e rpcs ceph_mon_addr =
     bnd (run_ceph_tool e rpcs
            (tsapi_ceph_mmt_init e rpcs TSAPI_CEPH_COMMON_T_INIT (monmap_opts e ceph_mon_addr))
            (tsapi_ceph_mmt_start e) (tsapi_ceph_mmt_wait e) (tsapi_ceph_mmt_cleanup e))
       (\<lambda>_. ret 0)"

definition daemon_opts :: "string \<Rightarrow> bool \<Rightarrow> tsapi_ceph_common_opts" where
  "daemon_opts cid mkfs =
     \<lparr>co_config = Some BLOCK_TS_CEPH_CONF, co_monmap = Some BLOCK_TS_CEPH_MONMAP,
      co_id = Some cid, co_mkfs = mkfs\<rparr>"

definition block_ts_ceph_cluster_mon_helper_start ::
    "'w te_env \<Rightarrow> rcf_rpc_server \<Rightarrow> bool \<Rightarrow> ('w, te_errno) te" where
  "block_ts_ceph_cluster_mon_helper_start e rpcs mkfs =
     bnd (run_ceph_tool e rpcs
            (tsapi_ceph_mon_init e rpcs TSAPI_CEPH_COMMON_T_INIT (daemon_opts BLOCK_TS_CEPH_MON_NAME mkfs))
            (tsapi_ceph_mon_start e) (tsapi_ceph_mon_wait e) (tsapi_ceph_mon_cleanup e))
       (\<lambda>_. ret 0)"

definition ceph_rpc_mkdirp :: "'w te_env \<Rightarrow> rcf_rpc_server \<Rightarrow> string \<Rightarrow> ('w, te_errno) te" where
  "ceph_rpc_mkdirp e rpcs path =
     bnd (te_string_append e '''' path) (\<lambda>(rc, path).
       if rc \<noteq> 0 then ret rc else rpc_or_errno e rpcs (RpcMkdirp path))"

definition ceph_rpc_mount :: "'w te_env \<Rightarrow> rcf_rpc_server \<Rightarrow> string \<Rightarrow> string \<Rightarrow> ('w, te_errno) te" where
  "ceph_rpc_mount e rpcs block dir =
     bnd (append_all e [''mount -o noatime,inode64 '' @ block @ '' '', dir] '''') (\<lambda>(rc, cmd).
       if rc \<noteq> 0 then ret rc else run_helper e rpcs cmd)"

definition block_ts_ceph_cluster_mon_start :: "'w te_env \<Rightarrow> rcf_rpc_server \<Rightarrow> ('w, te_errno) te" where
  "block_ts_ceph_cluster_mon_start e rpcs =
     bnd (te_call e (Rpcs rpcs RpcAwaitError)) (\<lambda>_.
     bnd (do_all
            [check_rc (ceph_rpc_mkdirp e rpcs (BLOCK_TS_CEPH_MON_DATA @ ''/'' @ ''ceph-main'')),
             check_rc (block_ts_ceph_cluster_mon_helper_start e rpcs True),
             check_rc (block_ts_ceph_cluster_mon_helper_start e rpcs False)]) (\<lambda>_. ret 0))"

definition block_ts_ceph_cluster_osd_helper_start ::
    "'w te_env \<Rightarrow> rcf_rpc_server \<Rightarrow> bool \<Rightarrow> ('w, te_errno) te" where
  "block_ts_ceph_cluster_osd_helper_start e rpcs mkfs =
     bnd (run_ceph_tool e rpcs
            (tsapi_ceph_osd_init e rpcs TSAPI_CEPH_COMMON_T_INIT (daemon_opts BLOCK_TS_CEPH_OSD_FIRST mkfs))
            (tsapi_ceph_osd_start e) (tsapi_ceph_osd_wait e) (tsapi_ceph_osd_cleanup e))
       (\<lambda>_. ret 0)"

definition cluster_ceph_opts :: tsapi_ceph_opts where
  "cluster_ceph_opts = TSAPI_CEPH_OPTS_INIT
     \<lparr>ceph_common_opts := TSAPI_CEPH_COMMON_OPTS_INIT
        \<lparr>co_config := Some BLOCK_TS_CEPH_CONF, co_monmap := Some BLOCK_TS_CEPH_MONMAP\<rparr>\<rparr>"

definition run_ceph :: "'w te_env \<Rightarrow> rcf_rpc_server \<Rightarrow> tsapi_ceph_opts \<Rightarrow> ('w, unit) te" where
  "run_ceph e rpcs opts =
     run_ceph_tool e rpcs (tsapi_ceph_init e rpcs TSAPI_CEPH_COMMON_T_INIT opts)
       (tsapi_ceph_start e) (tsapi_ceph_wait e) (tsapi_ceph_cleanup e)"

definition rpc_system_run :: "'w te_env \<Rightarrow> rcf_rpc_server \<Rightarrow> string \<Rightarrow> ('w, unit) te" where
  "rpc_system_run e rpcs cmd = bnd (te_call e (Rpc rpcs (RpcSystem cmd))) (\<lambda>_. ret ())"

definition osd_dir :: string where
  "osd_dir = BLOCK_TS_CEPH_OSD_DATA @ ''/ceph-'' @ BLOCK_TS_CEPH_OSD_FIRST"

definition block_ts_ceph_cluster_osd_start :: "'w te_env \<Rightarrow> rcf_rpc_server \<Rightarrow> ('w, te_errno) te" where
  "block_ts_ceph_cluster_osd_start e rpcs =
     bnd (do_all
       [run_ceph e rpcs (cluster_ceph_opts\<lparr>ceph_osd_create := Some True\<rparr>),
        bnd (te_call e (Rpcs rpcs RpcAwaitError)) (\<lambda>_. ret ()),
        rpc_system_run e rpcs ''mknod /dev/ram0 b 1 0'',
        rpc_system_run e rpcs ''mkfs -t xfs fs-options -f -i size=2048 /dev/ram0'',
        check_rc (ceph_rpc_mkdirp e rpcs osd_dir),
        check_rc (ceph_rpc_mount e rpcs ''/dev/ram0'' osd_dir),
        check_rc (block_ts_ceph_cluster_osd_helper_start e rpcs True),
        rpc_system_run e rpcs (''ceph osd crush add '' @ BLOCK_TS_CEPH_OSD_FIRST @
          '' 1.0 root=default host='' @ BLOCK_TS_CEPH_OSD_HOST),
        check_rc (block_ts_ceph_cluster_osd_helper_start e rpcs False),
        run_ceph e rpcs (cluster_ceph_opts\<lparr>ceph_status := True\<rparr>)]) (\<lambda>_. ret 0)"

section \<open>The ceph logger\<close>

text \<open>The status of the body is overwritten by that of the cleanup.\<close>

definition block_ts_ceph_cluster_get_fsid ::
    "'w te_env \<Rightarrow> rcf_rpc_server \<Rightarrow> string option \<Rightarrow> ('w, te_errno \<times> string option) te" where
  "block_ts_ceph_cluster_get_fsid e rpcs fsid =
     bnd (tsapi_ceph_init e rpcs TSAPI_CEPH_COMMON_T_INIT
            (TSAPI_CEPH_OPTS_INIT\<lparr>ceph_get_fsid := Some True\<rparr>)) (\<lambda>(rc, ceph).
     bnd (if rc \<noteq> 0 then ret (rc, fsid) else
          bnd (on_ok (tsapi_ceph_start e ceph) (tsapi_ceph_wait e ceph)) (\<lambda>rc.
            if rc \<noteq> 0 then ret (rc, fsid) else tsapi_ceph_get_fsid_result e ceph fsid)) (\<lambda>(_, fsid).
     bnd (tsapi_ceph_cleanup e ceph) (\<lambda>rc. ret (rc, fsid))))"

definition block_ts_ceph_prepare_log_dir :: "'w te_env \<Rightarrow> rcf_rpc_server \<Rightarrow> ('w, te_errno) te" where
  "block_ts_ceph_prepare_log_dir e rpcs =
     bnd (te_string_append e '''' (BLOCK_TS_CEPH_LOG_DIR_PATH @ ''/'' @ BLOCK_TS_CEPH_FSID)) (\<lambda>(rc, dir).
       if rc \<noteq> 0 then ret rc else rpc_or_errno e rpcs (RpcMkdirp dir))"

definition block_ts_ceph_start_logger :: "'w te_env \<Rightarrow> rcf_rpc_server \<Rightarrow> ('w, te_errno) te" where
  "block_ts_ceph_start_logger e rpcs =
     bnd (block_ts_ceph_cluster_get_fsid e rpcs None) (\<lambda>(rc, fsid). if rc \<noteq> 0 then ret rc else
     bnd (te_string_append e '''' (ceph_log_path (ptr_str fsid))) (\<lambda>(rc, path). if rc \<noteq> 0 then ret rc else
       rc_seq
         [call_rc e (Ps (rpcs_ta rpcs) TSAPI_CEPH_LOGGER_NAME (PsAdd BLOCK_TS_CEPH_LOG_TOOL_NAME False)),
          call_rc e (Ps (rpcs_ta rpcs) TSAPI_CEPH_LOGGER_NAME (PsAddArg 1 ''-F'')),
          call_rc e (Ps (rpcs_ta rpcs) TSAPI_CEPH_LOGGER_NAME (PsAddArg 2 path)),
          call_rc e (Ps (rpcs_ta rpcs) TSAPI_CEPH_LOGGER_NAME PsStart)]))"

definition block_ts_ceph_enable_logger :: "'w te_env \<Rightarrow> rcf_rpc_server \<Rightarrow> ('w, te_errno) te" where
  "block_ts_ceph_enable_logger e rpcs =
     bnd (tsapi_get_backend_param_bool e ''ceph'' ''enable_logging'') (\<lambda>(rc, enable).
       if rc \<noteq> 0 then ret rc
       else if enable then block_ts_ceph_start_logger e rpcs else ret 0)"

section \<open>Features: correctness\<close>

definition known_features :: "string set" where
  "known_features = fst ` set block_ts_rbd_feature_map_entries"

definition feature :: "string \<Rightarrow> 32 word" where
  "feature name = snd (block_ts_rbd_feature_str2feat name)"

lemma str2feat_known: "name \<in> known_features \<Longrightarrow> block_ts_rbd_feature_str2feat name = (0, feature name)"
  by (auto simp: known_features_def feature_def block_ts_rbd_feature_str2feat_def
      block_ts_rbd_feature_map_entries_def)

lemma str2feat_unknown: "name \<notin> known_features \<Longrightarrow> fst (block_ts_rbd_feature_str2feat name) \<noteq> 0"
  by (auto simp: known_features_def block_ts_rbd_feature_str2feat_def find_None_iff split: option.splits
      dest!: find_Some_iff [THEN iffD1])

lemma known_features_plain: "name \<in> known_features \<Longrightarrow> CHR '':'' \<notin> set name"
  by (auto simp: known_features_def block_ts_rbd_feature_map_entries_def)

lemma features_step_disable:
  "name \<in> known_features \<Longrightarrow> features_step m (CHR ''-'' # name) = (0, m AND NOT (feature name))"
  by (simp add: features_step_def block_ts_test_get_features_disable_def str2feat_known)

lemma features_loop_disable:
  "set names \<subseteq> known_features \<Longrightarrow>
   features_loop m (map (\<lambda>n. CHR ''-'' # n) names) = (0, m AND NOT (foldr (\<lambda>n acc. feature n OR acc) names 0))"
  by (induction names arbitrary: m) (simp_all add: features_step_disable and.assoc)

text \<open>
  C30. A colon-separated list of known feature names with a dash before each takes exactly these features
  away from the default set of the first eight.
\<close>

theorem features_disabled:
  assumes "set names \<subseteq> known_features"
  shows "block_ts_test_get_features (join CHR '':'' (map (\<lambda>n. CHR ''-'' # n) names)) f =
    (0, 0xFF AND NOT (foldr (\<lambda>n acc. feature n OR acc) names 0))"
proof -
  have "strtok_all CHR '':'' (join CHR '':'' (map (\<lambda>n. CHR ''-'' # n) names)) = map (\<lambda>n. CHR ''-'' # n) names"
    using assms known_features_plain by (intro strtok_all_join) auto
  moreover have "default_features = 0xFF" by (simp add: default_features_def)
  ultimately show ?thesis
    by (simp add: block_ts_test_get_features_def features_loop_disable [OF assms])
qed

lemma features_disabled_witness:
  "block_ts_test_get_features ''-OBJECT_MAP:-DATA_POOL'' 0 = (0, 0x77)"
proof -
  have "set [''OBJECT_MAP'', ''DATA_POOL''] \<subseteq> known_features"
    by (simp add: known_features_def block_ts_rbd_feature_map_entries_def)
  from features_disabled [OF this, of 0]
  have "block_ts_test_get_features ''-OBJECT_MAP:-DATA_POOL'' 0 =
      (0, 0xFF AND NOT (feature ''OBJECT_MAP'' OR feature ''DATA_POOL''))" by simp
  moreover have "feature ''OBJECT_MAP'' = 8" "feature ''DATA_POOL'' = 128"
    by (simp_all add: feature_def block_ts_rbd_feature_str2feat_def block_ts_rbd_feature_map_entries_def)
  ultimately show ?thesis by simp
qed

definition valid_token :: "string \<Rightarrow> bool" where
  "valid_token tok \<longleftrightarrow> tok = ''UNSET_FEATURES'' \<or> (tok \<noteq> [] \<and> hd tok = CHR ''-'' \<and> tl tok \<in> known_features)"

lemma features_step_valid: "tok \<noteq> [] \<Longrightarrow> (fst (features_step m tok) = 0) = valid_token tok"
proof (cases "tl tok \<in> known_features")
  case True
  then show "tok \<noteq> [] \<Longrightarrow> ?thesis"
    by (auto simp: features_step_def valid_token_def block_ts_test_get_features_disable_def
        block_ts_test_get_features_keyword_def str2feat_known)
next
  case False
  then have "fst (block_ts_rbd_feature_str2feat (tl tok)) \<noteq> 0" by (rule str2feat_unknown)
  with False show "tok \<noteq> [] \<Longrightarrow> ?thesis"
    by (auto simp: features_step_def valid_token_def block_ts_test_get_features_disable_def
        block_ts_test_get_features_keyword_def split: prod.splits)
qed

lemma features_loop_valid:
  "[] \<notin> set toks \<Longrightarrow> (fst (features_loop m toks) = 0) = (\<forall>tok \<in> set toks. valid_token tok)"
proof (induction toks arbitrary: m)
  case (Cons tok toks)
  obtain rc m' where step: "features_step m tok = (rc, m')" by fastforce
  with Cons.prems features_step_valid [of tok m] have "(rc = 0) = valid_token tok" by auto
  with step Cons show ?case by auto
qed simp

text \<open>
  C31. A feature string is accepted exactly when each of its tokens is \<open>UNSET_FEATURES\<close> or a dash
  and a known feature name; when it is refused, the features of the caller are left alone.
\<close>

theorem features_accepted:
  "(fst (block_ts_test_get_features s f) = 0) = list_all valid_token (strtok_all CHR '':'' s) \<and>
   snd (block_ts_test_get_features s f) =
     (if list_all valid_token (strtok_all CHR '':'' s)
      then snd (features_loop default_features (strtok_all CHR '':'' s)) else f)"
proof -
  have "[] \<notin> set (strtok_all CHR '':'' s)" using strtok_all_tokens by blast
  from features_loop_valid [OF this, of default_features] show ?thesis
    by (auto simp: block_ts_test_get_features_def list_all_iff split: prod.splits)
qed

section \<open>Running the tools: correctness\<close>

lemma leaves_none_simps:
  "leaves_none f (ret x)" "leaves_none f (jump v)"
  by (auto simp: leaves_none_def intro!: ev)

text \<open>Calls that are no steps of a job, and their sequences.\<close>

lemma job_step_other [simp]:
  "job_step (Rpc r op, a) = []" "job_step (Rpcs r ro, a) = []" "job_step (Cfg c, a) = []"
  "job_step (Agent ag, a) = []" "job_step (Ps ta n p, a) = []"
  "job_step (Job (JobFactorySetPath h), a) = []"
  by (simp_all add: job_step_def)

lemma leaves_none_on_ok: "leaves_none f m \<Longrightarrow> leaves_none f k \<Longrightarrow> leaves_none f (on_ok m k)"
  unfolding leaves_none_def by (rule obeys_on_ok, erule obeys_weaken) (auto elim!: obeys_weaken)

lemma leaves_none_bnd: "leaves_none f m \<Longrightarrow> (\<And>x. leaves_none f (k x)) \<Longrightarrow> leaves_none f (bnd m k)"
  unfolding leaves_none_def by (rule obeys_bnd, erule obeys_weaken) (auto elim!: obeys_weaken)

lemma rpc_or_errno_steps: "leaves_none job_step (rpc_or_errno e rpcs op)"
  unfolding leaves_none_def rpc_or_errno_def by (auto intro!: ev)

lemma contain_path_steps: "leaves_none job_step (ceph_sh_env_contain_path e ta path)"
  unfolding leaves_none_def ceph_sh_env_contain_path_def by (auto intro!: ev)

lemma leaves_none_call_rc: "(\<And>r. f (c, r) = []) \<Longrightarrow> leaves_none f (call_rc e c)"
  unfolding leaves_none_def by (auto intro!: ev)

lemma env_prepare_steps: "leaves_none job_step (block_ts_ceph_cluster_env_prepare e rpcs common)"
  unfolding block_ts_ceph_cluster_env_prepare_def
  by (auto intro!: leaves_none_bnd leaves_none_on_ok rpc_or_errno_steps contain_path_steps
      leaves_none_call_rc leaves_none_simps split: option.split)

lemma desc_init_steps:
  assumes "\<And>v. leaves_none job_step (build v)"
  shows "leaves_none job_step (ceph_generic_desc_init e rpcs bin common build)"
  unfolding leaves_none_def ceph_generic_desc_init_def Let_def
  by (auto intro!: ev leaves_noneD [OF assms] simp: resource_defs)

lemma add_options_steps: "leaves_none job_step (add_options e opts v)"
  unfolding leaves_none_def
  by (induction opts arbitrary: v) (auto intro!: ev elim!: obeys_weaken)

lemma mon_init_steps: "leaves_none job_step (tsapi_ceph_mon_init e rpcs common opts)"
  unfolding tsapi_ceph_mon_init_def ceph_mon_build_command_def ceph_common_build_command_def
  by (intro desc_init_steps add_options_steps)

text \<open>The steps of a run of a tool: a job is started and destroyed, or the run stopped on the
  way.\<close>

definition ran_once :: "life_step list \<Rightarrow> bool" where
  "ran_once steps \<longleftrightarrow> (\<exists>j. steps = [Started j, Destroyed j])"

definition run_prefix :: "life_step list \<Rightarrow> bool" where
  "run_prefix steps \<longleftrightarrow> (\<exists>j. steps \<in> {[], [Started j], [Started j, Destroyed j]})"

lemma run_tool_steps:
  assumes "leaves_none job_step init"
    and "\<And>c. obeys (run_checked start wait cleanup c) (\<lambda>r t.
      in_trace job_step t \<in> {[], [Started (cc_job c)], [Started (cc_job c), Destroyed (cc_job c)]} \<and>
      (r = Val () \<longrightarrow> in_trace job_step t = [Started (cc_job c), Destroyed (cc_job c)]))"
  shows "obeys (run_ceph_tool e rpcs init start wait cleanup) (\<lambda>r t.
    run_prefix (in_trace job_step t) \<and> (r = Val () \<longrightarrow> ran_once (in_trace job_step t)))"
proof -
  have prefix: "run_prefix []" by (simp add: run_prefix_def)
  have run: "obeys (run_checked start wait cleanup c) (\<lambda>r t.
      run_prefix (in_trace job_step t) \<and> (r = Val () \<longrightarrow> ran_once (in_trace job_step t)))" for c
    by (rule obeys_weaken [OF assms(2)]) (auto simp: run_prefix_def ran_once_def)
  show ?thesis
    unfolding run_ceph_tool_def
    by (auto intro!: ev leaves_noneD [OF assms(1)] leaves_noneD [OF env_prepare_steps] obeys_weaken [OF run]
        simp: prefix)
qed

lemma mon_helper_steps:
  "obeys (block_ts_ceph_cluster_mon_helper_start e rpcs mkfs) (\<lambda>r t.
     run_prefix (in_trace job_step t) \<and> (\<forall>x. r = Val x \<longrightarrow> x = 0 \<and> ran_once (in_trace job_step t)))"
  unfolding block_ts_ceph_cluster_mon_helper_start_def
  by (auto intro!: ev obeys_weaken [OF run_tool_steps [OF mon_init_steps ceph_mon.run_life]])

lemma rpc_mkdirp_steps: "leaves_none job_step (ceph_rpc_mkdirp e rpcs path)"
  unfolding leaves_none_def ceph_rpc_mkdirp_def rpc_or_errno_def by (auto intro!: ev simp: resource_defs)

text \<open>
  Starting the ceph monitor runs its tool twice, first to make the file system and then as a
  daemon: when it returns, exactly two jobs were started, each destroyed before the next step; it returns nothing but
  0, any failure leaves the test instead.
\<close>

theorem mon_start_runs_twice:
  "obeys (block_ts_ceph_cluster_mon_start e rpcs) (\<lambda>res t. \<forall>x. res = Val x \<longrightarrow>
     x = 0 \<and> (\<exists>s1 s2. in_trace job_step t = s1 @ s2 \<and> ran_once s1 \<and> ran_once s2))"
proof -
  show ?thesis
    unfolding block_ts_ceph_cluster_mon_start_def
    by (auto intro!: ev leaves_noneD [OF rpc_mkdirp_steps] obeys_weaken [OF mon_helper_steps])
       blast+
qed

lemma mon_start_runs_twice_witness:
  "\<exists>s1 s2. in_trace job_step (trace (snd (block_ts_ceph_cluster_mon_start calm_env host_rpcs (calm_sys [])))) = s1 @ s2 \<and>
     ran_once s1 \<and> ran_once s2"
proof -
  have "fst (block_ts_ceph_cluster_mon_start calm_env host_rpcs (calm_sys [])) = Val 0" by code_simp
  with obeys_at [OF mon_start_runs_twice [of calm_env host_rpcs], of "calm_sys []"] show ?thesis by simp
qed

section \<open>The configuration of the cluster: correctness\<close>

definition global_conf :: "(string \<times> string) list \<Rightarrow> tsapi_conf_t" where
  "global_conf kvs = \<lparr>conf_sections = [\<lparr>sec_name = ''global'', sec_delimiter = ''='',
     sec_items = map (\<lambda>(k, v). \<lparr>kv_key = k, kv_value = v\<rparr>) kvs\<rparr>]\<rparr>"

lemma ceph_conf_ok:
  assumes "mem_ok e"
  shows "ceph_conf e kvs (global_conf old) = ret (0, global_conf (old @ kvs))"
proof (induction kvs arbitrary: old)
  case (Cons kv kvs)
  obtain k v where kv: "kv = (k, v)" by fastforce
  have "conf_append e (global_conf old) ''global'' k v = ret (0, global_conf (old @ [kv]))"
    by (simp add: conf_append_ok [OF assms] global_conf_def section_names_def add_item_def kv)
  with Cons kv show ?case by simp
qed simp

lemma create_global: "add_section TSAPI_CONF_INIT ''global'' ''='' = global_conf []"
  by (simp add: add_section_def TSAPI_CONF_INIT_def global_conf_def)

definition no_write :: "event list \<Rightarrow> bool" where
  "no_write t = list_all (\<lambda>ev. case fst ev of Rpc r (RpcWriteClose fd txt) \<Rightarrow> False | _ \<Rightarrow> True) t"

lemma no_write_simps [simp]:
  "no_write []" "no_write ((Cfg c, a) # t) = no_write t" "no_write ((Rpc r (RpcOpen p), a) # t) = no_write t"
  "no_write (t @ t') = (no_write t \<and> no_write t')"
  by (simp_all add: no_write_def)

lemma conf_onload_adds:
  assumes "mem_ok e"
  shows "obeys (ceph_conf_onload e (global_conf kvs)) (\<lambda>r t. no_write t \<and> (\<forall>rc conf. r = Val (rc, conf) \<longrightarrow>
    conf \<in> {global_conf kvs, global_conf (kvs @ ceph_onload_conf),
            global_conf (kvs @ ceph_onload_conf @ [(''ms async onload rx plugin'', ''true'')])}))"
  unfolding ceph_conf_onload_def tsapi_use_onload_def tsapi_use_plugin_def
  by (auto intro!: ev simp: ceph_conf_ok [OF assms] simp del: ceph_conf.simps)

lemma conf_logging_adds:
  assumes "mem_ok e"
  shows "obeys (ceph_conf_logging e (global_conf kvs)) (\<lambda>r t. no_write t \<and> (\<forall>rc conf. r = Val (rc, conf) \<longrightarrow>
    conf \<in> {global_conf kvs, global_conf (kvs @ [(''log_to_file'', ''true''),
              (''log_file'', ceph_log_path BLOCK_TS_CEPH_FSID)])}))"
  unfolding ceph_conf_logging_def tsapi_get_backend_param_bool_def tsapi_get_backend_param_str_def
  by (auto intro!: ev simp: ceph_conf_ok [OF assms] mem_ok_simps [OF assms] simp del: ceph_conf.simps)

text \<open>The extra settings: those of Onload with or without its plugin, and those of the log.\<close>

definition onload_extras :: "(string \<times> string) list list" where
  "onload_extras = [[], ceph_onload_conf, ceph_onload_conf @ [(''ms async onload rx plugin'', ''true'')]]"

definition logging_extras :: "(string \<times> string) list list" where
  "logging_extras = [[], [(''log_to_file'', ''true''), (''log_file'', ceph_log_path BLOCK_TS_CEPH_FSID)]]"

definition expected_conf :: "string \<Rightarrow> string \<Rightarrow> string \<Rightarrow> bool" where
  "expected_conf net mon txt \<longleftrightarrow> (\<exists>ol \<in> set onload_extras. \<exists>lg \<in> set logging_extras.
     txt = render_conf (global_conf (ceph_base_conf net mon @ ol @ lg)))"

definition writes_conf :: "string \<Rightarrow> string \<Rightarrow> event list \<Rightarrow> bool" where
  "writes_conf net mon t = list_all (\<lambda>ev. case fst ev of
     Rpc r (RpcWriteClose fd txt) \<Rightarrow> expected_conf net mon txt | _ \<Rightarrow> True) t"



section \<open>The logger: correctness\<close>

text \<open>Answers for the logger: the fsid never arrives, everything else works.\<close>

definition no_fsid :: script where
  "no_fsid = [handing [3], handing [4, 8, 9], handing [10], ok_reply, ok_reply, ok_reply, ok_reply,
              failing TE_EINPROGRESS]"

text \<open>
  An error in getting the fsid is lost: when the message never arrives but the tool is cleaned up
  well, \<open>block_ts_ceph_cluster_get_fsid\<close> reports success without an fsid, and the logger is
  started on the file \<open>/var/log/ceph/(null)/ceph.log\<close>.
\<close>

theorem get_fsid_error_lost:
  "fst (block_ts_ceph_cluster_get_fsid calm_env host_rpcs None (calm_sys no_fsid)) = Val (0, None) \<and>
   fst (block_ts_ceph_start_logger calm_env host_rpcs (calm_sys no_fsid)) = Val 0 \<and>
   Ps ''Agt_host'' ''ceph_logger'' (PsAddArg 2 ''/var/log/ceph/(null)/ceph.log'') \<in>
     set (calls (snd (block_ts_ceph_start_logger calm_env host_rpcs (calm_sys no_fsid))))"
  by (intro conjI; code_simp)

section \<open>Log conversion: correctness\<close>

lemma receive_until_eos_fuel:
  "obeys (receive_until_eos e fuel chan) (\<lambda>res t.
     (\<exists>x. res = Val (Some x)) \<or>
     (res = Val None \<and> length t = fuel \<and> list_all (\<lambda>ev. r_rc (snd ev) = 0 \<and> r_bool (snd ev) = False) t))"
proof (induction fuel)
  case (Suc fuel)
  show ?case by (auto intro!: ev obeys_weaken [OF Suc])
qed (auto intro!: ev)

text \<open>
  C37. The loop that reads a channel to its end comes to a result unless every one of the receives
  it was allowed was answered, without an error and without the end of the stream: one answer that ends the
  stream or fails is enough for it to return.
\<close>

theorem receive_ends:
  "obeys (receive_until_eos e fuel chan) (\<lambda>res t.
     (\<exists>x. res = Val (Some x)) \<or>
     (res = Val None \<and> length t = fuel \<and> list_all (\<lambda>ev. r_rc (snd ev) = 0 \<and> r_bool (snd ev) = False) t))"
  by (rule receive_until_eos_fuel)

definition had_message :: "event list \<Rightarrow> bool" where
  "had_message t = list_ex (\<lambda>ev. r_rc (snd ev) = 0 \<and> r_bool (snd ev) \<and> out_str (snd ev) \<noteq> []) t"

lemma had_message_simps [simp]:
  "had_message [] = False"
  "had_message (ev # t) = ((r_rc (snd ev) = 0 \<and> r_bool (snd ev) \<and> out_str (snd ev) \<noteq> []) \<or> had_message t)"
  "had_message (t @ t') = (had_message t \<or> had_message t')"
  by (simp_all add: had_message_def)

lemma receive_message:
  "obeys (receive_until_eos e fuel chan) (\<lambda>res t. (\<forall>v. res \<noteq> Jump v) \<and> (res = Val None \<longrightarrow> \<not> had_message t) \<and>
     (\<forall>rc c. res = Val (Some (rc, c)) \<longrightarrow> had_message t = (rc = 0 \<and> c \<noteq> [])))"
proof (induction fuel)
  case (Suc fuel)
  show ?case by (auto intro!: ev obeys_weaken [OF Suc])
qed (auto intro!: ev)

text \<open>
  C36. The conversion of log messages skips the test exactly when one of the channels came to its end
  with a message in the buffer, and never makes the test fail.
\<close>

theorem log_conv_skips_on_message:
  "obeys (block_ts_log_conv_run e fuel convs) (\<lambda>res t.
     (res = Jump Skipped) = had_message t \<and> res \<noteq> Jump Failed)"
proof (induction convs)
  case (Cons conv convs)
  show ?case
    by (cases "lc_action conv")
       (auto intro!: ev obeys_weaken [OF receive_message] obeys_weaken [OF Cons] simp: log_conv_action_test_skip_def)
qed (auto intro!: ev)

end
