(* ===== verification/Backend.thy ===== *)
theory Backend
  imports Block_Ts
begin

text \<open>
  The second half of \<open>src/block-ts/lib/tsapi-backend.c\<close>: starting and stopping the server of
  a backend, and the table of callbacks of the backend types. The server scripts of ceph
  and NVMe share a contract, the locale \<open>backend_server\<close>.
\<close>

section \<open>Starting and stopping\<close>

definition tsapi_backend_start_server :: "'w te_env \<Rightarrow> rcf_rpc_server \<Rightarrow> ('w, te_errno) te" where
  "tsapi_backend_start_server e rpcs =
     bnd (tsapi_backend_get_mode e) (\<lambda>mode.
       if mode = TSAPI_BACKEND_MODE_UNKNOWN then ret TE_EINVAL else
     bnd (tsapi_inventory_local_to_kv_pair e (tsapi_backend_mode2str mode) []) (\<lambda>(rc, params).
       if rc \<noteq> 0 then ret rc else
     bnd (tsapi_inventory_prepare e rpcs params mode) (\<lambda>(rc, inventory_path).
       if rc \<noteq> 0 then ret rc else
     bnd (agt_path e (rpcs_ta rpcs) TSAPI_VIRTBLK_CI_ANSIBLE_AGT_PATH) (\<lambda>virtblk_ci_ansible_path.
     bnd (agt_path e (rpcs_ta rpcs) TSAPI_HELPERS_AGT_DIR_NAME) (\<lambda>helpers_path.
       if mode = TSAPI_BACKEND_MODE_CEPH
       then tsapi_ceph_start_server e rpcs helpers_path virtblk_ci_ansible_path (ptr_str inventory_path)
       else if mode = TSAPI_BACKEND_MODE_NVME
       then tsapi_nvme_start_server e rpcs helpers_path virtblk_ci_ansible_path (ptr_str inventory_path)
       else ret TE_EINVAL)))))"

definition tsapi_backend_stop_server :: "'w te_env \<Rightarrow> rcf_rpc_server \<Rightarrow> ('w, te_errno) te" where
  "tsapi_backend_stop_server e rpcs =
     bnd (tsapi_backend_get_mode e) (\<lambda>mode.
       if mode = TSAPI_BACKEND_MODE_UNKNOWN then ret TE_EINVAL else
     bnd (agt_path e (rpcs_ta rpcs) TSAPI_HELPERS_AGT_DIR_NAME) (\<lambda>helpers_path.
       if mode = TSAPI_BACKEND_MODE_CEPH then tsapi_ceph_stop_server e rpcs helpers_path
       else if mode = TSAPI_BACKEND_MODE_NVME then tsapi_nvme_stop_server e rpcs helpers_path
       else ret TE_EINVAL))"

section \<open>Callbacks\<close>

record 'w backend_callbacks_t =
  cb_start :: "(rcf_rpc_server \<Rightarrow> ('w, te_errno) te) option"
  cb_stop :: "(rcf_rpc_server \<Rightarrow> ('w, te_errno) te) option"
  cb_prepare_params :: "(nat \<Rightarrow> 32 word \<Rightarrow> ('w, te_errno) te) option"
  cb_prepare_clients :: "(rcf_rpc_server \<Rightarrow> nat \<Rightarrow> ('w, te_errno) te) option"
  cb_hook :: "(rcf_rpc_server \<Rightarrow> ('w, te_errno) te) option"

text \<open>The table has no entry for \<open>TSAPI_BACKEND_TYPES_NONE\<close>: its index is one past the end.\<close>

fun backend_callbacks :: "'w te_env \<Rightarrow> tsapi_backend_types \<Rightarrow> 'w backend_callbacks_t option" where
  "backend_callbacks e TSAPI_BACKEND_TYPES_CEPH_CONTAINER = Some
     \<lparr>cb_start = Some (tsapi_backend_start_server e), cb_stop = Some (tsapi_backend_stop_server e),
      cb_prepare_params = Some (tsapi_ceph_prepare_params e),
      cb_prepare_clients = Some (tsapi_ceph_prepare_client e),
      cb_hook = Some (block_ts_ceph_enable_logger e)\<rparr>"
| "backend_callbacks e TSAPI_BACKEND_TYPES_CEPH_CONNECT = Some
     \<lparr>cb_start = None, cb_stop = None, cb_prepare_params = None,
      cb_prepare_clients = Some (tsapi_ceph_prepare_client e),
      cb_hook = Some (block_ts_ceph_enable_logger e)\<rparr>"
| "backend_callbacks e TSAPI_BACKEND_TYPES_CEPH_QEMU = Some
     \<lparr>cb_start = None, cb_stop = None, cb_prepare_params = None, cb_prepare_clients = None,
      cb_hook = None\<rparr>"
| "backend_callbacks e TSAPI_BACKEND_TYPES_NVME = Some
     \<lparr>cb_start = Some (tsapi_backend_start_server e), cb_stop = Some (tsapi_backend_stop_server e),
      cb_prepare_params = Some (tsapi_nvme_prepare_params e), cb_prepare_clients = None,
      cb_hook = None\<rparr>"
| "backend_callbacks e TSAPI_BACKEND_TYPES_NVME_CONNECT = Some
     \<lparr>cb_start = None, cb_stop = None,
      cb_prepare_params = Some (tsapi_nvme_prepare_params e), cb_prepare_clients = None,
      cb_hook = None\<rparr>"
| "backend_callbacks e TSAPI_BACKEND_TYPES_MALLOC = Some
     \<lparr>cb_start = None, cb_stop = None, cb_prepare_params = None, cb_prepare_clients = None,
      cb_hook = None\<rparr>"
| "backend_callbacks e TSAPI_BACKEND_TYPES_NULLBLOCK = Some
     \<lparr>cb_start = None, cb_stop = None, cb_prepare_params = None, cb_prepare_clients = None,
      cb_hook = None\<rparr>"
| "backend_callbacks e TSAPI_BACKEND_TYPES_NONE = None"

section \<open>The contract of the server scripts\<close>

text \<open>A script runs with a timeout of its own; its status decides.\<close>

definition ran_script :: "rcf_rpc_server \<Rightarrow> string \<Rightarrow> te_errno outcome \<Rightarrow> event list \<Rightarrow> bool" where
  "ran_script rpcs cmd res t \<longleftrightarrow> (\<exists>n a b. t = [(Rpcs rpcs (RpcTimeout n), a), (Rpc rpcs (RpcSystem cmd), b)] \<and>
     res = (if r_jump b then Jump Failed else Val (if r_num b = 0 then 0 else TE_EFAIL)))"

text \<open>What the last call of a successful start or stop was.\<close>

definition script_succeeded :: "rcf_rpc_server \<Rightarrow> (string \<Rightarrow> bool) \<Rightarrow> event list \<Rightarrow> bool" where
  "script_succeeded rpcs P t \<longleftrightarrow> t \<noteq> [] \<and> (\<exists>cmd b. last t = (Rpc rpcs (RpcSystem cmd), b) \<and> P cmd \<and> r_num b = 0)"

locale backend_server =
  fixes start :: "rcf_rpc_server \<Rightarrow> string \<Rightarrow> string \<Rightarrow> string \<Rightarrow> ('w, te_errno) te"
    and stop :: "rcf_rpc_server \<Rightarrow> string \<Rightarrow> ('w, te_errno) te"
    and create_script remove_script :: string
  assumes start_runs: "obeys (start rpcs h a i) (ran_script rpcs (server_cmd h create_script a i))"
    and stop_runs: "obeys (stop rpcs h) (ran_script rpcs (h @ ''/'' @ remove_script))"
begin

lemma started: "obeys (start rpcs h a i) (\<lambda>res t. res = Val 0 \<longrightarrow>
    script_succeeded rpcs (\<lambda>cmd. cmd = server_cmd h create_script a i) t)"
  by (rule obeys_weaken [OF start_runs]) (auto simp: ran_script_def script_succeeded_def split: if_splits)

lemma stopped: "obeys (stop rpcs h) (\<lambda>res t. res = Val 0 \<longrightarrow>
    script_succeeded rpcs (\<lambda>cmd. cmd = h @ ''/'' @ remove_script) t)"
  by (rule obeys_weaken [OF stop_runs]) (auto simp: ran_script_def script_succeeded_def split: if_splits)

end

interpretation ceph_server: backend_server "tsapi_ceph_start_server e" "tsapi_ceph_stop_server e"
    "ceph_prepare_scripts TSAPI_CEPH_CREATE" "ceph_prepare_scripts TSAPI_CEPH_REMOVE"
  for e :: "'w te_env"
  by unfold_locales
     (auto intro!: ev simp: tsapi_ceph_start_server_def tsapi_ceph_stop_server_def run_helper_def ran_script_def)

interpretation nvme_server: backend_server "tsapi_nvme_start_server e" "tsapi_nvme_stop_server e"
    "nvme_prepare_scripts TSAPI_NVME_CREATE" "nvme_prepare_scripts TSAPI_NVME_REMOVE"
  for e :: "'w te_env"
  by unfold_locales
     (auto intro!: ev simp: tsapi_nvme_start_server_def tsapi_nvme_stop_server_def run_helper_def ran_script_def)

section \<open>Backends: correctness\<close>

lemma mode_names:
  "(tsapi_backend_mode2str m = Some name) = (m \<noteq> TSAPI_BACKEND_MODE_UNKNOWN \<and> backend_str2mode name = m)"
  "(Some name = tsapi_backend_mode2str m) = (m \<noteq> TSAPI_BACKEND_MODE_UNKNOWN \<and> backend_str2mode name = m)"
  "(None = tsapi_backend_mode2str m) = (m = TSAPI_BACKEND_MODE_UNKNOWN)"
  by (cases m; auto simp: backend_str2mode_def)+

text \<open>The backend instance a configuration tree names, read from the answers.\<close>

definition named_backend :: "event list \<Rightarrow> string option" where
  "named_backend t = (case t of
     (Cfg (CfgFind p), r) # (Cfg (CfgGetOid inst), oid) # _ \<Rightarrow>
       if r_rc r = 0 \<and> r_list r = [inst] \<and> r_rc oid = 0 then Some (out_str oid) else None
   | _ \<Rightarrow> None)"

lemma get_mode_cases:
  "obeys (tsapi_backend_get_mode e) (\<lambda>res t. case named_backend t of
     None \<Rightarrow> res \<in> {Val TSAPI_BACKEND_MODE_UNKNOWN, Jump Failed}
   | Some name \<Rightarrow> res = Val (backend_str2mode name))"
proof -
  have one: "\<not> 1 < length (x # xs) \<longleftrightarrow> xs = []" for x and xs :: "string list" by simp
  show ?thesis
    unfolding tsapi_backend_get_mode_def by (auto intro!: ev simp: named_backend_def one simp del: One_nat_def)
qed

text \<open>
  The mode of the backend is known exactly when the configuration tree holds one backend instance
  with the name of that mode; any other answer, several instances or a foreign name make it unknown.
\<close>

theorem get_mode_named:
  "obeys (tsapi_backend_get_mode e) (\<lambda>res t. \<forall>m. m \<noteq> TSAPI_BACKEND_MODE_UNKNOWN \<longrightarrow>
     (res = Val m) = (named_backend t = tsapi_backend_mode2str m))"
  by (rule obeys_weaken [OF get_mode_cases])
     (auto simp: mode_names split: option.splits)


text \<open>Answers: one backend instance of a name.\<close>

definition named :: "string \<Rightarrow> script" where
  "named name = [ok_reply\<lparr>r_list := [''oid'']\<rparr>, answering name]"

lemma get_mode_named_witness:
  "fst (tsapi_backend_get_mode calm_env (calm_sys (named ''nvme''))) = Val TSAPI_BACKEND_MODE_NVME"
proof -
  have "named_backend (trace (snd (tsapi_backend_get_mode calm_env (calm_sys (named ''nvme''))))) = Some ''nvme''"
    by code_simp
  with obeys_at [OF get_mode_named [of calm_env], of "calm_sys (named ''nvme'')"] show ?thesis by simp
qed

lemma named_backend_append: "named_backend t = Some name \<Longrightarrow> named_backend (t @ t') = Some name"
  by (auto simp: named_backend_def split: list.splits prod.splits call.splits cfg_op.splits if_splits)

lemma script_succeeded_append: "script_succeeded rpcs P t \<Longrightarrow> script_succeeded rpcs P (t' @ t)"
  by (auto simp: script_succeeded_def)

text \<open>The scripts by the name of the backend.\<close>

definition creates_server :: "string \<Rightarrow> string \<Rightarrow> bool" where
  "creates_server name cmd \<longleftrightarrow> (\<exists>h a i.
     (name = ''ceph'' \<and> cmd = server_cmd h ''create_ansible_ceph_server.sh'' a i) \<or>
     (name = ''nvme'' \<and> cmd = server_cmd h ''create_ansible_nvme_server.sh'' a i))"

definition removes_server :: "string \<Rightarrow> string \<Rightarrow> bool" where
  "removes_server name cmd \<longleftrightarrow> (\<exists>h.
     (name = ''ceph'' \<and> cmd = h @ ''/'' @ ''remove_ansible_ceph_server.sh'') \<or>
     (name = ''nvme'' \<and> cmd = h @ ''/'' @ ''remove_ansible_nvme_server.sh''))"

lemma script_succeeded_mono:
  "script_succeeded rpcs P t \<Longrightarrow> (\<And>cmd. P cmd \<Longrightarrow> Q cmd) \<Longrightarrow> script_succeeded rpcs Q t"
  by (auto simp: script_succeeded_def)

lemma server_scripts:
  "creates_server ''ceph'' (server_cmd h ''create_ansible_ceph_server.sh'' a i)"
  "creates_server ''nvme'' (server_cmd h ''create_ansible_nvme_server.sh'' a i)"
  "removes_server ''ceph'' (h @ ''/'' @ ''remove_ansible_ceph_server.sh'')"
  "removes_server ''nvme'' (h @ ''/'' @ ''remove_ansible_nvme_server.sh'')"
  unfolding creates_server_def removes_server_def by blast+

lemma inventory_pairs_any: "obeys (inventory_pairs e insts params) (\<lambda>r t. True)"
  by (induction insts arbitrary: params) (auto intro!: ev elim!: obeys_weaken)

lemma expand_lines_any: "obeys (expand_lines e kv bufs nl inv') (\<lambda>r t. True)"
  by (induction bufs arbitrary: nl inv') (auto intro!: ev elim!: obeys_weaken)

lemma to_kv_pair_any: "obeys (tsapi_inventory_local_to_kv_pair e backend params) (\<lambda>r t. True)"
  unfolding tsapi_inventory_local_to_kv_pair_def
  by (auto intro!: ev obeys_weaken [OF inventory_pairs_any])

lemma prepare_any: "obeys (tsapi_inventory_prepare e rpcs params mode) (\<lambda>r t. True)"
  unfolding tsapi_inventory_prepare_def tsapi_inventory_get_tmpl_path_def tsapi_inventory_expand_template_def
    tsapi_inventory_get_ta_path_def tsapi_put_str_to_agt_file_def
  by (auto intro!: ev obeys_weaken [OF expand_lines_any])

lemma mode_of_backend:
  "obeys (tsapi_backend_get_mode e) (\<lambda>res t.
     (res = Val TSAPI_BACKEND_MODE_CEPH \<longrightarrow> named_backend t = Some ''ceph'') \<and>
     (res = Val TSAPI_BACKEND_MODE_NVME \<longrightarrow> named_backend t = Some ''nvme''))"
  by (rule obeys_weaken [OF get_mode_cases])
     (auto simp: backend_str2mode_def split: option.splits if_splits)

text \<open>
  C7. A server start that succeeds ended with the creation script of the backend the configuration names,
  ceph or NVMe, and that script exited with status 0.
\<close>

theorem start_server_runs_script:
  "obeys (tsapi_backend_start_server e rpcs) (\<lambda>res t. res = Val 0 \<longrightarrow>
     (\<exists>name. named_backend t = Some name \<and> script_succeeded rpcs (creates_server name) t))"
proof -
  note last = script_succeeded_append named_backend_append
  have ceph: "obeys (tsapi_ceph_start_server e rpcs h a i) (\<lambda>res t. res = Val 0 \<longrightarrow>
      script_succeeded rpcs (creates_server ''ceph'') t)" for h a i
    by (rule obeys_weaken [OF ceph_server.started])
       (auto elim!: script_succeeded_mono simp: server_scripts)
  have nvme: "obeys (tsapi_nvme_start_server e rpcs h a i) (\<lambda>res t. res = Val 0 \<longrightarrow>
      script_succeeded rpcs (creates_server ''nvme'') t)" for h a i
    by (rule obeys_weaken [OF nvme_server.started])
       (auto elim!: script_succeeded_mono simp: server_scripts)
  show ?thesis
    unfolding tsapi_backend_start_server_def
    by (auto intro!: ev obeys_weaken [OF mode_of_backend] obeys_weaken [OF to_kv_pair_any]
        obeys_weaken [OF prepare_any] obeys_weaken [OF ceph] obeys_weaken [OF nvme] last simp del: append_assoc)
qed


text \<open>Answers for the NVMe backend: two instances of its inventory, the template, the agent
  directory, and calls that succeed.\<close>

definition nvme_run :: script where
  "nvme_run = named ''nvme'' @ [ok_reply\<lparr>r_list := [''i0'']\<rparr>, answering ''NVME_PORT'', answering ''4420'',
     answering ''port: ${NVME_PORT}'', answering ''/agt'', handing [], numbered 18, answering ''/agt'',
     answering ''/agt'', ok_reply, numbered 0]"

definition ts_env :: "script te_env" where
  "ts_env = calm_env\<lparr>getenv := (\<lambda>_. Some ''/ts'')\<rparr>"

lemma start_server_runs_script_witness:
  "script_succeeded host_rpcs (creates_server ''nvme'')
     (trace (snd (tsapi_backend_start_server ts_env host_rpcs (calm_sys nvme_run))))"
proof -
  let ?run = "tsapi_backend_start_server ts_env host_rpcs (calm_sys nvme_run)"
  have "fst ?run = Val 0" "named_backend (trace (snd ?run)) = Some ''nvme''" by code_simp+
  with obeys_at [OF start_server_runs_script [of ts_env host_rpcs], of "calm_sys nvme_run"]
  show ?thesis by auto
qed

lemma stop_server_runs_script:
  "obeys (tsapi_backend_stop_server e rpcs) (\<lambda>res t. res = Val 0 \<longrightarrow>
     (\<exists>name. named_backend t = Some name \<and> script_succeeded rpcs (removes_server name) t))"
proof -
  note last = script_succeeded_append named_backend_append
  have ceph: "obeys (tsapi_ceph_stop_server e rpcs h) (\<lambda>res t. res = Val 0 \<longrightarrow>
      script_succeeded rpcs (removes_server ''ceph'') t)" for h
    by (rule obeys_weaken [OF ceph_server.stopped])
       (auto elim!: script_succeeded_mono simp: server_scripts [simplified])
  have nvme: "obeys (tsapi_nvme_stop_server e rpcs h) (\<lambda>res t. res = Val 0 \<longrightarrow>
      script_succeeded rpcs (removes_server ''nvme'') t)" for h
    by (rule obeys_weaken [OF nvme_server.stopped])
       (auto elim!: script_succeeded_mono simp: server_scripts [simplified])
  show ?thesis
    unfolding tsapi_backend_stop_server_def
    by (auto intro!: ev obeys_weaken [OF mode_of_backend] obeys_weaken [OF ceph] obeys_weaken [OF nvme]
        last simp del: append_assoc)
qed

text \<open>
  The table of callbacks fits the table of types: a backend type whose callbacks start a server
  also stops it and prepares its parameters, and a backend that prepares parameters needs the network
  environment it prepares them from.
\<close>

theorem callbacks_consistent:
  assumes "backend_callbacks e (find_type mode val) = Some cb"
  shows "(cb_start cb = None) = (cb_stop cb = None) \<and>
    (cb_start cb \<noteq> None \<longrightarrow> cb_prepare_params cb \<noteq> None) \<and>
    (cb_prepare_params cb \<noteq> None \<or> cb_prepare_clients cb \<noteq> None \<longrightarrow>
       mode = TSAPI_BACKEND_MODE_CEPH \<or> mode = TSAPI_BACKEND_MODE_NVME)"
  using assms by (cases mode) (auto simp: find_type_def type_maps_def split: if_splits)

lemma callbacks_consistent_witness:
  "cb_stop (the (backend_callbacks calm_env (find_type TSAPI_BACKEND_MODE_NVME ''none''))) \<noteq> None"
proof -
  have "find_type TSAPI_BACKEND_MODE_NVME ''none'' = TSAPI_BACKEND_TYPES_NVME" by code_simp
  then show ?thesis
    using callbacks_consistent [of calm_env TSAPI_BACKEND_MODE_NVME "''none''"] by auto
qed

end
