(* ===== verification/Plugin.thy ===== *)
theory Plugin
  imports Backend
begin

text \<open>
  \<open>src/block-ts/lib/tsapi-plugin.c\<close>: loading and enabling the XNPR plugin of the network
  interface with two processes on the agent, and disabling it.
\<close>

definition TSAPI_PLUGIN_LOAD_TIMEOUT_S :: nat where
  "TSAPI_PLUGIN_LOAD_TIMEOUT_S = 15"
definition TSAPI_PLUGIN_TOOL :: string where
  "TSAPI_PLUGIN_TOOL = ''xnpradmin''"

definition tsapi_plugin_get_plugin_name :: "'w te_env \<Rightarrow> ('w, string option) te" where
  "tsapi_plugin_get_plugin_name e =
     bnd (te_call e (Cfg (CfgGet ''/local:/plugin:/name:'')))
       (\<lambda>r. ret (if r_rc r \<noteq> 0 then None else r_str r))"

text \<open>A process of the plugin tool: its first argument names the interface, the others follow,
  and it is started.\<close>

definition plugin_ps ::
    "'w te_env \<Rightarrow> string \<Rightarrow> string \<Rightarrow> string \<Rightarrow> string list \<Rightarrow> ('w, te_errno) te" where
  "plugin_ps e ta name ifname args =
     on_ok (call_rc e (Ps ta name (PsAdd TSAPI_PLUGIN_TOOL False)))
    (bnd (te_string_append e '''' (''ioctl='' @ ifname)) (\<lambda>(rc, buf). if rc \<noteq> 0 then ret rc else
     on_ok (add_ps_args e ta name (buf # args))
           (call_rc e (Ps ta name PsStart))))"

definition tsapi_plugin_load :: "'w te_env \<Rightarrow> rcf_rpc_server \<Rightarrow> string \<Rightarrow> string \<Rightarrow> ('w, te_errno) te" where
  "tsapi_plugin_load e rpcs ifname plugin_path =
     on_ok (plugin_ps e (rpcs_ta rpcs) ''load_plugin'' ifname [''program'', plugin_path])
    (bnd (te_call e (Local (Sleep TSAPI_PLUGIN_LOAD_TIMEOUT_S))) (\<lambda>_. ret 0))"

definition tsapi_plugin_enable :: "'w te_env \<Rightarrow> rcf_rpc_server \<Rightarrow> string \<Rightarrow> ('w, te_errno) te" where
  "tsapi_plugin_enable e rpcs ifname =
     plugin_ps e (rpcs_ta rpcs) ''enable_plugin'' ifname [''enable'', ''all'']"

definition tsapi_plugin_start :: "'w te_env \<Rightarrow> rcf_rpc_server \<Rightarrow> string \<Rightarrow> ('w, te_errno) te" where
  "tsapi_plugin_start e rpcs ifname =
     bnd (tsapi_plugin_get_plugin_name e) (\<lambda>plugin_name. case plugin_name of
         None \<Rightarrow> ret TE_ENOENT
       | Some plugin_name \<Rightarrow>
           bnd (agt_path e (rpcs_ta rpcs) plugin_name) (\<lambda>plugin_path.
           on_ok (tsapi_plugin_load e rpcs ifname plugin_path) (tsapi_plugin_enable e rpcs ifname)))"

definition tsapi_plugin_disable :: "'w te_env \<Rightarrow> rcf_rpc_server \<Rightarrow> string \<Rightarrow> ('w, te_errno) te" where
  "tsapi_plugin_disable e rpcs ifname =
     run_helper e rpcs (''xnpradmin ioctl='' @ ifname @ '' disable all'')"

section \<open>Plugin: correctness\<close>

text \<open>A process of the tool on an interface: described and started.\<close>

definition plugin_process :: "string \<Rightarrow> string \<Rightarrow> string \<Rightarrow> string list \<Rightarrow> call list" where
  "plugin_process ta name ifname args =
     Ps ta name (PsAdd ''xnpradmin'' False) #
     map (\<lambda>(i, arg). Ps ta name (PsAddArg i arg)) (enumerate 1 ((''ioctl='' @ ifname) # args)) @
     [Ps ta name PsStart]"

lemma plugin_ps_calls:
  assumes "mem_ok e"
  shows "obeys (plugin_ps e ta name ifname args) (in_order (plugin_process ta name ifname args))"
proof -
  have one: "obeys (call_rc e c) (in_order [c])" if "\<not> is_rpc c" for c
    using that by (auto intro!: ev)
  have arg: "obeys (add_ps_args e ta name xs)
      (in_order (map (\<lambda>(i, arg). Ps ta name (PsAddArg i arg)) (enumerate 1 xs)))" for xs
    using obeys_calls [where f = "\<lambda>(i, arg). Ps ta name (PsAddArg i arg)" and e = e and xs = "enumerate 1 xs"]
    by (simp add: add_ps_args_def case_prod_unfold)
  have "obeys (on_ok (call_rc e (Ps ta name (PsAdd ''xnpradmin'' False)))
        (on_ok (add_ps_args e ta name ((''ioctl='' @ ifname) # args)) (call_rc e (Ps ta name PsStart))))
      (in_order ([Ps ta name (PsAdd ''xnpradmin'' False)] @
        (map (\<lambda>(i, arg). Ps ta name (PsAddArg i arg)) (enumerate 1 ((''ioctl='' @ ifname) # args)) @
         [Ps ta name PsStart])))"
    by (intro obeys_on_ok_in_order one arg) auto
  then show ?thesis
    unfolding plugin_ps_def plugin_process_def mem_ok_append [OF assms] bnd_ret prod.case TSAPI_PLUGIN_TOOL_def
    by simp
qed



end
