(* ===== verification/Tools.thy ===== *)
theory Tools
  imports Plugin
begin

text \<open>
  \<open>src/block-ts/lib/tool/\<close>: the benchmark tools compilebench, dbench, fs_mark and IOzone.
  \<open>ts-tool.h\<close> generates most of their functions; here the generated bodies are
  definitions over the handle, and each tool adds its options, its filters and its results.
  The contract the tests rely on is the locale \<open>job_life\<close>.
\<close>

section \<open>Generated functions\<close>

text \<open>The handle of a tool; one without a results filter leaves it NULL.\<close>

record tool_app =
  app_job :: handle
  app_out0 :: handle
  app_out1 :: handle
  app_results_filter :: handle

definition ts_tool_create_common ::
    "'w te_env \<Rightarrow> string \<Rightarrow> string list \<Rightarrow> handle \<Rightarrow> job_opt list \<Rightarrow>
     ('w, te_errno \<times> tool_app option) te" where
  "ts_tool_create_common e bin stderr_regexps factory binds =
     bnd (mem e (Alloc 1)) (\<lambda>rc. if rc \<noteq> 0 then ret (TE_RC TE_TAPI TE_C_ENOMEM, None) else
       (case job_opt_build_args e bin binds of (rc, args) \<Rightarrow> if rc \<noteq> 0 then ret (rc, None) else
     bnd (te_call e (Job (JobCreate factory
            \<lparr>jd_program = bin, jd_argv = args, jd_env = [], jd_regexps = stderr_regexps\<rparr>))) (\<lambda>r.
       if r_rc r \<noteq> 0 then ret (r_rc r, None)
       else ret (0, Some \<lparr>app_job = handle_of 0 r, app_out0 = handle_of 1 r, app_out1 = handle_of 2 r,
                          app_results_filter = 0\<rparr>))))"

definition ts_tool_wait :: "'w te_env \<Rightarrow> tool_app \<Rightarrow> int \<Rightarrow> ('w, te_errno) te" where
  "ts_tool_wait e app timeout_ms =
     bnd (te_call e (Job (JobWait (app_job app) timeout_ms)))
       (\<lambda>r. if r_rc r \<noteq> 0 then ret (r_rc r) else ret (job_check_status e (r_flag r) (r_num r)))"

definition ts_tool_kill :: "'w te_env \<Rightarrow> tool_app \<Rightarrow> nat \<Rightarrow> ('w, te_errno) te" where
  "ts_tool_kill e app signum = call_rc e (Job (JobKill (app_job app) signum))"

definition ts_tool_stop :: "'w te_env \<Rightarrow> int \<Rightarrow> tool_app \<Rightarrow> ('w, te_errno) te" where
  "ts_tool_stop e term_timeout_ms app = call_rc e (Job (JobStop (app_job app) term_timeout_ms))"

definition ts_tool_destroy :: "'w te_env \<Rightarrow> int \<Rightarrow> tool_app option \<Rightarrow> ('w, te_errno) te" where
  "ts_tool_destroy e term_timeout_ms app =
     (case app of
        None \<Rightarrow> ret 0
      | Some app \<Rightarrow> call_rc e (Job (JobDestroy (app_job app) term_timeout_ms)))"

section \<open>Shared parts of the tools\<close>

text \<open>
  A pointer in the options of the caller. The tools store in them the address of a local
  buffer, or free what they point to: after the call such a pointer dangles. Reading
  through it is undefined, taken here to end the test.
\<close>

datatype cptr = PNull | PStr string | PDangling

definition deref :: "cptr \<Rightarrow> ('w, string option) te" where
  "deref p = (case p of PNull \<Rightarrow> ret None | PStr s \<Rightarrow> ret (Some s) | PDangling \<Rightarrow> jump Failed)"

text \<open>Attaching the filter of the results and its expression. On an error the handle stays
  with the caller.\<close>

definition attach_results ::
    "'w te_env \<Rightarrow> string \<Rightarrow> tool_app \<Rightarrow> ('w, te_errno \<times> tool_app option) te" where
  "attach_results e re app =
     bnd (te_call e (Job (JobAttachFilter (app_out0 app) ''''))) (\<lambda>r.
       if r_rc r \<noteq> 0 then ret (r_rc r, Some app) else
       let app = app\<lparr>app_results_filter := handle_of 0 r\<rparr> in
     bnd (call_rc e (Job (JobFilterRegexp (app_results_filter app) re))) (\<lambda>rc. ret (rc, Some app)))"

definition clear_and_start :: "'w te_env \<Rightarrow> tool_app \<Rightarrow> ('w, te_errno) te" where
  "clear_and_start e app =
     on_ok (call_rc e (Job (JobClear (app_results_filter app))))
           (call_rc e (Job (JobStart (app_job app))))"

text \<open>Receiving the results: the end of the stream counts as a failure.\<close>

definition print_results :: "'w te_env \<Rightarrow> int \<Rightarrow> tool_app \<Rightarrow> ('w, te_errno) te" where
  "print_results e timeout_ms app =
     bnd (te_call e (Job (JobReceive (app_results_filter app) timeout_ms))) (\<lambda>buf.
       ret (if r_rc buf \<noteq> 0 then r_rc buf
            else if r_bool buf then TE_RC TE_TAPI TE_C_EFAIL else 0))"

section \<open>Compilebench\<close>

definition TSAPI_COMPILEBENCH_TERM_TIMEOUT_MS :: int where
  "TSAPI_COMPILEBENCH_TERM_TIMEOUT_MS = 1000"
definition TSAPI_COMPILEBENCH_RECEIVE_TIMEOUT_MS :: int where
  "TSAPI_COMPILEBENCH_RECEIVE_TIMEOUT_MS = 1000"
definition compilebench_bin :: string where
  "compilebench_bin = ''compilebench''"

record tsapi_compilebench_opt =
  cb_buf_size :: "32 word option"
  cb_initial_dirs :: "32 word option"
  cb_runs :: "32 word option"
  cb_makej :: bool
  cb_working_dir :: "string option"
  cb_sources_dir :: cptr

definition tsapi_compilebench_default_opt :: tsapi_compilebench_opt where
  "tsapi_compilebench_default_opt =
     \<lparr>cb_buf_size = None, cb_initial_dirs = None, cb_runs = None, cb_makej = False,
      cb_working_dir = None, cb_sources_dir = PNull\<rparr>"

definition tsapi_compilebench_binds :: "tsapi_compilebench_opt \<Rightarrow> string option \<Rightarrow> job_opt list" where
  "tsapi_compilebench_binds opt sources_dir =
     [OptUIntOmittable (Some ''-b'') (cb_buf_size opt),
      OptUIntOmittable (Some ''-i'') (cb_initial_dirs opt),
      OptUIntOmittable (Some ''-r'') (cb_runs opt),
      OptBool ''-m'' (cb_makej opt),
      OptString ''-D'' (cb_working_dir opt),
      OptString ''-s'' sources_dir]"

definition get_compilebench_sources ::
    "'w te_env \<Rightarrow> string \<Rightarrow> tsapi_compilebench_opt \<Rightarrow> ('w, te_errno \<times> tsapi_compilebench_opt) te" where
  "get_compilebench_sources e ta opt =
     (if cb_sources_dir opt \<noteq> PNull then ret (0, opt)
      else bnd (te_call e (Cfg (CfgGet (agent_dir_inst ta)))) (\<lambda>r.
             if r_rc r \<noteq> 0 then ret (r_rc r, opt)
             else ret (0, opt\<lparr>cb_sources_dir := PStr (take (path_max - 1) (out_str r))\<rparr>)))"

definition compilebench_stderr_regexp :: string where
  "compilebench_stderr_regexp =
     ''^(?!using working directory|native unpatched|native patched|create dir|patch dir|'' @
     ''compile dir|read dir|stat dir|clean kernel|delete kernel).+''"

definition tsapi_compilebench_create_common ::
    "'w te_env \<Rightarrow> handle \<Rightarrow> tsapi_compilebench_opt \<Rightarrow> ('w, te_errno \<times> tool_app option) te" where
  "tsapi_compilebench_create_common e factory opt =
     bnd (deref (cb_sources_dir opt)) (\<lambda>sources_dir.
       ts_tool_create_common e compilebench_bin [compilebench_stderr_regexp] factory
         (tsapi_compilebench_binds opt sources_dir))"

text \<open>After the call the options of the caller point to a buffer of the function that has
  returned, when the function filled it.\<close>

definition after_local :: "cptr \<Rightarrow> cptr" where
  "after_local p = (if p = PNull then PDangling else p)"

text \<open>A backslash and a character of a regular expression.\<close>

definition esc :: "char \<Rightarrow> string" where
  "esc c = [CHR 0x5C, c]"

definition compilebench_results_regexp :: string where
  "compilebench_results_regexp = ''run complete:'' @ esc CHR ''n'' @ ''=+(.|'' @ esc CHR ''n'' @ '')*''"

definition tsapi_compilebench_create ::
    "'w te_env \<Rightarrow> handle \<Rightarrow> tsapi_compilebench_opt \<Rightarrow>
     ('w, te_errno \<times> tool_app option \<times> tsapi_compilebench_opt) te" where
  "tsapi_compilebench_create e factory opt =
     bnd (te_call e (Job (JobFactoryTa factory))) (\<lambda>r. case r_str r of
         None \<Rightarrow> ret (TE_RC TE_TAPI TE_C_EFAIL, None, opt)
       | Some ta \<Rightarrow>
     bnd (get_compilebench_sources e ta opt) (\<lambda>(rc, opt'). if rc \<noteq> 0 then ret (rc, None, opt') else
       let left = opt\<lparr>cb_sources_dir := after_local (cb_sources_dir opt)\<rparr> in
     bnd (tsapi_compilebench_create_common e factory opt') (\<lambda>(rc, app). case app of
         None \<Rightarrow> ret (rc, None, left)
       | Some app \<Rightarrow> bnd (attach_results e compilebench_results_regexp app)
                       (\<lambda>(rc, app). ret (rc, app, left)))))"

definition tsapi_compilebench_start :: "'w te_env \<Rightarrow> tool_app \<Rightarrow> ('w, te_errno) te" where
  "tsapi_compilebench_start e app = clear_and_start e app"

definition tsapi_compilebench_wait :: "'w te_env \<Rightarrow> tool_app \<Rightarrow> int \<Rightarrow> ('w, te_errno) te" where
  "tsapi_compilebench_wait e app timeout_ms = ts_tool_wait e app timeout_ms"

definition tsapi_compilebench_kill :: "'w te_env \<Rightarrow> tool_app \<Rightarrow> nat \<Rightarrow> ('w, te_errno) te" where
  "tsapi_compilebench_kill e app signum = ts_tool_kill e app signum"

definition tsapi_compilebench_stop :: "'w te_env \<Rightarrow> tool_app \<Rightarrow> ('w, te_errno) te" where
  "tsapi_compilebench_stop e app = ts_tool_stop e TSAPI_COMPILEBENCH_TERM_TIMEOUT_MS app"

definition tsapi_compilebench_destroy :: "'w te_env \<Rightarrow> tool_app option \<Rightarrow> ('w, te_errno) te" where
  "tsapi_compilebench_destroy e app = ts_tool_destroy e TSAPI_COMPILEBENCH_TERM_TIMEOUT_MS app"

definition tsapi_compilebench_print_results :: "'w te_env \<Rightarrow> tool_app \<Rightarrow> ('w, te_errno) te" where
  "tsapi_compilebench_print_results e app = print_results e TSAPI_COMPILEBENCH_RECEIVE_TIMEOUT_MS app"

section \<open>Dbench\<close>

definition TSAPI_DBENCH_TERM_TIMEOUT_MS :: int where
  "TSAPI_DBENCH_TERM_TIMEOUT_MS = 1000"
definition TSAPI_DBENCH_RECEIVE_TIMEOUT_MS :: int where
  "TSAPI_DBENCH_RECEIVE_TIMEOUT_MS = 1000"
definition dbench_bin :: string where
  "dbench_bin = ''dbench''"

record tsapi_dbench_opt =
  db_client_txt_location :: cptr
  db_runtime :: "32 word option"
  db_working_dir :: "string option"
  db_numclients :: "32 word option"

definition tsapi_dbench_default_opt :: tsapi_dbench_opt where
  "tsapi_dbench_default_opt =
     \<lparr>db_client_txt_location = PNull, db_runtime = None, db_working_dir = None, db_numclients = None\<rparr>"

definition tsapi_dbench_binds :: "tsapi_dbench_opt \<Rightarrow> string option \<Rightarrow> job_opt list" where
  "tsapi_dbench_binds opt client_txt_location =
     [OptString ''-c'' client_txt_location,
      OptUIntOmittable (Some ''-t'') (db_runtime opt),
      OptString ''-D'' (db_working_dir opt),
      OptUIntOmittable None (db_numclients opt)]"

definition get_client_txt_location ::
    "'w te_env \<Rightarrow> string \<Rightarrow> tsapi_dbench_opt \<Rightarrow> ('w, te_errno \<times> tsapi_dbench_opt) te" where
  "get_client_txt_location e ta opt =
     (if db_client_txt_location opt \<noteq> PNull then ret (0, opt)
      else bnd (te_call e (Cfg (CfgGetSync (agent_dir_inst ta)))) (\<lambda>r.
             if r_rc r \<noteq> 0 then ret (r_rc r, opt)
             else ret (0, opt\<lparr>db_client_txt_location :=
                            PStr (take (path_max - 1) (out_str r @ ''/client.txt''))\<rparr>)))"

definition tsapi_dbench_create_common ::
    "'w te_env \<Rightarrow> handle \<Rightarrow> tsapi_dbench_opt \<Rightarrow> ('w, te_errno \<times> tool_app option) te" where
  "tsapi_dbench_create_common e factory opt =
     bnd (deref (db_client_txt_location opt)) (\<lambda>client_txt_location.
       ts_tool_create_common e dbench_bin [] factory (tsapi_dbench_binds opt client_txt_location))"

definition dbench_results_regexp :: string where
  "dbench_results_regexp =
     '' Operation +Count.*'' @ esc CHR ''n'' @ '' -+(.|'' @ esc CHR ''n'' @ '')*''"

definition tsapi_dbench_create ::
    "'w te_env \<Rightarrow> handle \<Rightarrow> tsapi_dbench_opt \<Rightarrow>
     ('w, te_errno \<times> tool_app option \<times> tsapi_dbench_opt) te" where
  "tsapi_dbench_create e factory opt =
     bnd (te_call e (Job (JobFactoryTa factory))) (\<lambda>r. case r_str r of
         None \<Rightarrow> ret (TE_RC TE_TAPI TE_C_EFAIL, None, opt)
       | Some ta \<Rightarrow>
     bnd (get_client_txt_location e ta opt) (\<lambda>(rc, opt'). if rc \<noteq> 0 then ret (rc, None, opt') else
       let left = opt\<lparr>db_client_txt_location := after_local (db_client_txt_location opt)\<rparr> in
     bnd (tsapi_dbench_create_common e factory opt') (\<lambda>(rc, app). case app of
         None \<Rightarrow> ret (rc, None, left)
       | Some app \<Rightarrow> bnd (attach_results e dbench_results_regexp app)
                       (\<lambda>(rc, app). ret (rc, app, left)))))"

definition tsapi_dbench_start :: "'w te_env \<Rightarrow> tool_app \<Rightarrow> ('w, te_errno) te" where
  "tsapi_dbench_start e app = clear_and_start e app"

definition tsapi_dbench_wait :: "'w te_env \<Rightarrow> tool_app \<Rightarrow> int \<Rightarrow> ('w, te_errno) te" where
  "tsapi_dbench_wait e app timeout_ms = ts_tool_wait e app timeout_ms"

definition tsapi_dbench_kill :: "'w te_env \<Rightarrow> tool_app \<Rightarrow> nat \<Rightarrow> ('w, te_errno) te" where
  "tsapi_dbench_kill e app signum = ts_tool_kill e app signum"

definition tsapi_dbench_stop :: "'w te_env \<Rightarrow> tool_app \<Rightarrow> ('w, te_errno) te" where
  "tsapi_dbench_stop e app = ts_tool_stop e TSAPI_DBENCH_TERM_TIMEOUT_MS app"

definition tsapi_dbench_destroy :: "'w te_env \<Rightarrow> tool_app option \<Rightarrow> ('w, te_errno) te" where
  "tsapi_dbench_destroy e app = ts_tool_destroy e TSAPI_DBENCH_TERM_TIMEOUT_MS app"

definition tsapi_dbench_print_results :: "'w te_env \<Rightarrow> tool_app \<Rightarrow> ('w, te_errno) te" where
  "tsapi_dbench_print_results e app = print_results e TSAPI_DBENCH_RECEIVE_TIMEOUT_MS app"

section \<open>FS-Mark\<close>

definition TSAPI_FSMARK_TERM_TIMEOUT_MS :: int where
  "TSAPI_FSMARK_TERM_TIMEOUT_MS = 1000"
definition fsmark_bin :: string where
  "fsmark_bin = ''fs_mark''"

record tsapi_fsmark_opt =
  fm_numfiles :: "32 word option"
  fm_file_size :: "32 word option"
  fm_working_dir :: "string option"

definition tsapi_fsmark_default_opt :: tsapi_fsmark_opt where
  "tsapi_fsmark_default_opt = \<lparr>fm_numfiles = None, fm_file_size = None, fm_working_dir = None\<rparr>"

definition tsapi_fsmark_binds :: "tsapi_fsmark_opt \<Rightarrow> job_opt list" where
  "tsapi_fsmark_binds opt =
     [OptUIntOmittable (Some ''-n'') (fm_numfiles opt),
      OptUIntOmittable (Some ''-s'') (fm_file_size opt),
      OptString ''-d'' (fm_working_dir opt)]"

definition tsapi_fsmark_create_common ::
    "'w te_env \<Rightarrow> handle \<Rightarrow> tsapi_fsmark_opt \<Rightarrow> ('w, te_errno \<times> tool_app option) te" where
  "tsapi_fsmark_create_common e factory opt =
     ts_tool_create_common e fsmark_bin [] factory (tsapi_fsmark_binds opt)"

definition tsapi_fsmark_create ::
    "'w te_env \<Rightarrow> handle \<Rightarrow> tsapi_fsmark_opt \<Rightarrow> ('w, te_errno \<times> tool_app option) te" where
  "tsapi_fsmark_create e factory opt =
     bnd (tsapi_fsmark_create_common e factory opt) (\<lambda>(rc, app). case app of
         None \<Rightarrow> ret (rc, None)
       | Some app \<Rightarrow>
           bnd (call_rc e (Job (JobAttachFilter (app_out0 app) ''fsmark stdout'')))
             (\<lambda>rc. ret (rc, Some app)))"

definition tsapi_fsmark_start :: "'w te_env \<Rightarrow> tool_app \<Rightarrow> ('w, te_errno) te" where
  "tsapi_fsmark_start e app = call_rc e (Job (JobStart (app_job app)))"

definition tsapi_fsmark_wait :: "'w te_env \<Rightarrow> tool_app \<Rightarrow> int \<Rightarrow> ('w, te_errno) te" where
  "tsapi_fsmark_wait e app timeout_ms = ts_tool_wait e app timeout_ms"

definition tsapi_fsmark_kill :: "'w te_env \<Rightarrow> tool_app \<Rightarrow> nat \<Rightarrow> ('w, te_errno) te" where
  "tsapi_fsmark_kill e app signum = ts_tool_kill e app signum"

definition tsapi_fsmark_stop :: "'w te_env \<Rightarrow> tool_app \<Rightarrow> ('w, te_errno) te" where
  "tsapi_fsmark_stop e app = ts_tool_stop e TSAPI_FSMARK_TERM_TIMEOUT_MS app"

definition tsapi_fsmark_destroy :: "'w te_env \<Rightarrow> tool_app option \<Rightarrow> ('w, te_errno) te" where
  "tsapi_fsmark_destroy e app = ts_tool_destroy e TSAPI_FSMARK_TERM_TIMEOUT_MS app"

section \<open>IOzone\<close>

definition TSAPI_IOZONE_TERM_TIMEOUT_MS :: int where
  "TSAPI_IOZONE_TERM_TIMEOUT_MS = 1000"
definition TSAPI_IOZONE_RECEIVE_TIMEOUT_MS :: int where
  "TSAPI_IOZONE_RECEIVE_TIMEOUT_MS = 1000"
definition iozone_bin :: string where
  "iozone_bin = ''iozone''"

record tsapi_iozone_opt =
  iz_sync_writes :: bool
  iz_record_size :: "string option"
  iz_file_size :: "string option"
  iz_file_under_test :: cptr

definition tsapi_iozone_default_opt :: tsapi_iozone_opt where
  "tsapi_iozone_default_opt =
     \<lparr>iz_sync_writes = True, iz_record_size = None, iz_file_size = None, iz_file_under_test = PNull\<rparr>"

definition tsapi_iozone_binds :: "tsapi_iozone_opt \<Rightarrow> string option \<Rightarrow> job_opt list" where
  "tsapi_iozone_binds opt file_under_test =
     [OptBool ''-o'' (iz_sync_writes opt),
      OptString ''-r'' (iz_record_size opt),
      OptString ''-s'' (iz_file_size opt),
      OptString ''-f'' file_under_test]"

definition tsapi_iozone_create_common ::
    "'w te_env \<Rightarrow> handle \<Rightarrow> tsapi_iozone_opt \<Rightarrow> ('w, te_errno \<times> tool_app option) te" where
  "tsapi_iozone_create_common e factory opt =
     bnd (deref (iz_file_under_test opt)) (\<lambda>file_under_test.
       ts_tool_create_common e iozone_bin [] factory (tsapi_iozone_binds opt file_under_test))"

definition iozone_results_regexp :: string where
  "iozone_results_regexp = concat (replicate 15 ('' +'' @ esc CHR ''d'' @ ''+''))"

text \<open>The name of the file under test is made from the working directory when it is not
  given.\<close>

definition iozone_file ::
    "'w te_env \<Rightarrow> tsapi_iozone_opt \<Rightarrow> string option \<Rightarrow> ('w, te_errno \<times> tsapi_iozone_opt) te" where
  "iozone_file e opt working_dir =
     (case working_dir of
        None \<Rightarrow> ret (0, opt)
      | Some dir \<Rightarrow>
          if iz_file_under_test opt \<noteq> PNull then ret (0, opt)
          else bnd (mem e (Strdup (dir @ ''/file_under_test''))) (\<lambda>rc.
            if rc \<noteq> 0 then ret (TE_RC TE_TAPI TE_C_ENOMEM, opt)
            else ret (0, opt\<lparr>iz_file_under_test := PStr (dir @ ''/file_under_test'')\<rparr>)))"

text \<open>What \<open>free\<close> leaves of a pointer: NULL, or a pointer to nothing.\<close>

definition after_free :: "cptr \<Rightarrow> cptr" where
  "after_free p = (if p = PNull then PNull else PDangling)"

definition tsapi_iozone_create ::
    "'w te_env \<Rightarrow> handle \<Rightarrow> tsapi_iozone_opt \<Rightarrow> string option \<Rightarrow>
     ('w, te_errno \<times> tool_app option \<times> tsapi_iozone_opt) te" where
  "tsapi_iozone_create e factory opt working_dir =
     bnd (iozone_file e opt working_dir) (\<lambda>(rc, opt). if rc \<noteq> 0 then ret (rc, None, opt) else
       let left = opt\<lparr>iz_file_under_test := after_free (iz_file_under_test opt)\<rparr> in
     bnd (tsapi_iozone_create_common e factory opt) (\<lambda>(rc, app). case app of
         None \<Rightarrow> ret (rc, None, left)
       | Some app \<Rightarrow> bnd (attach_results e iozone_results_regexp app)
                       (\<lambda>(rc, app). ret (rc, app, left))))"

definition tsapi_iozone_start :: "'w te_env \<Rightarrow> tool_app \<Rightarrow> ('w, te_errno) te" where
  "tsapi_iozone_start e app = clear_and_start e app"

definition tsapi_iozone_wait :: "'w te_env \<Rightarrow> tool_app \<Rightarrow> int \<Rightarrow> ('w, te_errno) te" where
  "tsapi_iozone_wait e app timeout_ms = ts_tool_wait e app timeout_ms"

definition tsapi_iozone_kill :: "'w te_env \<Rightarrow> tool_app \<Rightarrow> nat \<Rightarrow> ('w, te_errno) te" where
  "tsapi_iozone_kill e app signum = ts_tool_kill e app signum"

definition tsapi_iozone_stop :: "'w te_env \<Rightarrow> tool_app \<Rightarrow> ('w, te_errno) te" where
  "tsapi_iozone_stop e app = ts_tool_stop e TSAPI_IOZONE_TERM_TIMEOUT_MS app"

definition tsapi_iozone_destroy :: "'w te_env \<Rightarrow> tool_app option \<Rightarrow> ('w, te_errno) te" where
  "tsapi_iozone_destroy e app = ts_tool_destroy e TSAPI_IOZONE_TERM_TIMEOUT_MS app"

definition tsapi_iozone_print_results :: "'w te_env \<Rightarrow> tool_app \<Rightarrow> ('w, te_errno) te" where
  "tsapi_iozone_print_results e app = print_results e TSAPI_IOZONE_RECEIVE_TIMEOUT_MS app"

section \<open>The life of a benchmark\<close>

text \<open>The four tools keep the contract of a job (the locale \<open>job_life\<close>), with any timeout; the laws rest on
  the generated functions they share.\<close>

lemma clear_and_start_step:
  "obeys (clear_and_start e app) (\<lambda>r t. in_trace job_step t \<in> {[], [Started (app_job app)]} \<and>
     (r = Val 0 \<longrightarrow> in_trace job_step t = [Started (app_job app)]))"
  unfolding clear_and_start_def by (auto intro!: ev simp: resource_defs)

lemma fsmark_start_step:
  "obeys (tsapi_fsmark_start e app) (\<lambda>r t. in_trace job_step t \<in> {[], [Started (app_job app)]} \<and>
     (r = Val 0 \<longrightarrow> in_trace job_step t = [Started (app_job app)]))"
  unfolding tsapi_fsmark_start_def by (auto intro!: ev simp: resource_defs)

lemma ts_tool_wait_step: "leaves_none job_step (ts_tool_wait e app timeout_ms)"
  unfolding ts_tool_wait_def leaves_none_def by (auto intro!: ev simp: resource_defs)

lemma ts_tool_destroy_step:
  "obeys (ts_tool_destroy e timeout_ms (Some app)) (\<lambda>r t. in_trace job_step t = [Destroyed (app_job app)])"
  unfolding ts_tool_destroy_def by (auto intro!: ev simp: resource_defs)

lemmas tool_steps = clear_and_start_step [simplified] fsmark_start_step [simplified] ts_tool_wait_step ts_tool_destroy_step

interpretation compilebench: job_life app_job "tsapi_compilebench_start e"
    "\<lambda>app. tsapi_compilebench_wait e app timeout_ms" "\<lambda>app. tsapi_compilebench_destroy e (Some app)"
  for e :: "'w te_env" and timeout_ms
  by unfold_locales (simp_all add: tsapi_compilebench_start_def tsapi_compilebench_wait_def
      tsapi_compilebench_destroy_def tool_steps)

interpretation dbench: job_life app_job "tsapi_dbench_start e"
    "\<lambda>app. tsapi_dbench_wait e app timeout_ms" "\<lambda>app. tsapi_dbench_destroy e (Some app)"
  for e :: "'w te_env" and timeout_ms
  by unfold_locales (simp_all add: tsapi_dbench_start_def tsapi_dbench_wait_def tsapi_dbench_destroy_def tool_steps)

interpretation fsmark: job_life app_job "tsapi_fsmark_start e"
    "\<lambda>app. tsapi_fsmark_wait e app timeout_ms" "\<lambda>app. tsapi_fsmark_destroy e (Some app)"
  for e :: "'w te_env" and timeout_ms
  by unfold_locales (simp_all add: tsapi_fsmark_wait_def tsapi_fsmark_destroy_def tool_steps)

interpretation iozone: job_life app_job "tsapi_iozone_start e"
    "\<lambda>app. tsapi_iozone_wait e app timeout_ms" "\<lambda>app. tsapi_iozone_destroy e (Some app)"
  for e :: "'w te_env" and timeout_ms
  by unfold_locales (simp_all add: tsapi_iozone_start_def tsapi_iozone_wait_def tsapi_iozone_destroy_def tool_steps)


text \<open>A handle to run with.\<close>

definition sample_app :: tool_app where
  "sample_app = \<lparr>app_job = 4, app_out0 = 5, app_out1 = 6, app_results_filter = 7\<rparr>"


section \<open>The options after a create\<close>

definition creates_job :: "event list \<Rightarrow> bool" where
  "creates_job t = list_ex (\<lambda>ev. case fst ev of Job (JobCreate f d) \<Rightarrow> True | _ \<Rightarrow> False) t"

lemma creates_job_simps [simp]:
  "creates_job [] = False"
  "creates_job (ev # t) = ((case fst ev of Job (JobCreate f d) \<Rightarrow> True | _ \<Rightarrow> False) \<or> creates_job t)"
  by (simp_all add: creates_job_def)

lemma attach_results_any: "obeys (attach_results e re app) (\<lambda>res t. \<forall>rc a. res = Val (rc, a) \<longrightarrow> a \<noteq> None)"
  unfolding attach_results_def by (auto intro!: ev simp: Let_def)

text \<open>
  When dbench is created with options that leave the location of the client file open, the caller's
  options point to a buffer that is gone as soon as there is an instance, and creating a second
  instance with them reads through the stale pointer: it never asks for a job.
\<close>

theorem dbench_options_dangle:
  assumes "db_client_txt_location opt = PNull"
  shows "obeys (tsapi_dbench_create e factory opt) (\<lambda>res t. \<forall>rc app left.
    res = Val (rc, Some app, left) \<longrightarrow> db_client_txt_location left = PDangling \<and>
      obeys (tsapi_dbench_create e' factory' left) (\<lambda>res' t'. \<not> creates_job t'))"
proof -
  have again: "obeys (tsapi_dbench_create e' factory' left) (\<lambda>res' t'. \<not> creates_job t')"
    if "db_client_txt_location left = PDangling" for left
    unfolding tsapi_dbench_create_def get_client_txt_location_def tsapi_dbench_create_common_def
    by (auto intro!: ev simp: that deref_def)
  show ?thesis
    unfolding tsapi_dbench_create_def get_client_txt_location_def tsapi_dbench_create_common_def
      ts_tool_create_common_def Let_def
    by (auto intro!: ev obeys_weaken [OF attach_results_any] again simp: assms deref_def after_local_def)
qed

lemma dbench_options_dangle_witness:
  "\<exists>rc app left. fst (tsapi_dbench_create calm_env 3 tsapi_dbench_default_opt (calm_sys [answering ''A'', answering ''/agt'']))
     = Val (rc, Some app, left) \<and> db_client_txt_location left = PDangling"
proof -
  let ?run = "tsapi_dbench_create calm_env 3 tsapi_dbench_default_opt (calm_sys [answering ''A'', answering ''/agt''])"
  have "db_client_txt_location tsapi_dbench_default_opt = PNull" by code_simp
  from obeys_at [OF dbench_options_dangle [OF this, of calm_env 3 calm_env 3], of "calm_sys [answering ''A'', answering ''/agt'']"]
  have "\<forall>rc app left. fst ?run = Val (rc, Some app, left) \<longrightarrow> db_client_txt_location left = PDangling" by simp
  moreover have "case fst ?run of Val (rc, Some app, left) \<Rightarrow> True | _ \<Rightarrow> False" by code_simp
  ultimately show ?thesis by (auto split: outcome.splits option.splits)
qed

end
