(* ===== verification/Fs.thy ===== *)
theory Fs
  imports Tools
begin

text \<open>
  \<open>src/block-ts/lib/tsapi-fs.c\<close>, \<open>tsapi-mke2fs.c\<close> and \<open>tsapi-xfs.c\<close>: creating, checking,
  mounting and recreating file systems on a block device, and running a test of the XFS
  test suite.
\<close>

section \<open>Checking an ext file system\<close>

definition MKE2FS_TS_FSCK_TERM_TIMEOUT_MS :: int where
  "MKE2FS_TS_FSCK_TERM_TIMEOUT_MS = 1000"
definition MKE2FS_TS_FILE_WAIT_TIMEOUT_MS :: int where
  "MKE2FS_TS_FILE_WAIT_TIMEOUT_MS = 10000"
definition MKE2FS_TS_FILE_RECEIVE_TIMEOUT_MS :: int where
  "MKE2FS_TS_FILE_RECEIVE_TIMEOUT_MS = 1000"
definition MKE2FS_TS_FILE_TERM_TIMEOUT_MS :: int where
  "MKE2FS_TS_FILE_TERM_TIMEOUT_MS = 1000"

definition e2fsck_desc :: "string \<Rightarrow> job_desc" where
  "e2fsck_desc device =
     \<lparr>jd_program = ''e2fsck'', jd_argv = [''e2fsck'', ''-n'', device], jd_env = [], jd_regexps = []\<rparr>"

text \<open>Start, wait and judge the status of a job.\<close>

definition start_and_wait ::
    "'w te_env \<Rightarrow> handle \<Rightarrow> int \<Rightarrow> (reply \<Rightarrow> ('w, te_errno) te) \<Rightarrow> ('w, te_errno) te" where
  "start_and_wait e job timeout_ms judge =
     on_ok (call_rc e (Job (JobStart job)))
    (bnd (te_call e (Job (JobWait job timeout_ms)))
       (\<lambda>status. if r_rc status \<noteq> 0 then ret (r_rc status) else judge status))"

definition e2fsck_judge :: "reply \<Rightarrow> te_errno" where
  "e2fsck_judge status =
     (if r_flag status \<noteq> EXITED then TE_RC TE_TAPI TE_C_ESHCMD
      else if r_num status \<noteq> 0 then TE_RC TE_TAPI TE_C_EPROTO else 0)"

definition e2fsck_check :: "'w te_env \<Rightarrow> handle \<Rightarrow> string \<Rightarrow> int \<Rightarrow> ('w, te_errno) te" where
  "e2fsck_check e factory device timeout_ms =
     bnd (te_call e (Job (JobCreate factory (e2fsck_desc device)))) (\<lambda>r.
       if r_rc r \<noteq> 0 then ret (r_rc r) else
       ensure (start_and_wait e (handle_of 0 r) timeout_ms (\<lambda>status. ret (e2fsck_judge status)))
         (bnd (te_call e (Job (JobDestroy (handle_of 0 r) MKE2FS_TS_FSCK_TERM_TIMEOUT_MS))) (\<lambda>_. ret ())))"

text \<open>The answer to the creation: the job, the channels, and the readable filter of the type.\<close>

definition file_desc :: "string \<Rightarrow> string \<Rightarrow> job_desc" where
  "file_desc fs_type device =
     \<lparr>jd_program = ''file'', jd_argv = [''file'', ''-s'', device], jd_env = [], jd_regexps = [fs_type]\<rparr>"

definition file_judge :: "'w te_env \<Rightarrow> handle \<Rightarrow> reply \<Rightarrow> ('w, te_errno) te" where
  "file_judge e fs_type_filter status =
     (if r_flag status \<noteq> EXITED \<or> r_num status \<noteq> 0 then ret (TE_RC TE_TAPI TE_C_ESHCMD)
      else bnd (te_call e (Job (JobFiltersHaveData fs_type_filter MKE2FS_TS_FILE_RECEIVE_TIMEOUT_MS)))
             (\<lambda>r. ret (if r_bool r then 0 else TE_RC TE_TAPI TE_C_EPROTO)))"

definition fs_type_check :: "'w te_env \<Rightarrow> handle \<Rightarrow> string option \<Rightarrow> string \<Rightarrow> ('w, te_errno) te" where
  "fs_type_check e factory fs_type device =
     (case fs_type of
        None \<Rightarrow> ret 0
      | Some fs_type \<Rightarrow>
          bnd (te_call e (Job (JobCreate factory (file_desc fs_type device)))) (\<lambda>r.
            if r_rc r \<noteq> 0 then ret (r_rc r) else
            ensure (start_and_wait e (handle_of 0 r) MKE2FS_TS_FILE_WAIT_TIMEOUT_MS
                      (file_judge e (handle_of 3 r)))
              (bnd (te_call e (Job (JobDestroy (handle_of 0 r) MKE2FS_TS_FILE_TERM_TIMEOUT_MS))) (\<lambda>_. ret ()))))"

definition mke2fs_ts_check_fs ::
    "'w te_env \<Rightarrow> handle \<Rightarrow> handle \<Rightarrow> string option \<Rightarrow> string \<Rightarrow> int \<Rightarrow> ('w, te_errno) te" where
  "mke2fs_ts_check_fs e factory app fs_type device e2fsck_timeout_ms =
     on_ok (e2fsck_check e factory device e2fsck_timeout_ms)
    (on_ok (fs_type_check e factory fs_type device)
           (call_rc e (Tool (Mke2fsCheckJournal app))))"

section \<open>File systems\<close>

definition FS_TS_CHECK_FS_TIMEOUT :: int where
  "FS_TS_CHECK_FS_TIMEOUT = 30"

definition ext4_opt :: "'w te_env \<Rightarrow> string \<Rightarrow> tapi_mke2fs_opt" where
  "ext4_opt e device = (mke2fs_defaults e)\<lparr>mk_device := Some device, mk_fs_type := Some ''ext4''\<rparr>"

text \<open>The handle of \<open>tapi_mke2fs_do\<close> stays NULL when it did not get that far.\<close>

definition fs_ts_create_filesystem :: "'w te_env \<Rightarrow> rcf_rpc_server \<Rightarrow> string \<Rightarrow> ('w, te_errno) te" where
  "fs_ts_create_filesystem e rpcs device =
     bnd (te_call e (Job (JobFactoryCreate rpcs))) (\<lambda>f. if r_rc f \<noteq> 0 then ret (r_rc f) else
     bnd (te_call e (Tool (Mke2fsDo (handle_of 0 f) (ext4_opt e device) 120000))) (\<lambda>r.
       ensure
         (if r_rc r \<noteq> 0 then ret (r_rc r)
          else mke2fs_ts_check_fs e (handle_of 0 f) (handle_of 0 r) (Some ''ext4'') device
                 (FS_TS_CHECK_FS_TIMEOUT * 1000))
         (bnd (te_call e (Tool (Mke2fsDestroy (handle_of 0 r)))) (\<lambda>_.
          bnd (te_call e (Job (JobFactoryDestroy (handle_of 0 f)))) (\<lambda>_. ret ())))))"

text \<open>A shell command run with an awaited error: it has to exit with status 0.\<close>

definition shell_cmd :: "'w te_env \<Rightarrow> rcf_rpc_server \<Rightarrow> string \<Rightarrow> ('w, te_errno) te" where
  "shell_cmd e rpcs cmd =
     bnd (te_call e (Rpcs rpcs RpcAwaitError)) (\<lambda>_.
     bnd (te_call e (Rpc rpcs (RpcSystem cmd))) (\<lambda>st.
       ret (if r_flag st \<noteq> EXITED \<or> r_num st \<noteq> 0 then TE_RC TE_RPC TE_C_ESHCMD else 0)))"

definition fs_ts_mount_filesystem ::
    "'w te_env \<Rightarrow> rcf_rpc_server \<Rightarrow> string \<Rightarrow> string \<Rightarrow> ('w, te_errno) te" where
  "fs_ts_mount_filesystem e rpcs device mount_dir =
     shell_cmd e rpcs (''mount '' @ device @ '' '' @ mount_dir)"

definition fs_ts_umount_filesystem :: "'w te_env \<Rightarrow> rcf_rpc_server \<Rightarrow> string \<Rightarrow> ('w, te_errno) te" where
  "fs_ts_umount_filesystem e rpcs mount_dir = shell_cmd e rpcs (''umount '' @ mount_dir)"

definition fs_ts_recreate_filesystem ::
    "'w te_env \<Rightarrow> rcf_rpc_server \<Rightarrow> string \<Rightarrow> string \<Rightarrow> ('w, te_errno) te" where
  "fs_ts_recreate_filesystem e rpcs device mount_dir =
     on_ok (fs_ts_umount_filesystem e rpcs mount_dir)
    (on_ok (fs_ts_create_filesystem e rpcs device)
           (fs_ts_mount_filesystem e rpcs device mount_dir))"

section \<open>The XFS test suite\<close>

record xfs_test_suite =
  xfs_job :: handle
  xfs_factory :: handle
  xfs_group :: string
  xfs_name :: string
  xfs_test_dev :: "string option"
  xfs_test_dir :: "string option"
  xfs_scratch_dev :: "string option"
  xfs_scratch_dir :: "string option"

definition xfs_command :: "string \<Rightarrow> string \<Rightarrow> string \<Rightarrow> string" where
  "xfs_command xfs_path grp name = ''cd '' @ xfs_path @ ''; ./check '' @ grp @ ''/'' @ name"

definition xfs_env :: "xfs_test_suite \<Rightarrow> string list" where
  "xfs_env xfs_ts =
     [''TEST_DEV='' @ ptr_str (xfs_test_dev xfs_ts), ''TEST_DIR='' @ ptr_str (xfs_test_dir xfs_ts),
      ''SCRATCH_DEV='' @ ptr_str (xfs_scratch_dev xfs_ts),
      ''SCRATCH_MNT='' @ ptr_str (xfs_scratch_dir xfs_ts), ''PATH=/bin:/usr/bin:/usr/sbin:/sbin'']"

text \<open>The command and the five variables are formatted, each into a buffer of its own.\<close>

definition xfs_append :: "'w te_env \<Rightarrow> string \<Rightarrow> ('w, te_errno) te" where
  "xfs_append e txt = bnd (te_string_append e '''' txt) (\<lambda>(rc, _). ret rc)"

definition xfs_test_suite_init ::
    "'w te_env \<Rightarrow> xfs_test_suite \<Rightarrow> rcf_rpc_server \<Rightarrow> string \<Rightarrow> string \<Rightarrow> string \<Rightarrow>
     ('w, te_errno \<times> xfs_test_suite) te" where
  "xfs_test_suite_init e xfs_ts rpcs xfs_path grp name =
     (let xfs_ts = xfs_ts\<lparr>xfs_group := grp, xfs_name := name\<rparr> in
     bnd (te_call e (Job (JobFactoryCreate rpcs))) (\<lambda>r. if r_rc r \<noteq> 0 then ret (r_rc r, xfs_ts) else
       let xfs_ts = xfs_ts\<lparr>xfs_factory := handle_of 0 r\<rparr>; cmd = xfs_command xfs_path grp name in
     bnd (for_rc (xfs_append e) (cmd # xfs_env xfs_ts)) (\<lambda>rc. if rc \<noteq> 0 then ret (rc, xfs_ts) else
     bnd (te_call e (Job (JobCreate (xfs_factory xfs_ts)
            \<lparr>jd_program = ''/bin/bash'', jd_argv = [''/bin/bash'', ''-c'', cmd],
             jd_env = xfs_env xfs_ts @ [''RESULT_BASE=/tmp''], jd_regexps = []\<rparr>))) (\<lambda>r.
       ret (r_rc r, if r_rc r = 0 then xfs_ts\<lparr>xfs_job := handle_of 0 r\<rparr> else xfs_ts)))))"

definition xfs_test_suite_start :: "'w te_env \<Rightarrow> xfs_test_suite \<Rightarrow> ('w, te_errno) te" where
  "xfs_test_suite_start e xfs_ts = call_rc e (Job (JobStart (xfs_job xfs_ts)))"

text \<open>The timeout is computed as \<open>unsigned\<close> and passed as \<open>int\<close>. The status of the wait is
  compared with the bare code \<open>TE_EINPROGRESS\<close>, not with its code part; \<open>SIGKILL\<close> is 9.\<close>

definition xfs_test_suite_wait :: "'w te_env \<Rightarrow> xfs_test_suite \<Rightarrow> 32 word \<Rightarrow> ('w, te_errno) te" where
  "xfs_test_suite_wait e xfs_ts seconds =
     bnd (te_call e (Job (JobWait (xfs_job xfs_ts) (sint (seconds * 1000))))) (\<lambda>status.
       if r_rc status = TE_EINPROGRESS
       then bnd (call_rc e (Job (JobKill (xfs_job xfs_ts) 9))) (\<lambda>rc.
              ret (if rc \<noteq> 0 then rc else TE_EFAIL))
       else if r_rc status \<noteq> 0 then ret (r_rc status)
       else if r_flag status = EXITED \<and> r_num status = 0 then ret 0 else ret TE_EFAIL)"

definition xfs_test_suite_destroy :: "'w te_env \<Rightarrow> xfs_test_suite option \<Rightarrow> ('w, te_errno) te" where
  "xfs_test_suite_destroy e xfs_ts =
     (case xfs_ts of
        None \<Rightarrow> ret 0
      | Some xfs_ts \<Rightarrow>
          bnd (call_rc e (Job (JobDestroy (xfs_job xfs_ts) (- 1)))) (\<lambda>rc.
          bnd (te_call e (Job (JobFactoryDestroy (xfs_factory xfs_ts)))) (\<lambda>_. ret rc)))"

definition mkfs_xfs_desc :: "string \<Rightarrow> job_desc" where
  "mkfs_xfs_desc block =
     \<lparr>jd_program = ''mkfs.xfs'', jd_argv = [''mkfs.xfs'', ''-f'', block], jd_env = [], jd_regexps = []\<rparr>"

text \<open>The early returns leave the factory and the job behind.\<close>

definition xfs_test_suite_make_xfs :: "'w te_env \<Rightarrow> rcf_rpc_server \<Rightarrow> string \<Rightarrow> ('w, te_errno) te" where
  "xfs_test_suite_make_xfs e rpcs block =
     bnd (te_call e (Job (JobFactoryCreate rpcs))) (\<lambda>f. if r_rc f \<noteq> 0 then ret (r_rc f) else
     bnd (te_call e (Job (JobCreate (handle_of 0 f) (mkfs_xfs_desc block)))) (\<lambda>r.
       if r_rc r \<noteq> 0 then ret (r_rc r) else
     on_ok (call_rc e (Job (JobStart (handle_of 0 r))))
    (bnd (te_call e (Job (JobWait (handle_of 0 r) 60000))) (\<lambda>status.
       if r_rc status \<noteq> 0 then ret (r_rc status) else
     bnd (te_call e (Job (JobDestroy (handle_of 0 r) (- 1)))) (\<lambda>_.
     bnd (te_call e (Job (JobFactoryDestroy (handle_of 0 f)))) (\<lambda>_.
       ret (if r_flag status \<noteq> EXITED \<or> r_num status \<noteq> 0 then TE_EFAIL else 0)))))))"

section \<open>File systems: correctness\<close>

text \<open>The jobs made and destroyed, in their order.\<close>

definition made_job :: "event \<Rightarrow> handle list" where
  "made_job ev = (case fst ev of
     Job (JobCreate f d) \<Rightarrow> if r_rc (snd ev) = 0 then [handle_of 0 (snd ev)] else [] | _ \<Rightarrow> [])"

definition freed_job :: "event \<Rightarrow> handle list" where
  "freed_job ev = (case fst ev of Job (JobDestroy h _) \<Rightarrow> [h] | _ \<Rightarrow> [])"

text \<open>The verdicts a check acts on: how a job ended, and whether the journal was found.\<close>

datatype fs_verdict = JobEnded te_errno wait_flag int | Journal te_errno

definition verdicts :: "event \<Rightarrow> fs_verdict list" where
  "verdicts ev = (case fst ev of
     Job (JobWait h _) \<Rightarrow> [JobEnded (r_rc (snd ev)) (r_flag (snd ev)) (r_num (snd ev))]
   | Tool (Mke2fsCheckJournal h) \<Rightarrow> [Journal (r_rc (snd ev))] | _ \<Rightarrow> [])"

lemmas fs_defs = made_job_def freed_job_def verdicts_def resource_defs

text \<open>The steps on the file system: shell commands and its creation.\<close>

datatype fs_step = Shell string | Mkfs string

definition fs_steps :: "event \<Rightarrow> fs_step list" where
  "fs_steps ev = (case fst ev of
     Rpc r (RpcSystem cmd) \<Rightarrow> [Shell cmd] | Tool (Mke2fsDo f opt tmo) \<Rightarrow> [Mkfs (ptr_str (mk_device opt))] | _ \<Rightarrow> [])"

lemma fs_steps_simps [simp]:
  "fs_steps (Job op, a) = []" "fs_steps (Rpc r (RpcSystem cmd), a) = [Shell cmd]"
  "fs_steps (Tool (Mke2fsDo f (ext4_opt e d) tmo), a) = [Mkfs d]" "fs_steps (Tool (Mke2fsDestroy h), a) = []"
  "fs_steps (Tool (Mke2fsCheckJournal h), a) = []" "fs_steps (Rpcs r op', a) = []"
  by (simp_all add: fs_steps_def ext4_opt_def ptr_str_def)

definition jobs_balanced :: "event list \<Rightarrow> bool" where
  "jobs_balanced t \<longleftrightarrow> in_trace freed_job t = in_trace made_job t \<and>
     in_trace freed_factory t = in_trace made_factory t"

text \<open>A check returns, destroys the jobs it made, makes no factory, does not touch the file system, and passes only on
  the given verdicts.\<close>

definition checks :: "fs_verdict list \<Rightarrow> te_errno outcome \<Rightarrow> event list \<Rightarrow> bool" where
  "checks vs r t \<longleftrightarrow> (\<forall>v. r \<noteq> Jump v) \<and> in_trace freed_job t = in_trace made_job t \<and>
     in_trace made_factory t = [] \<and> in_trace freed_factory t = [] \<and> in_trace fs_steps t = [] \<and>
     (r = Val 0 \<longrightarrow> in_trace verdicts t = vs)"

lemma on_ok_checks:
  assumes "obeys m (checks vs)" and "obeys k (checks vs')"
  shows "obeys (on_ok m k) (checks (vs @ vs'))"
  by (rule obeys_on_ok, rule obeys_weaken [OF assms(1)])
     (auto simp: checks_def intro: obeys_weaken [OF assms(2)])

lemma e2fsck_check_sound: "obeys (e2fsck_check e factory device tmo) (checks [JobEnded 0 EXITED 0])"
  unfolding e2fsck_check_def start_and_wait_def
  by (auto intro!: ev simp: fs_defs checks_def e2fsck_judge_def split: if_splits)

lemma fs_type_check_sound: "obeys (fs_type_check e factory (Some ty) device) (checks [JobEnded 0 EXITED 0])"
  unfolding fs_type_check_def start_and_wait_def file_judge_def
  by (auto intro!: ev simp: fs_defs checks_def split: if_splits)

lemma check_fs_sound:
  "obeys (mke2fs_ts_check_fs e factory app (Some ty) device tmo)
     (checks [JobEnded 0 EXITED 0, JobEnded 0 EXITED 0, Journal 0])"
proof -
  have "obeys (call_rc e (Tool (Mke2fsCheckJournal app))) (checks [Journal 0])"
    by (auto intro!: ev simp: checks_def fs_defs)
  from on_ok_checks [OF e2fsck_check_sound on_ok_checks [OF fs_type_check_sound this]]
  show ?thesis by (simp add: mke2fs_ts_check_fs_def)
qed



definition in_steps :: "fs_step list \<Rightarrow> te_errno outcome \<Rightarrow> event list \<Rightarrow> bool" where
  "in_steps xs res t \<longleftrightarrow> (\<exists>ys. in_trace fs_steps t @ ys = xs) \<and> (res = Val 0 \<longrightarrow> in_trace fs_steps t = xs)"

lemma in_steps_ok: "in_steps xs (Val 0) t \<Longrightarrow> in_steps ys r t' \<Longrightarrow> in_steps (xs @ ys) r (t @ t')"
  by (auto simp: in_steps_def)

lemma in_steps_stop: "in_steps xs r t \<Longrightarrow> r \<noteq> Val 0 \<Longrightarrow> in_steps (xs @ ys) r t"
  by (auto simp: in_steps_def)

lemma on_ok_steps:
  assumes "obeys m (in_steps xs)" and "obeys k (in_steps ys)"
  shows "obeys (on_ok m k) (in_steps (xs @ ys))"
  by (rule obeys_on_ok, rule obeys_weaken [OF assms(1)])
     (auto intro: in_steps_stop obeys_weaken [OF assms(2)] in_steps_ok)

lemma shell_cmd_steps: "obeys (shell_cmd e rpcs cmd) (in_steps [Shell cmd])"
  unfolding shell_cmd_def by (auto intro!: ev simp: in_steps_def)

lemma create_filesystem_steps: "obeys (fs_ts_create_filesystem e rpcs device) (in_steps [Mkfs device])"
  unfolding fs_ts_create_filesystem_def
  by (auto intro!: ev obeys_weaken [OF check_fs_sound] simp: checks_def in_steps_def)


section \<open>The XFS test suite: correctness\<close>

definition killed :: "event \<Rightarrow> nat list" where
  "killed ev = (case fst ev of Job (JobKill h sig) \<Rightarrow> [sig] | _ \<Rightarrow> [])"

text \<open>
  C39. Waiting for an XFS test succeeds exactly when the job exited with status 0, and kills the job only when the
  answer is the bare code \<open>TE_EINPROGRESS\<close>: a timeout reported under the module of the job interface leaves
  the job running and is handed on as the error.
\<close>

theorem xfs_wait_kills_on_bare_code:
  "obeys (xfs_test_suite_wait e ts seconds) (\<lambda>res t. \<exists>a t'.
     t = (Job (JobWait (xfs_job ts) (sint (seconds * 1000))), a) # t' \<and>
     (res = Val 0) = (r_rc a = 0 \<and> r_flag a = EXITED \<and> r_num a = 0) \<and>
     in_trace killed t = (if r_rc a = TE_EINPROGRESS then [9] else []) \<and>
     (r_rc a = TE_RC TE_TAPI TE_C_EINPROGRESS \<longrightarrow> res = Val (r_rc a)))"
  unfolding xfs_test_suite_wait_def by (auto intro!: ev simp: killed_def)

definition sample_xfs :: xfs_test_suite where
  "sample_xfs = \<lparr>xfs_job = 4, xfs_factory = 3, xfs_group = ''generic'', xfs_name = ''001'', xfs_test_dev = None,
     xfs_test_dir = None, xfs_scratch_dev = None, xfs_scratch_dir = None\<rparr>"

lemma xfs_wait_kills_on_bare_code_witness:
  "fst (xfs_test_suite_wait calm_env sample_xfs 60 (calm_sys [failing (TE_RC TE_TAPI TE_C_EINPROGRESS)])) =
     Val (TE_RC TE_TAPI TE_C_EINPROGRESS)"
proof -
  let ?run = "xfs_test_suite_wait calm_env sample_xfs 60 (calm_sys [failing (TE_RC TE_TAPI TE_C_EINPROGRESS)])"
  have "map (r_rc \<circ> snd) (trace (snd ?run)) = [TE_RC TE_TAPI TE_C_EINPROGRESS]" by code_simp
  with obeys_at [OF xfs_wait_kills_on_bare_code [of calm_env sample_xfs 60],
      of "calm_sys [failing (TE_RC TE_TAPI TE_C_EINPROGRESS)]"]
  show ?thesis by auto
qed

end
