(* ===== verification/Tests.thy ===== *)
theory Tests
  imports Fs
begin

text \<open>
  The frame of the test programs under \<open>src/block-ts/blk-proxy\<close> and \<open>src/block-ts/rbd\<close>: the macros
  of TE around \<open>main\<close>, test parameters, and the invariants of their local variables.

  A test is a list of statements over its local variables, a record. Every statement may end
  the test (\<open>TEST_FAIL\<close>, \<open>TEST_SKIP\<close>, a failed \<open>CHECK_RC\<close>, a jump out of a library
  function); the cleanup code then runs with the variables as they are at that point, so that
  what it does with variables that were never set shows.
\<close>

section \<open>Statements\<close>

type_synonym ('w, 'l) step = "'l \<Rightarrow> ('w, verdict option \<times> 'l) te"

text \<open>A jump out of a called function leaves the variables of the test unchanged.\<close>

definition attempt :: "'l \<Rightarrow> ('w, verdict option \<times> 'l) te \<Rightarrow> ('w, verdict option \<times> 'l) te" where
  "attempt l m = (\<lambda>s. case m s of (Val x, s') \<Rightarrow> (Val x, s') | (Jump v, s') \<Rightarrow> (Val (Some v, l), s'))"

fun run_steps :: "('w, 'l) step list \<Rightarrow> ('w, 'l) step" where
  "run_steps [] l = ret (None, l)"
| "run_steps (f # fs) l =
     bnd (attempt l (f l)) (\<lambda>(v, l'). if v = None then run_steps fs l' else ret (v, l'))"

definition verdict_of :: "te_errno \<Rightarrow> verdict option" where
  "verdict_of rc = (if rc \<noteq> 0 then Some Failed else None)"

text \<open>\<open>CHECK_RC\<close> of a call, of a call with output parameters, an assignment or a call without a
  status, a conditional exit, a conditional block, a loop.\<close>

definition checked :: "('l \<Rightarrow> ('w, te_errno) te) \<Rightarrow> ('w, 'l) step" where
  "checked f l = bnd (f l) (\<lambda>rc. ret (verdict_of rc, l))"

definition checked_out :: "('l \<Rightarrow> ('w, te_errno \<times> 'l) te) \<Rightarrow> ('w, 'l) step" where
  "checked_out f l = bnd (f l) (\<lambda>(rc, l'). ret (verdict_of rc, l'))"

definition plain :: "('l \<Rightarrow> ('w, 'l) te) \<Rightarrow> ('w, 'l) step" where
  "plain f l = bnd (f l) (\<lambda>l'. ret (None, l'))"

definition act :: "('l \<Rightarrow> ('w, unit) te) \<Rightarrow> ('w, 'l) step" where
  "act f l = bnd (f l) (\<lambda>_. ret (None, l))"

definition stop_if :: "('l \<Rightarrow> bool) \<Rightarrow> verdict \<Rightarrow> ('w, 'l) step" where
  "stop_if b v l = ret (if b l then Some v else None, l)"

definition when_step :: "('l \<Rightarrow> bool) \<Rightarrow> ('w, 'l) step list \<Rightarrow> ('w, 'l) step" where
  "when_step b fs l = (if b l then run_steps fs l else ret (None, l))"

definition for_each :: "('l \<Rightarrow> 'i list) \<Rightarrow> ('i \<Rightarrow> ('w, 'l) step list) \<Rightarrow> ('w, 'l) step" where
  "for_each xs body l = run_steps (concat (map body (xs l))) l"

definition quiet :: "('w, 'a) te \<Rightarrow> ('w, unit) te" where
  "quiet m = bnd m (\<lambda>_. ret ())"

definition sleep :: "nat \<Rightarrow> 'w te_env \<Rightarrow> ('w, unit) te" where
  "sleep n e = quiet (te_call e (Local (Sleep n)))"

section \<open>The frame of a test\<close>

text \<open>Cleanup code: the statements run one after another; an error seen by
  \<open>CLEANUP_CHECK_RC\<close> makes the test fail, other results are ignored.\<close>

fun clean_all :: "('w, te_errno) te list \<Rightarrow> ('w, bool) te" where
  "clean_all [] = ret False"
| "clean_all (m # ms) = bnd m (\<lambda>rc. bnd (clean_all ms) (\<lambda>failed. ret (rc \<noteq> 0 \<or> failed)))"

definition ignored :: "('w, 'a) te \<Rightarrow> ('w, te_errno) te" where
  "ignored m = bnd m (\<lambda>_. ret 0)"

text \<open>At the end of every test that includes \<open>tsapi.h\<close>: the agent is rebooted when the test got
  \<open>SIGUSR2\<close> and the environment asks for it. A failed reboot makes the run fail.\<close>

definition test_end_specific :: "'w te_env \<Rightarrow> ('w, te_errno) te" where
  "test_end_specific e =
     bnd (te_call e (Test SigUsr2Caught)) (\<lambda>r.
       if r_bool r \<and> getenv e ''TSAPI_SIGUSR2_COLD_REBOOT'' \<noteq> None
       then call_rc e (Agent (RebootTa (getenv e ''TE_DUT_TST2_TA_NAME'') COLD_REBOOT))
       else ret 0)"

text \<open>The result: \<open>None\<close> when the test passed. A jump out of the cleanup code ends the test as
  failed.\<close>

definition run_main ::
    "('w, 'l) step list \<Rightarrow> ('l \<Rightarrow> ('w, bool) te) \<Rightarrow> ('w, te_errno) te \<Rightarrow> 'l \<Rightarrow> ('w, verdict option) te" where
  "run_main steps cleanup test_end l =
     bnd (run_steps steps l) (\<lambda>(v, l').
     bnd (cleanup l') (\<lambda>failed.
     bnd test_end (\<lambda>rc. ret (if failed \<or> rc \<noteq> 0 then Some Failed else v))))"

section \<open>Parameters and the network environment\<close>

definition test_get_rpcs :: "'w te_env \<Rightarrow> string \<Rightarrow> ('w, rcf_rpc_server) te" where
  "test_get_rpcs e ta =
     bnd (te_call e (Test (GetRpcs ta))) (\<lambda>r. if r_rc r \<noteq> 0 then jump Failed
       else ret \<lparr>rpcs_ta = ta, rpcs_name = ''pco''\<rparr>)"

definition test_param_enum :: "'w te_env \<Rightarrow> string \<Rightarrow> (string \<times> 'a) list \<Rightarrow> ('w, 'a) te" where
  "test_param_enum e name mapping =
     bnd (test_param_str e name) (\<lambda>v. case map_of mapping v of None \<Rightarrow> jump Failed | Some x \<Rightarrow> ret x)"

definition test_param_bool :: "'w te_env \<Rightarrow> string \<Rightarrow> ('w, bool) te" where
  "test_param_bool e name = test_param_enum e name [(''TRUE'', True), (''FALSE'', False)]"

definition test_param_rat :: "'w te_env \<Rightarrow> string \<Rightarrow> ('w, rat) te" where
  "test_param_rat e name =
     bnd (te_call e (Test (GetParam name))) (\<lambda>r. if r_rc r \<noteq> 0 then jump Failed else ret (r_rat r))"

text \<open>A part of the network environment; a missing one fails the test inside TE.\<close>

definition test_get_net :: "'w te_env \<Rightarrow> string \<Rightarrow> ('w, reply) te" where
  "test_get_net e name =
     bnd (te_call e (Test (GetNetEnv name))) (\<lambda>r. if r_rc r \<noteq> 0 then jump Failed else ret r)"

definition test_get_if :: "'w te_env \<Rightarrow> string \<Rightarrow> ('w, string) te" where
  "test_get_if e name = bnd (test_get_net e name) (\<lambda>r. ret (out_str r))"

definition start_env :: "'w te_env \<Rightarrow> ('w, unit) te" where
  "start_env e = check_rc (call_rc e (Test StartEnv))"

definition TSAPI_TEST_START_ENV :: "'w te_env \<Rightarrow> ('w, unit) te" where
  "TSAPI_TEST_START_ENV e =
     bnd (tsapi_backend_need_env e) (\<lambda>need. if need then start_env e else ret ())"

definition TSAPI_TEST_END_ENV :: "'w te_env \<Rightarrow> ('w, te_errno) te" where
  "TSAPI_TEST_END_ENV e =
     bnd (tsapi_backend_need_env e) (\<lambda>need. if need then call_rc e (Test EndEnv) else ret 0)"

section \<open>The calculus of statements\<close>

lemma obeys_attempt [ev]:
  assumes "obeys m (\<lambda>r t. (\<forall>x. r = Val x \<longrightarrow> T (Val x) t) \<and> (\<forall>v. r = Jump v \<longrightarrow> T (Val (Some v, l)) t))"
  shows "obeys (attempt l m) T"
  unfolding obeys_def
proof
  fix s
  obtain r s' where m: "m s = (r, s')" by fastforce
  from obeysD [OF assms m] obtain t where "trace s' = trace s @ t"
    "(\<forall>x. r = Val x \<longrightarrow> T (Val x) t) \<and> (\<forall>v. r = Jump v \<longrightarrow> T (Val (Some v, l)) t)" by metis
  with m show "\<exists>t. trace (snd (attempt l m s)) = trace s @ t \<and> T (fst (attempt l m s)) t"
    by (cases r) (auto simp: attempt_def)
qed

lemma obeys_steps_Nil [ev]: "T (Val (None, l)) [] \<Longrightarrow> obeys (run_steps [] l) T"
  by (simp add: obeys_ret)

lemma obeys_steps_Cons [ev]:
  "obeys (bnd (attempt l (f l)) (\<lambda>(v, l'). if v = None then run_steps fs l' else ret (v, l'))) T \<Longrightarrow>
   obeys (run_steps (f # fs) l) T"
  by simp

lemma obeys_checked [ev]: "obeys (bnd (f l) (\<lambda>rc. ret (verdict_of rc, l))) T \<Longrightarrow> obeys (checked f l) T"
  by (simp add: checked_def)

lemma obeys_checked_out [ev]:
  "obeys (bnd (f l) (\<lambda>(rc, l'). ret (verdict_of rc, l'))) T \<Longrightarrow> obeys (checked_out f l) T"
  by (simp add: checked_out_def)

lemma obeys_plain [ev]: "obeys (bnd (f l) (\<lambda>l'. ret (None, l'))) T \<Longrightarrow> obeys (plain f l) T"
  by (simp add: plain_def)

lemma obeys_act [ev]: "obeys (bnd (f l) (\<lambda>_. ret (None, l))) T \<Longrightarrow> obeys (act f l) T"
  by (simp add: act_def)

lemma obeys_stop_if [ev]: "T (Val (if b l then Some v else None, l)) [] \<Longrightarrow> obeys (stop_if b v l) T"
  by (simp add: stop_if_def obeys_ret)

lemma obeys_when_step [ev]:
  "(b l \<Longrightarrow> obeys (run_steps fs l) T) \<Longrightarrow> (\<not> b l \<Longrightarrow> T (Val (None, l)) []) \<Longrightarrow> obeys (when_step b fs l) T"
  by (simp add: when_step_def obeys_ret)

lemma obeys_quiet [ev]: "obeys (bnd m (\<lambda>_. ret ())) T \<Longrightarrow> obeys (quiet m) T"
  by (simp add: quiet_def)

lemma obeys_ignored [ev]: "obeys (bnd m (\<lambda>_. ret 0)) T \<Longrightarrow> obeys (ignored m) T"
  by (simp add: ignored_def)

lemma verdict_of_iff [simp]: "verdict_of rc = None \<longleftrightarrow> rc = 0"
  by (simp add: verdict_of_def)

subsection \<open>Invariants of the variables\<close>

text \<open>
  \<open>keeps I f\<close>: when the variables and the trace of the test satisfy \<open>I\<close> before the statement
  \<open>f\<close>, they do so after it, whether it goes on or ends the test.
\<close>

named_theorems kp

definition keeps :: "('l \<Rightarrow> event list \<Rightarrow> bool) \<Rightarrow> ('w, 'l) step \<Rightarrow> bool" where
  "keeps I f \<longleftrightarrow> (\<forall>l t. I l t \<longrightarrow> obeys (f l) (\<lambda>r t'.
     (\<forall>v l'. r = Val (v, l') \<longrightarrow> I l' (t @ t')) \<and> (\<forall>v. r = Jump v \<longrightarrow> I l (t @ t'))))"

lemma keeps_run_steps:
  assumes "\<And>f. f \<in> set fs \<Longrightarrow> keeps I f" and "I l t"
  shows "obeys (run_steps fs l) (\<lambda>r t'. \<exists>v l'. r = Val (v, l') \<and> I l' (t @ t'))"
  using assms
proof (induction fs arbitrary: l t)
  case Nil
  then show ?case by (auto intro!: ev)
next
  case (Cons f fs)
  have "obeys (f l) (\<lambda>r t'. (\<forall>v l'. r = Val (v, l') \<longrightarrow> I l' (t @ t')) \<and> (\<forall>v. r = Jump v \<longrightarrow> I l (t @ t')))"
    using Cons.prems by (simp add: keeps_def)
  then show ?case
    by (auto intro!: ev elim!: obeys_weaken)
       (auto simp flip: append_assoc intro!: Cons.IH Cons.prems(1))
qed

lemma keeps_nested:
  assumes "\<And>l. f l = run_steps (fs l) l" and "\<And>l g. g \<in> set (fs l) \<Longrightarrow> keeps I g"
  shows "keeps I f"
  unfolding keeps_def assms(1)
  by (intro allI impI, rule obeys_weaken, rule keeps_run_steps [where I = I]) (use assms(2) in auto)

lemma keeps_when [kp]: "(\<And>g. g \<in> set fs \<Longrightarrow> keeps I g) \<Longrightarrow> keeps I (when_step b fs)"
  by (rule keeps_nested [where fs = "\<lambda>l. if b l then fs else []"]) (auto simp: when_step_def)

lemma keeps_for_each [kp]: "(\<And>x g. g \<in> set (body x) \<Longrightarrow> keeps I g) \<Longrightarrow> keeps I (for_each xs body)"
  by (rule keeps_nested [where fs = "\<lambda>l. concat (map body (xs l))"]) (auto simp: for_each_def)

lemma keeps_stop_if [kp]: "keeps I (stop_if b v)"
  by (auto simp: keeps_def intro!: ev)

text \<open>Statements that change no variable the invariant looks at and leave nothing in the trace.\<close>

lemma keeps_checked_quiet:
  assumes "\<And>l t t'. I l t \<Longrightarrow> in_trace f t' = [] \<Longrightarrow> I l (t @ t')" and "\<And>l. leaves_none f (m l)"
  shows "keeps I (checked m)"
  unfolding keeps_def checked_def
  by (intro allI impI obeys_bnd, rule leaves_noneD [OF assms(2)]) (auto intro!: ev assms(1))

lemma keeps_act_quiet:
  assumes "\<And>l t t'. I l t \<Longrightarrow> in_trace f t' = [] \<Longrightarrow> I l (t @ t')" and "\<And>l. leaves_none f (m l)"
  shows "keeps I (act m)"
  unfolding keeps_def act_def
  by (intro allI impI obeys_bnd, rule leaves_noneD [OF assms(2)]) (auto intro!: ev assms(1))

text \<open>The cleanup runs on every way out of the body.\<close>

lemma run_main_inv:
  assumes body: "\<And>f. f \<in> set fs \<Longrightarrow> keeps I f" and start: "I l []"
    and cleanup: "\<And>l t. I l t \<Longrightarrow> obeys (cleanup l) (\<lambda>r t'. Q (t @ t'))"
    and finish: "\<And>t. Q t \<Longrightarrow> obeys tend (\<lambda>r t'. Q (t @ t'))"
  shows "obeys (run_main fs cleanup tend l) (\<lambda>r t. Q t)"
proof -
  have "obeys (bnd (cleanup b) (\<lambda>failed. bnd tend (\<lambda>rc. ret (if failed \<or> rc \<noteq> 0 then Some Failed else a))))
          (\<lambda>r t'. Q (t @ t'))" if "I b t" for a b t
    by (rule obeys_bnd, rule obeys_weaken [OF cleanup [OF that]])
       (auto intro!: obeys_bnd obeys_ret intro: obeys_weaken [OF finish])
  then show ?thesis unfolding run_main_def
    by (intro obeys_bnd, rule_tac obeys_weaken [OF keeps_run_steps [OF body start]]) auto
qed

end
