(* ===== verification/Observe.thy ===== *)
theory Observe
  imports Tests "HOL-Library.Sublist"
begin

text \<open>
  Views of a trace. A property of a test is stated on what a view shows of its trace; the library
  functions a test calls in between mostly read: the configuration tree, the test parameters, the
  devices of an agent. The locale \<open>reader_blind\<close> is the interface of the views that do not show
  such calls: for them all readers of the library leave nothing.
\<close>

section \<open>Programs a view does not show\<close>

named_theorems ln

lemmas [ln] = leaves_none_simps leaves_none_on_ok leaves_none_bnd leaves_none_call_rc

lemma leaves_none_call [ln]: "(\<And>r. f (c, r) = []) \<Longrightarrow> leaves_none f (te_call e c)"
  unfolding leaves_none_def by (auto intro!: ev)

lemma leaves_none_mem [ln]: "leaves_none f (mem e op)"
  unfolding leaves_none_def by (auto intro!: ev)

lemma leaves_none_errno [ln]: "leaves_none f (get_rpc_errno r)"
  unfolding leaves_none_def by (auto intro!: ev)

lemma leaves_none_check_rc [ln]: "leaves_none f m \<Longrightarrow> leaves_none f (check_rc m)"
  unfolding check_rc_def by (auto intro!: ln)

lemma leaves_none_ensure [ln]: "leaves_none f m \<Longrightarrow> leaves_none f c \<Longrightarrow> leaves_none f (ensure m c)"
  unfolding ensure_def by (auto intro!: ln)

lemma leaves_none_rc_seq [ln]: "(\<And>m. m \<in> set ms \<Longrightarrow> leaves_none f m) \<Longrightarrow> leaves_none f (rc_seq ms)"
  by (induction ms) (auto intro!: ln)

lemma leaves_none_for_rc [ln]: "(\<And>x. x \<in> set xs \<Longrightarrow> leaves_none f (g x)) \<Longrightarrow> leaves_none f (for_rc g xs)"
  by (induction xs) (auto intro!: ln)

lemma leaves_none_do_all [ln]: "(\<And>m. m \<in> set ms \<Longrightarrow> leaves_none f m) \<Longrightarrow> leaves_none f (do_all ms)"
  by (induction ms) (auto intro!: ln)

lemma leaves_none_if [ln]:
  "(b \<Longrightarrow> leaves_none f m) \<Longrightarrow> (\<not> b \<Longrightarrow> leaves_none f k) \<Longrightarrow> leaves_none f (if b then m else k)"
  by simp

lemma leaves_none_option [ln]:
  "(z = None \<Longrightarrow> leaves_none f m) \<Longrightarrow> (\<And>x. z = Some x \<Longrightarrow> leaves_none f (k x)) \<Longrightarrow>
   leaves_none f (case z of None \<Rightarrow> m | Some x \<Rightarrow> k x)"
  by (simp split: option.split)

lemma leaves_none_prod [ln]:
  "(\<And>x y. z = (x, y) \<Longrightarrow> leaves_none f (k x y)) \<Longrightarrow> leaves_none f (case z of (x, y) \<Rightarrow> k x y)"
  by (simp split: prod.split)

lemma leaves_none_list [ln]:
  "(z = [] \<Longrightarrow> leaves_none f m) \<Longrightarrow> (\<And>x xs. z = x # xs \<Longrightarrow> leaves_none f (k x xs)) \<Longrightarrow>
   leaves_none f (case z of [] \<Rightarrow> m | x # xs \<Rightarrow> k x xs)"
  by (simp split: list.split)

lemma leaves_none_string_append [ln]: "leaves_none f (te_string_append e str txt)"
  unfolding te_string_append_def by (auto intro!: ln)

lemma leaves_none_vec_append [ln]: "leaves_none f (te_vec_append_str e v txt)"
  unfolding te_vec_append_str_def by (auto intro!: ln)

lemma leaves_none_quiet [ln]: "leaves_none f m \<Longrightarrow> leaves_none f (quiet m)"
  unfolding quiet_def by (auto intro!: ln)

lemma leaves_none_ignored [ln]: "leaves_none f m \<Longrightarrow> leaves_none f (ignored m)"
  unfolding ignored_def by (auto intro!: ln)

lemma leaves_none_attempt [ln]: "leaves_none f m \<Longrightarrow> leaves_none f (attempt l m)"
  unfolding leaves_none_def by (rule obeys_attempt, erule obeys_weaken) simp

lemma leaves_none_run_steps [ln]:
  assumes "\<And>g l. g \<in> set gs \<Longrightarrow> leaves_none f (g l)"
  shows "leaves_none f (run_steps gs l)"
  using assms by (induction gs arbitrary: l) (auto intro!: ln)

lemma leaves_none_steps [ln]:
  "leaves_none f (m l) \<Longrightarrow> leaves_none f (checked m l)"
  "leaves_none f (n l) \<Longrightarrow> leaves_none f (checked_out n l)"
  "leaves_none f (k l) \<Longrightarrow> leaves_none f (plain k l)"
  "leaves_none f (a l) \<Longrightarrow> leaves_none f (act a l)"
  "leaves_none f (stop_if b v l)"
  "(\<And>g l. g \<in> set gs \<Longrightarrow> leaves_none f (g l)) \<Longrightarrow> leaves_none f (when_step b gs l)"
  "(\<And>x g l. g \<in> set (body x) \<Longrightarrow> leaves_none f (g l)) \<Longrightarrow> leaves_none f (for_each xs body l)"
  unfolding checked_def checked_out_def plain_def act_def stop_if_def when_step_def for_each_def
  by (auto intro!: ln)

subsection \<open>Configuration handles\<close>

text \<open>Configuration files are parsed and printed in memory.\<close>

lemma leaves_none_conf [ln]:
  "leaves_none f (tsapi_conf_create_section e conf name d)" "leaves_none f (conf_append e conf name k v)"
  "leaves_none f (extract_section_name e str d name)" "leaves_none f (extract_key_value e str d kv)"
  "leaves_none f (tsapi_conf_parse_string e str name kv)" "leaves_none f (read_line e buf conf name)"
  unfolding tsapi_conf_create_section_def conf_append_def tsapi_conf_append_def extract_section_name_def
    extract_key_value_def tsapi_conf_parse_string_def read_line_def
  by (auto intro!: ln)

lemma leaves_none_read_lines [ln]: "leaves_none f (read_lines e bufs conf name)"
  by (induction bufs arbitrary: conf name) (auto intro!: ln)

lemma leaves_none_flush [ln]: "leaves_none f (flush_conf_to_str e conf str)"
proof -
  have items: "leaves_none f (flush_items e d kvs rc str)" for d kvs rc str
    by (induction kvs arbitrary: rc str) (auto intro!: ln)
  have "leaves_none f (flush_sections e secs rc str)" for secs rc str
    by (induction secs arbitrary: rc str) (auto intro!: ln items)
  then show ?thesis unfolding flush_conf_to_str_def by (auto intro!: ln)
qed

lemma leaves_none_opts_read [ln]: "leaves_none f (tsapi_conf_opts_read e argv pfx vec)"
proof -
  have "leaves_none f (opts_read_loop e pfx argv vec)" for vec
    by (induction argv arbitrary: vec) (auto intro!: ln)
  then show ?thesis unfolding tsapi_conf_opts_read_def by (auto intro!: ln)
qed

section \<open>Reading\<close>

fun reading :: "call \<Rightarrow> bool" where
  "reading (Cfg (CfgGet _)) = True"
| "reading (Cfg (CfgGetSync _)) = True"
| "reading (Cfg (CfgFind _)) = True"
| "reading (Cfg (CfgGetOid _)) = True"
| "reading (Cfg (CfgGetInst _)) = True"
| "reading (Cfg (CfgInstName _)) = True"
| "reading (Cfg (CfgTreePrint _)) = True"
| "reading (Agent (PciByVendorDevice _ _ _)) = True"
| "reading (Agent (PciGetDevices _)) = True"
| "reading (Agent (GetAllThreads _)) = True"
| "reading (Agent (Name2Type _)) = True"
| "reading (Test _) = True"
| "reading _ = False"

locale reader_blind =
  fixes view :: "event \<Rightarrow> 'a list"
  assumes blind: "reading c \<Longrightarrow> view (c, r) = []"
begin

lemma agt_path: "leaves_none view (tsapi_append_path_to_agt_dir e sz ta sfx)"
  unfolding tsapi_append_path_to_agt_dir_def by (auto intro!: ln simp: blind)

lemma cfg_get: "leaves_none view (cfg_get_checked e inst)"
  unfolding cfg_get_checked_def by (auto intro!: ln simp: blind)

lemma use_plugin: "leaves_none view (tsapi_use_plugin e)"
  unfolding tsapi_use_plugin_def by (auto intro!: ln cfg_get)

lemma use_onload: "leaves_none view (tsapi_use_onload e)"
  unfolding tsapi_use_onload_def by (auto intro!: ln cfg_get)

lemma backend_param: "leaves_none view (tsapi_get_backend_param_str e b p)"
  unfolding tsapi_get_backend_param_str_def by (auto intro!: ln simp: blind)

lemma backend_param_bool: "leaves_none view (tsapi_get_backend_param_bool e b p)"
  unfolding tsapi_get_backend_param_bool_def by (auto intro!: ln backend_param)

lemma backend_param_int: "leaves_none view (tsapi_get_backend_param_int e b p)"
  unfolding tsapi_get_backend_param_int_def by (auto intro!: ln backend_param)

lemma get_mode: "leaves_none view (tsapi_backend_get_mode e)"
  unfolding tsapi_backend_get_mode_def by (auto intro!: ln simp: blind)

lemma get_type: "leaves_none view (tsapi_backend_get_type e)"
  unfolding tsapi_backend_get_type_def by (auto intro!: ln get_mode simp: blind)

lemma need_env: "leaves_none view (tsapi_backend_need_env e)"
  unfolding tsapi_backend_need_env_def by (auto intro!: ln get_mode)

lemma virtio_blocks: "leaves_none view (virtio_blocks_checked e ta)"
  unfolding virtio_blocks_checked_def tsapi_get_virtio_blocks_def by (auto intro!: ln simp: blind)

lemma blocks_count: "leaves_none view (tsapi_virtio_blocks_count e ta)"
  unfolding tsapi_virtio_blocks_count_def by (auto intro!: ln virtio_blocks)

lemma append_dev_names: "leaves_none view (append_dev_names e v ds)"
  by (induction ds arbitrary: v) (auto intro!: ln)

lemma collect_devices: "leaves_none view (collect_devices e v pcis)"
  by (induction pcis arbitrary: v) (auto intro!: ln append_dev_names simp: blind)

lemma get_devices: "leaves_none view (tsapi_get_devices e ta)"
  unfolding tsapi_get_devices_def tsapi_get_virtio_blocks_def
  by (auto intro!: ln collect_devices simp: blind)

lemma mount_dir: "leaves_none view (tsapi_get_mount_dir_name e ta index)"
  unfolding tsapi_get_mount_dir_name_def by (auto intro!: ln cfg_get)

lemma params:
  "leaves_none view (test_param_str e name)" "leaves_none view (test_param_num e name)"
  "leaves_none view (test_has_param e name)" "leaves_none view (test_param_rat e name)"
  "leaves_none view (test_param_enum e name mapping)" "leaves_none view (test_param_bool e name)"
  unfolding test_param_str_def test_param_num_def test_has_param_def test_param_rat_def
    test_param_enum_def test_param_bool_def
  by (auto intro!: ln simp: blind)

lemma opts_read_suf: "leaves_none view (tsapi_fio_opts_read_suf e opts sfx)"
  unfolding tsapi_fio_opts_read_suf_def fio_optional_def by (auto intro!: ln params)

lemma opts_read: "leaves_none view (tsapi_fio_opts_read e opts ta)"
  unfolding tsapi_fio_opts_read_def by (auto intro!: ln get_devices opts_read_suf)

lemma get_rpcs: "leaves_none view (test_get_rpcs e ta)"
  unfolding test_get_rpcs_def by (auto intro!: ln simp: blind)

lemma get_net: "leaves_none view (test_get_net e name)"
  unfolding test_get_net_def by (auto intro!: ln simp: blind)

lemma get_if: "leaves_none view (test_get_if e name)"
  unfolding test_get_if_def by (auto intro!: ln get_net)

lemma start_env: "leaves_none view (start_env e)"
  unfolding start_env_def by (auto intro!: ln simp: blind)

lemma env_macros: "leaves_none view (TSAPI_TEST_START_ENV e)" "leaves_none view (TSAPI_TEST_END_ENV e)"
  unfolding TSAPI_TEST_START_ENV_def TSAPI_TEST_END_ENV_def by (auto intro!: ln need_env start_env simp: blind)

lemma handle_init: "leaves_none view (tsapi_blkproxy_handle_init e r n c)"
  unfolding tsapi_blkproxy_handle_init_def build_config_agent_dir_def build_config_local_dir_def
  by (auto intro!: ln simp: blind)

lemmas readers = agt_path cfg_get use_plugin use_onload backend_param backend_param_bool backend_param_int
  get_mode get_type need_env virtio_blocks blocks_count get_devices mount_dir params opts_read_suf opts_read
  get_rpcs get_net get_if start_env env_macros handle_init

end

section \<open>Invariants of the variables, continued\<close>

text \<open>A call whose result goes into variables.\<close>

lemma keeps_assign:
  assumes "\<And>l. leaves_none f (m l)" and "\<And>l t t' x. I l t \<Longrightarrow> in_trace f t' = [] \<Longrightarrow> I l (t @ t') \<and> I (upd l x) (t @ t')"
  shows "keeps I (plain (\<lambda>l. bnd (m l) (\<lambda>x. ret (upd l x))))"
  unfolding keeps_def plain_def
  by (intro allI impI obeys_bnd, rule leaves_noneD [OF assms(1)]) (auto intro!: ev dest: assms(2))

lemma keeps_out:
  assumes "\<And>l. leaves_none f (m l)" and "\<And>l t t' x. I l t \<Longrightarrow> in_trace f t' = [] \<Longrightarrow> I l (t @ t') \<and> I (upd l x) (t @ t')"
  shows "keeps I (checked_out (\<lambda>l. bnd (m l) (\<lambda>x. ret (rc x, upd l x))))"
  unfolding keeps_def checked_out_def
  by (intro allI impI obeys_bnd, rule leaves_noneD [OF assms(1)]) (auto intro!: ev dest: assms(2))

section \<open>A resource of a test\<close>

text \<open>
  A resource is made once and kept in a variable; the cleanup code destroys what the variable
  holds, a handle or NULL (0). \<open>idle\<close> statements do not touch it, \<open>creates\<close> is the statement that
  makes it, \<open>frees\<close> the cleanup code. The first two are what a test has to show of its
  statements, \<open>released\<close> is what it gets for every way through the test.
\<close>

definition idle ::
    "(event \<Rightarrow> 'b list) \<Rightarrow> (event \<Rightarrow> 'd list) \<Rightarrow> ('l \<Rightarrow> 'c) \<Rightarrow> ('w, 'l) step \<Rightarrow> bool" where
  "idle made freed var f \<longleftrightarrow> (\<forall>l. obeys (f l) (\<lambda>r t. in_trace made t = [] \<and> in_trace freed t = [] \<and>
     (\<forall>v l'. r = Val (v, l') \<longrightarrow> var l' = var l)))"

definition creates ::
    "(event \<Rightarrow> 'b list) \<Rightarrow> (event \<Rightarrow> 'b list) \<Rightarrow> ('l \<Rightarrow> 'b) \<Rightarrow> ('w, 'l) step \<Rightarrow> bool" where
  "creates made freed var f \<longleftrightarrow> (\<forall>l. obeys (f l) (\<lambda>r t. in_trace freed t = [] \<and>
     (\<forall>v l'. r = Val (v, l') \<longrightarrow> in_trace made t = [var l'] \<or> in_trace made t = [] \<and> var l' = var l) \<and>
     (\<forall>v. r = Jump v \<longrightarrow> in_trace made t = [])))"

definition frees ::
    "(event \<Rightarrow> 'b list) \<Rightarrow> (event \<Rightarrow> 'b list) \<Rightarrow> ('l \<Rightarrow> 'b) \<Rightarrow> ('l \<Rightarrow> ('w, bool) te) \<Rightarrow> bool" where
  "frees made freed var c \<longleftrightarrow> (\<forall>l. obeys (c l) (\<lambda>r t. in_trace made t = [] \<and> in_trace freed t = [var l]))"

definition released :: "handle list \<Rightarrow> handle list \<Rightarrow> bool" where
  "released made freed \<longleftrightarrow> length made \<le> 1 \<and> freed = [hd (made @ [0])]"

lemma leaves_both:
  "leaves_none f m \<Longrightarrow> leaves_none g m \<Longrightarrow> obeys m (\<lambda>r t. in_trace f t = [] \<and> in_trace g t = [])"
  unfolding leaves_none_def by (rule obeys_conj)

lemma idle_run_steps:
  assumes "\<And>f. f \<in> set fs \<Longrightarrow> idle made freed var f"
  shows "obeys (run_steps fs l) (\<lambda>r t. in_trace made t = [] \<and> in_trace freed t = [] \<and>
     (\<exists>v l'. r = Val (v, l') \<and> var l' = var l))"
  using assms
proof (induction fs arbitrary: l)
  case (Cons f fs)
  have "idle made freed var f" using Cons.prems by simp
  then have "obeys (f l) (\<lambda>r t. in_trace made t = [] \<and> in_trace freed t = [] \<and>
     (\<forall>v l'. r = Val (v, l') \<longrightarrow> var l' = var l))" by (simp add: idle_def)
  then show ?case
    by (auto intro!: ev elim!: obeys_weaken) (auto intro!: obeys_weaken [OF Cons.IH] Cons.prems)
qed (auto intro!: ev)

named_theorems idl

lemma idle_when [idl]: "(\<And>g. g \<in> set fs \<Longrightarrow> idle made freed var g) \<Longrightarrow> idle made freed var (when_step b fs)"
  by (subst idle_def) (auto intro!: ev intro: obeys_weaken [OF idle_run_steps])

lemma idle_for_each [idl]:
  "(\<And>x g. g \<in> set (body x) \<Longrightarrow> idle made freed var g) \<Longrightarrow> idle made freed var (for_each xs body)"
  by (subst idle_def, unfold for_each_def, intro allI, rule obeys_weaken,
      rule idle_run_steps [where made = made and freed = freed and var = var]) auto

lemma idle_stop_if [idl]: "idle made freed var (stop_if b v)"
  by (auto simp: idle_def intro!: ev)

lemma idle_checked [idl]:
  "(\<And>l. leaves_none made (m l)) \<Longrightarrow> (\<And>l. leaves_none freed (m l)) \<Longrightarrow> idle made freed var (checked m)"
  unfolding idle_def checked_def
  by (intro allI obeys_bnd, rule obeys_weaken, rule leaves_both [where f = made and g = freed]) (auto intro!: ev)

lemma idle_act [idl]:
  "(\<And>l. leaves_none made (m l)) \<Longrightarrow> (\<And>l. leaves_none freed (m l)) \<Longrightarrow> idle made freed var (act m)"
  unfolding idle_def act_def
  by (intro allI obeys_bnd, rule obeys_weaken, rule leaves_both [where f = made and g = freed]) (auto intro!: ev)

text \<open>A call whose result goes into other variables.\<close>

lemma idle_assign [idl]:
  assumes "\<And>l. leaves_none made (m l)" and "\<And>l. leaves_none freed (m l)"
    and "\<And>l x. var (upd l x) = var l"
  shows "idle made freed var (plain (\<lambda>l. bnd (m l) (\<lambda>x. ret (upd l x))))"
  unfolding idle_def plain_def
  by (intro allI obeys_bnd, rule obeys_weaken, rule leaves_both [OF assms(1,2)]) (auto intro!: ev simp: assms(3))

lemma idle_out [idl]:
  assumes "\<And>l. leaves_none made (m l)" and "\<And>l. leaves_none freed (m l)"
    and "\<And>l x. var (upd l x) = var l"
  shows "idle made freed var (checked_out (\<lambda>l. bnd (m l) (\<lambda>x. ret (rc x, upd l x))))"
  unfolding idle_def checked_out_def
  by (intro allI obeys_bnd, rule obeys_weaken, rule leaves_both [OF assms(1,2)]) (auto intro!: ev simp: assms(3))

subsection \<open>Released on every way\<close>

lemma run_steps_append:
  "run_steps (fs @ gs) l = bnd (run_steps fs l) (\<lambda>(v, l'). if v = None then run_steps gs l' else ret (v, l'))"
proof (induction fs arbitrary: l)
  case Nil
  then show ?case by (simp add: bnd_def ret_def fun_eq_iff)
next
  case (Cons f fs)
  then show ?case
    by (auto simp: bnd_def ret_def fun_eq_iff attempt_def split: outcome.splits prod.splits)
qed

lemma obeys_steps_append [ev]:
  "obeys (bnd (run_steps fs l) (\<lambda>(v, l'). if v = None then run_steps gs l' else ret (v, l'))) T \<Longrightarrow>
   obeys (run_steps (fs @ gs) l) T"
  by (simp add: run_steps_append)

lemma resource_released:
  assumes pre: "\<And>f. f \<in> set pre \<Longrightarrow> idle made freed var f" and create: "creates made freed var g"
    and post: "\<And>f. f \<in> set post \<Longrightarrow> idle made freed var f"
    and cleanup: "frees made freed var c"
    and tend: "leaves_none made tend" "leaves_none freed tend"
    and init: "var l = 0"
  shows "obeys (run_main (pre @ g # post) c tend l) (\<lambda>r t. released (in_trace made t) (in_trace freed t))"
proof -
  have g: "obeys (attempt l (g l)) (\<lambda>r t. in_trace freed t = [] \<and> (\<exists>v l'. r = Val (v, l') \<and>
      (in_trace made t = [var l'] \<or> in_trace made t = [] \<and> var l' = var l)))" for l
    using create unfolding creates_def by (intro obeys_attempt, elim allE [of _ l]) (erule obeys_weaken, auto)
  have "obeys (run_steps (pre @ g # post) l) (\<lambda>r t. in_trace freed t = [] \<and> (\<exists>v l'. r = Val (v, l') \<and>
      (in_trace made t = [var l'] \<or> in_trace made t = [] \<and> var l' = 0)))"
    by (rule obeys_steps_append, rule obeys_bnd, rule obeys_weaken [OF idle_run_steps [OF pre]])
       (auto intro!: obeys_steps_Cons obeys_bnd obeys_if obeys_ret obeys_weaken [OF g]
          obeys_weaken [OF idle_run_steps [OF post]] simp: init split: prod.splits)
  moreover have fin: "obeys (bnd (c l) (\<lambda>failed. bnd tend (\<lambda>rc. ret (if failed \<or> rc \<noteq> 0 then Some Failed else v))))
      (\<lambda>r t. in_trace made t = [] \<and> in_trace freed t = [var l])" for l v
    by (rule obeys_bnd, rule obeys_weaken [OF cleanup [unfolded frees_def, rule_format]])
       (auto intro!: obeys_bnd obeys_ret obeys_weaken [OF leaves_both [OF tend]])
  ultimately show ?thesis unfolding run_main_def
    by (intro obeys_bnd)
       (erule obeys_weaken, auto intro!: obeys_prod obeys_weaken [OF fin] simp: released_def)
qed

section \<open>Paths through a test\<close>

text \<open>
  \<open>shows_steps view X ok\<close>: what the view shows is a prefix of a sequence of \<open>X\<close>, and a whole
  sequence when the outcome is \<open>ok\<close>. \<open>paths view X f\<close>: what the view shows of \<open>f\<close> is a prefix of a sequence of \<open>X\<close>, and a whole
  sequence when the test goes on after \<open>f\<close>. A statement that is skipped adds the empty
  sequence. \<open>follows I view X f\<close> says so of the runs from variables with the invariant \<open>I\<close>,
  which holds again when the test goes on after \<open>f\<close>.
\<close>

definition shows_steps :: "(event \<Rightarrow> 'b list) \<Rightarrow> 'b list set \<Rightarrow> 'r outcome \<Rightarrow> 'r outcome \<Rightarrow> event list \<Rightarrow> bool" where
  "shows_steps view X ok r t \<longleftrightarrow> (\<exists>xs \<in> X. prefix (in_trace view t) xs) \<and> (r = ok \<longrightarrow> in_trace view t \<in> X)"

definition goes :: "(event \<Rightarrow> 'b list) \<Rightarrow> 'b list set \<Rightarrow> (verdict option \<times> 'l) outcome \<Rightarrow> event list \<Rightarrow> bool" where
  "goes view X r t \<longleftrightarrow> (\<exists>xs \<in> X. prefix (in_trace view t) xs) \<and>
     (\<forall>l'. r = Val (None, l') \<longrightarrow> in_trace view t \<in> X)"

definition lands :: "('l \<Rightarrow> bool) \<Rightarrow> (verdict option \<times> 'l) outcome \<Rightarrow> bool" where
  "lands I r \<longleftrightarrow> (\<forall>l'. r = Val (None, l') \<longrightarrow> I l')"

definition follows :: "('l \<Rightarrow> bool) \<Rightarrow> (event \<Rightarrow> 'b list) \<Rightarrow> 'b list set \<Rightarrow> ('w, 'l) step \<Rightarrow> bool" where
  "follows I view X f \<longleftrightarrow> (\<forall>l. I l \<longrightarrow> obeys (f l) (\<lambda>r t. goes view X r t \<and> lands I r))"

abbreviation paths :: "(event \<Rightarrow> 'b list) \<Rightarrow> 'b list set \<Rightarrow> ('w, 'l) step \<Rightarrow> bool" where
  "paths \<equiv> follows (\<lambda>_. True)"

definition seqs :: "'b list set \<Rightarrow> 'b list set \<Rightarrow> 'b list set" where
  "seqs X Y = (\<Union>x \<in> X. (@) x ` Y)"

lemma seqs_simps [simp]: "seqs {} Y = {}" "seqs (insert x X) Y = (@) x ` Y \<union> seqs X Y"
  by (auto simp: seqs_def)

lemma lands_simps [simp]:
  "lands I (Val (v, l)) \<longleftrightarrow> (v = None \<longrightarrow> I l)" "lands I (Jump w)" "lands (\<lambda>_. True) r"
  by (auto simp: lands_def)

lemma followsD:
  "follows I view X f \<Longrightarrow> I l \<Longrightarrow> (\<And>r t. goes view X r t \<Longrightarrow> lands I r \<Longrightarrow> T r t) \<Longrightarrow> obeys (f l) T"
  unfolding follows_def by (metis (no_types, lifting) obeys_weaken)

lemma follows_nonempty: "follows I view X f \<Longrightarrow> I l \<Longrightarrow> X \<noteq> {}"
  unfolding follows_def obeys_def goes_def by blast

lemma follows_none:
  assumes "\<And>l. leaves_none view (f l)" and "\<And>l. I l \<Longrightarrow> obeys (f l) (\<lambda>r t. lands I r)"
  shows "follows I view {[]} f"
  unfolding follows_def
  by (intro allI impI, rule obeys_weaken, rule obeys_conj [OF assms(1) [unfolded leaves_none_def] assms(2)])
     (auto simp: goes_def)

lemma obeys_True: "obeys m T \<Longrightarrow> obeys m (\<lambda>r t. True)"
  by (erule obeys_weaken) simp

lemma paths_none: "(\<And>l. leaves_none view (f l)) \<Longrightarrow> paths view {[]} f"
  by (rule follows_none) (auto simp: leaves_none_def intro: obeys_True)

lemma follows_Nil: "follows I view {[]} (run_steps [])"
  unfolding follows_def by (auto intro!: ev simp: goes_def)

lemma goes_mono: "goes view X r t \<Longrightarrow> X \<subseteq> Y \<Longrightarrow> goes view Y r t"
  unfolding goes_def by blast

lemma goes_stop:
  assumes "goes view X r t" and "Y \<noteq> {}" and "\<And>l'. r' \<noteq> Val (None, l')"
  shows "goes view (seqs X Y) r' t"
proof -
  from assms obtain x y where "x \<in> X" "prefix (in_trace view t) x" "y \<in> Y" by (auto simp: goes_def)
  then have "x @ y \<in> seqs X Y" "prefix (in_trace view t) (x @ y)" by (auto simp: seqs_def)
  with assms(3) show ?thesis by (auto simp: goes_def)
qed

lemma goes_on:
  assumes "goes view X (Val (None, l)) t" and "goes view Y r t'"
  shows "goes view (seqs X Y) r (t @ t')"
proof -
  from assms have x: "in_trace view t \<in> X" by (simp add: goes_def)
  from assms obtain y where "y \<in> Y" "prefix (in_trace view t') y" by (auto simp: goes_def)
  with x have "in_trace view t @ y \<in> seqs X Y" "prefix (in_trace view (t @ t')) (in_trace view t @ y)"
    by (auto simp: seqs_def)
  moreover have "in_trace view (t @ t') \<in> seqs X Y" if "r = Val (None, l')" for l'
    using x assms(2) that by (auto simp: goes_def seqs_def)
  ultimately show ?thesis by (auto simp: goes_def simp del: in_trace_simps)
qed

lemma follows_bnd:
  assumes f: "follows I view X f" and g: "follows I view Y g" and l: "I l"
  shows "obeys (bnd (attempt l (f l)) (\<lambda>(v, l'). if v = None then g l' else ret (v, l')))
    (\<lambda>r t. goes view (seqs X Y) r t \<and> lands I r)"
  using follows_nonempty [OF g l] l
  by (intro obeys_bnd obeys_attempt followsD [OF f l])
     (auto intro!: obeys_ret followsD [OF g] intro: goes_stop goes_on)

lemma follows_Cons:
  "follows I view X f \<Longrightarrow> follows I view Y (run_steps fs) \<Longrightarrow> follows I view (seqs X Y) (run_steps (f # fs))"
  unfolding follows_def [of I view "seqs X Y"] run_steps.simps by (intro allI impI follows_bnd)

lemma steps_value: "\<exists>x. fst (run_steps fs l s) = Val x"
proof (induction fs arbitrary: l s)
  case (Cons f fs)
  then show ?case by (auto simp: bnd_def attempt_def ret_def split: outcome.splits prod.splits)
qed (simp add: ret_def)

lemma attempt_steps: "attempt l (run_steps fs l) = run_steps fs l"
proof
  fix s
  show "attempt l (run_steps fs l) s = run_steps fs l s"
    using steps_value [of fs l s] by (cases "run_steps fs l s") (auto simp: attempt_def)
qed

lemma follows_append:
  "follows I view X (run_steps fs) \<Longrightarrow> follows I view Y (run_steps gs) \<Longrightarrow> follows I view (seqs X Y) (run_steps (fs @ gs))"
  using follows_bnd [of I view X "run_steps fs" Y "run_steps gs"]
  unfolding follows_def [of I view "seqs X Y"] by (simp add: run_steps_append attempt_steps)

text \<open>A loop: a sequence for each pass, in the order of the elements, which are one of the lists of \<open>L\<close>.\<close>

fun prods :: "('x \<Rightarrow> 'b list set) \<Rightarrow> 'x list \<Rightarrow> 'b list set" where
  "prods X [] = {[]}"
| "prods X (x # xs) = seqs (X x) (prods X xs)"

lemma prods_single [simp]: "prods (\<lambda>x. {f x}) xs = {concat (map f xs)}"
  by (induction xs) auto

lemma follows_concat:
  "(\<And>x. x \<in> set xs \<Longrightarrow> follows I view (X x) (run_steps (body x))) \<Longrightarrow>
   follows I view (prods X xs) (run_steps (concat (map body xs)))"
  by (induction xs) (auto simp del: run_steps.simps intro: follows_Nil follows_append)

lemma follows_for_each:
  assumes "\<And>l. I l \<Longrightarrow> xs l \<in> L"
    and "\<And>ys x. ys \<in> L \<Longrightarrow> x \<in> set ys \<Longrightarrow> follows I view (X x) (run_steps (body x))"
  shows "follows I view (\<Union>ys \<in> L. prods X ys) (for_each xs body)"
  unfolding follows_def for_each_def
proof (intro allI impI)
  fix l assume I: "I l"
  with assms(1) have L: "xs l \<in> L" .
  with assms(2) have "follows I view (prods X (xs l)) (run_steps (concat (map body (xs l))))"
    by (intro follows_concat)
  from this [THEN followsD, OF I] show "obeys (run_steps (concat (map body (xs l))) l)
      (\<lambda>r t. goes view (\<Union>ys \<in> L. prods X ys) r t \<and> lands I r)"
    by (rule obeys_weaken) (use L in \<open>auto intro: goes_mono\<close>)
qed

text \<open>A part that fixes a parameter of what follows: it shows \<open>X n\<close> and establishes \<open>J n\<close>.\<close>

lemma goes_choose:
  fixes m :: "('w, verdict option \<times> 'l) te"
  assumes m: "obeys m (\<lambda>r t. \<exists>n. goes view (X n) r t \<and> lands (J n) r)"
    and g: "\<And>n. follows (J n) view (Y n) (run_steps fs)" and Y: "\<And>n. Y n \<noteq> {}"
  shows "obeys (bnd (attempt l m) (\<lambda>(v, l'). if v = None then run_steps fs l' else ret (v, l')))
    (\<lambda>r t. goes view (\<Union>n. seqs (X n) (Y n)) r t \<and> (\<exists>n. lands (J n) r))"
proof -
  let ?U = "\<Union>n. seqs (X n) (Y n)"
  have mono: "goes view (seqs (X n) (Y n)) r t \<Longrightarrow> goes view ?U r t" for n and r :: "(verdict option \<times> 'l) outcome" and t
    by (erule goes_mono) auto
  have stop: "goes view ?U r' t" if "goes view (X n) r t" "\<And>l'. r' \<noteq> Val (None, l')"
    for n and r r' :: "(verdict option \<times> 'l) outcome" and t
    by (rule mono, rule goes_stop [OF that(1) Y that(2)])
  have on: "obeys (run_steps fs b) (\<lambda>r' t'. goes view ?U r' (t @ t') \<and> (\<exists>n. lands (J n) r'))"
    if "goes view (X n) (Val (None, b)) t" "J n b" for n b t
    by (rule followsD [OF g that(2)]) (auto intro: mono goes_on [OF that(1)])
  show ?thesis
    by (intro obeys_bnd obeys_attempt, rule obeys_weaken [OF m])
       (auto intro!: obeys_ret on intro: stop)
qed

lemma follows_choose:
  fixes f :: "('w, 'l) step"
  assumes f: "\<And>l. I l \<Longrightarrow> obeys (f l) (\<lambda>r t. \<exists>n. goes view (X n) r t \<and> lands (J n) r)"
    and g: "\<And>n. follows (J n) view (Y n) (run_steps fs)" and J: "\<And>n l. J n l \<Longrightarrow> I l"
    and Y: "\<And>n. Y n \<noteq> {}"
  shows "follows I view (\<Union>n. seqs (X n) (Y n)) (run_steps (f # fs))"
  unfolding follows_def run_steps.simps
proof (intro allI impI)
  fix l assume "I l"
  from goes_choose [OF f [OF this] g Y] show "obeys (bnd (attempt l (f l)) (\<lambda>(v, l'). if v = None then run_steps fs l' else ret (v, l')))
      (\<lambda>r t. goes view (\<Union>n. seqs (X n) (Y n)) r t \<and> lands I r)"
    by (rule obeys_weaken) (use J in \<open>auto simp: lands_def\<close>)
qed

text \<open>A list of statements the view does not show.\<close>

lemma follows_chain: "(\<And>f. f \<in> set fs \<Longrightarrow> follows I view {[]} f) \<Longrightarrow> follows I view {[]} (run_steps fs)"
proof (induction fs)
  case Nil
  show ?case by (rule follows_Nil)
next
  case (Cons f fs)
  then show ?case using follows_Cons [of I view "{[]}" f "{[]}" fs] by (simp del: run_steps.simps)
qed

lemma paths_quiet: "(\<And>f l. f \<in> set fs \<Longrightarrow> leaves_none view (f l)) \<Longrightarrow> paths view {[]} (run_steps fs)"
  by (intro paths_none ln)

lemma follows_when: "follows I view X (run_steps fs) \<Longrightarrow> follows I view (insert [] X) (when_step b fs)"
  unfolding follows_def [of I view "insert [] X"] when_step_def
  by (auto intro!: obeys_ret intro: followsD goes_mono simp: goes_def [of view "insert [] X" "Val (None, _)" "[]"])

text \<open>The same when the invariant decides the condition.\<close>

lemma follows_when_known:
  assumes "\<And>l. I l \<Longrightarrow> b l \<longleftrightarrow> c" and "c \<Longrightarrow> follows I view X (run_steps fs)"
  shows "follows I view (if c then X else {[]}) (when_step b fs)"
  using assms by (auto simp: follows_def when_step_def goes_def intro!: obeys_ret)

lemma follows_event:
  assumes "\<And>l r. I l \<Longrightarrow> view (c l, r) = [x]" and "\<And>l. \<not> is_rpc (c l)"
  shows "follows I view {[x]} (checked (\<lambda>l. call_rc e (c l)))"
  unfolding follows_def using assms by (auto intro!: ev simp: goes_def)

lemma follows_checked:
  assumes "\<And>l. I l \<Longrightarrow> obeys (m l) (shows_steps view X (Val 0))"
  shows "follows I view X (checked m)"
  unfolding follows_def
  by (intro allI impI obeys_checked obeys_bnd, rule obeys_weaken [OF assms]) (auto intro!: ev simp: goes_def shows_steps_def)

lemma follows_act:
  assumes "\<And>l. obeys (m l) (shows_steps view X (Val ()))"
  shows "follows I view X (act m)"
  unfolding follows_def
  by (intro allI impI obeys_act obeys_bnd, rule obeys_weaken [OF assms]) (auto intro!: ev simp: goes_def shows_steps_def)

text \<open>Statements that leave the variables as they are.\<close>

lemma keeps_lands:
  "I l \<Longrightarrow> obeys (m l) T \<Longrightarrow> obeys (checked m l) (\<lambda>r t. lands I r)"
  "I l \<Longrightarrow> obeys (a l) U \<Longrightarrow> obeys (act a l) (\<lambda>r t. lands I r)"
  by (auto intro!: obeys_checked obeys_act obeys_bnd obeys_ret elim!: obeys_weaken)

lemma follows_quiet:
  "(\<And>l. leaves_none view (m l)) \<Longrightarrow> follows I view {[]} (checked m)"
  "(\<And>l. leaves_none view (a l)) \<Longrightarrow> follows I view {[]} (act a)"
  "follows I view {[]} (stop_if b v)"
  by (intro follows_none ln; auto simp: leaves_none_def intro: keeps_lands)+
     (auto simp: follows_def goes_def intro!: ev)

text \<open>A call whose result goes to variables the invariant does not look at.\<close>

lemma follows_assign:
  assumes "\<And>l. leaves_none view (m l)" and "\<And>l x. I (upd l x) = I l"
  shows "follows I view {[]} (plain (\<lambda>l. bnd (m l) (\<lambda>x. ret (upd l x))))"
  unfolding follows_def plain_def
  by (intro allI impI obeys_bnd, rule leaves_noneD [OF assms(1)]) (auto intro!: ev simp: assms(2) goes_def)

lemma goes_main:
  assumes body: "obeys (run_steps fs l) (goes view X)"
    and "\<And>l. leaves_none view (cleanup l)" and "leaves_none view tend"
  shows "obeys (run_main fs cleanup tend l) (shows_steps view X (Val None))"
proof -
  have "obeys (bnd (cleanup l) (\<lambda>failed. bnd tend (\<lambda>rc. ret (if failed \<or> rc \<noteq> 0 then Some Failed else v))))
      (\<lambda>r t. in_trace view t = [] \<and> (r = Val None \<longrightarrow> v = None))" for l v
    by (rule obeys_bnd, rule leaves_noneD [OF assms(2)])
       (auto intro!: obeys_bnd obeys_ret leaves_noneD [OF assms(3)] split: if_splits)
  from obeys_weaken [OF this] show ?thesis unfolding run_main_def
    by (intro obeys_bnd obeys_weaken [OF body]) (auto intro!: obeys_prod simp: goes_def shows_steps_def)
qed

lemma follows_main:
  assumes "follows I view X (run_steps fs)" and "I l"
    and "\<And>l. leaves_none view (cleanup l)" and "leaves_none view tend"
  shows "obeys (run_main fs cleanup tend l) (shows_steps view X (Val None))"
  by (rule goes_main, rule followsD [OF assms(1,2)]) (use assms(3,4) in auto)

end
