(* ===== verification/Test_Fio.thy ===== *)
theory Test_Fio
  imports Observe
begin

text \<open>
  The tests that run one FIO instance: \<open>blk-proxy/readwrite/\<close> without \<open>fio_multi.c\<close>,
  \<open>performance/fio_perf.c\<close> and \<open>config/reboot_arm.c\<close>. Their variables
  extend the record \<open>fio_locals\<close>; the statements they share are modelled once. What a resource of such a test
  has to fulfil to be released is the locale \<open>fio_resource\<close>, interpreted for the factory and the instance.
\<close>

section \<open>Shared statements\<close>

record fio_locals =
  lv_host :: rcf_rpc_server
  lv_opts :: tapi_fio_opts
  lv_factory :: handle
  lv_fio :: tapi_fio
  lv_report :: handle

definition null_rpcs :: rcf_rpc_server where
  "null_rpcs = \<lparr>rpcs_ta = [], rpcs_name = []\<rparr>"

definition fio_locals0 :: "'w te_env \<Rightarrow> fio_locals" where
  "fio_locals0 e = \<lparr>lv_host = null_rpcs, lv_opts = fio_defaults e, lv_factory = 0, lv_fio = no_fio e, lv_report = 0\<rparr>"

definition get_host :: "'w te_env \<Rightarrow> ('w, 'a fio_locals_scheme) step" where
  "get_host e = plain (\<lambda>l. bnd (test_get_rpcs e ''Agt_host'') (\<lambda>r. ret (l\<lparr>lv_host := r\<rparr>)))"

definition read_fio_opts :: "'w te_env \<Rightarrow> ('w, 'a fio_locals_scheme) step" where
  "read_fio_opts e = plain (\<lambda>l.
     bnd (tsapi_fio_opts_read e (lv_opts l) (rpcs_ta (lv_host l))) (\<lambda>opts. ret (l\<lparr>lv_opts := opts\<rparr>)))"

definition create_factory :: "'w te_env \<Rightarrow> ('w, 'a fio_locals_scheme) step" where
  "create_factory e = checked_out (\<lambda>l.
     bnd (te_call e (Job (JobFactoryCreate (lv_host l)))) (\<lambda>r.
       ret (r_rc r, if r_rc r = 0 then l\<lparr>lv_factory := handle_of 0 r\<rparr> else l)))"

definition create_fio :: "'w te_env \<Rightarrow> ('w, 'a fio_locals_scheme) step" where
  "create_fio e = checked_out (\<lambda>l.
     bnd (tsapi_fio_create e (lv_opts l) (lv_factory l) (Some ''Agt_host'')) (\<lambda>(rc, fio).
       ret (rc, l\<lparr>lv_fio := fio\<rparr>)))"

definition start_fio :: "'w te_env \<Rightarrow> ('w, 'a fio_locals_scheme) step" where
  "start_fio e = checked (\<lambda>l. call_rc e (Tool (FioStart (fio_handle (lv_fio l)))))"

definition wait_fio :: "'w te_env \<Rightarrow> ('w, 'a fio_locals_scheme) step" where
  "wait_fio e = checked (\<lambda>l. tsapi_fio_flex_wait e (lv_fio l))"

definition stop_fio :: "'w te_env \<Rightarrow> ('w, 'a fio_locals_scheme) step" where
  "stop_fio e = checked (\<lambda>l. call_rc e (Tool (FioStop (fio_handle (lv_fio l)))))"

text \<open>The report is known by the handle the answer gives.\<close>

definition read_report :: "'w te_env \<Rightarrow> 'a fio_locals_scheme \<Rightarrow> ('w, te_errno \<times> 'a fio_locals_scheme) te" where
  "read_report e l =
     bnd (te_call e (Tool (FioGetReport (fio_handle (lv_fio l))))) (\<lambda>r.
       ret (r_rc r, if r_rc r = 0 then l\<lparr>lv_report := handle_of 0 r\<rparr> else l))"

definition get_report :: "'w te_env \<Rightarrow> ('w, 'a fio_locals_scheme) step" where
  "get_report e = checked_out (read_report e)"

definition log_report :: "'w te_env \<Rightarrow> ('w, 'a fio_locals_scheme) step" where
  "log_report e = act (\<lambda>l. quiet (te_call e (Tool (FioLogReport (lv_report l)))))"

definition prepare_fio :: "'w te_env \<Rightarrow> ('w, 'a fio_locals_scheme) step list" where
  "prepare_fio e = [create_factory e, create_fio e]"

definition run_fio :: "'w te_env \<Rightarrow> ('w, 'a fio_locals_scheme) step list" where
  "run_fio e = [start_fio e, wait_fio e, stop_fio e]"

definition report_fio :: "'w te_env \<Rightarrow> ('w, 'a fio_locals_scheme) step list" where
  "report_fio e = [get_report e, log_report e]"

definition destroy_fio :: "'w te_env \<Rightarrow> 'a fio_locals_scheme \<Rightarrow> ('w, te_errno) te" where
  "destroy_fio e l = ignored (te_call e (Tool (FioDestroy (fio_handle (lv_fio l)))))"

definition destroy_factory :: "'w te_env \<Rightarrow> 'a fio_locals_scheme \<Rightarrow> ('w, te_errno) te" where
  "destroy_factory e l = ignored (te_call e (Job (JobFactoryDestroy (lv_factory l))))"

definition fio_cleanup :: "'w te_env \<Rightarrow> 'a fio_locals_scheme \<Rightarrow> ('w, bool) te" where
  "fio_cleanup e l = clean_all [destroy_fio e l, destroy_factory e l]"

section \<open>\<open>readwrite/fio.c\<close> and \<open>performance/fio_perf.c\<close>\<close>

definition fio_main :: "'w te_env \<Rightarrow> ('w, verdict option) te" where
  "fio_main e = run_main ([get_host e, read_fio_opts e] @ prepare_fio e @ run_fio e @ report_fio e)
     (fio_cleanup e) (test_end_specific e) (fio_locals0 e)"

definition PERFORMANCE_LIB_BLK_PROXY_PS_NAME :: string where
  "PERFORMANCE_LIB_BLK_PROXY_PS_NAME = ''perf-blk-proxy''"
definition PERFORMANCE_LIB_BLK_PROXY_CONF_NAME :: string where
  "PERFORMANCE_LIB_BLK_PROXY_CONF_NAME = ''perf_bp_map''"
definition PERFORMANCE_LIB_DEFAULT_FIO_OPT_SIZE :: string where
  "PERFORMANCE_LIB_DEFAULT_FIO_OPT_SIZE = ''100%''"

text \<open>\<open>args\<close>: the arguments TE keeps in the instance.\<close>

definition fio_perf_main :: "'w te_env \<Rightarrow> string list \<Rightarrow> ('w, verdict option) te" where
  "fio_perf_main e args = run_main
     ([get_host e, read_fio_opts e] @ prepare_fio e @ run_fio e @ report_fio e @
      [checked (\<lambda>l. tsapi_fio_mi_report e args (lv_report l) PERFORMANCE_LIB_BLK_PROXY_CONF_NAME ''Agt_ARM'' False)])
     (fio_cleanup e) (test_end_specific e) (fio_locals0 e)"

section \<open>\<open>config/reboot_arm.c\<close>\<close>

record reboot_locals = fio_locals +
  ra_reboot_after_fio :: bool
  ra_count_iter :: int

definition reboot_arm :: "'w te_env \<Rightarrow> ('w, reboot_locals) step" where
  "reboot_arm e = checked (\<lambda>l. call_rc e (Agent (RebootTa (Some ''Agt_ARM'') WARM_REBOOT)))"

text \<open>The status of reading the report is not looked at; the report is logged in any case.\<close>

definition reboot_pass :: "'w te_env \<Rightarrow> ('w, reboot_locals) step list" where
  "reboot_pass e =
     [start_fio e,
      when_step (\<lambda>l. \<not> ra_reboot_after_fio l) [reboot_arm e],
      wait_fio e, stop_fio e,
      when_step ra_reboot_after_fio [reboot_arm e],
      plain (\<lambda>l. bnd (read_report e l) (\<lambda>(_, l'). ret l')),
      log_report e]"

definition reboot_arm_main :: "'w te_env \<Rightarrow> ('w, verdict option) te" where
  "reboot_arm_main e = run_main
     ([get_host e,
       plain (\<lambda>l. bnd (test_param_bool e ''reboot_after_fio'') (\<lambda>v. ret (l\<lparr>ra_reboot_after_fio := v\<rparr>))),
       plain (\<lambda>l. bnd (test_param_num e ''count_iter'') (\<lambda>v. ret (l\<lparr>ra_count_iter := sint v\<rparr>))),
       read_fio_opts e] @ prepare_fio e @
      [for_each (\<lambda>l. [0..<nat (ra_count_iter l)]) (\<lambda>_. reboot_pass e)])
     (fio_cleanup e) (test_end_specific e)
     (fio_locals.extend (fio_locals0 e) \<lparr>ra_reboot_after_fio = False, ra_count_iter = 0\<rparr>)"

section \<open>\<open>readwrite/fio_pattern.c\<close>\<close>

fun append_checked :: "'w te_env \<Rightarrow> string \<Rightarrow> string list \<Rightarrow> ('w, string) te" where
  "append_checked e str [] = ret str"
| "append_checked e str (txt # txts) =
     bnd (te_string_append e str txt) (\<lambda>(rc, str). if rc \<noteq> 0 then jump Failed else append_checked e str txts)"

definition get_common_verify_opts :: "'w te_env \<Rightarrow> tapi_fio_opts \<Rightarrow> ('w, string) te" where
  "get_common_verify_opts e opts =
     append_checked e '''' ['' --verify=md5'', '' --verify_interval='' @ dec_of_int (sint (fio_blocksize opts))]"

definition get_writter_verify_opts :: "'w te_env \<Rightarrow> tapi_fio_opts \<Rightarrow> ('w, tapi_fio_opts) te" where
  "get_writter_verify_opts e opts =
     bnd (get_common_verify_opts e opts) (\<lambda>vopts.
     bnd (append_checked e vopts
            ['' --do_verify=0'', '' --verify_state_save=1'', '' --rw=randwrite'']) (\<lambda>vopts.
     bnd (if fio_iodepth opts > 1
          then append_checked e vopts ['' --serialize_overlap=1'', '' --overwrite=1''] else ret vopts) (\<lambda>vopts.
       ret (opts\<lparr>fio_user := Some vopts\<rparr>))))"

definition get_verification_opts :: "'w te_env \<Rightarrow> tapi_fio_opts \<Rightarrow> ('w, tapi_fio_opts) te" where
  "get_verification_opts e opts =
     bnd (get_common_verify_opts e opts) (\<lambda>vopts.
     bnd (append_checked e vopts
            ['' --verify_state_load=1'', '' --do_verify=1'', '' --verify_fatal=1'', '' --verify_dump=1'',
             '' --rw=randread'']) (\<lambda>vopts.
       ret (opts\<lparr>fio_rwmixread := 100, fio_user := Some vopts\<rparr>)))"

text \<open>The options are changed inside the instance; a NULL instance is read through.\<close>

definition set_app_opts ::
    "'w te_env \<Rightarrow> (tapi_fio_opts \<Rightarrow> ('w, tapi_fio_opts) te) \<Rightarrow> ('w, 'a fio_locals_scheme) step" where
  "set_app_opts e f = plain (\<lambda>l.
     if fio_handle (lv_fio l) = 0 then jump Failed else
     bnd (f (fio_opts (lv_fio l))) (\<lambda>opts.
     bnd (te_call e (Tool (FioSetOpts (fio_handle (lv_fio l)) opts))) (\<lambda>_.
       ret (l\<lparr>lv_fio := (lv_fio l)\<lparr>fio_opts := opts\<rparr>\<rparr>))))"

definition set_factory_path :: "'w te_env \<Rightarrow> ('w, 'a fio_locals_scheme) step" where
  "set_factory_path e = checked (\<lambda>l. call_rc e (Job (JobFactorySetPath (lv_factory l))))"

definition fio_pattern_main :: "'w te_env \<Rightarrow> ('w, verdict option) te" where
  "fio_pattern_main e = run_main
     ([get_host e, read_fio_opts e, create_factory e, set_factory_path e, create_fio e] @
      [set_app_opts e (get_writter_verify_opts e)] @ run_fio e @ [get_report e] @
      [set_app_opts e (get_verification_opts e)] @ run_fio e @ report_fio e)
     (fio_cleanup e) (test_end_specific e) (fio_locals0 e)"

section \<open>\<open>readwrite/fio_stability.c\<close>\<close>

record stability_locals = fio_locals +
  st_ta :: string
  st_rpcs :: rcf_rpc_server
  st_factory :: handle
  st_app :: handle

definition choose_stress_rpcs :: "'w te_env \<Rightarrow> ('w, stability_locals) step" where
  "choose_stress_rpcs e = plain (\<lambda>l.
     if st_ta l = rpcs_ta (lv_host l) then ret (l\<lparr>st_rpcs := lv_host l\<rparr>)
     else if st_ta l = ''Agt_ARM''
     then bnd (test_get_rpcs e ''Agt_ARM'') (\<lambda>r. ret (l\<lparr>st_rpcs := r\<rparr>))
     else jump Failed)"

definition create_stress :: "'w te_env \<Rightarrow> ('w, stability_locals) step list" where
  "create_stress e =
     [checked_out (\<lambda>l. bnd (te_call e (Job (JobFactoryCreate (st_rpcs l)))) (\<lambda>r.
        ret (r_rc r, if r_rc r = 0 then l\<lparr>st_factory := handle_of 0 r\<rparr> else l))),
      checked_out (\<lambda>l. bnd (te_call e (Tool (StressCreate (st_factory l) 0))) (\<lambda>r.
        ret (r_rc r, if r_rc r = 0 then l\<lparr>st_app := handle_of 0 r\<rparr> else l)))]"

definition fio_stability_cleanup :: "'w te_env \<Rightarrow> stability_locals \<Rightarrow> ('w, bool) te" where
  "fio_stability_cleanup e l = clean_all
     [destroy_fio e l, ignored (te_call e (Tool (StressDestroy (st_app l)))), destroy_factory e l]"

definition fio_stability_main :: "'w te_env \<Rightarrow> ('w, verdict option) te" where
  "fio_stability_main e = run_main
     ([plain (\<lambda>l. bnd (test_param_str e ''stress_ta'') (\<lambda>v. ret (l\<lparr>st_ta := v\<rparr>))),
       get_host e, choose_stress_rpcs e] @ create_stress e @ [read_fio_opts e] @ prepare_fio e @
      [checked (\<lambda>l. call_rc e (Tool (StressStart (st_app l))))] @ run_fio e @
      [checked (\<lambda>l. call_rc e (Tool (StressStop (st_app l))))] @ report_fio e)
     (fio_stability_cleanup e) (test_end_specific e)
     (fio_locals.extend (fio_locals0 e) \<lparr>st_ta = [], st_rpcs = null_rpcs, st_factory = 0, st_app = 0\<rparr>)"

section \<open>\<open>readwrite/fio_stability_perf.c\<close>\<close>

text \<open>The two factories of the traffic generator are not initialised: \<open>None\<close> until they are set.\<close>

record perf_locals = fio_locals +
  pf_arm :: rcf_rpc_server
  pf_client_factory :: "handle option"
  pf_server_factory :: "handle option"
  pf_client :: handle
  pf_server :: handle

definition perf_client_opts :: "'w te_env \<Rightarrow> tapi_fio_opts \<Rightarrow> tapi_perf_opts" where
  "perf_client_opts e opts = (perf_defaults e)
     \<lparr>perf_host := Some ''127.0.0.1'', perf_duration_sec := sint (fio_runtime_sec opts),
      perf_protocol := ''RPC_IPPROTO_TCP'', perf_streams := 2, perf_port := 5201\<rparr>"

definition perf_server_opts :: "'w te_env \<Rightarrow> tapi_perf_opts" where
  "perf_server_opts e = (perf_defaults e)
     \<lparr>perf_protocol := ''RPC_IPPROTO_TCP'', perf_streams := 2, perf_port := 5201\<rparr>"

text \<open>Reading a variable that was not set is undefined, taken here to end the test.\<close>

definition get_local :: "'a option \<Rightarrow> ('w, 'a) te" where
  "get_local v = (case v of None \<Rightarrow> jump Failed | Some x \<Rightarrow> ret x)"

definition prepare_perf :: "'w te_env \<Rightarrow> ('w, perf_locals) step list" where
  "prepare_perf e =
     [checked_out (\<lambda>l. bnd (te_call e (Job (JobFactoryCreate (lv_host l)))) (\<lambda>r.
        ret (r_rc r, if r_rc r = 0 then l\<lparr>pf_client_factory := Some (handle_of 0 r)\<rparr> else l))),
      checked_out (\<lambda>l. bnd (te_call e (Job (JobFactoryCreate (pf_arm l)))) (\<lambda>r.
        ret (r_rc r, if r_rc r = 0 then l\<lparr>pf_server_factory := Some (handle_of 0 r)\<rparr> else l))),
      plain (\<lambda>l. bnd (get_local (pf_client_factory l)) (\<lambda>f.
        bnd (te_call e (Tool (PerfClientCreate f (perf_client_opts e (lv_opts l))))) (\<lambda>r.
          ret (l\<lparr>pf_client := handle_of 0 r\<rparr>)))),
      plain (\<lambda>l. bnd (get_local (pf_server_factory l)) (\<lambda>f.
        bnd (te_call e (Tool (PerfServerCreate f (perf_server_opts e)))) (\<lambda>r.
          ret (l\<lparr>pf_server := handle_of 0 r\<rparr>))))]"

definition fio_stability_perf_cleanup :: "'w te_env \<Rightarrow> perf_locals \<Rightarrow> ('w, bool) te" where
  "fio_stability_perf_cleanup e l = clean_all
     [destroy_fio e l,
      ignored (te_call e (Tool (PerfClientDestroy (pf_client l)))),
      ignored (te_call e (Tool (PerfServerDestroy (pf_server l)))),
      bnd (get_local (pf_client_factory l)) (\<lambda>f. ignored (te_call e (Job (JobFactoryDestroy f)))),
      bnd (get_local (pf_server_factory l)) (\<lambda>f. ignored (te_call e (Job (JobFactoryDestroy f)))),
      destroy_factory e l]"

definition fio_stability_perf_main :: "'w te_env \<Rightarrow> ('w, verdict option) te" where
  "fio_stability_perf_main e = run_main
     ([get_host e,
       plain (\<lambda>l. bnd (test_get_rpcs e ''Agt_ARM'') (\<lambda>r. ret (l\<lparr>pf_arm := r\<rparr>))),
       read_fio_opts e] @ prepare_perf e @ prepare_fio e @
      [checked (\<lambda>l. call_rc e (Tool (PerfServerStart (pf_server l)))),
       checked (\<lambda>l. call_rc e (Tool (PerfClientStart (pf_client l))))] @ run_fio e @
      [checked (\<lambda>l. call_rc e (Tool (PerfClientWait (pf_client l)))),
       checked (\<lambda>l. call_rc e (Tool (PerfClientReport (pf_client l)))),
       checked (\<lambda>l. call_rc e (Tool (PerfServerReport (pf_server l))))] @ report_fio e)
     (fio_stability_perf_cleanup e) (test_end_specific e)
     (fio_locals.extend (fio_locals0 e)
        \<lparr>pf_arm = null_rpcs, pf_client_factory = None, pf_server_factory = None, pf_client = 0, pf_server = 0\<rparr>)"

section \<open>Resources of the FIO tests\<close>

text \<open>Everything but making and destroying the two resources.\<close>

fun neutral :: "call \<Rightarrow> bool" where
  "neutral (Tool (FioCreate _ _ _)) = False"
| "neutral (Tool (FioDestroy _)) = False"
| "neutral (Job (JobFactoryCreate _)) = False"
| "neutral (Job (JobFactoryDestroy _)) = False"
| "neutral _ = True"

locale fio_resource = made: reader_blind made + freed: reader_blind freed
  for made :: "event \<Rightarrow> handle list" and freed :: "event \<Rightarrow> handle list" +
  fixes var :: "'a fio_locals_scheme \<Rightarrow> handle"
  assumes neutral: "neutral c \<Longrightarrow> made (c, r) = []" "neutral c \<Longrightarrow> freed (c, r) = []"
    and var: "var (l\<lparr>lv_host := h\<rparr>) = var l" "var (l\<lparr>lv_opts := opts\<rparr>) = var l"
      "var (l\<lparr>lv_report := p\<rparr>) = var l" "var (l\<lparr>lv_fio := (lv_fio l)\<lparr>fio_opts := opts\<rparr>\<rparr>) = var l"
begin

lemma idle_shared:
  "idle made freed var (get_host e)" "idle made freed var (read_fio_opts e)"
  "idle made freed var (start_fio e)" "idle made freed var (wait_fio e)" "idle made freed var (stop_fio e)"
  "idle made freed var (log_report e)" "idle made freed var (set_factory_path e)"
  unfolding get_host_def read_fio_opts_def start_fio_def wait_fio_def stop_fio_def log_report_def
    tsapi_fio_flex_wait_def set_factory_path_def
  by (auto intro!: idl ln made.readers freed.readers simp: var neutral)

lemma idle_report: "idle made freed var (get_report e)"
  "idle made freed var (plain (\<lambda>l. bnd (read_report e l) (\<lambda>(_, l'). ret l')))"
  unfolding get_report_def read_report_def idle_def checked_out_def plain_def
  by (auto intro!: ev simp: neutral var)

lemma verify_opts: "leaves_none f (append_checked e str txts)"
  by (induction txts arbitrary: str) (auto intro!: ln)

lemma idle_set_opts:
  assumes "\<And>opts. leaves_none made (f opts)" and "\<And>opts. leaves_none freed (f opts)"
  shows "idle made freed var (set_app_opts e f)"
  unfolding set_app_opts_def idle_def plain_def
  by (auto intro!: ev obeys_weaken [OF leaves_both [OF assms]] simp: neutral var)

lemma idle_verify:
  "idle made freed var (set_app_opts e (get_writter_verify_opts e))"
  "idle made freed var (set_app_opts e (get_verification_opts e))"
  by (auto intro!: idle_set_opts ln verify_opts
      simp: get_writter_verify_opts_def get_verification_opts_def get_common_verify_opts_def)

lemma test_end: "leaves_none made (test_end_specific e)" "leaves_none freed (test_end_specific e)"
  unfolding test_end_specific_def by (auto intro!: ln simp: neutral)

lemmas idles = idle_shared idle_report idle_verify

end

interpretation fio_inst: fio_resource made_fio freed_fio "\<lambda>l. fio_handle (lv_fio l)"
  by unfold_locales (auto simp: resource_defs elim!: reading.elims neutral.elims)

interpretation fio_fac: fio_resource made_factory freed_factory lv_factory
  by unfold_locales (auto simp: resource_defs elim!: reading.elims neutral.elims)

abbreviation fio_var :: "'a fio_locals_scheme \<Rightarrow> handle" where
  "fio_var l \<equiv> fio_handle (lv_fio l)"

lemma fio_resource_calls:
  "idle made_fio freed_fio fio_var (create_factory e)"
  "creates made_fio freed_fio fio_var (create_fio e)"
  "frees made_fio freed_fio fio_var (fio_cleanup e)"
  unfolding create_factory_def create_fio_def fio_cleanup_def destroy_fio_def destroy_factory_def
    idle_def creates_def frees_def checked_out_def tsapi_fio_create_def
  by (auto intro!: ev obeys_weaken [OF leaves_both [OF fio_inst.made.agt_path fio_inst.freed.agt_path]]
        simp: resource_defs)

lemma factory_resource_calls:
  "creates made_factory freed_factory lv_factory (create_factory e)"
  "idle made_factory freed_factory lv_factory (create_fio e)"
  "frees made_factory freed_factory lv_factory (fio_cleanup e)"
  unfolding create_factory_def create_fio_def fio_cleanup_def destroy_fio_def destroy_factory_def
    idle_def creates_def frees_def checked_out_def tsapi_fio_create_def
  by (auto intro!: ev obeys_weaken [OF leaves_both [OF fio_fac.made.agt_path fio_fac.freed.agt_path]]
        simp: resource_defs)

definition fio_idle :: "('w, 'a fio_locals_scheme) step \<Rightarrow> bool" where
  "fio_idle f \<longleftrightarrow> idle made_fio freed_fio fio_var f \<and> idle made_factory freed_factory lv_factory f"

definition fio_released :: "event list \<Rightarrow> bool" where
  "fio_released t \<longleftrightarrow> released (in_trace made_fio t) (in_trace freed_fio t) \<and>
     released (in_trace made_factory t) (in_trace freed_factory t)"

lemma fio_idles:
  "fio_idle (get_host e)" "fio_idle (read_fio_opts e)" "fio_idle (start_fio e)" "fio_idle (wait_fio e)"
  "fio_idle (stop_fio e)" "fio_idle (log_report e)" "fio_idle (set_factory_path e)" "fio_idle (get_report e)"
  "fio_idle (plain (\<lambda>l. bnd (read_report e l) (\<lambda>(_, l'). ret l')))"
  "fio_idle (set_app_opts e (get_writter_verify_opts e))" "fio_idle (set_app_opts e (get_verification_opts e))"
  by (simp_all add: fio_idle_def fio_inst.idles fio_fac.idles)

lemma fio_frame_released:
  assumes cleanup: "frees made_fio freed_fio fio_var c" "frees made_factory freed_factory lv_factory c"
    and idle: "\<forall>f \<in> set pre \<union> set mid \<union> set post. fio_idle f"
    and init: "fio_var l = 0" "lv_factory l = 0"
  shows "obeys (run_main (pre @ create_factory e # mid @ create_fio e # post) c (test_end_specific e) l)
    (\<lambda>r t. fio_released t)"
  unfolding fio_released_def
proof (rule obeys_conj)
  have "idle made_fio freed_fio fio_var f" if "f \<in> set (pre @ create_factory e # mid)" for f
    using that idle by (auto simp: fio_idle_def fio_resource_calls)
  then show "obeys (run_main (pre @ create_factory e # mid @ create_fio e # post) c (test_end_specific e) l)
      (\<lambda>r t. released (in_trace made_fio t) (in_trace freed_fio t))"
    using resource_released [of "pre @ create_factory e # mid" made_fio freed_fio fio_var "create_fio e" post
        c "test_end_specific e" l] idle init cleanup
    by (auto simp: fio_idle_def fio_resource_calls fio_inst.test_end)
  show "obeys (run_main (pre @ create_factory e # mid @ create_fio e # post) c (test_end_specific e) l)
      (\<lambda>r t. released (in_trace made_factory t) (in_trace freed_factory t))"
    by (rule resource_released [where var = lv_factory])
       (use idle init cleanup in \<open>auto simp: fio_idle_def factory_resource_calls fio_fac.test_end\<close>)
qed

lemmas test_parts = prepare_fio_def run_fio_def report_fio_def fio_locals0_def no_fio_def

lemma fio_main_released: "obeys (fio_main e) (\<lambda>r t. fio_released t)"
  using fio_frame_released [OF fio_resource_calls(3) factory_resource_calls(3), of "[get_host e, read_fio_opts e]" "[]"
      "run_fio e @ report_fio e" "fio_locals0 e" e e]
  by (simp add: fio_main_def test_parts fio_idles)

lemma fio_pattern_released: "obeys (fio_pattern_main e) (\<lambda>r t. fio_released t)"
  using fio_frame_released [OF fio_resource_calls(3) factory_resource_calls(3), of "[get_host e, read_fio_opts e]"
      "[set_factory_path e]" "set_app_opts e (get_writter_verify_opts e) # run_fio e @ [get_report e] @
         [set_app_opts e (get_verification_opts e)] @ run_fio e @ report_fio e" "fio_locals0 e" e e]
  by (simp add: fio_pattern_main_def test_parts fio_idles)

lemma reboot_idles: "fio_idle (reboot_arm e)"
  "fio_idle (plain (\<lambda>l. bnd (test_param_bool e name) (\<lambda>v. ret (l\<lparr>ra_reboot_after_fio := v\<rparr>))))"
  "fio_idle (plain (\<lambda>l. bnd (test_param_num e name) (\<lambda>v. ret (l\<lparr>ra_count_iter := sint v\<rparr>))))"
  unfolding fio_idle_def reboot_arm_def
  by (auto intro!: idl ln fio_inst.made.readers fio_inst.freed.readers fio_fac.made.readers fio_fac.freed.readers
      simp: resource_defs)

lemma fio_idle_nested:
  "(\<And>g. g \<in> set fs \<Longrightarrow> fio_idle g) \<Longrightarrow> fio_idle (when_step b fs)"
  "(\<And>x g. g \<in> set (body x) \<Longrightarrow> fio_idle g) \<Longrightarrow> fio_idle (for_each xs body)"
  by (auto simp: fio_idle_def intro!: idl)

lemma reboot_arm_released: "obeys (reboot_arm_main e) (\<lambda>r t. fio_released t)"
proof -
  have "fio_idle g" if "g \<in> set (reboot_pass e)" for g
    using that by (auto simp: reboot_pass_def fio_idles reboot_idles intro!: fio_idle_nested)
  then have "fio_idle (for_each (\<lambda>l. [0..<nat (ra_count_iter l)]) (\<lambda>_. reboot_pass e))"
    by (intro fio_idle_nested)
  then show ?thesis unfolding reboot_arm_main_def
    using fio_frame_released [OF fio_resource_calls(3) factory_resource_calls(3), of
       "[get_host e, plain (\<lambda>l. bnd (test_param_bool e ''reboot_after_fio'') (\<lambda>v. ret (l\<lparr>ra_reboot_after_fio := v\<rparr>))),
         plain (\<lambda>l. bnd (test_param_num e ''count_iter'') (\<lambda>v. ret (l\<lparr>ra_count_iter := sint v\<rparr>))), read_fio_opts e]"
       "[]" "[for_each (\<lambda>l. [0..<nat (ra_count_iter l)]) (\<lambda>_. reboot_pass e)]"
       "fio_locals.extend (fio_locals0 e) \<lparr>ra_reboot_after_fio = False, ra_count_iter = 0\<rparr>" e e]
    by (simp add: test_parts fio_idles reboot_idles fio_locals.defs)
qed

end
