(* ===== verification/Test_Net.thy ===== *)
theory Test_Net
  imports Test_Fio
begin

text \<open>
  The tests under \<open>blk-proxy/network_stimuli/\<close>: FIO while the link of the storage server
  loses, delays or duplicates packets, by the network emulator or by a BPF program, and their
  prologue. At the end: what all tests with one FIO instance release, and in which order the
  emulator is set up.
\<close>

section \<open>\<open>fio_netem.c\<close>\<close>

datatype netem_action =
    NETEM_ACTION_DELAY | NETEM_ACTION_LOSS | NETEM_ACTION_DUPLICATE | NETEM_ACTION_LIMIT
  | NETEM_ACTION_GAP | NETEM_ACTION_REORDER | NETEM_ACTION_CORRUPTION | NETEM_ACTION_NONE

definition NETEM_ACTION_MAP :: "(string \<times> netem_action) list" where
  "NETEM_ACTION_MAP =
     [(''delay'', NETEM_ACTION_DELAY), (''loss'', NETEM_ACTION_LOSS), (''duplicate'', NETEM_ACTION_DUPLICATE),
      (''limit'', NETEM_ACTION_LIMIT), (''gap'', NETEM_ACTION_GAP), (''reorder'', NETEM_ACTION_REORDER),
      (''corruption'', NETEM_ACTION_CORRUPTION), (''none'', NETEM_ACTION_NONE)]"

text \<open>The table has no entry for \<open>NETEM_ACTION_NONE\<close>, which its only user excludes.\<close>

fun netem_correlation_func :: "netem_action \<Rightarrow> (rat \<Rightarrow> netem_setting) option" where
  "netem_correlation_func NETEM_ACTION_DELAY = Some NetemDelayCorrelation"
| "netem_correlation_func NETEM_ACTION_LOSS = Some NetemLossCorrelation"
| "netem_correlation_func NETEM_ACTION_DUPLICATE = Some NetemDuplicateCorrelation"
| "netem_correlation_func NETEM_ACTION_LIMIT = None"
| "netem_correlation_func NETEM_ACTION_GAP = None"
| "netem_correlation_func NETEM_ACTION_REORDER = Some NetemReorderCorrelation"
| "netem_correlation_func NETEM_ACTION_CORRUPTION = Some NetemCorruptionCorrelation"
| "netem_correlation_func NETEM_ACTION_NONE = None"

text \<open>The conversion of a floating-point number to \<open>unsigned int\<close> cuts towards zero; out of
  range it is undefined. Milliseconds are made microseconds in 32 bits.\<close>

definition to_unsigned :: "'w te_env \<Rightarrow> rat \<Rightarrow> 32 word" where
  "to_unsigned e x =
     (let n = (if x < 0 then - \<lfloor>- x\<rfloor> else \<lfloor>x\<rfloor>)
      in if 0 \<le> n \<and> n < 2 ^ 32 then word_of_int n else undefined_int e)"

fun netem_param :: "'w te_env \<Rightarrow> netem_action \<Rightarrow> rat \<Rightarrow> netem_setting option" where
  "netem_param e NETEM_ACTION_DELAY x = Some (NetemDelay (to_unsigned e x * 1000))"
| "netem_param e NETEM_ACTION_LOSS x = Some (NetemLoss x)"
| "netem_param e NETEM_ACTION_DUPLICATE x = Some (NetemDuplicate x)"
| "netem_param e NETEM_ACTION_LIMIT x = Some (NetemLimit (to_unsigned e x))"
| "netem_param e NETEM_ACTION_GAP x = Some (NetemGap (to_unsigned e x))"
| "netem_param e NETEM_ACTION_REORDER x = Some (NetemReorder x)"
| "netem_param e NETEM_ACTION_CORRUPTION x = Some (NetemCorruption x)"
| "netem_param e NETEM_ACTION_NONE x = None"

definition netem_set :: "'w te_env \<Rightarrow> string \<Rightarrow> string \<Rightarrow> netem_setting option \<Rightarrow> ('w, unit) te" where
  "netem_set e ta if_name setting = (case setting of
     None \<Rightarrow> jump Failed | Some s \<Rightarrow> check_rc (call_rc e (Agent (NetemSet ta if_name s))))"

definition set_netem_action_param ::
    "'w te_env \<Rightarrow> string \<Rightarrow> string \<Rightarrow> netem_action \<Rightarrow> rat \<Rightarrow> rat \<Rightarrow> ('w, unit) te" where
  "set_netem_action_param e ta if_name action param correlation =
     bnd (if correlation \<noteq> 0
          then netem_set e ta if_name (map_option (\<lambda>f. f correlation) (netem_correlation_func action))
          else ret ()) (\<lambda>_.
       netem_set e ta if_name (netem_param e action param))"

record netem_locals = fio_locals +
  ne_if :: string
  ne_action1 :: netem_action
  ne_correlation1 :: rat
  ne_param1 :: rat
  ne_action2 :: netem_action
  ne_correlation2 :: rat
  ne_param2 :: rat

definition netem_locals0 :: "'w te_env \<Rightarrow> netem_locals" where
  "netem_locals0 e = fio_locals.extend (fio_locals0 e)
     \<lparr>ne_if = [], ne_action1 = NETEM_ACTION_NONE, ne_correlation1 = 0, ne_param1 = 0,
      ne_action2 = NETEM_ACTION_NONE, ne_correlation2 = 0, ne_param2 = 0\<rparr>"

definition get_server_if :: "'w te_env \<Rightarrow> ('w, netem_locals) step list" where
  "get_server_if e =
     [act (\<lambda>l. start_env e), get_host e,
      act (\<lambda>l. quiet (test_get_rpcs e ''Agt_disk'')),
      plain (\<lambda>l. bnd (test_get_if e ''srv_if'') (\<lambda>v. ret (l\<lparr>ne_if := v\<rparr>)))]"

definition read_netem_params :: "'w te_env \<Rightarrow> ('w, netem_locals) step list" where
  "read_netem_params e =
     [plain (\<lambda>l. bnd (test_param_enum e ''action1'' NETEM_ACTION_MAP) (\<lambda>v. ret (l\<lparr>ne_action1 := v\<rparr>))),
      plain (\<lambda>l. bnd (test_param_rat e ''correlation1'') (\<lambda>v. ret (l\<lparr>ne_correlation1 := v\<rparr>))),
      plain (\<lambda>l. bnd (test_param_rat e ''param1'') (\<lambda>v. ret (l\<lparr>ne_param1 := v\<rparr>))),
      plain (\<lambda>l. bnd (test_param_enum e ''action2'' NETEM_ACTION_MAP) (\<lambda>v. ret (l\<lparr>ne_action2 := v\<rparr>))),
      plain (\<lambda>l. bnd (test_param_rat e ''correlation2'') (\<lambda>v. ret (l\<lparr>ne_correlation2 := v\<rparr>))),
      plain (\<lambda>l. bnd (test_param_rat e ''param2'') (\<lambda>v. ret (l\<lparr>ne_param2 := v\<rparr>)))]"

definition setup_netem :: "'w te_env \<Rightarrow> ('w, netem_locals) step list" where
  "setup_netem e =
     [stop_if (\<lambda>l. ne_action1 l = NETEM_ACTION_NONE) Failed,
      stop_if (\<lambda>l. ne_param1 l < 0 \<or> ne_param2 l < 0) Failed,
      checked (\<lambda>l. call_rc e (Agent (QdiscSetKind ''Agt_disk'' (ne_if l) ''netem''))),
      act (\<lambda>l. set_netem_action_param e ''Agt_disk'' (ne_if l) (ne_action1 l) (ne_param1 l) (ne_correlation1 l)),
      when_step (\<lambda>l. ne_action2 l \<noteq> NETEM_ACTION_NONE)
        [act (\<lambda>l. set_netem_action_param e ''Agt_disk'' (ne_if l) (ne_action2 l) (ne_param2 l) (ne_correlation2 l))],
      checked (\<lambda>l. call_rc e (Agent (QdiscEnable ''Agt_disk'' (ne_if l))))]"

definition fio_netem_main :: "'w te_env \<Rightarrow> ('w, verdict option) te" where
  "fio_netem_main e = run_main
     (get_server_if e @ read_netem_params e @ setup_netem e @ [read_fio_opts e] @
      prepare_fio e @ run_fio e @ report_fio e)
     (fio_cleanup e) (test_end_specific e) (netem_locals0 e)"

section \<open>\<open>fio_bpf_stimuli.c\<close>\<close>

text \<open>The stimulus is kept by the name of its enumerator in TE. The status of
  \<open>tapi_bpf_stim_init\<close> is not looked at; an unknown stimulus is only reported.\<close>

record bpf_locals = fio_locals +
  bp_disk :: rcf_rpc_server
  bp_if :: string
  bp_stimulus :: string
  bp_param :: int
  bp_hdl :: handle

definition bpf_activate :: "'w te_env \<Rightarrow> handle \<Rightarrow> string \<Rightarrow> int \<Rightarrow> ('w, te_errno) te" where
  "bpf_activate e hdl stimulus param =
     (if stimulus = ''drop'' then call_rc e (Agent (BpfStimDrop hdl param))
      else if stimulus = ''duplicate'' then call_rc e (Agent (BpfStimDup hdl param))
      else if stimulus = ''delay'' then call_rc e (Agent (BpfStimDelay hdl param))
      else ret 0)"

definition bpf_steps :: "'w te_env \<Rightarrow> ('w, bpf_locals) step list" where
  "bpf_steps e =
     [act (\<lambda>l. start_env e), get_host e,
      plain (\<lambda>l. bnd (test_get_rpcs e ''Agt_disk'') (\<lambda>r. ret (l\<lparr>bp_disk := r\<rparr>))),
      plain (\<lambda>l. bnd (test_get_if e ''srv_if'') (\<lambda>v. ret (l\<lparr>bp_if := v\<rparr>))),
      plain (\<lambda>l. bnd (test_param_str e ''stimulus'') (\<lambda>v. ret (l\<lparr>bp_stimulus := v\<rparr>))),
      plain (\<lambda>l. bnd (test_param_num e ''stimulus_param'') (\<lambda>v. ret (l\<lparr>bp_param := sint v\<rparr>))),
      plain (\<lambda>l. bnd (te_call e (Agent (BpfStimInit (bp_disk l) (bp_if l) (bp_stimulus l))))
        (\<lambda>r. ret (l\<lparr>bp_hdl := handle_of 0 r\<rparr>))),
      checked (\<lambda>l. bpf_activate e (bp_hdl l) (bp_stimulus l) (bp_param l)),
      read_fio_opts e]"

definition fio_bpf_cleanup :: "'w te_env \<Rightarrow> bpf_locals \<Rightarrow> ('w, bool) te" where
  "fio_bpf_cleanup e l =
     clean_all [destroy_fio e l, destroy_factory e l, ignored (te_call e (Agent (BpfStimDel (bp_hdl l))))]"

definition fio_bpf_stimuli_main :: "'w te_env \<Rightarrow> ('w, verdict option) te" where
  "fio_bpf_stimuli_main e = run_main (bpf_steps e @ prepare_fio e @ run_fio e @ report_fio e)
     (fio_bpf_cleanup e) (test_end_specific e)
     (fio_locals.extend (fio_locals0 e)
        \<lparr>bp_disk = null_rpcs, bp_if = [], bp_stimulus = [], bp_param = 0, bp_hdl = 0\<rparr>)"

section \<open>\<open>network_stimuli/prologue.c\<close>\<close>

definition memlock_inst :: "string \<Rightarrow> string" where
  "memlock_inst bound = ''/agent:Agt_disk/rlimits:/memlock:/'' @ bound @ '':''"

definition RLIM_INFINITY :: "32 word" where
  "RLIM_INFINITY = - 1"

record memlock_locals =
  ml_cur :: "32 word"
  ml_max :: "32 word"

definition get_memlock :: "'w te_env \<Rightarrow> string \<Rightarrow> ('w, te_errno \<times> 32 word) te" where
  "get_memlock e bound =
     bnd (te_call e (Cfg (CfgGet (memlock_inst bound)))) (\<lambda>r. ret (r_rc r, word_of_int (r_num r)))"

definition set_memlock :: "'w te_env \<Rightarrow> string \<Rightarrow> ('w, te_errno) te" where
  "set_memlock e bound = call_rc e (Cfg (CfgSet (memlock_inst bound) (dec_of_nat (unat RLIM_INFINITY))))"

definition network_prologue_main :: "'w te_env \<Rightarrow> ('w, verdict option) te" where
  "network_prologue_main e = run_main
     [checked_out (\<lambda>l. bnd (get_memlock e ''cur'') (\<lambda>(rc, v). ret (rc, l\<lparr>ml_cur := v\<rparr>))),
      checked_out (\<lambda>l. bnd (get_memlock e ''max'') (\<lambda>(rc, v). ret (rc, l\<lparr>ml_max := v\<rparr>))),
      when_step (\<lambda>l. ml_cur l \<noteq> RLIM_INFINITY \<or> ml_max l \<noteq> RLIM_INFINITY)
        [checked (\<lambda>l. set_memlock e ''max''), checked (\<lambda>l. set_memlock e ''cur'')]]
     (\<lambda>l. ret False) (test_end_specific e) \<lparr>ml_cur = 0, ml_max = 0\<rparr>"

section \<open>What the tests release\<close>

text \<open>Logging the measurements makes no FIO instance and no factory.\<close>

locale neutral_blind = reader_blind view for view :: "event \<Rightarrow> 'a list" +
  assumes blind_neutral: "neutral c \<Longrightarrow> view (c, r) = []"
begin

lemma meas_key: "leaves_none view (mi_meas_key e logger k v)"
  unfolding mi_meas_key_def by (auto intro!: ln simp: blind_neutral)

lemma fio_args: "leaves_none view (tsapi_fio_args_to_mi_log e logger args)"
proof -
  have listed: "leaves_none view (log_listed_arg e logger arg)" for arg
    unfolding log_listed_arg_def add_fio_arg_to_mi_log_def by (auto intro!: ln meas_key)
  have app: "leaves_none view (append_not_excluded e xs arg cmd)" for xs arg cmd
    by (induction xs arbitrary: cmd) (auto intro!: ln)
  have "leaves_none view (log_fio_args e logger args cmd)" for cmd
    by (induction args arbitrary: cmd) (auto intro!: ln listed app)
  then show ?thesis unfolding tsapi_fio_args_to_mi_log_def by (auto intro!: ln meas_key)
qed

lemma conf_to_log: "leaves_none view (tsapi_blkproxy_add_conf_to_mi_log e logger conf multipath)"
proof -
  have items: "leaves_none view (mapvirtblk_items e logger n kvs masks)" for n kvs masks
    by (induction kvs arbitrary: masks)
       (auto intro!: ln meas_key simp: add_thread_mask_to_mi_log_def split: prod.splits option.splits)
  have qrw: "leaves_none view (qrw_loop e masks ks vs)" for masks ks vs
    by (induction masks arbitrary: ks vs) (auto intro!: ln)
  have "leaves_none view (mi_log_sections e logger secs b)" for secs b
    by (induction secs arbitrary: b)
       (auto intro!: ln meas_key items qrw simp: add_mapvirtblk_section_to_mi_log_def
          add_crossed_masks_info_to_mi_log_def add_qrw_masks_to_mi_log_def add_dev_type_section_to_mi_log_def)
  then show ?thesis unfolding tsapi_blkproxy_add_conf_to_mi_log_def add_dev_count_to_mi_log_def
    by (auto intro!: ln meas_key)
qed

lemma mi_report: "leaves_none view (tsapi_fio_mi_report e args report conf ta multipath)"
  unfolding tsapi_fio_mi_report_def tsapi_conf_read_from_file_def Let_def
  by (auto intro!: ln agt_path conf_to_log fio_args simp: blind_neutral)

end

interpretation n1: neutral_blind made_fio by unfold_locales (auto simp: resource_defs elim!: neutral.elims)
interpretation n2: neutral_blind freed_fio by unfold_locales (auto simp: resource_defs elim!: neutral.elims)
interpretation n3: neutral_blind made_factory by unfold_locales (auto simp: resource_defs elim!: neutral.elims)
interpretation n4: neutral_blind freed_factory by unfold_locales (auto simp: resource_defs elim!: neutral.elims)

lemma mi_report_idle: "fio_idle (checked (\<lambda>l. tsapi_fio_mi_report e args (lv_report l) c ta b))"
  unfolding fio_idle_def by (intro conjI idl n1.mi_report n2.mi_report n3.mi_report n4.mi_report)

lemma fio_perf_released: "obeys (fio_perf_main e args) (\<lambda>r t. fio_released t)"
  using fio_frame_released [OF fio_resource_calls(3) factory_resource_calls(3), of "[get_host e, read_fio_opts e]" "[]"
      "run_fio e @ report_fio e @ [checked (\<lambda>l. tsapi_fio_mi_report e args (lv_report l)
         PERFORMANCE_LIB_BLK_PROXY_CONF_NAME ''Agt_ARM'' False)]" "fio_locals0 e" e e]
  by (simp add: fio_perf_main_def test_parts fio_idles mi_report_idle)

lemma netem_set_idle:
  "leaves_none f (netem_set e ta i s)" if "\<And>s r. f (Agent (NetemSet ta i s), r) = []"
  unfolding netem_set_def by (auto intro!: ln simp: that)

lemma netem_idles:
  "f \<in> set (get_server_if e @ read_netem_params e @ setup_netem e) \<Longrightarrow> fio_idle f"
  unfolding get_server_if_def read_netem_params_def setup_netem_def set_netem_action_param_def
  by (auto simp: fio_idles) (auto simp: fio_idle_def resource_defs intro!: idl ln netem_set_idle
      fio_inst.made.readers fio_inst.freed.readers fio_fac.made.readers fio_fac.freed.readers)

lemma fio_netem_released: "obeys (fio_netem_main e) (\<lambda>r t. fio_released t)"
  using fio_frame_released [OF fio_resource_calls(3) factory_resource_calls(3), of
      "get_server_if e @ read_netem_params e @ setup_netem e @ [read_fio_opts e]" "[]" "run_fio e @ report_fio e"
      "netem_locals0 e" e e] netem_idles [of _ e]
  by (auto simp: fio_netem_main_def prepare_fio_def netem_locals0_def fio_locals0_def no_fio_def fio_locals.defs
      ball_Un run_fio_def report_fio_def fio_idles)

lemma bpf_idles: "f \<in> set (bpf_steps e) \<Longrightarrow> fio_idle f"
  unfolding bpf_steps_def
  by (auto simp: fio_idles) (auto simp: fio_idle_def resource_defs bpf_activate_def intro!: idl ln
      fio_inst.made.readers fio_inst.freed.readers fio_fac.made.readers fio_fac.freed.readers)

lemma bpf_frees:
  "frees made_fio freed_fio fio_var (fio_bpf_cleanup e)" "frees made_factory freed_factory lv_factory (fio_bpf_cleanup e)"
  unfolding frees_def fio_bpf_cleanup_def destroy_fio_def destroy_factory_def
  by (auto intro!: ev simp: resource_defs)

lemma fio_bpf_released: "obeys (fio_bpf_stimuli_main e) (\<lambda>r t. fio_released t)"
  using fio_frame_released [OF bpf_frees, of "bpf_steps e" "[]" "run_fio e @ report_fio e"
      "fio_locals.extend (fio_locals0 e) \<lparr>bp_disk = null_rpcs, bp_if = [], bp_stimulus = [], bp_param = 0, bp_hdl = 0\<rparr>" e e]
    bpf_idles [of _ e]
  by (auto simp: fio_bpf_stimuli_main_def prepare_fio_def fio_locals0_def no_fio_def fio_locals.defs
      run_fio_def report_fio_def fio_idles)

text \<open>
  C17. The six tests that run one FIO instance from one job factory destroy, on every way through them, the instance
  and the factory they made, each exactly once, or NULL when it was not made.
\<close>

theorem fio_tests_release:
  "obeys (fio_main e) (\<lambda>r t. fio_released t) \<and> obeys (fio_pattern_main e) (\<lambda>r t. fio_released t) \<and>
   obeys (fio_perf_main e args) (\<lambda>r t. fio_released t) \<and> obeys (reboot_arm_main e) (\<lambda>r t. fio_released t) \<and>
   obeys (fio_netem_main e) (\<lambda>r t. fio_released t) \<and> obeys (fio_bpf_stimuli_main e) (\<lambda>r t. fio_released t)"
  by (intro conjI fio_main_released fio_pattern_released fio_perf_released reboot_arm_released
      fio_netem_released fio_bpf_released)

section \<open>The order of the network set-up\<close>

text \<open>What a pair of parameters sets: a correlation other than zero first, then the value.\<close>

definition netem_settings :: "'w te_env \<Rightarrow> netem_action \<Rightarrow> rat \<Rightarrow> rat \<Rightarrow> netem_setting list" where
  "netem_settings e a p c =
     (if c = 0 then [] else map (\<lambda>f. f c) (case netem_correlation_func a of None \<Rightarrow> [] | Some f \<Rightarrow> [f])) @
     (case netem_param e a p of None \<Rightarrow> [] | Some s \<Rightarrow> [s])"

definition correlates :: "netem_action \<Rightarrow> rat \<Rightarrow> bool" where
  "correlates a c \<longleftrightarrow> c = 0 \<or> netem_correlation_func a \<noteq> None"

definition netem_allowed :: "netem_locals \<Rightarrow> bool" where
  "netem_allowed l \<longleftrightarrow> ne_action1 l \<noteq> NETEM_ACTION_NONE \<and> 0 \<le> ne_param1 l \<and> 0 \<le> ne_param2 l \<and>
     correlates (ne_action1 l) (ne_correlation1 l) \<and>
     (ne_action2 l = NETEM_ACTION_NONE \<or> correlates (ne_action2 l) (ne_correlation2 l))"

definition netem_calls :: "'w te_env \<Rightarrow> netem_locals \<Rightarrow> call list" where
  "netem_calls e l =
     [Agent (QdiscSetKind ''Agt_disk'' (ne_if l) ''netem'')] @
     map (\<lambda>s. Agent (NetemSet ''Agt_disk'' (ne_if l) s))
       (netem_settings e (ne_action1 l) (ne_param1 l) (ne_correlation1 l) @
        (if ne_action2 l = NETEM_ACTION_NONE then []
         else netem_settings e (ne_action2 l) (ne_param2 l) (ne_correlation2 l))) @
     [Agent (QdiscEnable ''Agt_disk'' (ne_if l))]"

abbreviation all_ok :: "event list \<Rightarrow> bool" where
  "all_ok t \<equiv> list_all (\<lambda>ev. r_rc (snd ev) = 0) t"

lemma netem_param_None [simp]: "netem_param e a p = None \<longleftrightarrow> a = NETEM_ACTION_NONE"
  by (cases a) simp_all

lemma netem_set_obeys:
  "obeys (netem_set e ta i s) (\<lambda>r t. (r = Val () \<longleftrightarrow> s \<noteq> None \<and> all_ok t) \<and>
     (r = Val () \<longrightarrow> map fst t = [Agent (NetemSet ta i (the s))]))"
  unfolding netem_set_def by (auto intro!: ev split: option.split)

lemma set_netem_obeys:
  assumes "a \<noteq> NETEM_ACTION_NONE"
  shows "obeys (set_netem_action_param e ta i a p c) (\<lambda>r t. (r = Val () \<longleftrightarrow> correlates a c \<and> all_ok t) \<and>
     (r = Val () \<longrightarrow> map fst t = map (\<lambda>s. Agent (NetemSet ta i s)) (netem_settings e a p c)))"
proof -
  obtain s where s: "netem_param e a p = Some s" using assms by (cases "netem_param e a p") auto
  show ?thesis
    unfolding set_netem_action_param_def s
    by (auto intro!: ev obeys_weaken [OF netem_set_obeys] simp: correlates_def netem_settings_def s
        split: option.splits)
qed

text \<open>A part of the set-up: it passes when its condition holds and all its calls succeed, and has then
  made the calls \<open>cs\<close>.\<close>

definition part :: "bool \<Rightarrow> call list \<Rightarrow> 'l \<Rightarrow> (verdict option \<times> 'l) outcome \<Rightarrow> event list \<Rightarrow> bool" where
  "part P cs l r t \<longleftrightarrow> (\<exists>v. r = Val (v, l) \<and> (v = None \<longleftrightarrow> P \<and> all_ok t) \<and> (v = None \<longrightarrow> map fst t = cs))"

lemma part_Nil: "obeys (run_steps [] l) (part True [] l)"
  by (auto intro!: ev simp: part_def)

lemma part_Cons:
  assumes "obeys (attempt l (f l)) (part P cs l)" and "obeys (run_steps fs l) (part Q ds l)"
  shows "obeys (run_steps (f # fs) l) (part (P \<and> Q) (cs @ ds) l)"
  unfolding run_steps.simps
  by (rule obeys_bnd, rule obeys_weaken [OF assms(1)])
     (auto intro!: obeys_ret obeys_weaken [OF assms(2)] simp: part_def)

lemma part_cong:
  "P \<longleftrightarrow> P' \<Longrightarrow> cs = cs' \<Longrightarrow> obeys m (part P cs l) \<Longrightarrow> obeys m (part P' cs' l)"
  by simp

lemma part_stop: "obeys (attempt l (stop_if b v l)) (part (\<not> b l) [] l)"
  by (auto intro!: ev simp: part_def)

lemma part_call: "(\<And>l. \<not> is_rpc (c l)) \<Longrightarrow> obeys (attempt l (checked (\<lambda>l. call_rc e (c l)) l)) (part True [c l] l)"
  by (auto intro!: ev simp: part_def)

lemma part_when:
  assumes "b l \<Longrightarrow> obeys (run_steps fs l) (part P cs l)"
  shows "obeys (attempt l (when_step b fs l)) (part (b l \<longrightarrow> P) (if b l then cs else []) l)"
  using assms unfolding when_step_def
  by (auto intro!: obeys_attempt obeys_ret obeys_if elim!: obeys_weaken simp: part_def)

lemma part_netem:
  assumes "a l \<noteq> NETEM_ACTION_NONE"
  shows "obeys (attempt l (act (\<lambda>l. set_netem_action_param e ta (i l) (a l) (p l) (c l)) l))
    (part (correlates (a l) (c l)) (map (\<lambda>s. Agent (NetemSet ta (i l) s)) (netem_settings e (a l) (p l) (c l))) l)"
  unfolding act_def
  by (rule obeys_attempt, rule obeys_bnd, rule obeys_weaken [OF set_netem_obeys [OF assms]])
     (auto intro!: obeys_ret simp: part_def)

lemma netem_setup_calls:
  "obeys (run_steps (setup_netem e) l) (part (netem_allowed l) (netem_calls e l) l)"
proof (cases "ne_action1 l = NETEM_ACTION_NONE")
  case True
  then show ?thesis unfolding setup_netem_def
    by (auto intro!: ev simp: part_def netem_allowed_def)
next
  case False
  note steps = part_Cons [OF part_stop] part_Cons [OF part_call] part_Cons [OF part_netem] part_Cons [OF part_when]
  have "obeys (run_steps (setup_netem e) l) (part (\<not> ne_action1 l = NETEM_ACTION_NONE \<and>
      \<not> (ne_param1 l < 0 \<or> ne_param2 l < 0) \<and> True \<and> correlates (ne_action1 l) (ne_correlation1 l) \<and>
      (ne_action2 l \<noteq> NETEM_ACTION_NONE \<longrightarrow> correlates (ne_action2 l) (ne_correlation2 l) \<and> True) \<and> True \<and> True)
      ([] @ [] @ [Agent (QdiscSetKind ''Agt_disk'' (ne_if l) ''netem'')] @
       map (\<lambda>s. Agent (NetemSet ''Agt_disk'' (ne_if l) s)) (netem_settings e (ne_action1 l) (ne_param1 l) (ne_correlation1 l)) @
       (if ne_action2 l \<noteq> NETEM_ACTION_NONE
        then map (\<lambda>s. Agent (NetemSet ''Agt_disk'' (ne_if l) s))
               (netem_settings e (ne_action2 l) (ne_param2 l) (ne_correlation2 l)) @ [] else []) @
       [Agent (QdiscEnable ''Agt_disk'' (ne_if l))] @ []) l)"
    unfolding setup_netem_def using False by (intro steps part_Nil) auto
  then show ?thesis
    by (rule part_cong [rotated 2]) (auto simp: netem_allowed_def netem_calls_def)
qed

text \<open>What the link sees: the emulator enabled, and traffic.\<close>

datatype link_step = Enabled | Traffic

definition link_view :: "event \<Rightarrow> link_step list" where
  "link_view ev = (case fst ev of
     Agent (QdiscEnable _ _) \<Rightarrow> [Enabled] | Tool (FioStart _) \<Rightarrow> [Traffic] | _ \<Rightarrow> [])"

interpretation link: reader_blind link_view
  by unfold_locales (auto simp: link_view_def elim!: reading.elims)

lemma before_enable:
  "g \<in> set (get_server_if e @ read_netem_params e @ butlast (setup_netem e)) \<Longrightarrow> leaves_none link_view (g l)"
  unfolding get_server_if_def read_netem_params_def setup_netem_def set_netem_action_param_def get_host_def
  by (auto intro!: ln netem_set_idle link.readers simp: link_view_def)

lemma link_tests:
  "leaves_none link_view (test_end_specific e)" "leaves_none link_view (fio_cleanup e l)"
  unfolding test_end_specific_def fio_cleanup_def destroy_fio_def destroy_factory_def clean_all.simps
  by (auto intro!: ln simp: link_view_def)

lemma link_prepare: "f \<in> set (read_fio_opts e # prepare_fio e) \<Longrightarrow> leaves_none link_view (f l)"
  unfolding read_fio_opts_def prepare_fio_def create_factory_def create_fio_def tsapi_fio_create_def
  by (auto intro!: ln link.readers simp: link_view_def)

lemma link_after: "f \<in> set ([wait_fio e, stop_fio e] @ report_fio e) \<Longrightarrow> leaves_none link_view (f l)"
  unfolding wait_fio_def stop_fio_def report_fio_def get_report_def read_report_def log_report_def
    tsapi_fio_flex_wait_def
  by (auto intro!: ln simp: link_view_def)

lemma link_start: "paths link_view {[Traffic]} (start_fio e)"
  unfolding start_fio_def follows_def by (auto intro!: ev simp: link_view_def goes_def)

lemma link_enable: "paths link_view {[Enabled]} (last (setup_netem e))"
  unfolding setup_netem_def follows_def by (auto intro!: ev simp: link_view_def goes_def)

lemma netem_link:
  "paths link_view {[Enabled, Traffic]} (run_steps (get_server_if e @ read_netem_params e @ setup_netem e @
      [read_fio_opts e] @ prepare_fio e @ run_fio e @ report_fio e))"
proof -
  have "paths link_view (seqs {[]} (seqs {[Enabled]} (seqs {[]} (seqs {[Traffic]} {[]}))))
     (run_steps ((get_server_if e @ read_netem_params e @ butlast (setup_netem e)) @ (last (setup_netem e) #
       ((read_fio_opts e # prepare_fio e) @ (start_fio e # ([wait_fio e, stop_fio e] @ report_fio e))))))"
    by (intro follows_append follows_Cons paths_quiet before_enable link_prepare link_after link_start link_enable)
  then show ?thesis by (simp add: setup_netem_def run_fio_def)
qed

text \<open>
  C18. The network emulator is set up completely before there is traffic: its kind, then for each action that is given
  the correlation and the value, then it is enabled. The set-up passes exactly when the parameters are allowed (a
  first action, no negative value, no correlation with an action that has none) and every call succeeds; the FIO
  instance is started only after it.
\<close>

theorem netem_before_traffic:
  "obeys (run_steps (setup_netem e) l) (part (netem_allowed l) (netem_calls e l) l) \<and>
   obeys (fio_netem_main e) (\<lambda>r t. prefix (in_trace link_view t) [Enabled, Traffic] \<and>
     (r = Val None \<longrightarrow> in_trace link_view t = [Enabled, Traffic]))"
  using follows_main [OF netem_link _ link_tests(2,1)]
  by (simp add: netem_setup_calls fio_netem_main_def shows_steps_def [abs_def])

text \<open>A run with one device and the action \<open>delay\<close> on a calm environment.\<close>

definition netem_run :: script where
  "netem_run =
     [ok_reply, ok_reply, ok_reply, answering ''eth1'', answering ''delay'', ok_reply, ok_reply,
      answering ''none'', ok_reply, ok_reply] @ replicate 3 ok_reply @
     [ok_reply\<lparr>r_list := [''pci0'']\<rparr>, ok_reply\<lparr>r_list := [''vda'']\<rparr>]"

lemma netem_before_traffic_witness:
  "in_trace link_view (trace (snd (fio_netem_main calm_env (calm_sys netem_run)))) = [Enabled, Traffic]"
proof -
  have "fst (fio_netem_main calm_env (calm_sys netem_run)) = Val None" by code_simp
  with obeys_at [OF conjunct2 [OF netem_before_traffic [of calm_env "netem_locals0 calm_env"]], of "calm_sys netem_run"]
  show ?thesis by simp
qed

end
