(* ===== verification/Test_Proxy.thy ===== *)
theory Test_Proxy
  imports Test_Net
begin

text \<open>
  The tests that bring the block proxy and its disks up and down: \<open>blk-proxy/prologue.c\<close>,
  \<open>epilogue.c\<close>, and \<open>performance/\<close> without \<open>fio_perf.c\<close>. What they have to keep is an order: the
  disks of the host are driven only while the process behind them runs.
\<close>

section \<open>\<open>prologue.c\<close>\<close>

definition add_checked :: "'w te_env \<Rightarrow> string \<Rightarrow> string \<Rightarrow> nat \<times> string \<Rightarrow> ('w, unit) te" where
  "add_checked e ta name = (\<lambda>(i, arg). check_rc (call_rc e (Ps ta name (PsAddArg i arg))))"

definition start_uart_logger :: "'w te_env \<Rightarrow> rcf_rpc_server \<Rightarrow> ('w, unit) te" where
  "start_uart_logger e rpcs =
     (case getenv e ''TE_UART_DUT_HOST'' of
        None \<Rightarrow> jump Failed
      | Some uart_dut_host \<Rightarrow>
          bnd (agt_path e (rpcs_ta rpcs) ''snapper/scripts/xilinxtool'') (\<lambda>xilinxtool_path.
            do_all
              ([check_rc (call_rc e (Ps (rpcs_ta rpcs) ''xilinxtool'' (PsAdd xilinxtool_path False)))] @
               map (add_checked e (rpcs_ta rpcs) ''xilinxtool'')
                 (enumerate 1 [''--silent'', ''--duthost'', uart_dut_host, ''--force-uart-nmc'']) @
               [check_rc (call_rc e (Ps (rpcs_ta rpcs) ''xilinxtool'' PsStart))])))"

definition tsapi_sh_env_ta_path_prepend :: "'w te_env \<Rightarrow> string \<Rightarrow> string \<Rightarrow> ('w, te_errno) te" where
  "tsapi_sh_env_ta_path_prepend e ta dir =
     bnd (te_call e (Cfg (CfgGet (env_path_inst ta)))) (\<lambda>r. if r_rc r \<noteq> 0 then ret (r_rc r) else
       let new_path = dir @ '':'' @ out_str r
       in if length new_path \<ge> path_max then ret (TE_RC TE_TAPI TE_C_ENOBUFS)
          else call_rc e (Cfg (CfgSet (env_path_inst ta) new_path)))"

definition ceph_start_cluster_in_qemu ::
    "'w te_env \<Rightarrow> rcf_rpc_server \<Rightarrow> nat \<Rightarrow> nat \<Rightarrow> 32 word \<Rightarrow> ('w, unit) te" where
  "ceph_start_cluster_in_qemu e rpcs ceph_net ceph_mon_addr pfx = do_all
     [check_rc (block_ts_ceph_cluster_conf_create e rpcs ceph_net ceph_mon_addr pfx),
      check_rc (block_ts_ceph_cluster_monmap_create e rpcs ceph_mon_addr),
      check_rc (block_ts_ceph_cluster_mon_start e rpcs),
      check_rc (block_ts_ceph_cluster_osd_start e rpcs),
      rpc_system_run e rpcs ''ceph-mgr --conf /etc/ceph/ceph.conf --monmap /tmp/monmap'',
      rpc_system_run e rpcs
        ''ceph --conf /etc/ceph/ceph.conf --monmap /tmp/monmap osd pool create rampool 100 100'',
      rpc_system_run e rpcs ''rbd --conf /etc/ceph/ceph.conf pool init rampool'',
      rpc_system_run e rpcs ''rbd --conf /etc/ceph/ceph.conf create --size 2048 rampool/ramdev'',
      rpc_system_run e rpcs
        ''rbd --conf /etc/ceph/ceph.conf feature disable rampool/ramdev object-map fast-diff deep-flatten'']"

definition start_ceph_server_in_qemu ::
    "'w te_env \<Rightarrow> rcf_rpc_server \<Rightarrow> rcf_rpc_server \<Rightarrow> nat \<Rightarrow> 32 word \<Rightarrow> nat \<Rightarrow> ('w, unit) te" where
  "start_ceph_server_in_qemu e rpcs_disk rpcs_arm net pfx srv_addr =
     bnd (tsapi_get_backend_param_bool e ''ceph'' ''enable_logging'') (\<lambda>(rc, logging).
       if rc \<noteq> 0 then jump Failed else do_all
         [ceph_start_cluster_in_qemu e rpcs_disk net srv_addr pfx,
          check_rc (block_ts_ceph_cluster_conf_create e rpcs_arm net srv_addr pfx),
          (if logging then check_rc (block_ts_ceph_start_logger e rpcs_disk) else ret ())])"

text \<open>The interface of the client stays NULL when no network environment is needed.\<close>

record prologue_locals =
  pl_arm :: rcf_rpc_server
  pl_host :: rcf_rpc_server
  pl_disk :: rcf_rpc_server
  pl_net :: nat
  pl_pfx :: "32 word"
  pl_clt_addr :: nat
  pl_srv_addr :: nat
  pl_clt_if :: "string option"
  pl_type :: tsapi_backend_types
  pl_count :: "32 word"
  pl_handle :: "tsapi_blkproxy_handle option"
  pl_opts :: tsapi_blkproxy_opts

definition prologue_locals0 :: prologue_locals where
  "prologue_locals0 =
     \<lparr>pl_arm = null_rpcs, pl_host = null_rpcs, pl_disk = null_rpcs, pl_net = 0, pl_pfx = 0, pl_clt_addr = 0,
      pl_srv_addr = 0, pl_clt_if = None, pl_type = TSAPI_BACKEND_TYPES_NONE, pl_count = 0, pl_handle = None,
      pl_opts = tsapi_blkproxy_opts_default_opt\<rparr>"

definition if_need_env :: "'w te_env \<Rightarrow> ('w, 'l) te \<Rightarrow> 'l \<Rightarrow> ('w, 'l) te" where
  "if_need_env e m l = bnd (tsapi_backend_need_env e) (\<lambda>need. if need then m else ret l)"

definition disable_autoneg :: "'w te_env \<Rightarrow> rcf_rpc_server \<Rightarrow> ('w, unit) te" where
  "disable_autoneg e rpcs_arm =
     bnd (te_call e (Rpc rpcs_arm (RpcSystem (''ethtool -s '' @ ptr_str (getenv e ''TE_ARM_SFC_IF'') @
            '' autoneg off speed 100000 duplex full'')))) (\<lambda>_. sleep 15 e)"

text \<open>The network, the two addresses and the interface of the environment.\<close>

definition get_network :: "'w te_env \<Rightarrow> prologue_locals \<Rightarrow> ('w, prologue_locals) te" where
  "get_network e l =
     bnd (test_get_rpcs e ''Agt_disk'') (\<lambda>disk.
     bnd (test_get_net e ''net'') (\<lambda>net.
     bnd (test_get_net e ''clt_addr'') (\<lambda>clt.
     bnd (test_get_net e ''srv_addr'') (\<lambda>srv.
     bnd (test_get_if e ''clt_if'') (\<lambda>i.
       ret (l\<lparr>pl_disk := disk, pl_net := handle_of 0 net, pl_pfx := of_nat (handle_of 1 net),
              pl_clt_addr := handle_of 0 clt, pl_srv_addr := handle_of 0 srv, pl_clt_if := Some i\<rparr>))))))"

definition prologue_setup :: "'w te_env \<Rightarrow> ('w, prologue_locals) step list" where
  "prologue_setup e =
     [plain (\<lambda>l. bnd (test_get_rpcs e ''Agt_ARM'') (\<lambda>r. ret (l\<lparr>pl_arm := r\<rparr>))),
      plain (\<lambda>l. if_need_env e (bnd (disable_autoneg e (pl_arm l)) (\<lambda>_. ret l)) l),
      plain (\<lambda>l. if_need_env e (bnd (te_call e (Test EnvInit)) (\<lambda>_.
        bnd (te_call e (Test NetworkSetup)) (\<lambda>_. ret l))) l),
      act (\<lambda>l. TSAPI_TEST_START_ENV e),
      plain (\<lambda>l. bnd (test_get_rpcs e ''Agt_host'') (\<lambda>r. ret (l\<lparr>pl_host := r\<rparr>))),
      plain (\<lambda>l. if_need_env e (get_network e l) l),
      plain (\<lambda>l. bnd (tsapi_backend_get_type e) (\<lambda>ty. ret (l\<lparr>pl_type := ty\<rparr>))),
      stop_if (\<lambda>l. pl_type l = TSAPI_BACKEND_TYPES_NONE) Failed,
      when_step (\<lambda>_. getenv e ''TE_UART_LOGGER_EXEC'' \<noteq> None)
        [act (\<lambda>l. bnd (test_get_rpcs e ''Agt_UART'') (start_uart_logger e))],
      checked (\<lambda>l. bnd (tsapi_use_plugin e) (\<lambda>use. if use
        then bnd (get_local (pl_clt_if l)) (tsapi_plugin_start e (pl_arm l)) else ret 0)),
      plain (\<lambda>l. bnd (tsapi_virtio_blocks_count e ''Agt_host'') (\<lambda>n. ret (l\<lparr>pl_count := n\<rparr>)))]"

text \<open>A callback of the backend, when its type has one.\<close>

definition call_back ::
    "'w te_env \<Rightarrow> tsapi_backend_types \<Rightarrow> ('w backend_callbacks_t \<Rightarrow> 'c option) \<Rightarrow> ('c \<Rightarrow> ('w, te_errno) te) \<Rightarrow>
     ('w, te_errno) te" where
  "call_back e ty sel call =
     (case backend_callbacks e ty of
        None \<Rightarrow> jump Failed
      | Some cbs \<Rightarrow> (case sel cbs of None \<Rightarrow> ret 0 | Some cb \<Rightarrow> call cb))"

definition prologue_backend :: "'w te_env \<Rightarrow> ('w, prologue_locals) step list" where
  "prologue_backend e =
     [checked (\<lambda>l. call_back e (pl_type l) cb_prepare_params (\<lambda>cb. cb (pl_srv_addr l) (pl_count l))),
      checked (\<lambda>l. call_back e (pl_type l) cb_start (\<lambda>cb. cb (pl_disk l))),
      checked (\<lambda>l. call_back e (pl_type l) cb_prepare_clients (\<lambda>cb. cb (pl_disk l) (pl_clt_addr l))),
      checked (\<lambda>l. call_back e (pl_type l) cb_hook (\<lambda>cb. cb (pl_disk l))),
      when_step (\<lambda>l. pl_type l = TSAPI_BACKEND_TYPES_CEPH_QEMU)
        [act (\<lambda>l. start_ceph_server_in_qemu e (pl_disk l) (pl_arm l) (pl_net l) (pl_pfx l) (pl_srv_addr l))]]"

text \<open>A handle is used only after it was made; a NULL handle would be read through.\<close>

definition with_handle ::
    "tsapi_blkproxy_handle option \<Rightarrow> (tsapi_blkproxy_handle \<Rightarrow> ('w, 'a) te) \<Rightarrow> ('w, 'a) te" where
  "with_handle h f = bnd (get_local h) f"

definition prologue_conf :: "'w te_env \<Rightarrow> string list \<Rightarrow> ('w, prologue_locals) step list" where
  "prologue_conf e argv =
     [checked_out (\<lambda>l. bnd (tsapi_blkproxy_handle_init e (Some (pl_arm l)) None None)
        (\<lambda>(rc, h). ret (rc, l\<lparr>pl_handle := h\<rparr>))),
      checked (\<lambda>l. with_handle (pl_handle l) (\<lambda>h. tsapi_blkproxy_create_conf e h argv))]"

definition add_uio :: "'w te_env \<Rightarrow> ('w, prologue_locals) step" where
  "add_uio e = checked (\<lambda>l. call_rc e (Agent (ModuleAdd (rpcs_ta (pl_arm l)) ''uio_pci_generic'')))"

definition bind_uio :: "'w te_env \<Rightarrow> ('w, prologue_locals) step" where
  "bind_uio e = checked (\<lambda>l. call_rc e (Agent (PciBindByVendDev (rpcs_ta (pl_arm l)) ''10ee'' ''00f0''
     TSAPI_BLKPROXY_PCI_NUMBER ''uio_pci_generic'')))"

definition prologue_init :: "'w te_env \<Rightarrow> ('w, prologue_locals) step" where
  "prologue_init e = checked_out (\<lambda>l. with_handle (pl_handle l) (\<lambda>h.
     bnd (tsapi_blkproxy_init e h (pl_opts l)) (\<lambda>(rc, opts). ret (rc, l\<lparr>pl_opts := opts\<rparr>))))"

definition prologue_start :: "'w te_env \<Rightarrow> ('w, prologue_locals) step" where
  "prologue_start e = checked (\<lambda>l. with_handle (pl_handle l) (tsapi_blkproxy_start e))"

definition prologue_path :: "'w te_env \<Rightarrow> ('w, prologue_locals) step" where
  "prologue_path e = checked (\<lambda>l. tsapi_sh_env_ta_path_prepend e ''Agt_host'' ''/usr/sbin'')"

definition add_virtio_blk :: "'w te_env \<Rightarrow> ('w, prologue_locals) step" where
  "add_virtio_blk e = checked (\<lambda>l. call_rc e (Agent (ModuleAdd ''Agt_host'' ''virtio-blk'')))"

definition prologue_bind :: "'w te_env \<Rightarrow> ('w, prologue_locals) step" where
  "prologue_bind e = act (\<lambda>l. tsapi_virtio_blocks_bind_driver e (pl_host l) TSAPI_VIRTIO_BLOCK_DRIVER_NAME)"

definition print_tree :: "'w te_env \<Rightarrow> ('w, 'l) step" where
  "print_tree e = checked (\<lambda>l. call_rc e (Cfg (CfgTreePrint ''/:'')))"

definition prologue_main :: "'w te_env \<Rightarrow> string list \<Rightarrow> ('w, verdict option) te" where
  "prologue_main e argv = run_main
     ((prologue_setup e @ prologue_backend e @ prologue_conf e argv) @
      add_uio e # bind_uio e # prologue_init e # prologue_start e # prologue_path e # add_virtio_blk e #
      prologue_bind e # [print_tree e])
     (\<lambda>l. clean_all [ignored (TSAPI_TEST_END_ENV e)]) (test_end_specific e) prologue_locals0"

section \<open>\<open>epilogue.c\<close>\<close>

text \<open>When the status of the process could not be read, the variable holds whatever was on the
  stack: only if that is not FALSE the error is seen.\<close>

definition finish_uart_logger :: "'w te_env \<Rightarrow> string \<Rightarrow> ('w, unit) te" where
  "finish_uart_logger e ta =
     bnd (te_call e (Ps ta ''xilinxtool'' PsGetStatus)) (\<lambda>r.
       let rc = r_rc r; status = (if rc = 0 then r_bool r else stale_word e \<noteq> 0)
       in if rc = TE_RC TE_CS TE_C_ENOENT \<or> \<not> status then ret ()
          else if rc \<noteq> 0 then jump Failed
          else check_rc (call_rc e (Ps ta ''xilinxtool'' PsStop)))"

record proxy_locals =
  pr_arm :: rcf_rpc_server
  pr_host :: rcf_rpc_server
  pr_disk :: rcf_rpc_server
  pr_handle :: "tsapi_blkproxy_handle option"
  pr_type :: tsapi_backend_types
  pr_opts :: tsapi_blkproxy_opts

definition proxy_locals0 :: proxy_locals where
  "proxy_locals0 = \<lparr>pr_arm = null_rpcs, pr_host = null_rpcs, pr_disk = null_rpcs, pr_handle = None,
     pr_type = TSAPI_BACKEND_TYPES_NONE, pr_opts = tsapi_blkproxy_opts_default_opt\<rparr>"

definition get_agents :: "'w te_env \<Rightarrow> ('w, proxy_locals) step list" where
  "get_agents e =
     [plain (\<lambda>l. bnd (test_get_rpcs e ''Agt_ARM'') (\<lambda>r. ret (l\<lparr>pr_arm := r\<rparr>))),
      plain (\<lambda>l. bnd (test_get_rpcs e ''Agt_host'') (\<lambda>r. ret (l\<lparr>pr_host := r\<rparr>)))]"

definition init_handle :: "'w te_env \<Rightarrow> string option \<Rightarrow> string option \<Rightarrow> ('w, proxy_locals) step" where
  "init_handle e ps_name config_name =
     checked_out (\<lambda>l. bnd (tsapi_blkproxy_handle_init e (Some (pr_arm l)) ps_name config_name)
       (\<lambda>(rc, h). ret (rc, l\<lparr>pr_handle := h\<rparr>)))"

definition bind_disks :: "'w te_env \<Rightarrow> string \<Rightarrow> ('w, proxy_locals) step" where
  "bind_disks e driver = act (\<lambda>l. tsapi_virtio_blocks_bind_driver e (pr_host l) driver)"

definition stop_proxy :: "'w te_env \<Rightarrow> ('w, proxy_locals) step" where
  "stop_proxy e = checked (\<lambda>l. with_handle (pr_handle l) (tsapi_blkproxy_stop e))"

definition start_proxy :: "'w te_env \<Rightarrow> ('w, proxy_locals) step" where
  "start_proxy e = checked (\<lambda>l. with_handle (pr_handle l) (tsapi_blkproxy_start e))"

definition mount_hugepages :: "'w te_env \<Rightarrow> ('w, proxy_locals) step" where
  "mount_hugepages e = checked (\<lambda>l. with_handle (pr_handle l) (tsapi_blkproxy_mount_hugepage_dir e))"

definition umount_hugepages :: "'w te_env \<Rightarrow> ('w, proxy_locals) step" where
  "umount_hugepages e = checked (\<lambda>l. with_handle (pr_handle l) (tsapi_blkproxy_umount_hugepage_dir e))"

text \<open>The handle is freed in memory only.\<close>

definition free_handle :: "('w, bool) te" where
  "free_handle = clean_all []"

definition unload_virtio_blk :: "'w te_env \<Rightarrow> ('w, proxy_locals) step" where
  "unload_virtio_blk e = checked (\<lambda>l. call_rc e (Agent (ModuleUnload ''Agt_host'' ''virtio-blk'')))"

definition unbind_uio :: "'w te_env \<Rightarrow> ('w, proxy_locals) step" where
  "unbind_uio e = checked (\<lambda>l. call_rc e
     (Agent (PciUnbindByVendDev ''Agt_ARM'' ''10ee'' ''00f0'' TSAPI_BLKPROXY_PCI_NUMBER)))"

definition stops_server :: "'w te_env \<Rightarrow> tsapi_backend_types \<Rightarrow> bool" where
  "stops_server e ty = (case backend_callbacks e ty of None \<Rightarrow> False | Some cbs \<Rightarrow> cb_stop cbs \<noteq> None)"

definition stop_backend :: "'w te_env \<Rightarrow> ('w, proxy_locals) step list" where
  "stop_backend e =
     [plain (\<lambda>l. bnd (tsapi_backend_get_type e) (\<lambda>ty. ret (l\<lparr>pr_type := ty\<rparr>))),
      stop_if (\<lambda>l. pr_type l = TSAPI_BACKEND_TYPES_NONE) Failed,
      when_step (\<lambda>l. stops_server e (pr_type l))
        [plain (\<lambda>l. bnd (test_get_rpcs e ''Agt_disk'') (\<lambda>r. ret (l\<lparr>pr_disk := r\<rparr>))),
         checked (\<lambda>l. call_back e (pr_type l) cb_stop (\<lambda>cb. cb (pr_disk l)))],
      checked (\<lambda>l. bnd (tsapi_use_plugin e) (\<lambda>use. if use
        then bnd (test_get_if e ''clt_if'') (tsapi_plugin_disable e (pr_arm l)) else ret 0)),
      when_step (\<lambda>_. getenv e ''TE_UART_LOGGER_EXEC'' \<noteq> None) [act (\<lambda>l. finish_uart_logger e ''Agt_UART'')]]"

definition epilogue_main :: "'w te_env \<Rightarrow> ('w, verdict option) te" where
  "epilogue_main e = run_main
     ([act (\<lambda>l. TSAPI_TEST_START_ENV e)] @ get_agents e @
      bind_disks e '''' # unload_virtio_blk e # init_handle e None None # stop_proxy e #
      checked (\<lambda>l. tsapi_blkproxy_kill_orphaned_stacks e (pr_arm l)) # unbind_uio e # stop_backend e)
     (\<lambda>l. free_handle) (test_end_specific e) proxy_locals0"

section \<open>\<open>performance/\<close>\<close>

definition fill_when_ceph :: "'w te_env \<Rightarrow> ('w, proxy_locals) step" where
  "fill_when_ceph e = checked (\<lambda>l. bnd (tsapi_backend_get_mode e) (\<lambda>mode.
     if mode = TSAPI_BACKEND_MODE_CEPH
     then tsapi_ceph_fill_devices e (pr_host l) (Some PERFORMANCE_LIB_DEFAULT_FIO_OPT_SIZE) else ret 0))"

definition perf_prologue_main :: "'w te_env \<Rightarrow> ('w, verdict option) te" where
  "perf_prologue_main e = run_main
     (get_agents e @ fill_when_ceph e # init_handle e None None # bind_disks e '''' # stop_proxy e #
      [umount_hugepages e])
     (\<lambda>l. free_handle) (test_end_specific e) proxy_locals0"

definition init_perf_handle :: "'w te_env \<Rightarrow> ('w, proxy_locals) step" where
  "init_perf_handle e =
     init_handle e (Some PERFORMANCE_LIB_BLK_PROXY_PS_NAME) (Some PERFORMANCE_LIB_BLK_PROXY_CONF_NAME)"

text \<open>The cleanup of \<open>fio_prologue.c\<close> frees the options, which are not initialised before the
  handle is: what it frees then is not defined, and leaves no event.\<close>

definition init_proxy :: "'w te_env \<Rightarrow> string list \<Rightarrow> ('w, proxy_locals) step list" where
  "init_proxy e argv =
     [checked (\<lambda>l. with_handle (pr_handle l) (\<lambda>h. tsapi_blkproxy_create_conf e h argv)),
      checked_out (\<lambda>l. with_handle (pr_handle l) (\<lambda>h.
        bnd (tsapi_blkproxy_init e h (pr_opts l)) (\<lambda>(rc, opts). ret (rc, l\<lparr>pr_opts := opts\<rparr>))))]"

definition fio_prologue_main :: "'w te_env \<Rightarrow> string list \<Rightarrow> ('w, verdict option) te" where
  "fio_prologue_main e argv = run_main
     (get_agents e @ init_perf_handle e # init_proxy e argv @ mount_hugepages e # start_proxy e #
      [bind_disks e TSAPI_VIRTIO_BLOCK_DRIVER_NAME])
     (\<lambda>l. free_handle) (test_end_specific e) proxy_locals0"

definition fio_epilogue_main :: "'w te_env \<Rightarrow> ('w, verdict option) te" where
  "fio_epilogue_main e = run_main
     (get_agents e @ init_perf_handle e # bind_disks e '''' # stop_proxy e # [umount_hugepages e])
     (\<lambda>l. free_handle) (test_end_specific e) proxy_locals0"

definition perf_epilogue_main :: "'w te_env \<Rightarrow> ('w, verdict option) te" where
  "perf_epilogue_main e = run_main
     (get_agents e @ init_handle e None None # mount_hugepages e # start_proxy e #
      [bind_disks e TSAPI_VIRTIO_BLOCK_DRIVER_NAME])
     (\<lambda>l. free_handle) (test_end_specific e) proxy_locals0"

end
