(* ===== verification/Proxy_Order.thy ===== *)
theory Proxy_Order
  imports Test_Proxy
begin

text \<open>
  The order in which the package's own tests bring the block proxy and its disks up and down. The
  view shows the binding of the device the proxy drives, the proxy process, the modules of the
  host and the drivers of its disks; the library functions that prepare the backend, the
  configuration and the processes of the loggers and the plugin leave nothing in it.
\<close>

section \<open>The view\<close>

datatype proxy_step =
    DevBound | DevUnbound | ProxyUp | ProxyDown | Loaded string | Unloaded string | DiskDriver string string

definition is_proxy :: "string \<Rightarrow> bool" where
  "is_proxy name \<longleftrightarrow> name = TSAPI_BLOCK_PROXY_PS_NAME \<or> name = PERFORMANCE_LIB_BLK_PROXY_PS_NAME"

fun proxy_steps :: "call \<Rightarrow> proxy_step list" where
  "proxy_steps (Agent (PciBindByVendDev _ _ _ _ _)) = [DevBound]"
| "proxy_steps (Agent (PciUnbindByVendDev _ _ _ _)) = [DevUnbound]"
| "proxy_steps (Agent (ModuleAdd _ name)) = [Loaded name]"
| "proxy_steps (Agent (ModuleUnload _ name)) = [Unloaded name]"
| "proxy_steps (Agent (PciBindDriver d driver)) = [DiskDriver d driver]"
| "proxy_steps (Ps _ name PsStart) = (if is_proxy name then [ProxyUp] else [])"
| "proxy_steps (Ps _ name PsStop) = (if is_proxy name then [ProxyDown] else [])"
| "proxy_steps _ = []"

definition proxy_view :: "event \<Rightarrow> proxy_step list" where
  "proxy_view ev = proxy_steps (fst ev)"

lemma proxy_view_call [simp]: "proxy_view (c, r) = proxy_steps c"
  by (simp add: proxy_view_def)

interpretation pv: reader_blind proxy_view
  by unfold_locales (auto elim!: reading.elims)

section \<open>What the view does not show\<close>

named_theorems pq

lemmas [pq] = pv.readers

lemma quiet_rpcs [pq]:
  "leaves_none proxy_view (run_helper e rpcs cmd)" "leaves_none proxy_view (rpc_or_errno e rpcs op)"
  "leaves_none proxy_view (rpc_system_run e rpcs cmd)" "leaves_none proxy_view (ceph_rpc_mkdirp e rpcs path)"
  unfolding run_helper_def rpc_or_errno_def rpc_system_run_def ceph_rpc_mkdirp_def
  by (auto intro!: ln)

lemma quiet_files [pq]:
  "leaves_none proxy_view (tsapi_put_str_to_agt_file e rpcs str path)"
  "leaves_none proxy_view (tsapi_put_str_to_local_file e str path)"
  unfolding tsapi_put_str_to_agt_file_def tsapi_put_str_to_local_file_def
  by (auto intro!: ln)

subsection \<open>The backends\<close>

lemma quiet_inventory_add [pq]:
  "leaves_none proxy_view (tsapi_inventory_local_add_str e b n v)"
  "leaves_none proxy_view (tsapi_inventory_local_add_int e b n i)"
  unfolding tsapi_inventory_local_add_str_def tsapi_inventory_local_add_int_def
  by (auto intro!: ln)

lemma quiet_pairs [pq]: "leaves_none proxy_view (tsapi_inventory_local_to_kv_pair e b kv)"
proof -
  have "leaves_none proxy_view (inventory_pairs e insts kv)" for insts kv
    by (induction insts arbitrary: kv) (auto intro!: ln split: prod.split)
  then show ?thesis unfolding tsapi_inventory_local_to_kv_pair_def by (auto intro!: ln)
qed

lemma quiet_inventory [pq]: "leaves_none proxy_view (tsapi_inventory_prepare e rpcs kv mode)"
proof -
  have "leaves_none proxy_view (expand_lines e kv bufs nl inv)" for bufs nl inv
    by (induction bufs arbitrary: nl inv) (auto intro!: ln split: prod.split)
  then show ?thesis
    unfolding tsapi_inventory_prepare_def tsapi_inventory_get_tmpl_path_def tsapi_inventory_expand_template_def
      tsapi_inventory_get_ta_path_def
    by (auto intro!: ln pq)
qed

lemma quiet_servers [pq]:
  "leaves_none proxy_view (tsapi_backend_start_server e rpcs)" "leaves_none proxy_view (tsapi_backend_stop_server e rpcs)"
  unfolding tsapi_backend_start_server_def tsapi_backend_stop_server_def tsapi_ceph_start_server_def
    tsapi_nvme_start_server_def tsapi_ceph_stop_server_def tsapi_nvme_stop_server_def
  by (auto intro!: ln pq)

lemma quiet_params [pq]:
  "leaves_none proxy_view (tsapi_ceph_prepare_params e addr n)" "leaves_none proxy_view (tsapi_nvme_prepare_params e addr n)"
  unfolding tsapi_ceph_prepare_params_def ceph_add_params_def ceph_add_device_def tsapi_nvme_prepare_params_def
    nvme_add_params_def Let_def
  by (auto intro!: ln pq)

lemma quiet_client [pq]: "leaves_none proxy_view (tsapi_ceph_prepare_client e rpcs addr)"
  unfolding tsapi_ceph_prepare_client_def by (auto intro!: ln pq)

subsection \<open>Ceph\<close>

lemma quiet_options [pq]: "leaves_none proxy_view (add_options e opts v)"
  by (induction opts arbitrary: v) (auto intro!: ln)

lemma quiet_init [pq]:
  "leaves_none proxy_view (tsapi_ceph_osd_init e rpcs c o1)" "leaves_none proxy_view (tsapi_ceph_mon_init e rpcs c o1)"
  "leaves_none proxy_view (tsapi_ceph_init e rpcs c o2)" "leaves_none proxy_view (tsapi_ceph_mmt_init e rpcs c o3)"
  unfolding tsapi_ceph_osd_init_def tsapi_ceph_mon_init_def tsapi_ceph_init_def tsapi_ceph_mmt_init_def
    ceph_generic_desc_init_def ceph_osd_build_command_def ceph_mon_build_command_def ceph_build_command_def
    ceph_common_build_command_def ceph_mmt_build_command_def mmt_add_args_def ceph_mmt_add_opt_host_str_def
    tsapi_ceph_attach_fsid_filter_def Let_def
  by (auto intro!: ln pq)

lemmas ceph_life_defs =
  tsapi_ceph_osd_start_def tsapi_ceph_mon_start_def tsapi_ceph_start_def tsapi_ceph_mmt_start_def ceph_start_def
  tsapi_ceph_osd_wait_def tsapi_ceph_mon_wait_def tsapi_ceph_wait_def tsapi_ceph_mmt_wait_def ceph_wait_def
  tsapi_ceph_osd_cleanup_def tsapi_ceph_mon_cleanup_def tsapi_ceph_cleanup_def tsapi_ceph_mmt_cleanup_def
  ceph_cleanup_def

lemma quiet_env_prepare [pq]: "leaves_none proxy_view (block_ts_ceph_cluster_env_prepare e rpcs c)"
  unfolding block_ts_ceph_cluster_env_prepare_def ceph_sh_env_contain_path_def by (auto intro!: ln pq)

lemma quiet_tool [pq]:
  "leaves_none proxy_view init \<Longrightarrow> (\<And>c. leaves_none proxy_view (start c)) \<Longrightarrow> (\<And>c. leaves_none proxy_view (wait c)) \<Longrightarrow>
   (\<And>c. leaves_none proxy_view (cleanup c)) \<Longrightarrow> leaves_none proxy_view (run_ceph_tool e rpcs init start wait cleanup)"
  unfolding run_ceph_tool_def run_checked_def by (auto intro!: ln pq)

lemma quiet_tools [pq]:
  "leaves_none proxy_view (block_ts_ceph_cluster_monmap_create e rpcs addr)"
  "leaves_none proxy_view (block_ts_ceph_cluster_mon_helper_start e rpcs b)"
  "leaves_none proxy_view (block_ts_ceph_cluster_osd_helper_start e rpcs b)"
  "leaves_none proxy_view (run_ceph e rpcs opts)"
  unfolding block_ts_ceph_cluster_monmap_create_def block_ts_ceph_cluster_mon_helper_start_def
    block_ts_ceph_cluster_osd_helper_start_def run_ceph_def
  by (auto intro!: ln pq simp: ceph_life_defs)

lemma quiet_cluster [pq]:
  "leaves_none proxy_view (block_ts_ceph_cluster_mon_start e rpcs)"
  "leaves_none proxy_view (block_ts_ceph_cluster_osd_start e rpcs)"
proof -
  have "leaves_none proxy_view (append_all e strs s)" for strs s
    by (induction strs arbitrary: s) (auto intro!: ln)
  then show "leaves_none proxy_view (block_ts_ceph_cluster_osd_start e rpcs)"
    unfolding block_ts_ceph_cluster_osd_start_def ceph_rpc_mount_def by (auto intro!: ln pq)
  show "leaves_none proxy_view (block_ts_ceph_cluster_mon_start e rpcs)"
    unfolding block_ts_ceph_cluster_mon_start_def by (auto intro!: ln pq)
qed

lemma quiet_ceph_conf [pq]: "leaves_none proxy_view (block_ts_ceph_cluster_conf_create e rpcs net addr pfx)"
proof -
  have "leaves_none proxy_view (ceph_conf e kvs conf)" for kvs conf
    by (induction e kvs conf rule: ceph_conf.induct) (auto intro!: ln)
  then show ?thesis
    unfolding block_ts_ceph_cluster_conf_create_def ceph_conf_onload_def ceph_conf_logging_def tsapi_conf_flush_def
    by (auto intro!: ln pq)
qed

lemma quiet_fsid [pq]: "leaves_none proxy_view (block_ts_ceph_cluster_get_fsid e rpcs x)"
  unfolding block_ts_ceph_cluster_get_fsid_def tsapi_ceph_get_fsid_result_def
  by (auto intro!: ln pq simp: ceph_life_defs)

lemma not_proxy [simp]:
  "\<not> is_proxy TSAPI_CEPH_LOGGER_NAME" "\<not> is_proxy ''xilinxtool''" "\<not> is_proxy ''load_plugin''"
  "\<not> is_proxy ''enable_plugin''"
  "is_proxy TSAPI_BLOCK_PROXY_PS_NAME" "is_proxy PERFORMANCE_LIB_BLK_PROXY_PS_NAME"
  by (simp_all add: is_proxy_def TSAPI_CEPH_LOGGER_NAME_def TSAPI_BLOCK_PROXY_PS_NAME_def
      PERFORMANCE_LIB_BLK_PROXY_PS_NAME_def)

lemma quiet_logger [pq]:
  "leaves_none proxy_view (block_ts_ceph_start_logger e rpcs)" "leaves_none proxy_view (block_ts_ceph_enable_logger e rpcs)"
  unfolding block_ts_ceph_enable_logger_def block_ts_ceph_start_logger_def by (auto intro!: ln pq)

lemma quiet_qemu [pq]: "leaves_none proxy_view (start_ceph_server_in_qemu e disk arm net pfx addr)"
  unfolding start_ceph_server_in_qemu_def ceph_start_cluster_in_qemu_def by (auto intro!: ln pq)

subsection \<open>The proxy and the processes beside it\<close>

lemma quiet_plugin [pq]:
  "leaves_none proxy_view (tsapi_plugin_start e rpcs ifname)" "leaves_none proxy_view (tsapi_plugin_disable e rpcs ifname)"
  unfolding tsapi_plugin_start_def tsapi_plugin_get_plugin_name_def tsapi_plugin_load_def tsapi_plugin_enable_def
    plugin_ps_def add_ps_args_def tsapi_plugin_disable_def
  by (auto intro!: ln pq)

lemma quiet_uart [pq]:
  "leaves_none proxy_view (start_uart_logger e rpcs)" "leaves_none proxy_view (finish_uart_logger e ta)"
  unfolding start_uart_logger_def add_checked_def finish_uart_logger_def Let_def by (auto intro!: ln pq)

lemma quiet_names [pq]:
  "leaves_none proxy_view (get_local_config_name e h j)" "leaves_none proxy_view (get_agent_config_name e h j)"
  unfolding get_local_config_name_def get_agent_config_name_def alloc_str_def by (auto intro!: ln)

lemma quiet_publish [pq]: "leaves_none proxy_view (publish_conf e h conf)"
proof -
  have "leaves_none proxy_view (append_lines e ls s)" for ls s
    by (induction ls arbitrary: s) (auto intro!: ln)
  then show ?thesis
    unfolding publish_conf_def create_blkproxy_json_config_def print_blkproxy_conf_def copy_configs_to_agent_def
      copy_config_to_agent_def tsapi_conf_flush_local_def
    by (auto intro!: ln pq)
qed

lemma quiet_create_conf [pq]: "leaves_none proxy_view (tsapi_blkproxy_create_conf e h argv)"
proof -
  have "leaves_none proxy_view (add_conf_strings e kv conf strs)" for kv conf strs
    by (induction strs arbitrary: conf)
       (auto intro!: ln simp: add_conf_string_def ensure_section_def expand_section_val_def split: prod.split)
  then show ?thesis unfolding tsapi_blkproxy_create_conf_def by (auto intro!: ln pq)
qed

lemma quiet_args [pq]: "leaves_none proxy_view (build_blkproxy_args e h opts)"
proof -
  have "leaves_none proxy_view (logflag_args e toks args)" for toks args
    by (induction toks arbitrary: args) (auto intro!: ln)
  then show ?thesis
    unfolding build_blkproxy_args_def onload_args_def tsapi_get_onload_path_def fill_opts_def
      tsapi_blkproxy_get_logflags_def tsapi_blkproxy_bin_def create_optional_logflags_def
    by (auto intro!: ln pq split: prod.split)
qed

lemma quiet_env [pq]: "leaves_none proxy_view (build_blkproxy_env e envs)"
proof -
  have "leaves_none proxy_view (onload_env_pairs e insts envs)" for insts envs
    by (induction insts arbitrary: envs) (auto intro!: ln split: prod.split)
  then show ?thesis unfolding build_blkproxy_env_def build_blk_proxy_onload_env_def by (auto intro!: ln)
qed

lemma quiet_proxy_init [pq]: "leaves_none proxy_view (tsapi_blkproxy_init e h opts)"
  unfolding tsapi_blkproxy_init_def set_cpu_mask_def describe_process_def add_ps_env_def add_ps_args_def Let_def
  by (auto intro!: ln pq)

lemma quiet_stacks [pq]:
  "leaves_none proxy_view (tsapi_blkproxy_kill_orphaned_stacks e rpcs)"
  "leaves_none proxy_view (tsapi_blkproxy_get_status e h)" "leaves_none proxy_view (do_mount_umount e h b)"
  unfolding tsapi_blkproxy_kill_orphaned_stacks_def tsapi_blkproxy_get_status_def do_mount_umount_def
  by (auto intro!: ln pq)

lemma quiet_path [pq]: "leaves_none proxy_view (tsapi_sh_env_ta_path_prepend e ta dir)"
  unfolding tsapi_sh_env_ta_path_prepend_def Let_def by (auto intro!: ln)

lemma quiet_fill [pq]: "leaves_none proxy_view (tsapi_ceph_fill_devices e rpcs sz)"
proof -
  have "leaves_none proxy_view (fill_device e rpcs sz b f fio)" for b f fio
    unfolding fill_device_def tsapi_fio_create_def tsapi_fio_flex_wait_def Let_def by (auto intro!: ln pq)
  then have "leaves_none proxy_view (fill_loop e rpcs sz bs f fio)" for bs f fio
    by (induction bs arbitrary: f fio) (auto intro!: ln)
  then show ?thesis unfolding tsapi_ceph_fill_devices_def by (auto intro!: ln pq split: option.split)
qed

lemma quiet_call_back [pq]:
  "leaves_none proxy_view (call_back e ty cb_prepare_params (\<lambda>cb. cb addr n))"
  "leaves_none proxy_view (call_back e ty cb_start (\<lambda>cb. cb rpcs))"
  "leaves_none proxy_view (call_back e ty cb_stop (\<lambda>cb. cb rpcs))"
  "leaves_none proxy_view (call_back e ty cb_prepare_clients (\<lambda>cb. cb rpcs addr))"
  "leaves_none proxy_view (call_back e ty cb_hook (\<lambda>cb. cb rpcs))"
  unfolding call_back_def by (cases ty; auto intro!: ln pq)+

lemma quiet_handle [pq]: "(\<And>h. leaves_none proxy_view (f h)) \<Longrightarrow> leaves_none proxy_view (with_handle z f)"
  unfolding with_handle_def get_local_def by (auto intro!: ln)

lemma quiet_end [pq]: "leaves_none proxy_view (test_end_specific e)" "leaves_none proxy_view free_handle"
  "leaves_none proxy_view (clean_all [ignored (TSAPI_TEST_END_ENV e)])"
  unfolding test_end_specific_def free_handle_def clean_all.simps by (auto intro!: ln pq)

section \<open>The steps the view shows\<close>

definition disks :: "string \<Rightarrow> proxy_step list set" where
  "disks driver = {map (\<lambda>d. DiskDriver d driver) ds | ds. True}"

lemma bind_driver_disks:
  "obeys (tsapi_virtio_blocks_bind_driver e rpcs driver) (shows_steps proxy_view (disks driver) (Val ()))"
proof -
  have binds: "obeys (do_all (map (\<lambda>d. check_rc (call_rc e (Agent (PciBindDriver d drv)))) devs))
      (\<lambda>r t. prefix (in_trace proxy_view t) (map (\<lambda>d. DiskDriver d drv) devs) \<and>
         (r = Val () \<longrightarrow> in_trace proxy_view t = map (\<lambda>d. DiskDriver d drv) devs))" for devs drv
  proof (induction devs)
    case (Cons d devs)
    then show ?case by (auto intro!: ev elim!: obeys_weaken)
  qed (auto intro!: ev)
  show ?thesis unfolding tsapi_virtio_blocks_bind_driver_def
    by (rule obeys_bnd, rule leaves_noneD [OF pv.virtio_blocks])
       (auto intro!: ev obeys_weaken [OF binds] simp: disks_def shows_steps_def)
qed

lemma start_up:
  "is_proxy (bp_ps_name h) \<Longrightarrow> obeys (tsapi_blkproxy_start e h) (shows_steps proxy_view {[ProxyUp]} (Val 0))"
  unfolding tsapi_blkproxy_start_def
  by (auto intro!: ev leaves_noneD [OF quiet_stacks(1)] leaves_noneD [OF quiet_stacks(2)] simp: shows_steps_def)

lemma stop_down:
  "is_proxy (bp_ps_name h) \<Longrightarrow> obeys (tsapi_blkproxy_stop e h) (shows_steps proxy_view {[ProxyDown]} (Val 0))"
  unfolding tsapi_blkproxy_stop_def by (auto intro!: ev simp: shows_steps_def)

lemma follows_disks:
  "follows I proxy_view (disks driver) (act (\<lambda>l. tsapi_virtio_blocks_bind_driver e (host l) driver))"
  by (rule follows_act, rule bind_driver_disks)

lemma follows_handle:
  assumes "\<And>l h. I l \<Longrightarrow> var l = Some h \<Longrightarrow> is_proxy (bp_ps_name h)"
    and "\<And>h. is_proxy (bp_ps_name h) \<Longrightarrow> obeys (f h) (shows_steps proxy_view {[x]} (Val 0))"
  shows "follows I proxy_view {[x]} (checked (\<lambda>l. with_handle (var l) f))"
  using assms by (intro follows_checked) (auto intro!: ev simp: with_handle_def get_local_def shows_steps_def [of _ _ _ _ "[]"])

text \<open>The invariant: the handle, once it is made, is that of a block proxy.\<close>

definition handle_ok :: "tsapi_blkproxy_handle option \<Rightarrow> bool" where
  "handle_ok z \<longleftrightarrow> (\<forall>h. z = Some h \<longrightarrow> is_proxy (bp_ps_name h))"

lemma handle_init_ok:
  "is_proxy (or_default ps_name TSAPI_BLOCK_PROXY_PS_NAME) \<Longrightarrow>
   obeys (tsapi_blkproxy_handle_init e rpcs ps_name c) (\<lambda>r t. \<forall>rc z. r = Val (rc, z) \<longrightarrow> handle_ok z)"
  unfolding tsapi_blkproxy_handle_init_def build_config_agent_dir_def build_config_local_dir_def handle_ok_def
  by (auto intro!: ev)

lemma follows_init:
  assumes "is_proxy (or_default ps_name TSAPI_BLOCK_PROXY_PS_NAME)" and "\<And>l z. I (upd z l) \<longleftrightarrow> handle_ok z"
  shows "follows I proxy_view {[]} (checked_out (\<lambda>l. bnd (tsapi_blkproxy_handle_init e (rpcs l) ps_name c)
    (\<lambda>(rc, h). ret (rc, upd h l))))"
proof (rule follows_none)
  show "obeys (checked_out (\<lambda>l. bnd (tsapi_blkproxy_handle_init e (rpcs l) ps_name c)
    (\<lambda>(rc, h). ret (rc, upd h l))) l) (\<lambda>r t. lands I r)" for l
    by (intro obeys_checked_out obeys_bnd, rule obeys_weaken [OF handle_init_ok [OF assms(1)]])
       (auto intro!: ev simp: assms(2))
qed (auto intro!: ln pq)

section \<open>The order of a test\<close>

abbreviation pl_ok :: "prologue_locals \<Rightarrow> bool" where
  "pl_ok l \<equiv> handle_ok (pl_handle l)"

abbreviation pr_ok :: "proxy_locals \<Rightarrow> bool" where
  "pr_ok l \<equiv> handle_ok (pr_handle l)"

text \<open>A test is in order when its steps are always the beginning of a sequence of \<open>X\<close>, and a whole one
  when it passes.\<close>

definition ordered :: "proxy_step list set \<Rightarrow> ('w, verdict option) te \<Rightarrow> bool" where
  "ordered X m \<longleftrightarrow> obeys m (shows_steps proxy_view X (Val None))"

lemma handle_ok_None [simp]: "handle_ok None"
  by (simp add: handle_ok_def)

lemma follows_proxy:
  "follows pl_ok proxy_view {[ProxyUp]} (prologue_start e)" "follows pr_ok proxy_view {[ProxyUp]} (start_proxy e)"
  "follows pr_ok proxy_view {[ProxyDown]} (stop_proxy e)"
  unfolding prologue_start_def start_proxy_def stop_proxy_def
  by (rule follows_handle; auto simp: handle_ok_def start_up stop_down)+

lemma follows_inits:
  "follows pr_ok proxy_view {[]} (init_handle e None c)" "follows pr_ok proxy_view {[]} (init_perf_handle e)"
  unfolding init_perf_handle_def init_handle_def
  by (rule follows_init; simp add: or_default_def)+

lemma follows_agents: "follows pr_ok proxy_view {[]} (run_steps (get_agents e))"
  unfolding get_agents_def by (intro follows_chain) (auto intro!: follows_assign pq)

lemma follows_pages:
  "follows pr_ok proxy_view {[]} (mount_hugepages e)" "follows pr_ok proxy_view {[]} (umount_hugepages e)"
  "follows pr_ok proxy_view {[]} (fill_when_ceph e)"
  unfolding mount_hugepages_def umount_hugepages_def fill_when_ceph_def tsapi_blkproxy_mount_hugepage_dir_def
    tsapi_blkproxy_umount_hugepage_dir_def
  by (auto intro!: follows_quiet pq ln)

lemma follows_bind: "follows pr_ok proxy_view (disks driver) (bind_disks e driver)"
  unfolding bind_disks_def by (rule follows_disks)

lemmas follows_tests = follows_proxy follows_inits follows_pages follows_bind

lemma ordered_main:
  assumes "follows I proxy_view X (run_steps fs)" and "I l" and "X = Y"
    and "\<And>l. leaves_none proxy_view (cleanup l)"
  shows "ordered Y (run_main fs cleanup (test_end_specific e) l)"
  unfolding ordered_def using follows_main [OF assms(1,2,4) quiet_end(1)] assms(3) by simp

lemma seqs_Nil [simp]: "seqs X {[]} = X"
  by (auto simp: seqs_def)

lemma fio_epilogue_order: "ordered (seqs (disks '''') {[ProxyDown]}) (fio_epilogue_main e)"
  unfolding fio_epilogue_main_def
  by (rule ordered_main, (rule follows_append follows_agents follows_Cons follows_tests follows_Nil)+)
     (auto intro!: pq simp: proxy_locals0_def image_def)

text \<open>Parts of the tests the view does not show.\<close>

lemma follows_env: "follows I proxy_view {[]} (act (\<lambda>l. TSAPI_TEST_START_ENV e))"
  by (intro follows_quiet pq)

lemma follows_opts:
  "follows pr_ok proxy_view {[]} (checked_out (\<lambda>l. with_handle (pr_handle l) (\<lambda>h.
     bnd (tsapi_blkproxy_init e h (pr_opts l)) (\<lambda>(rc, opts). ret (rc, l\<lparr>pr_opts := opts\<rparr>)))))"
  by (rule follows_none)
     (auto intro!: pq ln ev leaves_noneD [OF quiet_proxy_init] simp: with_handle_def get_local_def)

lemma follows_init_proxy: "follows pr_ok proxy_view {[]} (run_steps (init_proxy e argv))"
  unfolding init_proxy_def by (rule follows_chain) (auto intro!: follows_quiet follows_opts pq)

lemma follows_quiet_when:
  "(\<And>f. f \<in> set fs \<Longrightarrow> follows I view {[]} f) \<Longrightarrow> follows I view {[]} (when_step b fs)"
  using follows_when [OF follows_chain] by fastforce

lemma follows_stop_backend: "follows pr_ok proxy_view {[]} (run_steps (stop_backend e))"
  unfolding stop_backend_def
  by (intro follows_chain) (auto intro!: follows_quiet follows_quiet_when follows_assign pq ln)

lemma follows_kill: "follows pr_ok proxy_view {[]} (checked (\<lambda>l. tsapi_blkproxy_kill_orphaned_stacks e (pr_arm l)))"
  by (intro follows_quiet pq)

lemma follows_events:
  "follows pr_ok proxy_view {[Unloaded ''virtio-blk'']} (unload_virtio_blk e)"
  "follows pr_ok proxy_view {[DevUnbound]} (unbind_uio e)"
  "follows pl_ok proxy_view {[Loaded ''uio_pci_generic'']} (add_uio e)"
  "follows pl_ok proxy_view {[DevBound]} (bind_uio e)"
  "follows pl_ok proxy_view {[Loaded ''virtio-blk'']} (add_virtio_blk e)"
  unfolding unload_virtio_blk_def unbind_uio_def add_uio_def bind_uio_def add_virtio_blk_def
  by (rule follows_event; simp)+

lemmas follows_parts = follows_env follows_init_proxy follows_stop_backend follows_kill follows_events

lemma performance_order:
  "ordered (seqs (disks '''') {[ProxyDown]}) (perf_prologue_main e)"
  "ordered (seqs {[ProxyUp]} (disks ''virtio-pci'')) (fio_prologue_main e argv)"
  "ordered (seqs {[ProxyUp]} (disks ''virtio-pci'')) (perf_epilogue_main e)"
  unfolding perf_prologue_main_def fio_prologue_main_def perf_epilogue_main_def
  by (rule ordered_main, (rule follows_append follows_agents follows_Cons follows_tests follows_parts follows_Nil)+,
      auto intro!: pq simp: proxy_locals0_def image_def TSAPI_VIRTIO_BLOCK_DRIVER_NAME_def)+

lemma epilogue_order:
  "ordered (seqs (disks '''') {[Unloaded ''virtio-blk'', ProxyDown, DevUnbound]}) (epilogue_main e)"
  unfolding epilogue_main_def
  by (rule ordered_main, (rule follows_append follows_agents follows_Cons follows_tests follows_parts follows_Nil)+)
     (auto intro!: pq simp: proxy_locals0_def image_def)

subsection \<open>The prologue\<close>

lemma follows_network: "follows pl_ok proxy_view {[]} (plain (\<lambda>l. if_need_env e (get_network e l) l))"
  by (rule follows_none)
     (auto intro!: pq ln ev leaves_noneD [OF pv.need_env] leaves_noneD [OF pv.get_rpcs] leaves_noneD [OF pv.get_net]
        leaves_noneD [OF pv.get_if] simp: if_need_env_def get_network_def)

lemma quiet_autoneg: "leaves_none proxy_view (disable_autoneg e r)"
  unfolding disable_autoneg_def sleep_def by (auto intro!: ln)

lemma follows_autoneg:
  "follows pl_ok proxy_view {[]} (plain (\<lambda>l. if_need_env e (bnd (disable_autoneg e (pl_arm l)) (\<lambda>_. ret l)) l))"
  by (rule follows_none)
     (auto intro!: pq ln ev quiet_autoneg leaves_noneD [OF pv.need_env] leaves_noneD [OF quiet_autoneg] simp: if_need_env_def)

lemma follows_env_init:
  "follows pl_ok proxy_view {[]} (plain (\<lambda>l. if_need_env e (bnd (te_call e (Test EnvInit)) (\<lambda>_.
     bnd (te_call e (Test NetworkSetup)) (\<lambda>_. ret l))) l))"
  by (rule follows_none) (auto intro!: pq ln ev leaves_noneD [OF pv.need_env] simp: if_need_env_def)

lemma follows_setup: "follows pl_ok proxy_view {[]} (run_steps (prologue_setup e))"
  unfolding prologue_setup_def
  by (intro follows_chain)
     (auto intro!: follows_quiet follows_quiet_when follows_assign follows_network follows_autoneg follows_env_init
        pq ln simp: get_local_def)

lemma follows_backend: "follows pl_ok proxy_view {[]} (run_steps (prologue_backend e))"
  unfolding prologue_backend_def
  by (intro follows_chain) (auto intro!: follows_quiet follows_quiet_when pq ln)

lemma follows_conf: "follows pl_ok proxy_view {[]} (run_steps (prologue_conf e argv))"
proof -
  have "follows pl_ok proxy_view {[]} (checked_out (\<lambda>l. bnd (tsapi_blkproxy_handle_init e (Some (pl_arm l)) None None)
      (\<lambda>(rc, h). ret (rc, l\<lparr>pl_handle := h\<rparr>))))"
    by (rule follows_init) (simp_all add: or_default_def)
  then show ?thesis unfolding prologue_conf_def
    by (intro follows_chain) (auto intro!: follows_quiet pq)
qed

lemma follows_prologue_init: "follows pl_ok proxy_view {[]} (prologue_init e)"
  unfolding prologue_init_def
  by (rule follows_none)
     (auto intro!: pq ln ev leaves_noneD [OF quiet_proxy_init] simp: with_handle_def get_local_def)

lemma follows_prologue_rest:
  "follows pl_ok proxy_view {[]} (prologue_path e)" "follows pl_ok proxy_view {[]} (print_tree e)"
  "follows pl_ok proxy_view (disks ''virtio-pci'') (prologue_bind e)"
  unfolding prologue_path_def print_tree_def prologue_bind_def TSAPI_VIRTIO_BLOCK_DRIVER_NAME_def
  by (auto intro!: follows_quiet follows_disks pq ln)

lemma prologue_order:
  "ordered (seqs {[Loaded ''uio_pci_generic'', DevBound, ProxyUp, Loaded ''virtio-blk'']} (disks ''virtio-pci''))
     (prologue_main e argv)"
  unfolding prologue_main_def append_assoc
  by (rule ordered_main, (rule follows_append follows_setup follows_backend follows_conf follows_Cons follows_events
        follows_prologue_init follows_prologue_rest follows_proxy follows_Nil)+)
     (auto intro!: pq ln simp: prologue_locals0_def image_def)

section \<open>Properties\<close>


end
