(* ===== verification/Test_Config.thy ===== *)
theory Test_Config
  imports Proxy_Order
begin

text \<open>
  The tests under \<open>blk-proxy/config/\<close> without \<open>reboot_arm.c\<close>: the driver of the disks is taken
  away and given back, and the block proxy is restarted. What they have to give back: the
  drivers, and the automatic restart of the process.
\<close>

section \<open>\<open>driver_rebind.c\<close>\<close>

record rebind_locals =
  rb_vendor :: string
  rb_device :: string
  rb_count :: "32 word"
  rb_devs :: "32 word"
  rb_driver :: string

definition rebind_locals0 :: rebind_locals where
  "rebind_locals0 = \<lparr>rb_vendor = [], rb_device = [], rb_count = 0, rb_devs = 0, rb_driver = []\<rparr>"

definition get_driver :: "'w te_env \<Rightarrow> nat \<Rightarrow> ('w, rebind_locals) step" where
  "get_driver e j = checked_out (\<lambda>l.
     bnd (te_call e (Agent (PciGetDriver ''Agt_host'' (rb_vendor l) (rb_device l) j))) (\<lambda>r.
       ret (r_rc r, if r_rc r = 0 then l\<lparr>rb_driver := out_str r\<rparr> else l)))"

definition unbind_device :: "'w te_env \<Rightarrow> nat \<Rightarrow> ('w, rebind_locals) step" where
  "unbind_device e j = checked (\<lambda>l.
     call_rc e (Agent (PciUnbindByVendDev ''Agt_host'' (rb_vendor l) (rb_device l) j)))"

definition bind_device :: "'w te_env \<Rightarrow> nat \<Rightarrow> ('w, rebind_locals) step" where
  "bind_device e j = checked (\<lambda>l.
     call_rc e (Agent (PciBindByVendDev ''Agt_host'' (rb_vendor l) (rb_device l) j (rb_driver l))))"

definition rebind_pass :: "'w te_env \<Rightarrow> nat \<Rightarrow> ('w, rebind_locals) step list" where
  "rebind_pass e j = [unbind_device e j, bind_device e j, act (\<lambda>l. sleep 5 e)]"

definition rebind_device :: "'w te_env \<Rightarrow> nat \<Rightarrow> ('w, rebind_locals) step list" where
  "rebind_device e j =
     get_driver e j # stop_if (\<lambda>l. rb_driver l = []) Failed #
     [for_each (\<lambda>l. [0..<unat (rb_count l)]) (\<lambda>_. rebind_pass e j)]"

definition rebind_params :: "'w te_env \<Rightarrow> ('w, rebind_locals) step list" where
  "rebind_params e =
     [plain (\<lambda>l. bnd (test_param_str e ''vendor_id'') (\<lambda>v. ret (l\<lparr>rb_vendor := v\<rparr>))),
      plain (\<lambda>l. bnd (test_param_str e ''device_id'') (\<lambda>v. ret (l\<lparr>rb_device := v\<rparr>))),
      plain (\<lambda>l. bnd (test_param_num e ''rebind_count'') (\<lambda>v. ret (l\<lparr>rb_count := v\<rparr>))),
      stop_if (\<lambda>l. rb_count l = 0) Failed,
      plain (\<lambda>l. bnd (tsapi_virtio_blocks_count e ''Agt_host'') (\<lambda>v. ret (l\<lparr>rb_devs := v\<rparr>)))]"

definition driver_rebind_main :: "'w te_env \<Rightarrow> ('w, verdict option) te" where
  "driver_rebind_main e = run_main
     (rebind_params e @ [for_each (\<lambda>l. [0..<unat (rb_devs l)]) (rebind_device e)])
     (\<lambda>l. clean_all []) (test_end_specific e) rebind_locals0"

section \<open>\<open>restart_blk_proxy.c\<close>\<close>

text \<open>The automatic restart is read into a variable that is not initialised.\<close>

record restart_locals =
  rs_arm :: rcf_rpc_server
  rs_host :: rcf_rpc_server
  rs_vendor :: string
  rs_device :: string
  rs_rebind :: bool
  rs_iter :: "32 word"
  rs_handle :: "tsapi_blkproxy_handle option"
  rs_devs :: "32 word"
  rs_drivers :: "string list"
  rs_driver :: string
  rs_status :: bool
  rs_auto :: "32 word"

definition restart_locals0 :: "'w te_env \<Rightarrow> restart_locals" where
  "restart_locals0 e = \<lparr>rs_arm = null_rpcs, rs_host = null_rpcs, rs_vendor = [], rs_device = [], rs_rebind = False,
     rs_iter = 0, rs_handle = None, rs_devs = 0, rs_drivers = [], rs_driver = [], rs_status = False,
     rs_auto = stale_word e\<rparr>"

definition bind_all_drivers :: "'w te_env \<Rightarrow> string \<Rightarrow> string \<Rightarrow> string \<Rightarrow> string list \<Rightarrow> ('w, unit) te" where
  "bind_all_drivers e ta vendor_id device_id drivers = do_all
     (map (\<lambda>(i, d). check_rc (call_rc e (Agent (PciBindByVendDev ta vendor_id device_id i d)))) (enumerate 0 drivers))"

definition unbind_all_drivers :: "'w te_env \<Rightarrow> string \<Rightarrow> string \<Rightarrow> string \<Rightarrow> string list \<Rightarrow> ('w, unit) te" where
  "unbind_all_drivers e ta vendor_id device_id drivers = do_all
     (map (\<lambda>(i, d). check_rc (call_rc e (Agent (PciUnbindByVendDev ta vendor_id device_id i)))) (enumerate 0 drivers))"

definition restart_params :: "'w te_env \<Rightarrow> ('w, restart_locals) step list" where
  "restart_params e =
     [plain (\<lambda>l. bnd (test_get_rpcs e ''Agt_ARM'') (\<lambda>r. ret (l\<lparr>rs_arm := r\<rparr>))),
      plain (\<lambda>l. bnd (test_get_rpcs e ''Agt_host'') (\<lambda>r. ret (l\<lparr>rs_host := r\<rparr>))),
      plain (\<lambda>l. bnd (test_param_str e ''vendor_id'') (\<lambda>v. ret (l\<lparr>rs_vendor := v\<rparr>))),
      plain (\<lambda>l. bnd (test_param_str e ''device_id'') (\<lambda>v. ret (l\<lparr>rs_device := v\<rparr>))),
      plain (\<lambda>l. bnd (test_param_bool e ''with_rebind'') (\<lambda>v. ret (l\<lparr>rs_rebind := v\<rparr>))),
      plain (\<lambda>l. bnd (test_param_num e ''iter_num'') (\<lambda>v. ret (l\<lparr>rs_iter := v\<rparr>))),
      checked_out (\<lambda>l. bnd (tsapi_blkproxy_handle_init e (Some (rs_arm l)) None None)
        (\<lambda>(rc, h). ret (rc, l\<lparr>rs_handle := h\<rparr>)))]"

definition get_proxy_status :: "'w te_env \<Rightarrow> ('w, restart_locals) step" where
  "get_proxy_status e = checked_out (\<lambda>l. with_handle (rs_handle l) (\<lambda>h.
     bnd (tsapi_blkproxy_get_status e h) (\<lambda>(rc, status). ret (rc, if rc = 0 then l\<lparr>rs_status := status\<rparr> else l))))"

definition keep_driver :: "'w te_env \<Rightarrow> nat \<Rightarrow> ('w, restart_locals) step list" where
  "keep_driver e j =
     [checked_out (\<lambda>l.
        bnd (te_call e (Agent (PciGetDriver (rpcs_ta (rs_host l)) (rs_vendor l) (rs_device l) j))) (\<lambda>r.
          ret (r_rc r, if r_rc r = 0 then l\<lparr>rs_driver := out_str r\<rparr> else l))),
      stop_if (\<lambda>l. rs_driver l = []) Failed,
      checked_out (\<lambda>l. bnd (te_vec_append_str e (rs_drivers l) (rs_driver l)) (\<lambda>(rc, v).
        ret (rc, l\<lparr>rs_drivers := v\<rparr>)))]"

definition take_drivers :: "'w te_env \<Rightarrow> ('w, restart_locals) step" where
  "take_drivers e = when_step rs_rebind
     [for_each (\<lambda>l. [0..<unat (rs_devs l)]) (keep_driver e),
      act (\<lambda>l. unbind_all_drivers e (rpcs_ta (rs_host l)) (rs_vendor l) (rs_device l) (rs_drivers l))]"

definition give_drivers :: "'w te_env \<Rightarrow> ('w, restart_locals) step" where
  "give_drivers e = when_step rs_rebind
     [act (\<lambda>l. bind_all_drivers e (rpcs_ta (rs_host l)) (rs_vendor l) (rs_device l) (rs_drivers l)),
      act (\<lambda>l. sleep 1 e),
      plain (\<lambda>l. ret (l\<lparr>rs_drivers := []\<rparr>))]"

definition set_autorestart :: "'w te_env \<Rightarrow> restart_locals \<Rightarrow> 32 word \<Rightarrow> ('w, te_errno) te" where
  "set_autorestart e l v = with_handle (rs_handle l) (\<lambda>h.
     call_rc e (Ps (rpcs_ta (bp_rpcs h)) (bp_ps_name h) (PsSetAutorestart (unat v))))"

definition read_autorestart :: "'w te_env \<Rightarrow> ('w, restart_locals) step" where
  "read_autorestart e = checked_out (\<lambda>l. with_handle (rs_handle l) (\<lambda>h.
     bnd (te_call e (Ps (rpcs_ta (bp_rpcs h)) (bp_ps_name h) PsGetAutorestart)) (\<lambda>r.
       ret (r_rc r, if r_rc r = 0 then l\<lparr>rs_auto := word_of_int (r_num r)\<rparr> else l))))"

definition disable_autorestart :: "'w te_env \<Rightarrow> ('w, restart_locals) step list" where
  "disable_autorestart e =
     [read_autorestart e,
      when_step (\<lambda>l. rs_auto l \<noteq> 0) [checked (\<lambda>l. set_autorestart e l 0)]]"

definition restart_proxy :: "'w te_env \<Rightarrow> ('w, restart_locals) step list" where
  "restart_proxy e =
     [checked (\<lambda>l. with_handle (rs_handle l) (tsapi_blkproxy_stop e)),
      get_proxy_status e,
      stop_if rs_status Failed,
      checked (\<lambda>l. with_handle (rs_handle l) (tsapi_blkproxy_start e))]"

definition restart_pass :: "'w te_env \<Rightarrow> ('w, restart_locals) step list" where
  "restart_pass e =
     [get_proxy_status e,
      stop_if (\<lambda>l. \<not> rs_status l) Failed,
      plain (\<lambda>l. bnd (tsapi_virtio_blocks_count e (rpcs_ta (rs_host l))) (\<lambda>n. ret (l\<lparr>rs_devs := n\<rparr>))),
      take_drivers e] @
     disable_autorestart e @ restart_proxy e @ [give_drivers e]"

definition restart_cleanup :: "'w te_env \<Rightarrow> restart_locals \<Rightarrow> ('w, bool) te" where
  "restart_cleanup e l =
     bnd (if rs_auto l \<noteq> 0 then check_rc (set_autorestart e l (rs_auto l)) else ret ()) (\<lambda>_. clean_all [])"

definition restart_blk_proxy_main :: "'w te_env \<Rightarrow> ('w, verdict option) te" where
  "restart_blk_proxy_main e = run_main
     (restart_params e @ [for_each (\<lambda>l. [0..<unat (rs_iter l)]) (\<lambda>_. restart_pass e)])
     (restart_cleanup e) (test_end_specific e) (restart_locals0 e)"

section \<open>Drivers: correctness\<close>

text \<open>The driver a device was found with, taken away and given.\<close>

datatype driver_step = Found nat string | Off nat | On nat string

fun driver_steps :: "call \<Rightarrow> reply \<Rightarrow> driver_step list" where
  "driver_steps (Agent (PciGetDriver _ _ _ j)) r = (if r_rc r = 0 then [Found j (out_str r)] else [])"
| "driver_steps (Agent (PciUnbindByVendDev _ _ _ j)) r = [Off j]"
| "driver_steps (Agent (PciBindByVendDev _ _ _ j d)) r = [On j d]"
| "driver_steps c r = []"

definition driver_view :: "event \<Rightarrow> driver_step list" where
  "driver_view ev = driver_steps (fst ev) (snd ev)"

lemma driver_view_call [simp]: "driver_view (c, r) = driver_steps c r"
  by (simp add: driver_view_def)

text \<open>One device, rebound \<open>n\<close> times.\<close>

definition rebound :: "nat \<Rightarrow> nat \<Rightarrow> string \<Rightarrow> driver_step list" where
  "rebound n j d = Found j d # concat (replicate n [Off j, On j d])"

lemma follows_rebind_loop:
  "follows (\<lambda>l. unat (rb_count l) = n \<and> rb_driver l = d) driver_view {concat (replicate n [Off j, On j d])}
    (run_steps (stop_if (\<lambda>l. rb_driver l = []) Failed #
      [for_each (\<lambda>l. [0..<unat (rb_count l)]) (\<lambda>_. rebind_pass e j)]))"
proof -
  let ?I = "\<lambda>l. unat (rb_count l) = n \<and> rb_driver l = d"
  have "follows ?I driver_view (seqs {[Off j]} (seqs {[On j d]} (seqs {[]} {[]}))) (run_steps (rebind_pass e j))"
    unfolding rebind_pass_def unbind_device_def bind_device_def sleep_def
    by (intro follows_Cons follows_Nil follows_event follows_quiet) (auto intro!: ln)
  then have "follows ?I driver_view (\<Union>ys \<in> {[0..<n]}. prods (\<lambda>_. {[Off j, On j d]}) ys)
      (for_each (\<lambda>l. [0..<unat (rb_count l)]) (\<lambda>_. rebind_pass e j))"
    by (intro follows_for_each) auto
  then show ?thesis
    using follows_Cons [OF follows_quiet(3) follows_Cons [OF _ follows_Nil]]
    by (fastforce simp: map_replicate_const)
qed

lemma follows_rebind_device:
  "follows (\<lambda>l. unat (rb_count l) = n) driver_view (\<Union>d. {rebound n j d}) (run_steps (rebind_device e j))"
proof -
  have "obeys (get_driver e j l) (\<lambda>r t. \<exists>d. goes driver_view {[Found j d]} r t \<and>
      lands (\<lambda>l. unat (rb_count l) = n \<and> rb_driver l = d) r)" if "unat (rb_count l) = n" for l
    using that unfolding get_driver_def by (auto intro!: ev simp: goes_def)
  then have "follows (\<lambda>l. unat (rb_count l) = n) driver_view
      (\<Union>d. seqs {[Found j d]} {concat (replicate n [Off j, On j d])}) (run_steps (rebind_device e j))"
    unfolding rebind_device_def by (rule follows_choose [OF _ follows_rebind_loop]) auto
  then show ?thesis by (simp add: rebound_def)
qed

text \<open>The number of passes is read before the loop, and zero is refused.\<close>

definition rebinds :: "nat \<Rightarrow> driver_step list set" where
  "rebinds n = (\<Union>m. prods (\<lambda>j. \<Union>d. {rebound n j d}) [0..<m])"

interpretation dv: reader_blind driver_view
  by unfold_locales (auto elim!: reading.elims)

lemma rebinds_nonempty: "rebinds n \<noteq> {}"
proof -
  have "[] \<in> prods (\<lambda>j. \<Union>d. {rebound n j d}) [0..<0]" by simp
  then show ?thesis unfolding rebinds_def by blast
qed

lemma unat_Suc: "w \<noteq> 0 \<Longrightarrow> unat w = Suc (unat w - Suc 0)"
  by (cases "unat w") (auto simp: unat_eq_zero)

lemma follows_rebind:
  "follows (\<lambda>_. True) driver_view (\<Union>k. rebinds (Suc k))
     (run_steps (rebind_params e @ [for_each (\<lambda>l. [0..<unat (rb_devs l)]) (rebind_device e)]))"
proof -
  let ?loop = "for_each (\<lambda>l. [0..<unat (rb_devs l)]) (rebind_device e)"
  let ?J = "\<lambda>k l. unat (rb_count l) = Suc k"
  have "follows (?J k) driver_view (\<Union>ys \<in> range (\<lambda>m. [0..<m]). prods (\<lambda>j. \<Union>d. {rebound (Suc k) j d}) ys) ?loop" for k
    by (intro follows_for_each follows_rebind_device) auto
  then have loop: "follows (?J k) driver_view (rebinds (Suc k)) ?loop" for k
    by (simp add: rebinds_def)
  have "follows (?J k) driver_view (seqs {[]} (seqs (rebinds (Suc k)) {[]})) (run_steps
      (plain (\<lambda>l. bnd (tsapi_virtio_blocks_count e ''Agt_host'') (\<lambda>v. ret (l\<lparr>rb_devs := v\<rparr>))) # [?loop]))" for k
    by (intro follows_Cons follows_Nil loop follows_assign) (auto intro: dv.blocks_count)
  then have tail: "follows (?J k) driver_view (rebinds (Suc k)) (run_steps
      (plain (\<lambda>l. bnd (tsapi_virtio_blocks_count e ''Agt_host'') (\<lambda>v. ret (l\<lparr>rb_devs := v\<rparr>))) # [?loop]))" for k
    by simp
  have "obeys (stop_if (\<lambda>l. rb_count l = 0) Failed l) (\<lambda>r t. \<exists>k. goes driver_view {[]} r t \<and> lands (?J k) r)" for l
    by (rule obeys_stop_if) (auto simp: goes_def intro!: exI [of _ "unat (rb_count l) - 1"] unat_Suc)
  then have "follows (\<lambda>_. True) driver_view (\<Union>k. seqs {[]} (rebinds (Suc k))) (run_steps (stop_if (\<lambda>l. rb_count l = 0) Failed #
      plain (\<lambda>l. bnd (tsapi_virtio_blocks_count e ''Agt_host'') (\<lambda>v. ret (l\<lparr>rb_devs := v\<rparr>))) # [?loop]))"
    by (rule follows_choose [OF _ tail]) (auto simp: rebinds_nonempty)
  then have "follows (\<lambda>_. True) driver_view (seqs {[]} (seqs {[]} (seqs {[]} (\<Union>k. seqs {[]} (rebinds (Suc k))))))
      (run_steps (rebind_params e @ [?loop]))"
    unfolding rebind_params_def append_Cons append_Nil
    by (intro follows_Cons follows_assign) (auto intro: dv.params)
  then show ?thesis by simp
qed

text \<open>The driver each device is left with, and the one it was found with.\<close>

fun after_step :: "driver_step \<Rightarrow> (nat \<rightharpoonup> string) \<Rightarrow> nat \<rightharpoonup> string" where
  "after_step (Found j d) m = m(j \<mapsto> d)"
| "after_step (Off j) m = m(j := None)"
| "after_step (On j d) m = m(j \<mapsto> d)"

fun found_step :: "driver_step \<Rightarrow> (nat \<rightharpoonup> string) \<Rightarrow> nat \<rightharpoonup> string" where
  "found_step (Found j d) m = m(j \<mapsto> d)"
| "found_step _ m = m"

lemma fold_rebound:
  "fold after_step (rebound n j d) m = m(j \<mapsto> d)" "fold found_step (rebound n j d) m = m(j \<mapsto> d)"
proof -
  have "m' j = Some d \<Longrightarrow> fold after_step (concat (replicate n [Off j, On j d])) m' = m'" for m'
    by (induction n) (simp_all add: fun_upd_idem)
  moreover have "fold found_step (concat (replicate n [Off j, On j d])) m' = m'" for m'
    by (induction n) simp_all
  ultimately show "fold after_step (rebound n j d) m = m(j \<mapsto> d)" "fold found_step (rebound n j d) m = m(j \<mapsto> d)"
    by (simp_all add: rebound_def)
qed

lemma rebinds_restore: "xs \<in> rebinds n \<Longrightarrow> fold after_step xs m = fold found_step xs m"
proof -
  have "xs \<in> prods (\<lambda>j. \<Union>d. {rebound n j d}) js \<Longrightarrow> fold after_step xs m = fold found_step xs m" for js
    by (induction js arbitrary: xs m) (auto simp: seqs_def fold_rebound)
  then show "xs \<in> rebinds n \<Longrightarrow> fold after_step xs m = fold found_step xs m"
    by (auto simp: rebinds_def)
qed

text \<open>
  C20. The rebinding test takes a device off its driver only to give it back the driver it was found with: what it
  does is, for each device, to find its driver and then, at least once and as often for every device, to unbind it
  and bind that driver. When the test passes, every device is left with the driver it was found with.
\<close>

theorem rebind_gives_back:
  "obeys (driver_rebind_main e) (\<lambda>r t. shows_steps driver_view (\<Union>k. rebinds (Suc k)) (Val None) r t \<and>
     (r = Val None \<longrightarrow>
       fold after_step (in_trace driver_view t) Map.empty = fold found_step (in_trace driver_view t) Map.empty))"
proof -
  have "obeys (driver_rebind_main e) (shows_steps driver_view (\<Union>k. rebinds (Suc k)) (Val None))"
    unfolding driver_rebind_main_def
    by (rule follows_main [OF follows_rebind]) (auto intro!: ln simp: test_end_specific_def)
  then show ?thesis by (rule obeys_weaken) (auto simp: shows_steps_def dest: rebinds_restore)
qed

text \<open>Two devices with different drivers, rebound twice each.\<close>

definition rebind_run :: script where
  "rebind_run =
     [answering ''1bf4'', answering ''1042'', ok_reply\<lparr>r_num := 2\<rparr>, ok_reply\<lparr>r_list := [''a'', ''b'']\<rparr>,
      answering ''virtio-pci''] @ replicate 6 ok_reply @ [answering ''vfio-pci'']"

lemma rebind_gives_back_witness:
  "map (fold after_step (in_trace driver_view (trace (snd (driver_rebind_main calm_env (calm_sys rebind_run))))) Map.empty)
     [0, 1] = [Some ''virtio-pci'', Some ''vfio-pci'']"
proof -
  let ?run = "driver_rebind_main calm_env (calm_sys rebind_run)"
  have "fst ?run = Val None"
    and "map (fold found_step (in_trace driver_view (trace (snd ?run))) Map.empty) [0, 1] = [Some ''virtio-pci'', Some ''vfio-pci'']"
    by code_simp+
  with obeys_at [OF rebind_gives_back [of calm_env], of "calm_sys rebind_run"]
  show ?thesis by simp
qed

section \<open>The automatic restart: correctness\<close>

text \<open>The values read and set.\<close>

datatype auto_step = ReadAuto "32 word" | SetAuto nat

fun auto_steps :: "call \<Rightarrow> reply \<Rightarrow> auto_step list" where
  "auto_steps (Ps _ _ PsGetAutorestart) r = (if r_rc r = 0 then [ReadAuto (word_of_int (r_num r))] else [])"
| "auto_steps (Ps _ _ (PsSetAutorestart n)) r = [SetAuto n]"
| "auto_steps c r = []"

definition auto_view :: "event \<Rightarrow> auto_step list" where
  "auto_view ev = auto_steps (fst ev) (snd ev)"

lemma auto_view_call [simp]: "auto_view (c, r) = auto_steps c r"
  by (simp add: auto_view_def)

interpretation av: reader_blind auto_view
  by unfold_locales (auto elim!: reading.elims)

named_theorems aq

lemmas [aq] = av.readers

lemma quiet_auto_handle [aq]: "(\<And>h. leaves_none auto_view (f h)) \<Longrightarrow> leaves_none auto_view (with_handle z f)"
  unfolding with_handle_def get_local_def by (auto intro!: ln)

lemma quiet_auto_proxy [aq]:
  "leaves_none auto_view (tsapi_blkproxy_get_status e h)" "leaves_none auto_view (tsapi_blkproxy_stop e h)"
  "leaves_none auto_view (tsapi_blkproxy_start e h)"
  unfolding tsapi_blkproxy_get_status_def tsapi_blkproxy_stop_def tsapi_blkproxy_start_def
    tsapi_blkproxy_kill_orphaned_stacks_def
  by (auto intro!: ln aq)

lemma quiet_auto_drivers [aq]:
  "leaves_none auto_view (bind_all_drivers e ta v d ds)" "leaves_none auto_view (unbind_all_drivers e ta v d ds)"
  "leaves_none auto_view (sleep n e)" "leaves_none auto_view (test_end_specific e)"
  unfolding bind_all_drivers_def unbind_all_drivers_def sleep_def test_end_specific_def by (auto intro!: ln)

lemma quiet_auto_steps [aq]:
  "leaves_none auto_view (get_proxy_status e l)" "leaves_none auto_view (take_drivers e l)"
  "leaves_none auto_view (give_drivers e l)"
  unfolding get_proxy_status_def take_drivers_def keep_driver_def give_drivers_def
  by (auto intro!: ln aq)

text \<open>One pass of the loop, and the passes.\<close>

definition switched_off :: "32 word \<Rightarrow> auto_step list" where
  "switched_off w = ReadAuto w # (if w = 0 then [] else [SetAuto 0])"

definition passes :: "nat \<Rightarrow> auto_step list set" where
  "passes m = prods (\<lambda>_. \<Union>w. {switched_off w}) [0..<m]"

lemma paths_disable: "paths auto_view (\<Union>w. {switched_off w}) (run_steps (disable_autorestart e))"
proof -
  have set0: "follows (\<lambda>l. rs_auto l = w) auto_view {[SetAuto 0]} (run_steps [checked (\<lambda>l. set_autorestart e l 0)])" for w
    unfolding set_autorestart_def with_handle_def get_local_def follows_def
    by (auto intro!: ev simp: goes_def)
  have when0: "follows (\<lambda>l. rs_auto l = w) auto_view (if w \<noteq> 0 then {[SetAuto 0]} else {[]})
      (when_step (\<lambda>l. rs_auto l \<noteq> 0) [checked (\<lambda>l. set_autorestart e l 0)])" for w
    by (rule follows_when_known [OF _ set0]) simp
  have w: "follows (\<lambda>l. rs_auto l = w) auto_view {if w = 0 then [] else [SetAuto 0]}
      (run_steps [when_step (\<lambda>l. rs_auto l \<noteq> 0) [checked (\<lambda>l. set_autorestart e l 0)]])" for w
    using follows_Cons [OF when0 [of w] follows_Nil] by (auto simp del: run_steps.simps split: if_splits)
  have "obeys (read_autorestart e l) (\<lambda>r t. \<exists>w. goes auto_view {[ReadAuto w]} r t \<and> lands (\<lambda>l. rs_auto l = w) r)" for l
    unfolding read_autorestart_def with_handle_def get_local_def by (auto intro!: ev simp: goes_def)
  then have "paths auto_view (\<Union>w. seqs {[ReadAuto w]} {if w = 0 then [] else [SetAuto 0]}) (run_steps (disable_autorestart e))"
    unfolding disable_autorestart_def by (rule follows_choose [OF _ w]) auto
  then show ?thesis by (simp add: switched_off_def)
qed

lemma paths_pass: "paths auto_view (\<Union>w. {switched_off w}) (run_steps (restart_pass e))"
proof -
  have "paths auto_view (seqs {[]} (seqs (\<Union>w. {switched_off w}) (seqs {[]} {[]}))) (run_steps
      ([get_proxy_status e, stop_if (\<lambda>l. \<not> rs_status l) Failed,
       plain (\<lambda>l. bnd (tsapi_virtio_blocks_count e (rpcs_ta (rs_host l))) (\<lambda>n. ret (l\<lparr>rs_devs := n\<rparr>))), take_drivers e] @
       disable_autorestart e @ restart_proxy e @ [give_drivers e]))"
    by (intro follows_append paths_disable paths_quiet) (auto intro!: ln aq simp: restart_proxy_def)
  then show ?thesis by (simp add: restart_pass_def)
qed

lemma paths_restart:
  "paths auto_view (\<Union>m. passes m)
    (run_steps (restart_params e @ [for_each (\<lambda>l. [0..<unat (rs_iter l)]) (\<lambda>_. restart_pass e)]))"
proof -
  have "paths auto_view (\<Union>ys \<in> range (\<lambda>m. [0..<m]). prods (\<lambda>_. \<Union>w. {switched_off w}) ys)
      (for_each (\<lambda>l. [0..<unat (rs_iter l)]) (\<lambda>_. restart_pass e))"
    by (intro follows_for_each paths_pass) auto
  then have "paths auto_view (seqs {[]} (seqs (\<Union>m. passes m) {[]}))
    (run_steps (restart_params e @ [for_each (\<lambda>l. [0..<unat (rs_iter l)]) (\<lambda>_. restart_pass e)]))"
    by (intro follows_append follows_Cons follows_Nil paths_quiet) (auto intro!: ln aq simp: restart_params_def passes_def)
  then show ?thesis by simp
qed

text \<open>The value read last, and the value the process is left with.\<close>

fun read_step :: "auto_step \<Rightarrow> 32 word \<Rightarrow> 32 word" where
  "read_step (ReadAuto w) v = w"
| "read_step (SetAuto n) v = v"

fun set_step :: "auto_step \<Rightarrow> nat \<Rightarrow> nat" where
  "set_step (ReadAuto w) v = v"
| "set_step (SetAuto n) v = n"

definition last_read :: "'w te_env \<Rightarrow> auto_step list \<Rightarrow> 32 word" where
  "last_read e us = fold read_step us (stale_word e)"

definition auto_inv :: "'w te_env \<Rightarrow> restart_locals \<Rightarrow> event list \<Rightarrow> bool" where
  "auto_inv e l t \<longleftrightarrow> rs_auto l = last_read e (in_trace auto_view t) \<and>
     (rs_handle l = None \<longrightarrow> in_trace auto_view t = [])"

abbreviation auto_vars :: "restart_locals \<Rightarrow> 32 word \<times> tsapi_blkproxy_handle option" where
  "auto_vars l \<equiv> (rs_auto l, rs_handle l)"

lemma keeps_idle: "idle auto_view auto_view auto_vars f \<Longrightarrow> keeps (auto_inv e) f"
  unfolding idle_def keeps_def
  by (intro allI impI, drule spec, erule obeys_weaken) (auto simp: auto_inv_def)

lemma idle_auto_steps:
  "idle auto_view auto_view auto_vars (get_proxy_status e)"
  "f \<in> set (keep_driver e j) \<Longrightarrow> idle auto_view auto_view auto_vars f"
  unfolding get_proxy_status_def keep_driver_def with_handle_def get_local_def tsapi_blkproxy_get_status_def
  by (auto simp: idle_def te_vec_append_str_def intro!: ev)

lemma keeps_pass: "f \<in> set (restart_pass e) \<Longrightarrow> keeps (auto_inv e) f"
proof -
  have sets: "keeps (auto_inv e) (checked (\<lambda>l. set_autorestart e l 0))"
    unfolding keeps_def set_autorestart_def with_handle_def get_local_def
    by (auto intro!: ev simp: auto_inv_def last_read_def)
  have reads: "keeps (auto_inv e) (read_autorestart e)"
    unfolding keeps_def read_autorestart_def with_handle_def get_local_def
    by (auto intro!: ev simp: auto_inv_def last_read_def split: if_splits)
  have "idle auto_view auto_view auto_vars f" if "f \<in> set (restart_proxy e)" for f
    using that unfolding restart_proxy_def by (auto intro!: idl idle_auto_steps(1) aq)
  moreover have "idle auto_view auto_view auto_vars (take_drivers e)"
    unfolding take_drivers_def by (auto intro!: idl aq intro: idle_auto_steps(2))
  moreover have "idle auto_view auto_view auto_vars (give_drivers e)"
    unfolding give_drivers_def by (auto intro!: idl aq) (auto simp: idle_def intro!: ev)
  moreover have "idle auto_view auto_view auto_vars
      (plain (\<lambda>l. bnd (tsapi_virtio_blocks_count e (rpcs_ta (rs_host l))) (\<lambda>n. ret (l\<lparr>rs_devs := n\<rparr>))))"
    by (auto intro!: idl aq)
  ultimately show "f \<in> set (restart_pass e) \<Longrightarrow> keeps (auto_inv e) f"
    unfolding restart_pass_def disable_autorestart_def
    by (auto intro!: kp reads sets intro: keeps_idle idle_auto_steps(1))
qed

lemma idle_params: "f \<in> set (restart_params e) \<Longrightarrow> idle auto_view auto_view rs_auto f"
proof -
  have "idle auto_view auto_view rs_auto (checked_out (\<lambda>l. bnd (tsapi_blkproxy_handle_init e (Some (rs_arm l)) None None)
      (\<lambda>(rc, h). ret (rc, l\<lparr>rs_handle := h\<rparr>))))"
    unfolding idle_def by (auto intro!: ev leaves_noneD [OF av.handle_init])
  then show "f \<in> set (restart_params e) \<Longrightarrow> idle auto_view auto_view rs_auto f"
    unfolding restart_params_def by (auto intro!: idl aq)
qed

lemma auto_inv_prefix:
  "in_trace auto_view t = [] \<Longrightarrow> auto_inv e l (t @ t') \<longleftrightarrow> auto_inv e l t'"
  "in_trace auto_view t = [] \<Longrightarrow> auto_inv e l t \<longleftrightarrow> rs_auto l = stale_word e"
  by (simp_all add: auto_inv_def last_read_def)

lemma restart_body_inv:
  "obeys (run_steps (restart_params e @ [for_each (\<lambda>l. [0..<unat (rs_iter l)]) (\<lambda>_. restart_pass e)]) (restart_locals0 e))
     (\<lambda>r t. \<exists>v l. r = Val (v, l) \<and> auto_inv e l t)"
proof -
  have "keeps (auto_inv e) (for_each (\<lambda>l. [0..<unat (rs_iter l)]) (\<lambda>_. restart_pass e))"
    by (rule keeps_for_each) (rule keeps_pass)
  from keeps_run_steps [where I = "auto_inv e", of "[_]", OF _ _] this
  have loop: "obeys (run_steps [for_each (\<lambda>l. [0..<unat (rs_iter l)]) (\<lambda>_. restart_pass e)] l)
      (\<lambda>r t'. \<exists>v l'. r = Val (v, l') \<and> auto_inv e l' (t @ t'))" if "auto_inv e l t" for l t
    using that by fastforce
  have loop0: "obeys (run_steps [for_each (\<lambda>l. [0..<unat (rs_iter l)]) (\<lambda>_. restart_pass e)] l)
      (\<lambda>r t'. \<exists>v l'. r = Val (v, l') \<and> auto_inv e l' t')" if "rs_auto l = stale_word e" for l
    using loop [of l "[]"] that by (simp add: auto_inv_def last_read_def del: run_steps.simps)
  show ?thesis
    by (rule obeys_steps_append, rule obeys_bnd, rule obeys_weaken [OF idle_run_steps [OF idle_params]])
       (auto intro!: obeys_ret loop0 simp: auto_inv_prefix restart_locals0_def simp del: run_steps.simps)
qed

text \<open>The values that are consistent with what was set, from a first value on.\<close>

fun coherent :: "nat \<Rightarrow> auto_step list \<Rightarrow> bool" where
  "coherent v [] \<longleftrightarrow> True"
| "coherent v (ReadAuto w # us) \<longleftrightarrow> unat w = v \<and> coherent v us"
| "coherent v (SetAuto n # us) \<longleftrightarrow> coherent n us"

definition restored :: "'w te_env \<Rightarrow> auto_step list \<Rightarrow> auto_step list" where
  "restored e us = (if last_read e us = 0 then [] else [SetAuto (unat (last_read e us))])"

definition value_left :: "'w te_env \<Rightarrow> nat \<Rightarrow> nat \<Rightarrow> nat" where
  "value_left e m v =
     (if m = 0 then (if stale_word e = 0 then v else unat (stale_word e)) else if m = 1 then v else 0)"

lemma passes_simps:
  "passes 0 = {[]}" "passes (Suc m) = (\<Union>w. (@) (switched_off w) ` passes m)"
proof -
  have "prods X [k..<k + m] = prods X [0..<m]" if "\<And>i j. X i = X j" for X :: "nat \<Rightarrow> 'a list set" and k m
  proof (induction m arbitrary: k)
    case (Suc m)
    have "[k..<k + Suc m] = k # [Suc k..<Suc k + m]" "[0..<Suc m] = 0 # [Suc 0..<Suc 0 + m]"
      by (simp_all add: upt_conv_Cons)
    then show ?case using Suc [of "Suc k"] Suc [of "Suc 0"] that [of k 0] by simp
  qed simp
  from this [of "\<lambda>_. \<Union>w. {switched_off w}" "Suc 0"]
  show "passes (Suc m) = (\<Union>w. (@) (switched_off w) ` passes m)"
    by (auto simp: passes_def upt_conv_Cons seqs_def simp del: upt_Suc)
qed (simp add: passes_def)

text \<open>From the second pass on the value is read as 0.\<close>

lemma passes_zero:
  "us \<in> passes m \<Longrightarrow> coherent 0 (us @ zs) \<Longrightarrow>
   coherent 0 zs \<and> fold set_step us 0 = 0 \<and> fold read_step us 0 = 0"
proof (induction m arbitrary: us)
  case (Suc m)
  then show ?case by (fastforce simp: passes_simps switched_off_def unat_eq_zero split: if_splits)
qed (simp add: passes_simps)

lemma value_left_passes:
  assumes "us \<in> passes m" and "coherent v (us @ restored e us)"
  shows "fold set_step (us @ restored e us) v = value_left e m v"
proof (cases m)
  case 0
  with assms show ?thesis
    by (simp add: passes_simps restored_def last_read_def value_left_def)
next
  case (Suc k)
  with assms(1) obtain w zs where us: "us = switched_off w @ zs" and zs: "zs \<in> passes k"
    by (auto simp: passes_simps)
  from assms(2) have v: "v = unat w" by (simp add: us switched_off_def)
  from assms(2) have coh: "coherent 0 (zs @ restored e us)"
    by (auto simp: us switched_off_def split: if_splits)
  note zero = passes_zero [OF zs coh]
  show ?thesis
  proof (cases k)
    case 0
    with zs Suc v show ?thesis
      by (auto simp: us passes_simps switched_off_def restored_def last_read_def value_left_def unat_eq_zero)
  next
    case (Suc k')
    with zs have "fold read_step zs w = fold read_step zs 0"
      by (auto simp: passes_simps switched_off_def)
    with zero have "restored e us = []"
      by (simp add: us restored_def last_read_def switched_off_def)
    with zero v Suc \<open>m = Suc k\<close> show ?thesis
      by (simp add: us switched_off_def value_left_def)
  qed
qed

lemma restart_cleanup_sets:
  "obeys (restart_cleanup e l) (\<lambda>r t.
     in_trace auto_view t = (if rs_auto l = 0 then [] else [SetAuto (unat (rs_auto l))]) \<or>
     rs_handle l = None \<and> in_trace auto_view t = [] \<and> (\<forall>b. r \<noteq> Val b))"
  unfolding restart_cleanup_def set_autorestart_def with_handle_def get_local_def
  by (auto intro!: ev)

text \<open>What the test leaves in the view: the beginning of its passes, and the setting restored from what was
  read last; nothing at all when there is no handle. When it passed, also the value the process is left with.\<close>

definition autorestart_kept :: "'w te_env \<Rightarrow> verdict option outcome \<Rightarrow> auto_step list \<Rightarrow> bool" where
  "autorestart_kept e r xs \<longleftrightarrow>
     (\<exists>us. (\<exists>m. \<exists>ys \<in> passes m. prefix us ys) \<and> (xs = us @ restored e us \<or> us = [] \<and> xs = [])) \<and>
     (r = Val None \<longrightarrow> (\<exists>m. \<exists>us \<in> passes m. xs = us @ restored e us \<and>
        (\<forall>v. coherent v xs \<longrightarrow> fold set_step xs v = value_left e m v)))"

lemma autorestart_keptI:
  assumes "goes auto_view (\<Union>m. passes m) (Val (v, l)) t" and "r = Val None \<longrightarrow> v = None"
  shows "autorestart_kept e r (in_trace auto_view t @ restored e (in_trace auto_view t))"
    and "r \<noteq> Val None \<Longrightarrow> in_trace auto_view t = [] \<Longrightarrow> autorestart_kept e r []"
proof -
  from assms(1) have ys: "\<exists>m. \<exists>ys \<in> passes m. prefix (in_trace auto_view t) ys" by (auto simp: goes_def)
  from assms have pass: "\<exists>m. in_trace auto_view t \<in> passes m" if "r = Val None" using that by (auto simp: goes_def)
  show "autorestart_kept e r (in_trace auto_view t @ restored e (in_trace auto_view t))"
    unfolding autorestart_kept_def using ys pass value_left_passes by metis
  show "r \<noteq> Val None \<Longrightarrow> in_trace auto_view t = [] \<Longrightarrow> autorestart_kept e r []"
    unfolding autorestart_kept_def using ys by (intro conjI exI [of _ "[] :: auto_step list"]) auto
qed

lemma auto_restored:
  "auto_inv e l t \<Longrightarrow> (if rs_auto l = 0 then [] else [SetAuto (unat (rs_auto l))]) = restored e (in_trace auto_view t)"
  by (auto simp: auto_inv_def restored_def)

lemma restart_tail:
  assumes "goes auto_view (\<Union>m. passes m) (Val (v, l)) t" and "auto_inv e l t"
  shows "obeys (bnd (restart_cleanup e l) (\<lambda>failed. bnd (test_end_specific e) (\<lambda>rc.
        ret (if failed \<or> rc \<noteq> 0 then Some Failed else v))))
      (\<lambda>r t'. autorestart_kept e r (in_trace auto_view (t @ t')))"
proof -
  have "obeys (bnd (restart_cleanup e l) (\<lambda>failed. bnd (test_end_specific e) (\<lambda>rc.
        ret (if failed \<or> rc \<noteq> 0 then Some Failed else v))))
      (\<lambda>r t'. (r = Val None \<longrightarrow> v = None) \<and>
         (in_trace auto_view t' = (if rs_auto l = 0 then [] else [SetAuto (unat (rs_auto l))]) \<or>
          rs_handle l = None \<and> in_trace auto_view t' = [] \<and> r \<noteq> Val None))"
    by (rule obeys_bnd, rule obeys_weaken [OF restart_cleanup_sets])
       (auto intro!: obeys_bnd obeys_ret leaves_noneD [OF quiet_auto_drivers(4)] split: if_splits)
  then show ?thesis unfolding auto_restored [OF assms(2)]
  proof (rule obeys_weaken, elim conjE disjE)
    fix r :: "verdict option outcome" and t' assume "r = Val None \<longrightarrow> v = None" and t': "in_trace auto_view t' = restored e (in_trace auto_view t)"
    from autorestart_keptI(1) [OF assms(1) this(1)] show "autorestart_kept e r (in_trace auto_view (t @ t'))"
      by (simp add: t')
  next
    fix r :: "verdict option outcome" and t' assume "rs_handle l = None" and r: "r = Val None \<longrightarrow> v = None" "r \<noteq> Val None" and t': "in_trace auto_view t' = []"
    with assms(2) have "in_trace auto_view t = []" by (simp add: auto_inv_def)
    from autorestart_keptI(2) [OF assms(1) r this] this t' show "autorestart_kept e r (in_trace auto_view (t @ t'))" by simp
  qed
qed

text \<open>
  C21. The restarting test and the automatic restart of the process. In every pass it reads the setting and
  switches it off when it is on; at the end, whichever way it got there, it sets what it read last, or, when it read
  nothing, what the variable happens to hold. So with one pass the process is left with the setting it had, but with
  more the setting is lost: it was read as 0 in the last pass, and the process is left without automatic restart.
\<close>

theorem restart_autorestart:
  "obeys (restart_blk_proxy_main e) (\<lambda>r t. autorestart_kept e r (in_trace auto_view t))"
proof -
  have "obeys (run_steps (restart_params e @ [for_each (\<lambda>l. [0..<unat (rs_iter l)]) (\<lambda>_. restart_pass e)])
      (restart_locals0 e)) (\<lambda>r t. goes auto_view (\<Union>m. passes m) r t \<and> (\<exists>v l. r = Val (v, l) \<and> auto_inv e l t))"
    by (rule obeys_conj [OF followsD [OF paths_restart] restart_body_inv]) simp_all
  then show ?thesis unfolding restart_blk_proxy_main_def run_main_def
    by (intro obeys_bnd, elim obeys_weaken) (auto intro!: restart_tail simp del: in_trace_simps)
qed

end
