(* ===== verification/Test_Fs.thy ===== *)
theory Test_Fs
  imports Test_Config
begin

text \<open>
  The tests of file systems: \<open>blk-proxy/fs/\<close>, the benchmarks on a mounted file system and the
  prologue and epilogue that make, mount and unmount it; \<open>blk-proxy/mke2fs/\<close>; \<open>blk-proxy/xfs/\<close>.
\<close>

section \<open>The benchmarks\<close>

text \<open>
  The four benchmarks differ in the tool, its options and the timeout. Their variables are the
  same up to the type of the options; pointers are NULL (\<open>None\<close>) until they are set.
\<close>

record 'o bench_locals =
  bn_rpcs :: "rcf_rpc_server option"
  bn_dir :: "string option"
  bn_factory :: handle
  bn_app :: "tool_app option"
  bn_opt :: 'o

definition bench_locals0 :: "'o \<Rightarrow> 'o bench_locals" where
  "bench_locals0 opt = \<lparr>bn_rpcs = None, bn_dir = None, bn_factory = 0, bn_app = None, bn_opt = opt\<rparr>"

definition bench_host :: "'w te_env \<Rightarrow> ('w, 'o bench_locals) step" where
  "bench_host e = plain (\<lambda>l. bnd (test_get_rpcs e ''Agt_host'') (\<lambda>r. ret (l\<lparr>bn_rpcs := Some r\<rparr>)))"

definition bench_dir :: "'w te_env \<Rightarrow> ('w, 'o bench_locals) step" where
  "bench_dir e = plain (\<lambda>l. bnd (tsapi_get_mount_dir_name e ''Agt_host'' 0) (\<lambda>d. ret (l\<lparr>bn_dir := Some d\<rparr>)))"

text \<open>An option set from a test parameter, and one set from the variables.\<close>

definition read_opt :: "('w, 'x) te \<Rightarrow> ('x \<Rightarrow> 'o \<Rightarrow> 'o) \<Rightarrow> ('w, 'o bench_locals) step" where
  "read_opt get upd = plain (\<lambda>l. bnd get (\<lambda>v. ret (l\<lparr>bn_opt := upd v (bn_opt l)\<rparr>)))"

definition set_working_dir :: "(string option \<Rightarrow> 'o \<Rightarrow> 'o) \<Rightarrow> ('w, 'o bench_locals) step" where
  "set_working_dir upd = plain (\<lambda>l. ret (l\<lparr>bn_opt := upd (bn_dir l) (bn_opt l)\<rparr>))"

definition bench_factory :: "'w te_env \<Rightarrow> ('w, 'o bench_locals) step" where
  "bench_factory e = checked_out (\<lambda>l. bnd (get_local (bn_rpcs l)) (\<lambda>rpcs.
     bnd (te_call e (Job (JobFactoryCreate rpcs))) (\<lambda>r.
       ret (r_rc r, if r_rc r = 0 then l\<lparr>bn_factory := handle_of 0 r\<rparr> else l))))"

text \<open>\<open>create\<close> fills the handle of the tool, also when attaching the filters failed, and may leave
  the options changed.\<close>

definition bench_create ::
    "(handle \<Rightarrow> 'o \<Rightarrow> string option \<Rightarrow> ('w, te_errno \<times> tool_app option \<times> 'o) te) \<Rightarrow> ('w, 'o bench_locals) step" where
  "bench_create create = checked_out (\<lambda>l.
     bnd (create (bn_factory l) (bn_opt l) (bn_dir l)) (\<lambda>(rc, app, opt). ret (rc, l\<lparr>bn_app := app, bn_opt := opt\<rparr>)))"

text \<open>A call with the handle of the tool and the options.\<close>

definition with_app :: "('o \<Rightarrow> tool_app \<Rightarrow> ('w, te_errno) te) \<Rightarrow> ('w, 'o bench_locals) step" where
  "with_app f = checked (\<lambda>l. bnd (get_local (bn_app l)) (f (bn_opt l)))"

definition destroy_tool ::
    "'w te_env \<Rightarrow> (tool_app option \<Rightarrow> ('w, te_errno) te) \<Rightarrow> 'o bench_locals \<Rightarrow> ('w, te_errno) te list" where
  "destroy_tool e destroy l =
     [destroy (bn_app l), ignored (te_call e (Job (JobFactoryDestroy (bn_factory l))))]"

text \<open>The first device is taken also when there is none; reading it is undefined then. A mount
  directory that is not known is printed as NULL.\<close>

definition recreate_fs :: "'w te_env \<Rightarrow> 'o bench_locals \<Rightarrow> ('w, te_errno) te" where
  "recreate_fs e l =
     bnd (tsapi_get_devices e ''Agt_host'') (\<lambda>(rc, blocks).
     bnd (get_local (bn_rpcs l)) (\<lambda>rpcs.
     bnd (get_local (case blocks of Some (b # _) \<Rightarrow> Some b | _ \<Rightarrow> None)) (\<lambda>b.
     bnd (fs_ts_recreate_filesystem e rpcs b (ptr_str (bn_dir l))) (\<lambda>rc'.
       ret (if rc \<noteq> 0 then rc else rc')))))"

text \<open>The statements in front of the tool, its creation, its use; and the cleanup.\<close>

definition bench_body ::
    "'w te_env \<Rightarrow> ('w, 'o bench_locals) step list \<Rightarrow>
     (handle \<Rightarrow> 'o \<Rightarrow> string option \<Rightarrow> ('w, te_errno \<times> tool_app option \<times> 'o) te) \<Rightarrow>
     ('o \<Rightarrow> tool_app \<Rightarrow> ('w, te_errno) te) list \<Rightarrow> ('w, 'o bench_locals) step list" where
  "bench_body e opts create uses =
     ([bench_host e, bench_dir e] @ opts) @ bench_factory e # bench_create create # map with_app uses"

definition bench_cleanup ::
    "'w te_env \<Rightarrow> (tool_app option \<Rightarrow> ('w, te_errno) te) \<Rightarrow> 'o bench_locals \<Rightarrow> ('w, bool) te" where
  "bench_cleanup e destroy l = clean_all (destroy_tool e destroy l @ [recreate_fs e l])"

subsection \<open>\<open>fs/dbench.c\<close>\<close>

definition dbench_opts :: "'w te_env \<Rightarrow> ('w, tsapi_dbench_opt bench_locals) step list" where
  "dbench_opts e =
     [set_working_dir (\<lambda>d opt. opt\<lparr>db_working_dir := d\<rparr>),
      read_opt (test_param_num e ''numclients'') (\<lambda>v opt. opt\<lparr>db_numclients := Some v\<rparr>)]"

definition TSAPI_DBENCH_DEFAULT_RUNTIME :: int where
  "TSAPI_DBENCH_DEFAULT_RUNTIME = 600"

definition dbench_main :: "'w te_env \<Rightarrow> ('w, verdict option) te" where
  "dbench_main e = run_main
     (bench_body e (dbench_opts e) (\<lambda>f opt _. tsapi_dbench_create e f opt)
        [\<lambda>_. tsapi_dbench_start e, \<lambda>_ app. tsapi_dbench_wait e app (2 * TSAPI_DBENCH_DEFAULT_RUNTIME * 1000),
         \<lambda>_. tsapi_dbench_print_results e])
     (bench_cleanup e (tsapi_dbench_destroy e)) (test_end_specific e) (bench_locals0 tsapi_dbench_default_opt)"

subsection \<open>\<open>fs/fsmark.c\<close>\<close>

definition FSMARK_TIMEOUT_S :: int where
  "FSMARK_TIMEOUT_S = 120"

definition fsmark_opts :: "'w te_env \<Rightarrow> ('w, tsapi_fsmark_opt bench_locals) step list" where
  "fsmark_opts e =
     [set_working_dir (\<lambda>d opt. opt\<lparr>fm_working_dir := d\<rparr>),
      read_opt (test_param_num e ''numfiles'') (\<lambda>v opt. opt\<lparr>fm_numfiles := Some v\<rparr>),
      read_opt (test_param_num e ''file_size'') (\<lambda>v opt. opt\<lparr>fm_file_size := Some v\<rparr>)]"

definition fsmark_main :: "'w te_env \<Rightarrow> ('w, verdict option) te" where
  "fsmark_main e = run_main
     (bench_body e (fsmark_opts e)
        (\<lambda>f opt _. bnd (tsapi_fsmark_create e f opt) (\<lambda>(rc, app). ret (rc, app, opt)))
        [\<lambda>_. tsapi_fsmark_start e, \<lambda>_ app. tsapi_fsmark_wait e app (FSMARK_TIMEOUT_S * 1000)])
     (bench_cleanup e (tsapi_fsmark_destroy e)) (test_end_specific e) (bench_locals0 tsapi_fsmark_default_opt)"

subsection \<open>\<open>fs/compilebench.c\<close>\<close>

definition COMPILEBENCH_TIMEOUT_S :: int where
  "COMPILEBENCH_TIMEOUT_S = 1200"

definition compilebench_opts :: "'w te_env \<Rightarrow> ('w, tsapi_compilebench_opt bench_locals) step list" where
  "compilebench_opts e =
     [set_working_dir (\<lambda>d opt. opt\<lparr>cb_working_dir := d\<rparr>),
      read_opt (test_param_num e ''initial_dirs'') (\<lambda>v opt. opt\<lparr>cb_initial_dirs := Some v\<rparr>),
      read_opt (test_param_num e ''runs'') (\<lambda>v opt. opt\<lparr>cb_runs := Some v\<rparr>),
      read_opt (test_param_bool e ''makej'') (\<lambda>v opt. opt\<lparr>cb_makej := v\<rparr>)]"

definition compilebench_main :: "'w te_env \<Rightarrow> ('w, verdict option) te" where
  "compilebench_main e = run_main
     (bench_body e (compilebench_opts e) (\<lambda>f opt _. tsapi_compilebench_create e f opt)
        [\<lambda>_. tsapi_compilebench_start e, \<lambda>_ app. tsapi_compilebench_wait e app (COMPILEBENCH_TIMEOUT_S * 1000),
         \<lambda>_. tsapi_compilebench_print_results e])
     (bench_cleanup e (tsapi_compilebench_destroy e)) (test_end_specific e)
     (bench_locals0 tsapi_compilebench_default_opt)"

subsection \<open>\<open>fs/iozone.c\<close>\<close>

definition IOZONE_TIMEOUT_DEFAULT_S :: int where
  "IOZONE_TIMEOUT_DEFAULT_S = 6000"
definition IOZONE_TIMEOUT_MAX_S :: int where
  "IOZONE_TIMEOUT_MAX_S = 60000"

definition iozone_opts :: "'w te_env \<Rightarrow> ('w, tsapi_iozone_opt bench_locals) step list" where
  "iozone_opts e =
     [read_opt (test_param_str e ''record_size'') (\<lambda>v opt. opt\<lparr>iz_record_size := Some v\<rparr>),
      read_opt (test_param_str e ''file_size'') (\<lambda>v opt. opt\<lparr>iz_file_size := Some v\<rparr>)]"

definition iozone_timeout :: "tsapi_iozone_opt \<Rightarrow> int" where
  "iozone_timeout opt =
     (if iz_record_size opt \<noteq> Some ''4k'' then IOZONE_TIMEOUT_DEFAULT_S else IOZONE_TIMEOUT_MAX_S) * 1000"

text \<open>This test leaves the file system as it is.\<close>

definition iozone_main :: "'w te_env \<Rightarrow> ('w, verdict option) te" where
  "iozone_main e = run_main
     (bench_body e (iozone_opts e) (tsapi_iozone_create e)
        [\<lambda>_. tsapi_iozone_start e, \<lambda>opt app. tsapi_iozone_wait e app (iozone_timeout opt),
         \<lambda>_. tsapi_iozone_print_results e])
     (\<lambda>l. clean_all (destroy_tool e (tsapi_iozone_destroy e) l)) (test_end_specific e)
     (bench_locals0 tsapi_iozone_default_opt)"

section \<open>\<open>fs/prologue.c\<close> and \<open>fs/epilogue.c\<close>\<close>

text \<open>The devices of the host, NULL until they are found. An index past their count would be
  read through.\<close>

record disk_locals =
  dk_rpcs :: rcf_rpc_server
  dk_blocks :: "string list option"
  dk_dir :: string

definition disk_locals0 :: disk_locals where
  "disk_locals0 = \<lparr>dk_rpcs = null_rpcs, dk_blocks = None, dk_dir = []\<rparr>"

definition disk_host :: "'w te_env \<Rightarrow> ('w, disk_locals) step" where
  "disk_host e = plain (\<lambda>l. bnd (test_get_rpcs e ''Agt_host'') (\<lambda>r. ret (l\<lparr>dk_rpcs := r\<rparr>)))"

definition disk_blocks :: "'w te_env \<Rightarrow> ('w, disk_locals) step" where
  "disk_blocks e = checked_out (\<lambda>l.
     bnd (tsapi_get_devices e ''Agt_host'') (\<lambda>(rc, blocks). ret (rc, l\<lparr>dk_blocks := blocks\<rparr>)))"

definition block_at :: "string list option \<Rightarrow> nat \<Rightarrow> ('w, string) te" where
  "block_at blocks i = get_local (case blocks of None \<Rightarrow> None | Some bs \<Rightarrow> if i < length bs then Some (bs ! i) else None)"

definition disk_dir :: "'w te_env \<Rightarrow> ('w, disk_locals) step" where
  "disk_dir e = plain (\<lambda>l. bnd (tsapi_get_mount_dir_name e ''Agt_host'' 0) (\<lambda>d. ret (l\<lparr>dk_dir := d\<rparr>)))"

definition fs_prologue_main :: "'w te_env \<Rightarrow> ('w, verdict option) te" where
  "fs_prologue_main e = run_main
     [disk_host e, disk_blocks e,
      checked (\<lambda>l. bnd (block_at (dk_blocks l) 0) (\<lambda>b. fs_ts_create_filesystem e (dk_rpcs l) b)),
      disk_dir e,
      checked (\<lambda>l. tsapi_create_mount_dir e (dk_rpcs l) 0),
      checked (\<lambda>l. bnd (block_at (dk_blocks l) 0) (\<lambda>b. fs_ts_mount_filesystem e (dk_rpcs l) b (dk_dir l)))]
     (\<lambda>l. clean_all []) (test_end_specific e) disk_locals0"

definition fs_epilogue_main :: "'w te_env \<Rightarrow> ('w, verdict option) te" where
  "fs_epilogue_main e = run_main
     [disk_host e, disk_dir e,
      checked (\<lambda>l. fs_ts_umount_filesystem e (dk_rpcs l) (dk_dir l)),
      checked (\<lambda>l. tsapi_remove_mount_dir e (dk_rpcs l) 0)]
     (\<lambda>l. clean_all []) (test_end_specific e) disk_locals0"

section \<open>\<open>mke2fs/mke2fs.c\<close>\<close>

record mke2fs_locals = disk_locals +
  mf_factory :: handle
  mf_app :: handle
  mf_opt :: tapi_mke2fs_opt

definition mke2fs_host :: "'w te_env \<Rightarrow> ('w, mke2fs_locals) step" where
  "mke2fs_host e = plain (\<lambda>l. bnd (test_get_rpcs e ''Agt_host'') (\<lambda>r. ret (l\<lparr>dk_rpcs := r\<rparr>)))"

definition mke2fs_device :: "'w te_env \<Rightarrow> ('w, mke2fs_locals) step list" where
  "mke2fs_device e =
     [checked_out (\<lambda>l. bnd (tsapi_get_devices e ''Agt_host'') (\<lambda>(rc, blocks). ret (rc, l\<lparr>dk_blocks := blocks\<rparr>))),
      plain (\<lambda>l. bnd (block_at (dk_blocks l) 0) (\<lambda>b. ret (l\<lparr>mf_opt := (mf_opt l)\<lparr>mk_device := Some b\<rparr>\<rparr>)))]"

definition mke2fs_opts :: "'w te_env \<Rightarrow> ('w, mke2fs_locals) step list" where
  "mke2fs_opts e =
     [plain (\<lambda>l. bnd (test_param_num e ''block_size'') (\<lambda>v. ret (l\<lparr>mf_opt := (mf_opt l)\<lparr>mk_block_size := Some v\<rparr>\<rparr>))),
      plain (\<lambda>l. bnd (test_param_bool e ''use_journal'') (\<lambda>v. ret (l\<lparr>mf_opt := (mf_opt l)\<lparr>mk_use_journal := v\<rparr>\<rparr>))),
      plain (\<lambda>l. bnd (test_param_str e ''fs_type'') (\<lambda>v. ret (l\<lparr>mf_opt := (mf_opt l)\<lparr>mk_fs_type := Some v\<rparr>\<rparr>)))]"

definition mke2fs_factory :: "'w te_env \<Rightarrow> ('w, mke2fs_locals) step" where
  "mke2fs_factory e = checked_out (\<lambda>l. bnd (te_call e (Job (JobFactoryCreate (dk_rpcs l)))) (\<lambda>r.
     ret (r_rc r, if r_rc r = 0 then l\<lparr>mf_factory := handle_of 0 r\<rparr> else l)))"

definition MKE2FS_TIMEOUT_S :: int where
  "MKE2FS_TIMEOUT_S = 600"

definition mke2fs_do :: "'w te_env \<Rightarrow> ('w, mke2fs_locals) step" where
  "mke2fs_do e = checked_out (\<lambda>l.
     bnd (te_call e (Tool (Mke2fsDo (mf_factory l) (mf_opt l) (MKE2FS_TIMEOUT_S * 1000)))) (\<lambda>r.
       ret (r_rc r, l\<lparr>mf_app := handle_of 0 r\<rparr>)))"

definition mke2fs_check :: "'w te_env \<Rightarrow> ('w, mke2fs_locals) step" where
  "mke2fs_check e = checked (\<lambda>l.
     mke2fs_ts_check_fs e (mf_factory l) (mf_app l) (mk_fs_type (mf_opt l)) (ptr_str (mk_device (mf_opt l))) 2000)"

definition mke2fs_main :: "'w te_env \<Rightarrow> ('w, verdict option) te" where
  "mke2fs_main e = run_main
     (mke2fs_host e # mke2fs_device e @ mke2fs_opts e @ [mke2fs_factory e, mke2fs_do e, mke2fs_check e])
     (\<lambda>l. clean_all [call_rc e (Tool (Mke2fsDestroy (mf_app l))), ignored (te_call e (Job (JobFactoryDestroy (mf_factory l))))])
     (test_end_specific e)
     (disk_locals.extend disk_locals0 \<lparr>mf_factory = 0, mf_app = 0, mf_opt = mke2fs_defaults e\<rparr>)"

section \<open>\<open>xfs/\<close>\<close>

definition xfs_prologue_main :: "'w te_env \<Rightarrow> ('w, verdict option) te" where
  "xfs_prologue_main e = run_main
     [disk_host e,
      stop_if (\<lambda>_. getenv e ''XFS_TS_DIR'' = None) Failed,
      disk_blocks e,
      for_each (\<lambda>l. enumerate 0 (case dk_blocks l of None \<Rightarrow> [] | Some bs \<Rightarrow> bs)) (\<lambda>(i, b).
        [checked (\<lambda>l. xfs_test_suite_make_xfs e (dk_rpcs l) b),
         checked (\<lambda>l. tsapi_create_mount_dir e (dk_rpcs l) (int i))])]
     (\<lambda>l. clean_all []) (test_end_specific e) disk_locals0"

definition xfs_epilogue_main :: "'w te_env \<Rightarrow> ('w, verdict option) te" where
  "xfs_epilogue_main e = run_main
     [disk_host e, disk_blocks e,
      for_each (\<lambda>l. [0..<length (case dk_blocks l of None \<Rightarrow> [] | Some bs \<Rightarrow> bs)]) (\<lambda>i.
        [checked (\<lambda>l. tsapi_remove_mount_dir e (dk_rpcs l) (int i))])]
     (\<lambda>l. clean_all []) (test_end_specific e) disk_locals0"

text \<open>An even index gives the device under test, an odd one the scratch device.\<close>

definition prepare_xfs ::
    "'w te_env \<Rightarrow> xfs_test_suite \<Rightarrow> string \<Rightarrow> nat \<Rightarrow> ('w, te_errno \<times> xfs_test_suite) te" where
  "prepare_xfs e xfs block index =
     bnd (te_string_append e '''' (''/tmp/disk'' @ dec_of_nat index)) (\<lambda>(rc, str). if rc \<noteq> 0 then ret (rc, xfs) else
     bnd (mem e (Strdup block)) (\<lambda>rc. if rc \<noteq> 0 then ret (TE_ENOMEM, xfs) else
       ret (0, if index mod 2 = 0 then xfs\<lparr>xfs_test_dir := Some str, xfs_test_dev := Some block\<rparr>
               else xfs\<lparr>xfs_scratch_dir := Some str, xfs_scratch_dev := Some block\<rparr>)))"

record xfs_locals = disk_locals +
  xl_group :: string
  xl_name :: string
  xl_dir :: string
  xl_xfs :: xfs_test_suite

definition XFS_TEST_SUITE_DEFAULT :: xfs_test_suite where
  "XFS_TEST_SUITE_DEFAULT =
     \<lparr>xfs_job = 0, xfs_factory = 0, xfs_group = [], xfs_name = [], xfs_test_dev = None, xfs_test_dir = None,
      xfs_scratch_dev = None, xfs_scratch_dir = None\<rparr>"

definition XFS_TEST_TIMEOUT_S :: "32 word" where
  "XFS_TEST_TIMEOUT_S = 300"

definition xfs_params :: "'w te_env \<Rightarrow> ('w, xfs_locals) step list" where
  "xfs_params e =
     [plain (\<lambda>l. bnd (test_get_rpcs e ''Agt_host'') (\<lambda>r. ret (l\<lparr>dk_rpcs := r\<rparr>))),
      plain (\<lambda>l. bnd (test_param_str e ''group'') (\<lambda>v. ret (l\<lparr>xl_group := v\<rparr>))),
      plain (\<lambda>l. bnd (test_param_str e ''name'') (\<lambda>v. ret (l\<lparr>xl_name := v\<rparr>))),
      checked_out (\<lambda>l. bnd (te_call e (Cfg (CfgGet (agent_dir_inst ''Agt_host'')))) (\<lambda>r.
        ret (r_rc r, if r_rc r = 0 then l\<lparr>xl_dir := out_str r\<rparr> else l))),
      checked_out (\<lambda>l. bnd (tsapi_get_devices e ''Agt_host'') (\<lambda>(rc, blocks). ret (rc, l\<lparr>dk_blocks := blocks\<rparr>)))]"

text \<open>The number of devices; the loop runs at least twice.\<close>

definition blocks_count :: "'a disk_locals_scheme \<Rightarrow> nat" where
  "blocks_count l = (case dk_blocks l of None \<Rightarrow> 0 | Some bs \<Rightarrow> length bs)"

definition xfs_prepare :: "'w te_env \<Rightarrow> nat \<Rightarrow> ('w, xfs_locals) step list" where
  "xfs_prepare e i =
     [checked_out (\<lambda>l. bnd (block_at (dk_blocks l) i) (\<lambda>b.
        bnd (prepare_xfs e (xl_xfs l) b i) (\<lambda>(rc, xfs). ret (rc, l\<lparr>xl_xfs := xfs\<rparr>))))]"

definition xfs_run :: "'w te_env \<Rightarrow> ('w, xfs_locals) step list" where
  "xfs_run e =
     [checked_out (\<lambda>l. bnd (xfs_test_suite_init e (xl_xfs l) (dk_rpcs l) (xl_dir l) (xl_group l) (xl_name l))
        (\<lambda>(rc, xfs). ret (rc, l\<lparr>xl_xfs := xfs\<rparr>))),
      checked (\<lambda>l. xfs_test_suite_start e (xl_xfs l)),
      checked (\<lambda>l. xfs_test_suite_wait e (xl_xfs l) XFS_TEST_TIMEOUT_S)]"

definition xfs_main :: "'w te_env \<Rightarrow> ('w, verdict option) te" where
  "xfs_main e = run_main
     (xfs_params e @ stop_if (\<lambda>l. blocks_count l < 2) Skipped #
      for_each (\<lambda>l. [0..<max (blocks_count l) 2]) (xfs_prepare e) # xfs_run e)
     (\<lambda>l. clean_all [xfs_test_suite_destroy e (Some (xl_xfs l))]) (test_end_specific e)
     (disk_locals.extend disk_locals0
        \<lparr>xl_group = [], xl_name = [], xl_dir = [], xl_xfs = XFS_TEST_SUITE_DEFAULT\<rparr>)"

section \<open>The benchmarks: correctness\<close>

text \<open>Job factories and jobs, made and destroyed, and steps on the file system. Destroying NULL has no effect.\<close>

datatype tool_step = MadeFactory handle | FreedFactory handle | MadeJob handle | FreedJob handle | OnDisk fs_step

definition made_fac :: "handle \<Rightarrow> tool_step list" where
  "made_fac h = (if h = 0 then [] else [MadeFactory h])"

definition freed_fac :: "handle \<Rightarrow> tool_step list" where
  "freed_fac h = (if h = 0 then [] else [FreedFactory h])"

fun tool_steps :: "call \<Rightarrow> reply \<Rightarrow> tool_step list" where
  "tool_steps (Job (JobFactoryCreate _)) r = (if r_rc r = 0 then made_fac (handle_of 0 r) else [])"
| "tool_steps (Job (JobFactoryDestroy h)) r = freed_fac h"
| "tool_steps (Job (JobCreate _ _)) r = (if r_rc r = 0 then [MadeJob (handle_of 0 r)] else [])"
| "tool_steps (Job (JobDestroy h _)) r = [FreedJob h]"
| "tool_steps (Rpc _ (RpcSystem cmd)) r = [OnDisk (Shell cmd)]"
| "tool_steps (Tool (Mke2fsDo _ opt _)) r = [OnDisk (Mkfs (ptr_str (mk_device opt)))]"
| "tool_steps _ r = []"

definition tool_view :: "event \<Rightarrow> tool_step list" where
  "tool_view ev = tool_steps (fst ev) (snd ev)"

lemma tool_view_call [simp]: "tool_view (c, r) = tool_steps c r"
  by (simp add: tool_view_def)

interpretation tv: reader_blind tool_view
  by unfold_locales (auto elim!: reading.elims)

definition made_by :: "tool_app option \<Rightarrow> tool_step list" where
  "made_by app = (case app of None \<Rightarrow> [] | Some a \<Rightarrow> [MadeJob (app_job a)])"

definition freed_by :: "tool_app option \<Rightarrow> tool_step list" where
  "freed_by app = (case app of None \<Rightarrow> [] | Some a \<Rightarrow> [FreedJob (app_job a)])"

lemma tool_life_simps [simp]:
  "made_fac 0 = []" "freed_fac 0 = []" "made_by None = []" "freed_by None = []"
  "made_by (Some a) = [MadeJob (app_job a)]" "freed_by (Some a) = [FreedJob (app_job a)]"
  by (simp_all add: made_fac_def freed_fac_def made_by_def freed_by_def)

text \<open>
  What a test relies on of its tool: creating it makes one job, kept in the handle also when an error
  follows; using it makes and destroys nothing and leaves the file system alone; destroying it
  destroys the job.
\<close>

locale benchmark =
  fixes create :: "handle \<Rightarrow> 'o \<Rightarrow> string option \<Rightarrow> ('w, te_errno \<times> tool_app option \<times> 'o) te"
    and uses :: "('o \<Rightarrow> tool_app \<Rightarrow> ('w, te_errno) te) list"
    and destroy :: "tool_app option \<Rightarrow> ('w, te_errno) te"
  assumes create: "obeys (create f opt dir) (\<lambda>r t. (\<forall>v. r = Jump v \<longrightarrow> in_trace tool_view t = []) \<and>
      (\<forall>rc app opt'. r = Val (rc, app, opt') \<longrightarrow> in_trace tool_view t = made_by app \<and> (rc = 0 \<longrightarrow> app \<noteq> None)))"
    and uses: "use \<in> set uses \<Longrightarrow> leaves_none tool_view (use opt a)"
    and destroy: "obeys (destroy app) (\<lambda>r t. in_trace tool_view t = freed_by app \<and> (\<exists>rc. r = Val rc))"
begin

lemma idle_uses: "g \<in> set (map with_app uses) \<Longrightarrow> idle tool_view tool_view (\<lambda>l. (bn_factory l, bn_app l)) g"
  unfolding with_app_def get_local_def by (auto intro!: idl ln intro: uses)

lemma body:
  assumes "\<And>g. g \<in> set opts \<Longrightarrow> idle tool_view tool_view (\<lambda>l. (bn_factory l, bn_app l)) g"
  shows "obeys (run_steps (bench_body e opts create uses) (bench_locals0 opt)) (\<lambda>r t. \<exists>v l. r = Val (v, l) \<and>
    in_trace tool_view t = made_fac (bn_factory l) @ made_by (bn_app l) \<and> (v = None \<longrightarrow> bn_app l \<noteq> None))"
proof -
  let ?V = "\<lambda>l :: 'o bench_locals. (bn_factory l, bn_app l)"
  have pre: "idle tool_view tool_view ?V g" if "g \<in> set ([bench_host e, bench_dir e] @ opts)" for g
    using that assms by (auto simp: bench_host_def bench_dir_def intro!: idl tv.readers)
  have rest: "obeys (run_steps (bench_create create # map with_app uses) l) (\<lambda>r t. \<exists>v l'. r = Val (v, l') \<and>
      made_fac (bn_factory l) @ in_trace tool_view t = made_fac (bn_factory l') @ made_by (bn_app l') \<and>
      (v = None \<longrightarrow> bn_app l' \<noteq> None))" if "bn_app l = None" for l
    unfolding bench_create_def using that
    by (auto intro!: ev obeys_weaken [OF create] obeys_weaken [OF idle_run_steps [OF idle_uses]])
  have fac: "obeys (attempt l (bench_factory e l)) (\<lambda>r t. \<exists>v l'. r = Val (v, l') \<and> bn_app l' = None \<and>
      in_trace tool_view t = made_fac (bn_factory l'))" if "bn_app l = None" "bn_factory l = 0" for l
    unfolding bench_factory_def get_local_def using that by (auto intro!: ev)
  have "obeys (run_steps (bench_factory e # bench_create create # map with_app uses) l) (\<lambda>r t. \<exists>v l'. r = Val (v, l') \<and>
      in_trace tool_view t = made_fac (bn_factory l') @ made_by (bn_app l') \<and> (v = None \<longrightarrow> bn_app l' \<noteq> None))"
    if "bn_app l = None" "bn_factory l = 0" for l
    by (rule obeys_steps_Cons, rule obeys_bnd, rule obeys_weaken [OF fac [OF that]])
       (auto intro!: obeys_ret obeys_weaken [OF rest] simp del: run_steps.simps)
  then show ?thesis unfolding bench_body_def
    by (intro obeys_steps_append, intro obeys_bnd, rule_tac obeys_weaken [OF idle_run_steps [OF pre]])
       (auto intro!: obeys_ret intro: obeys_weaken simp: bench_locals0_def simp del: run_steps.simps)
qed

end

text \<open>The four tools rest on the functions they share.\<close>

lemma tool_create_common:
  "obeys (ts_tool_create_common e bin res f binds) (\<lambda>r t. \<exists>rc app. r = Val (rc, app) \<and>
     in_trace tool_view t = made_by app \<and> (rc = 0 \<longleftrightarrow> app \<noteq> None))"
  unfolding ts_tool_create_common_def by (auto intro!: ev)

lemma tool_attach:
  "obeys (attach_results e re a) (\<lambda>r t. \<exists>rc b. r = Val (rc, Some b) \<and>
     in_trace tool_view t = [] \<and> app_job b = app_job a)"
  unfolding attach_results_def Let_def by (auto intro!: ev)

lemma tool_uses:
  "leaves_none tool_view (clear_and_start e a)" "leaves_none tool_view (ts_tool_wait e a n)"
  "leaves_none tool_view (print_results e n a)" "leaves_none tool_view (tsapi_fsmark_start e a)"
  unfolding clear_and_start_def ts_tool_wait_def print_results_def tsapi_fsmark_start_def by (auto intro!: ln)

lemma tool_destroy:
  "obeys (ts_tool_destroy e n app) (\<lambda>r t. in_trace tool_view t = freed_by app \<and> (\<exists>rc. r = Val rc))"
  unfolding ts_tool_destroy_def by (cases app) (auto intro!: ev)

lemma deref_obeys: "(\<And>x. T (Val x) []) \<Longrightarrow> T (Jump Failed) [] \<Longrightarrow> obeys (deref p) T"
  unfolding deref_def by (cases p) (auto intro!: ev)

lemma quiet_sources: "leaves_none tool_view (get_compilebench_sources e ta opt)"
  "leaves_none tool_view (get_client_txt_location e ta opt2)"
  unfolding get_compilebench_sources_def get_client_txt_location_def by (auto intro!: ln)

interpretation dbench_test: benchmark "\<lambda>f opt _. tsapi_dbench_create e f opt"
    "[\<lambda>_. tsapi_dbench_start e, \<lambda>_ app. tsapi_dbench_wait e app (2 * TSAPI_DBENCH_DEFAULT_RUNTIME * 1000),
      \<lambda>_. tsapi_dbench_print_results e]" "tsapi_dbench_destroy e" for e :: "'w te_env"
proof
  show "obeys (tsapi_dbench_create e f opt) (\<lambda>r t. (\<forall>v. r = Jump v \<longrightarrow> in_trace tool_view t = []) \<and>
      (\<forall>rc app opt'. r = Val (rc, app, opt') \<longrightarrow> in_trace tool_view t = made_by app \<and> (rc = 0 \<longrightarrow> app \<noteq> None)))"
    for f opt dir
    unfolding tsapi_dbench_create_def tsapi_dbench_create_common_def Let_def
    by (auto intro!: ev deref_obeys leaves_noneD [OF quiet_sources(2)] obeys_weaken [OF tool_create_common]
        obeys_weaken [OF tool_attach])
qed (auto simp: tsapi_dbench_start_def tsapi_dbench_wait_def tsapi_dbench_print_results_def tsapi_dbench_destroy_def
  tool_uses tool_destroy [simplified])

interpretation compilebench_test: benchmark "\<lambda>f opt _. tsapi_compilebench_create e f opt"
    "[\<lambda>_. tsapi_compilebench_start e, \<lambda>_ app. tsapi_compilebench_wait e app (COMPILEBENCH_TIMEOUT_S * 1000),
      \<lambda>_. tsapi_compilebench_print_results e]" "tsapi_compilebench_destroy e" for e :: "'w te_env"
proof
  show "obeys (tsapi_compilebench_create e f opt) (\<lambda>r t. (\<forall>v. r = Jump v \<longrightarrow> in_trace tool_view t = []) \<and>
      (\<forall>rc app opt'. r = Val (rc, app, opt') \<longrightarrow> in_trace tool_view t = made_by app \<and> (rc = 0 \<longrightarrow> app \<noteq> None)))"
    for f opt dir
    unfolding tsapi_compilebench_create_def tsapi_compilebench_create_common_def Let_def
    by (auto intro!: ev deref_obeys leaves_noneD [OF quiet_sources(1)] obeys_weaken [OF tool_create_common]
        obeys_weaken [OF tool_attach])
qed (auto simp: tsapi_compilebench_start_def tsapi_compilebench_wait_def tsapi_compilebench_print_results_def
  tsapi_compilebench_destroy_def tool_uses tool_destroy [simplified])

interpretation fsmark_test: benchmark
    "\<lambda>f opt _. bnd (tsapi_fsmark_create e f opt) (\<lambda>(rc, app). ret (rc, app, opt))"
    "[\<lambda>_. tsapi_fsmark_start e, \<lambda>_ app. tsapi_fsmark_wait e app (FSMARK_TIMEOUT_S * 1000)]"
    "tsapi_fsmark_destroy e" for e :: "'w te_env"
proof
  show "obeys (bnd (tsapi_fsmark_create e f opt) (\<lambda>(rc, app). ret (rc, app, opt))) (\<lambda>r t.
      (\<forall>v. r = Jump v \<longrightarrow> in_trace tool_view t = []) \<and>
      (\<forall>rc app opt'. r = Val (rc, app, opt') \<longrightarrow> in_trace tool_view t = made_by app \<and> (rc = 0 \<longrightarrow> app \<noteq> None)))"
    for f opt dir
    unfolding tsapi_fsmark_create_def tsapi_fsmark_create_common_def
    by (auto intro!: ev obeys_weaken [OF tool_create_common])
qed (auto simp: tsapi_fsmark_wait_def tsapi_fsmark_destroy_def tool_uses tool_destroy [simplified])

interpretation iozone_test: benchmark "tsapi_iozone_create e"
    "[\<lambda>_. tsapi_iozone_start e, \<lambda>opt app. tsapi_iozone_wait e app (iozone_timeout opt),
      \<lambda>_. tsapi_iozone_print_results e]" "tsapi_iozone_destroy e" for e :: "'w te_env"
proof
  show "obeys (tsapi_iozone_create e f opt dir) (\<lambda>r t. (\<forall>v. r = Jump v \<longrightarrow> in_trace tool_view t = []) \<and>
      (\<forall>rc app opt'. r = Val (rc, app, opt') \<longrightarrow> in_trace tool_view t = made_by app \<and> (rc = 0 \<longrightarrow> app \<noteq> None)))"
    for f opt dir
    unfolding tsapi_iozone_create_def tsapi_iozone_create_common_def iozone_file_def Let_def
    by (auto intro!: ev deref_obeys obeys_weaken [OF tool_create_common] obeys_weaken [OF tool_attach])
qed (auto simp: tsapi_iozone_start_def tsapi_iozone_wait_def tsapi_iozone_print_results_def tsapi_iozone_destroy_def
  tool_uses tool_destroy [simplified])

subsection \<open>The file system is recreated\<close>

interpretation fsv: reader_blind fs_steps
  by unfold_locales (auto simp: fs_steps_def elim!: reading.elims)

interpretation mjv: reader_blind made_job
  by unfold_locales (auto simp: made_job_def elim!: reading.elims)

interpretation fjv: reader_blind freed_job
  by unfold_locales (auto simp: freed_job_def elim!: reading.elims)

definition recreation :: "string \<Rightarrow> string \<Rightarrow> fs_step list" where
  "recreation device dir = [Shell (''umount '' @ dir), Mkfs device, Shell (''mount '' @ device @ '' '' @ dir)]"

text \<open>Jobs are balanced, and the file system is recreated up to some step, all of it on success.\<close>

definition recreating :: "bool \<Rightarrow> event list \<Rightarrow> bool" where
  "recreating ok t \<longleftrightarrow> jobs_balanced t \<and> (\<exists>device dir. prefix (in_trace fs_steps t) (recreation device dir) \<and>
     (ok \<longrightarrow> in_trace fs_steps t = recreation device dir))"

lemma recreatingI:
  "jobs_balanced t \<Longrightarrow> prefix (in_trace fs_steps t) (recreation device dir) \<Longrightarrow>
   (ok \<Longrightarrow> in_trace fs_steps t = recreation device dir) \<Longrightarrow> recreating ok t"
  by (auto simp: recreating_def)

lemma shell_cmd_balanced: "obeys (shell_cmd e rpcs cmd) (\<lambda>r t. jobs_balanced t)"
  unfolding shell_cmd_def by (auto intro!: ev simp: jobs_balanced_def fs_defs)

lemma mkfs_balanced: "obeys (fs_ts_create_filesystem e rpcs device) (\<lambda>r t. jobs_balanced t)"
  unfolding fs_ts_create_filesystem_def
  by (auto intro!: ev obeys_weaken [OF check_fs_sound] simp: checks_def jobs_balanced_def fs_defs)

lemma jobs_balanced_append: "jobs_balanced t \<Longrightarrow> jobs_balanced t' \<Longrightarrow> jobs_balanced (t @ t')"
  by (simp add: jobs_balanced_def)

lemma on_ok_balanced:
  "obeys m (\<lambda>r t. jobs_balanced t) \<Longrightarrow> obeys k (\<lambda>r t. jobs_balanced t) \<Longrightarrow> obeys (on_ok m k) (\<lambda>r t. jobs_balanced t)"
  by (rule obeys_on_ok, erule obeys_weaken) (auto intro: jobs_balanced_append elim: obeys_weaken)

lemma recreate_steps:
  "obeys (fs_ts_recreate_filesystem e rpcs device dir) (\<lambda>r t. recreating (r = Val 0) t)"
proof -
  have "obeys (fs_ts_recreate_filesystem e rpcs device dir)
      (in_steps ([Shell (''umount '' @ dir)] @ [Mkfs device] @ [Shell (''mount '' @ device @ '' '' @ dir)]))"
    unfolding fs_ts_recreate_filesystem_def fs_ts_umount_filesystem_def fs_ts_mount_filesystem_def
    by (intro on_ok_steps shell_cmd_steps create_filesystem_steps)
  moreover have "obeys (fs_ts_recreate_filesystem e rpcs device dir) (\<lambda>r t. jobs_balanced t)"
    unfolding fs_ts_recreate_filesystem_def fs_ts_umount_filesystem_def fs_ts_mount_filesystem_def
    by (intro on_ok_balanced shell_cmd_balanced mkfs_balanced)
  ultimately have "obeys (fs_ts_recreate_filesystem e rpcs device dir) (\<lambda>r t. in_steps (recreation device dir) r t \<and> jobs_balanced t)"
    by (intro obeys_conj) (simp_all add: recreation_def)
  then show ?thesis
    by (rule obeys_weaken) (auto intro!: recreatingI [of _ device dir] intro: prefixI [OF sym] simp: in_steps_def)
qed

definition only_reads :: "event list \<Rightarrow> bool" where
  "only_reads t \<longleftrightarrow> jobs_balanced t \<and> in_trace fs_steps t = []"

lemma only_reads_Nil: "only_reads []"
  by (simp add: only_reads_def jobs_balanced_def)

lemma devices_only_read: "obeys (tsapi_get_devices e ta) (\<lambda>r t. only_reads t)"
proof -
  have "obeys (tsapi_get_devices e ta) (\<lambda>r t. in_trace made_job t = [] \<and> in_trace freed_job t = [] \<and>
      in_trace made_factory t = [] \<and> in_trace freed_factory t = [] \<and> in_trace fs_steps t = [])"
    by (intro obeys_conj; rule mjv.get_devices [unfolded leaves_none_def] fjv.get_devices [unfolded leaves_none_def]
        fio_fac.made.get_devices [unfolded leaves_none_def] fio_fac.freed.get_devices [unfolded leaves_none_def]
        fsv.get_devices [unfolded leaves_none_def])
  then show ?thesis by (rule obeys_weaken) (simp add: only_reads_def jobs_balanced_def)
qed

lemma recreating_reads:
  "recreating ok t' \<Longrightarrow> only_reads t \<Longrightarrow> (ok' \<Longrightarrow> ok) \<Longrightarrow> recreating ok' (t @ t')"
  "only_reads t \<Longrightarrow> recreating False t"
  by (auto simp: only_reads_def recreating_def jobs_balanced_def)

lemma recreating_mono: "recreating ok t \<Longrightarrow> recreating False t"
  by (auto simp: recreating_def)

lemma recreate_fs_steps: "obeys (recreate_fs e l) (\<lambda>r t. recreating (r = Val 0) t)"
  unfolding recreate_fs_def get_local_def
  by (rule obeys_bnd, rule obeys_weaken [OF devices_only_read])
     (auto intro!: obeys_prod obeys_bnd obeys_option obeys_jump obeys_ret obeys_weaken [OF recreate_steps]
       intro: recreating_reads)

text \<open>
  The life of a tool, and what a benchmark leaves: first the factory and the job are made, used and
  destroyed, then the file system is recreated.
\<close>

definition tool_life :: "handle \<Rightarrow> tool_app option \<Rightarrow> tool_step list" where
  "tool_life f app = made_fac f @ made_by app @ freed_by app @ freed_fac f"

definition leaves_fresh :: "verdict option outcome \<Rightarrow> event list \<Rightarrow> bool" where
  "leaves_fresh r t \<longleftrightarrow> (\<exists>f app t1 t2. t = t1 @ t2 \<and> in_trace tool_view t1 = tool_life f app \<and>
     recreating (r = Val None) t2 \<and> (r = Val None \<longrightarrow> app \<noteq> None))"

definition tool_destroyed :: "verdict option outcome \<Rightarrow> event list \<Rightarrow> bool" where
  "tool_destroyed r t \<longleftrightarrow> (\<exists>f app. in_trace tool_view t = tool_life f app \<and> (r = Val None \<longrightarrow> app \<noteq> None))"

lemma tool_destroyedI:
  "in_trace tool_view t = made_fac f @ made_by app \<Longrightarrow> in_trace tool_view t' = freed_by app @ freed_fac f \<Longrightarrow>
   (r = Val None \<Longrightarrow> app \<noteq> None) \<Longrightarrow> tool_destroyed r (t @ t')"
  unfolding tool_destroyed_def by (intro exI [of _ f] exI [of _ app]) (auto simp: tool_life_def)

lemma leaves_freshI:
  "in_trace tool_view t = made_fac f @ made_by app \<Longrightarrow> in_trace tool_view t1 = freed_by app @ freed_fac f \<Longrightarrow>
   recreating ok t2 \<Longrightarrow> only_reads t3 \<Longrightarrow> (r = Val None \<Longrightarrow> ok \<and> app \<noteq> None) \<Longrightarrow>
   leaves_fresh r (t @ t1 @ t2 @ t3)"
  unfolding leaves_fresh_def
  by (rule exI [of _ f], rule exI [of _ app], rule exI [of _ "t @ t1"], rule exI [of _ "t2 @ t3"])
     (auto simp: tool_life_def recreating_def only_reads_def jobs_balanced_def)

lemma test_end_reads: "obeys (test_end_specific e) (\<lambda>r t. only_reads t)"
  unfolding test_end_specific_def
  by (auto intro!: ev simp: only_reads_def jobs_balanced_def fs_defs fs_steps_def)

text \<open>Cleanup code in two parts.\<close>

lemma clean_first:
  assumes "obeys m (\<lambda>r t. P t \<and> (\<exists>rc. r = Val rc))" and "obeys (clean_all ms) (\<lambda>r t. Q (r = Val False) t)"
    and "\<And>ok t. Q ok t \<Longrightarrow> Q False t"
  shows "obeys (clean_all (m # ms)) (\<lambda>r t. \<exists>t1 t2. t = t1 @ t2 \<and> P t1 \<and> Q (r = Val False) t2)"
proof -
  have rest: "obeys (bnd (clean_all ms) (\<lambda>failed. ret (rc \<noteq> 0 \<or> failed))) (\<lambda>r t. Q (r = Val False) t)" for rc :: te_errno
    by (rule obeys_bnd, rule obeys_weaken [OF assms(2)]) (cases "rc = 0"; auto intro!: obeys_ret intro: assms(3))
  show ?thesis unfolding clean_all.simps
    by (rule obeys_bnd, rule obeys_weaken [OF assms(1)]) (auto intro!: obeys_weaken [OF rest [simplified]])
qed

context benchmark
begin

lemma cleanup:
  "obeys (bench_cleanup e destroy l) (\<lambda>r t. \<exists>t1 t2. t = t1 @ t2 \<and>
     in_trace tool_view t1 = freed_by (bn_app l) @ freed_fac (bn_factory l) \<and> recreating (r = Val False) t2)"
proof -
  have last: "obeys (clean_all [recreate_fs e l]) (\<lambda>r t. recreating (r = Val False) t)" unfolding clean_all.simps
    by (rule obeys_bnd, rule obeys_weaken [OF recreate_fs_steps]) (auto intro!: ev elim: recreating_mono)
  have fac: "obeys (ignored (te_call e (Job (JobFactoryDestroy h)))) (\<lambda>r t. in_trace tool_view t = freed_fac h \<and> (\<exists>rc. r = Val rc))" for h
    by (auto intro!: ev)
  let ?Q = "\<lambda>ok t. \<exists>t1 t2. t = t1 @ t2 \<and> in_trace tool_view t1 = freed_fac (bn_factory l) \<and> recreating ok t2"
  have "obeys (bench_cleanup e destroy l) (\<lambda>r t. \<exists>t1 t2. t = t1 @ t2 \<and>
      in_trace tool_view t1 = freed_by (bn_app l) \<and> ?Q (r = Val False) t2)"
    unfolding bench_cleanup_def destroy_tool_def append_Cons append_Nil
    by (rule clean_first [where Q = ?Q, OF destroy clean_first [OF fac last recreating_mono]])
       (auto dest: recreating_mono)
  then show ?thesis
    by (rule obeys_weaken) (clarsimp, metis append_assoc in_trace_simps(3))
qed

lemma main:
  assumes "\<And>g. g \<in> set opts \<Longrightarrow> idle tool_view tool_view (\<lambda>l. (bn_factory l, bn_app l)) g"
  shows "obeys (run_main (bench_body e opts create uses) (bench_cleanup e destroy) (test_end_specific e) (bench_locals0 opt))
    leaves_fresh"
proof -
  have tend: "obeys (bnd (test_end_specific e) (\<lambda>rc. ret (if failed \<or> rc \<noteq> 0 then Some Failed else v)))
      (\<lambda>r t3. leaves_fresh r ((t @ t1 @ t2) @ t3))"
    if "in_trace tool_view t = made_fac (bn_factory l) @ made_by (bn_app l)" "v = None \<longrightarrow> bn_app l \<noteq> None"
      "in_trace tool_view t1 = freed_by (bn_app l) @ freed_fac (bn_factory l)" "recreating (\<not> failed) t2"
    for l v t t1 t2 failed
    by (rule obeys_bnd, rule obeys_weaken [OF test_end_reads], unfold append_assoc)
       (use that in \<open>auto intro!: obeys_ret leaves_freshI [where f = "bn_factory l" and app = "bn_app l"]
          simp del: in_trace_simps split: if_splits\<close>)
  have stop: "leaves_fresh (Jump w) ((t @ t1) @ t2)"
    if "in_trace tool_view t = made_fac (bn_factory l) @ made_by (bn_app l)"
      "in_trace tool_view t1 = freed_by (bn_app l) @ freed_fac (bn_factory l)" "recreating False t2" for l t t1 t2 w
    using leaves_freshI [OF that only_reads_Nil, of "Jump w"] by simp
  have fin: "obeys (bnd (bench_cleanup e destroy l) (\<lambda>failed. bnd (test_end_specific e) (\<lambda>rc.
      ret (if failed \<or> rc \<noteq> 0 then Some Failed else v)))) (\<lambda>r t'. leaves_fresh r (t @ t'))"
    if "in_trace tool_view t = made_fac (bn_factory l) @ made_by (bn_app l)" "v = None \<longrightarrow> bn_app l \<noteq> None" for l v t
    by (rule obeys_bnd, rule obeys_weaken [OF cleanup])
       (use stop [OF that(1)] tend [OF that] in \<open>auto simp flip: append_assoc simp del: in_trace_simps\<close>)
  show ?thesis unfolding run_main_def
    by (rule obeys_bnd, rule obeys_weaken [OF body [OF assms]]) (auto intro!: obeys_weaken [OF fin])
qed

lemma main_tool:
  assumes "\<And>g. g \<in> set opts \<Longrightarrow> idle tool_view tool_view (\<lambda>l. (bn_factory l, bn_app l)) g"
  shows "obeys (run_main (bench_body e opts create uses) (\<lambda>l. clean_all (destroy_tool e destroy l)) (test_end_specific e)
      (bench_locals0 opt)) tool_destroyed"
proof -
  have tend: "leaves_none tool_view (test_end_specific e)"
    unfolding test_end_specific_def by (auto intro!: ln)
  have fac: "obeys (clean_all [ignored (te_call e (Job (JobFactoryDestroy h)))]) (\<lambda>r t. in_trace tool_view t = freed_fac h \<and> (\<exists>b. r = Val b))" for h
    by (auto intro!: ev)
  have clean: "obeys (clean_all (destroy_tool e destroy l)) (\<lambda>r t.
      in_trace tool_view t = freed_by (bn_app l) @ freed_fac (bn_factory l) \<and> (\<exists>b. r = Val b))" for l
    unfolding destroy_tool_def clean_all.simps(2) [of "destroy _"]
    by (rule obeys_bnd, rule obeys_weaken [OF destroy])
       (auto intro!: obeys_bnd obeys_ret obeys_weaken [OF fac] simp del: clean_all.simps)
  have fin: "obeys (bnd (clean_all (destroy_tool e destroy l)) (\<lambda>failed. bnd (test_end_specific e) (\<lambda>rc.
      ret (if failed \<or> rc \<noteq> 0 then Some Failed else v)))) (\<lambda>r t. 
      in_trace tool_view t = freed_by (bn_app l) @ freed_fac (bn_factory l) \<and> (r = Val None \<longrightarrow> v = None))" for l v
    by (rule obeys_bnd, rule obeys_weaken [OF clean])
       (auto intro!: obeys_bnd obeys_ret leaves_noneD [OF tend] split: if_splits)
  show ?thesis unfolding run_main_def
    by (rule obeys_bnd, rule obeys_weaken [OF body [OF assms]])
       (auto intro!: obeys_weaken [OF fin] intro: tool_destroyedI simp del: in_trace_simps)
qed

end

section \<open>Properties of the benchmarks\<close>

lemma idle_opts:
  "g \<in> set (dbench_opts e) \<Longrightarrow> idle tool_view tool_view (\<lambda>l. (bn_factory l, bn_app l)) g"
  "h \<in> set (fsmark_opts e) \<Longrightarrow> idle tool_view tool_view (\<lambda>l. (bn_factory l, bn_app l)) h"
  "i \<in> set (compilebench_opts e) \<Longrightarrow> idle tool_view tool_view (\<lambda>l. (bn_factory l, bn_app l)) i"
  "j \<in> set (iozone_opts e) \<Longrightarrow> idle tool_view tool_view (\<lambda>l. (bn_factory l, bn_app l)) j"
  unfolding dbench_opts_def fsmark_opts_def compilebench_opts_def iozone_opts_def read_opt_def set_working_dir_def
  by (auto intro!: idl tv.params) (auto simp: idle_def intro!: ev)

text \<open>
  C24. The benchmarks on a file system, on every way through them: the job factory and the job a test makes are
  destroyed, the job first, and whatever was reached when it ended, a test that passes made its job. Only then,
  for dbench, fs_mark and compilebench, is the file system recreated: unmounted, made anew, mounted, up to the first step
  that fails, with the jobs of the checks destroyed too; when the test passes all of it was done. IOzone leaves
  the file system alone.
\<close>

theorem benchmarks_clean_up:
  "obeys (dbench_main e) leaves_fresh \<and> obeys (fsmark_main e) leaves_fresh \<and> obeys (compilebench_main e) leaves_fresh \<and>
   obeys (iozone_main e) tool_destroyed"
  unfolding dbench_main_def fsmark_main_def compilebench_main_def iozone_main_def
  by (intro conjI dbench_test.main fsmark_test.main compilebench_test.main iozone_test.main_tool idle_opts)

section \<open>\<open>mke2fs\<close>: correctness\<close>

definition job_lives :: "handle list \<Rightarrow> tool_step list" where
  "job_lives js = concat (map (\<lambda>j. [MadeJob j, FreedJob j]) js)"

text \<open>Checks: jobs made and destroyed one after the other, one for each check that was begun.\<close>

definition checked_by :: "nat \<Rightarrow> te_errno outcome \<Rightarrow> event list \<Rightarrow> bool" where
  "checked_by n r t \<longleftrightarrow> (\<exists>js rc. in_trace tool_view t = job_lives js \<and> r = Val rc \<and> (rc = 0 \<longrightarrow> length js = n))"

lemma checked_by_step:
  assumes "obeys m (checked_by n)" and "obeys k (checked_by n')"
  shows "obeys (on_ok m k) (checked_by (n + n'))"
proof -
  have "checked_by (n + n') (Val rc) t" if "checked_by n (Val rc) t" "rc \<noteq> 0" for rc t
    using that by (auto simp: checked_by_def)
  moreover have "checked_by (n + n') r (t @ t')" if "checked_by n (Val 0) t" "checked_by n' r t'" for r t t'
  proof -
    from that obtain js js' rc where "in_trace tool_view t = job_lives js" "length js = n"
      "in_trace tool_view t' = job_lives js'" "r = Val rc" "rc = 0 \<longrightarrow> length js' = n'"
      by (auto simp: checked_by_def)
    then show ?thesis by (auto simp: checked_by_def job_lives_def intro!: exI [of _ "js @ js'"])
  qed
  moreover have "\<not> checked_by n (Jump v) t" for v t
    by (simp add: checked_by_def)
  ultimately show ?thesis
    by (intro obeys_on_ok, rule_tac obeys_weaken [OF assms(1)]) (auto intro: obeys_weaken [OF assms(2)])
qed

lemma job_lives_simps [simp]: "job_lives [] = []" "[] = job_lives js \<longleftrightarrow> js = []" "job_lives (j # js) = MadeJob j # FreedJob j # job_lives js"
  by (cases js; simp add: job_lives_def)+

lemma checked_byI:
  "in_trace tool_view t = [] \<Longrightarrow> rc \<noteq> 0 \<or> n = 0 \<Longrightarrow> checked_by n (Val rc) t"
  "in_trace tool_view t = [MadeJob j, FreedJob j] \<Longrightarrow> rc \<noteq> 0 \<or> n = 1 \<Longrightarrow> checked_by n (Val rc) t"
  unfolding checked_by_def by (rule exI [of _ "[]"], force, rule exI [of _ "[j]"], force)

lemma mke2fs_checks:
  "obeys (mke2fs_ts_check_fs e factory app (Some ty) device tmo) (checked_by 2)"
proof -
  have a: "obeys (e2fsck_check e factory device tmo) (checked_by 1)"
    unfolding e2fsck_check_def start_and_wait_def by (auto intro!: ev intro: checked_byI)
  have b: "obeys (fs_type_check e factory (Some ty) device) (checked_by 1)"
    unfolding fs_type_check_def start_and_wait_def file_judge_def by (auto intro!: ev intro: checked_byI)
  have c: "obeys (call_rc e (Tool (Mke2fsCheckJournal app))) (checked_by 0)"
    by (auto intro!: ev intro: checked_byI)
  from checked_by_step [OF a checked_by_step [OF b c]] show ?thesis
    by (simp add: mke2fs_ts_check_fs_def numeral_2_eq_2)
qed

text \<open>The steps of the test: its factory, the formatting of one device, the checks; whatever was reached, the factory is
  destroyed at the end. A test that passes formatted the device and all three checks accepted it.\<close>

definition formats_and_checks :: "verdict option outcome \<Rightarrow> event list \<Rightarrow> bool" where
  "formats_and_checks r t \<longleftrightarrow> (\<exists>f d js.
     in_trace tool_view t \<in> {made_fac f @ freed_fac f, made_fac f @ OnDisk (Mkfs d) # job_lives js @ freed_fac f} \<and>
     (r = Val None \<longrightarrow>
        in_trace tool_view t = made_fac f @ OnDisk (Mkfs d) # job_lives js @ freed_fac f \<and> length js = 2 \<and>
        in_trace verdicts t = [JobEnded 0 EXITED 0, JobEnded 0 EXITED 0, Journal 0]))"

text \<open>The same in front of the cleanup.\<close>

definition formatted :: "verdict option \<Rightarrow> handle \<Rightarrow> event list \<Rightarrow> bool" where
  "formatted v f t \<longleftrightarrow> (\<exists>d js.
     in_trace tool_view t \<in> {made_fac f, made_fac f @ OnDisk (Mkfs d) # job_lives js} \<and>
     (v = None \<longrightarrow> in_trace tool_view t = made_fac f @ OnDisk (Mkfs d) # job_lives js \<and> length js = 2 \<and>
        in_trace verdicts t = [JobEnded 0 EXITED 0, JobEnded 0 EXITED 0, Journal 0]))"

lemma formatted_early:
  "formatted (Some w) f t \<longleftrightarrow> in_trace tool_view t = made_fac f \<or>
     (\<exists>d js. in_trace tool_view t = made_fac f @ OnDisk (Mkfs d) # job_lives js)"
  by (auto simp: formatted_def)

lemma formatted_done:
  assumes "in_trace tool_view t = made_fac f @ [OnDisk (Mkfs d)]" and "in_trace verdicts t = []"
    and "checked_by 2 (Val rc) t'" and "checks vs (Val rc) t'"
    and "vs = [JobEnded 0 EXITED 0, JobEnded 0 EXITED 0, Journal 0]"
  shows "formatted (verdict_of rc) f (t @ t')"
proof -
  from assms(3) obtain js where "in_trace tool_view t' = job_lives js" "rc = 0 \<longrightarrow> length js = 2"
    by (auto simp: checked_by_def)
  with assms show ?thesis unfolding formatted_def
    by (intro exI [of _ d] exI [of _ js]) (auto simp: checks_def)
qed

lemma checks_returns: "checks vs r t \<Longrightarrow> \<exists>rc. r = Val rc"
  by (cases r) (auto simp: checks_def)

lemma mke2fs_finish:
  assumes "mk_fs_type (mf_opt l) \<noteq> None" and "mf_factory l = 0"
  shows "obeys (run_steps [mke2fs_factory e, mke2fs_do e, mke2fs_check e] l)
    (\<lambda>r t. \<exists>v l'. r = Val (v, l') \<and> formatted v (mf_factory l') t)"
proof -
  let ?vs = "[JobEnded 0 EXITED 0, JobEnded 0 EXITED 0, Journal 0]"
  obtain ty where ty: "mk_fs_type (mf_opt l) = Some ty" using assms(1) by blast
  have check: "obeys (run_steps [mke2fs_check e] l) (\<lambda>r t'. \<exists>v l'. r = Val (v, l') \<and> formatted v (mf_factory l') (t @ t'))"
    if "mk_fs_type (mf_opt l) = Some ty" "in_trace tool_view t = made_fac (mf_factory l) @ [OnDisk (Mkfs d)]"
      "in_trace verdicts t = []" for l t d
  proof -
    have both: "obeys (mke2fs_ts_check_fs e (mf_factory l) (mf_app l) (Some ty) dev tmo)
        (\<lambda>r t. checked_by 2 r t \<and> checks ?vs r t)" for dev tmo
      by (rule obeys_conj [OF mke2fs_checks check_fs_sound])
    have ck: "obeys (mke2fs_check e l) (\<lambda>r t'. \<exists>v. r = Val (v, l) \<and> formatted v (mf_factory l) (t @ t'))"
      unfolding mke2fs_check_def
      by (rule obeys_checked, unfold that(1), rule obeys_bnd, rule obeys_weaken [OF both])
         (auto intro!: obeys_ret formatted_done [OF that(2,3)] dest: checks_returns)
    show ?thesis
      by (rule obeys_steps_Cons, rule obeys_bnd, rule obeys_attempt, rule obeys_weaken [OF ck])
         (auto intro!: obeys_ret)
  qed
  have mkfs: "obeys (mke2fs_do e l) (\<lambda>r t. \<exists>v l' d. r = Val (v, l') \<and> mf_factory l' = mf_factory l \<and>
      mf_opt l' = mf_opt l \<and> in_trace tool_view t = [OnDisk (Mkfs d)] \<and> in_trace verdicts t = [])" for l
    unfolding mke2fs_do_def by (auto intro!: ev simp: verdicts_def)
  have two: "obeys (run_steps [mke2fs_do e, mke2fs_check e] l) (\<lambda>r t'. \<exists>v l'. r = Val (v, l') \<and> formatted v (mf_factory l') (t @ t'))"
    if "mk_fs_type (mf_opt l) = Some ty" "in_trace tool_view t = made_fac (mf_factory l)" "in_trace verdicts t = []" for l t
    by (rule obeys_steps_Cons, rule obeys_bnd, rule obeys_attempt, rule obeys_weaken [OF mkfs])
       (use that in \<open>auto intro!: obeys_ret check simp flip: append_assoc
          simp: formatted_early simp del: run_steps.simps\<close>)
  have fac: "obeys (mke2fs_factory e l) (\<lambda>r t. \<exists>v l'. r = Val (v, l') \<and> mf_opt l' = mf_opt l \<and>
      in_trace tool_view t = made_fac (mf_factory l') \<and> in_trace verdicts t = [])" if "mf_factory l = 0" for l
    unfolding mke2fs_factory_def using that by (auto intro!: ev simp: verdicts_def)
  show ?thesis
    by (rule obeys_steps_Cons, rule obeys_bnd, rule obeys_attempt, rule obeys_weaken [OF fac])
       (use assms ty in \<open>auto intro!: obeys_ret two simp: formatted_early simp del: run_steps.simps\<close>)
qed

interpretation verd: reader_blind verdicts
  by unfold_locales (auto simp: verdicts_def elim!: reading.elims)

lemma quiet_block_at: "leaves_none view (block_at bs i)"
  unfolding block_at_def get_local_def by (auto intro!: ln)

lemma mke2fs_before:
  "g \<in> set (mke2fs_host e # mke2fs_device e @ butlast (mke2fs_opts e)) \<Longrightarrow> idle tool_view verdicts mf_factory g"
  unfolding mke2fs_host_def mke2fs_device_def mke2fs_opts_def
  by (auto intro!: idl tv.readers verd.readers quiet_block_at)
     (auto simp: idle_def intro!: ev obeys_weaken [OF leaves_both [OF tv.get_devices verd.get_devices]])

lemma mke2fs_body:
  "obeys (run_steps (mke2fs_host e # mke2fs_device e @ mke2fs_opts e @ [mke2fs_factory e, mke2fs_do e, mke2fs_check e])
      (disk_locals.extend disk_locals0 \<lparr>mf_factory = 0, mf_app = 0, mf_opt = mke2fs_defaults e\<rparr>))
    (\<lambda>r t. \<exists>v l. r = Val (v, l) \<and> formatted v (mf_factory l) t)"
proof -
  let ?pre = "mke2fs_host e # mke2fs_device e @ butlast (mke2fs_opts e)"
  let ?fin = "[mke2fs_factory e, mke2fs_do e, mke2fs_check e]"
  have split: "mke2fs_host e # mke2fs_device e @ mke2fs_opts e @ ?fin = ?pre @ last (mke2fs_opts e) # ?fin"
    by (simp add: mke2fs_opts_def)
  have ty: "obeys (last (mke2fs_opts e) l) (\<lambda>r t. in_trace tool_view t = [] \<and> in_trace verdicts t = [] \<and>
      (\<forall>v l'. r = Val (v, l') \<longrightarrow> mf_factory l' = mf_factory l \<and> mk_fs_type (mf_opt l') \<noteq> None))" for l
    unfolding mke2fs_opts_def
    by (auto intro!: ev obeys_weaken [OF leaves_both [OF tv.params(1) verd.params(1)]])
  have skip: "obeys m (\<lambda>r t'. \<exists>v l. r = Val (v, l) \<and> formatted v (mf_factory l) (t @ t'))"
    if "obeys m (\<lambda>r t'. \<exists>v l. r = Val (v, l) \<and> formatted v (mf_factory l) t')" "in_trace tool_view t = []" "in_trace verdicts t = []"
    for m :: "('w, verdict option \<times> mke2fs_locals) te" and t
    using that by (auto simp: formatted_def elim!: obeys_weaken)
  have rest: "obeys (run_steps (last (mke2fs_opts e) # ?fin) l) (\<lambda>r t. \<exists>v l'. r = Val (v, l') \<and> formatted v (mf_factory l') t)"
    if "mf_factory l = 0" for l
    by (rule obeys_steps_Cons, rule obeys_bnd, rule obeys_attempt, rule obeys_weaken [OF ty])
       (use that in \<open>auto intro!: obeys_ret skip mke2fs_finish simp: formatted_early simp del: run_steps.simps\<close>)
  show ?thesis unfolding split
    by (rule obeys_steps_append, rule obeys_bnd, rule obeys_weaken [OF idle_run_steps [OF mke2fs_before]], assumption)
       (auto intro!: obeys_ret skip rest simp: formatted_early disk_locals.defs simp del: run_steps.simps)
qed


end
