(* ===== verification/Test_Multi.thy ===== *)
theory Test_Multi
  imports Test_Fs "HOL-Library.Multiset"
begin

text \<open>
  The tests with one FIO instance for each device of the host, every one in a process of its own:
  \<open>blk-proxy/readwrite/fio_multi.c\<close> and \<open>blk-proxy/stress/stress.c\<close>.
\<close>

section \<open>Shared statements\<close>

text \<open>
  The contexts are an array of \<open>TSAPI_FIO_MULTI_MAX_DEV\<close> entries on the stack. The contexts that
  are initialised and the instances that are created are kept in two lists; an entry that was not
  set is read as garbage, and one past the end of the array does not exist.
\<close>

definition TSAPI_FIO_MULTI_MAX_DEV :: nat where
  "TSAPI_FIO_MULTI_MAX_DEV = 8"

record multi_locals =
  mu_host :: rcf_rpc_server
  mu_blocks :: "string list option"
  mu_count :: nat
  mu_ctx :: "tsapi_fio_context list"
  mu_fios :: "tapi_fio list"

definition multi_locals0 :: multi_locals where
  "multi_locals0 = \<lparr>mu_host = null_rpcs, mu_blocks = None, mu_count = 0, mu_ctx = [], mu_fios = []\<rparr>"

definition entry :: "'a list \<Rightarrow> nat \<Rightarrow> ('w, 'a) te" where
  "entry xs i = get_local (if i < length xs then Some (xs ! i) else None)"

definition each_device :: "(nat \<Rightarrow> ('w, 'a multi_locals_scheme) step list) \<Rightarrow> ('w, 'a multi_locals_scheme) step" where
  "each_device body = for_each (\<lambda>l. [0..<mu_count l]) body"

definition multi_host :: "'w te_env \<Rightarrow> ('w, 'a multi_locals_scheme) step" where
  "multi_host e = plain (\<lambda>l. bnd (test_get_rpcs e ''Agt_host'') (\<lambda>r. ret (l\<lparr>mu_host := r\<rparr>)))"

text \<open>The count is set when the devices are.\<close>

definition multi_devices :: "'w te_env \<Rightarrow> ('w, 'a multi_locals_scheme) step" where
  "multi_devices e = checked_out (\<lambda>l. bnd (tsapi_get_devices e (rpcs_ta (mu_host l))) (\<lambda>(rc, blocks).
     ret (rc, l\<lparr>mu_blocks := blocks, mu_count := (case blocks of None \<Rightarrow> mu_count l | Some bs \<Rightarrow> length bs)\<rparr>)))"

definition multi_init :: "'w te_env \<Rightarrow> ('w, 'a multi_locals_scheme) step" where
  "multi_init e = checked_out (\<lambda>l.
     if mu_count l > TSAPI_FIO_MULTI_MAX_DEV then jump Failed
     else bnd (tsapi_fio_multi_init e (mu_host l) (mu_count l)) (\<lambda>(rc, ctxs). ret (rc, l\<lparr>mu_ctx := ctxs\<rparr>)))"

definition multi_opts :: "'w te_env \<Rightarrow> (nat \<Rightarrow> string) \<Rightarrow> ('w, 'a multi_locals_scheme) step" where
  "multi_opts e sfx = each_device (\<lambda>i. [plain (\<lambda>l.
     bnd (entry (mu_ctx l) i) (\<lambda>ctx.
     bnd (tsapi_fio_opts_read_suf e (ctx_opts ctx) (sfx i)) (\<lambda>opts.
     bnd (entry (case mu_blocks l of None \<Rightarrow> [] | Some bs \<Rightarrow> bs) i) (\<lambda>b.
       ret (l\<lparr>mu_ctx := (mu_ctx l)[i := ctx\<lparr>ctx_opts := opts\<lparr>fio_filename := Some b\<rparr>\<rparr>]\<rparr>)))))])"

definition multi_create :: "'w te_env \<Rightarrow> ('w, 'a multi_locals_scheme) step" where
  "multi_create e = each_device (\<lambda>i. [checked_out (\<lambda>l.
     bnd (entry (mu_ctx l) i) (\<lambda>ctx.
     bnd (tsapi_fio_create e (ctx_opts ctx) (ctx_forked_factory ctx) (Some ''Agt_host'')) (\<lambda>(rc, fio).
       ret (rc, l\<lparr>mu_fios := mu_fios l @ [fio]\<rparr>))))])"

definition multi_start :: "'w te_env \<Rightarrow> ('w, 'a multi_locals_scheme) step" where
  "multi_start e = each_device (\<lambda>i. [checked (\<lambda>l.
     bnd (entry (mu_fios l) i) (\<lambda>fio. call_rc e (Tool (FioStart (fio_handle fio)))))])"

definition multi_wait :: "'w te_env \<Rightarrow> ('w, 'a multi_locals_scheme) step" where
  "multi_wait e = each_device (\<lambda>i.
     [checked (\<lambda>l. bnd (entry (mu_fios l) i) (tsapi_fio_flex_wait e)),
      checked (\<lambda>l. bnd (entry (mu_fios l) i) (\<lambda>fio. call_rc e (Tool (FioStop (fio_handle fio)))))])"

definition multi_report :: "'w te_env \<Rightarrow> ('w, 'a multi_locals_scheme) step" where
  "multi_report e = each_device (\<lambda>i. [act (\<lambda>l.
     bnd (entry (mu_fios l) i) (\<lambda>fio.
     bnd (te_call e (Tool (FioGetReport (fio_handle fio)))) (\<lambda>r. if r_rc r \<noteq> 0 then jump Failed
       else quiet (te_call e (Tool (FioLogReport (handle_of 0 r)))))))])"

text \<open>The cleanup destroys every instance, then every context.\<close>

definition multi_destroy :: "'w te_env \<Rightarrow> 'a multi_locals_scheme \<Rightarrow> ('w, unit) te" where
  "multi_destroy e l = do_all (map (\<lambda>i. bnd (entry (mu_fios l) i) (\<lambda>fio.
     quiet (te_call e (Tool (FioDestroy (fio_handle fio)))))) [0..<mu_count l])"

definition multi_fini :: "'w te_env \<Rightarrow> 'a multi_locals_scheme \<Rightarrow> ('w, te_errno) te" where
  "multi_fini e l =
     bnd (get_local (if length (mu_ctx l) = mu_count l then Some (mu_ctx l) else None)) (tsapi_fio_multi_fini e)"

section \<open>\<open>readwrite/fio_multi.c\<close>\<close>

fun fio_blocks_to_str :: "'w te_env \<Rightarrow> string list \<Rightarrow> string \<Rightarrow> ('w, te_errno \<times> string) te" where
  "fio_blocks_to_str e [] str = ret (0, str)"
| "fio_blocks_to_str e (b # bs) str =
     bnd (te_string_append e str (b @ '', '')) (\<lambda>(rc, str). if rc \<noteq> 0 then ret (rc, str) else fio_blocks_to_str e bs str)"

definition list_blocks :: "'w te_env \<Rightarrow> ('w, 'a multi_locals_scheme) step" where
  "list_blocks e = checked (\<lambda>l.
     bnd (fio_blocks_to_str e (case mu_blocks l of None \<Rightarrow> [] | Some bs \<Rightarrow> bs) '''') (\<lambda>(rc, _). ret rc))"

definition second_suffix :: "nat \<Rightarrow> string" where
  "second_suffix i = (if i = 0 then '''' else ''_second'')"

definition fio_multi_cleanup :: "'w te_env \<Rightarrow> multi_locals \<Rightarrow> ('w, bool) te" where
  "fio_multi_cleanup e l =
     (if mu_count l \<ge> 2 then bnd (multi_destroy e l) (\<lambda>_. clean_all [multi_fini e l]) else clean_all [])"

definition fio_multi_main :: "'w te_env \<Rightarrow> ('w, verdict option) te" where
  "fio_multi_main e = run_main
     ([multi_host e, multi_devices e, stop_if (\<lambda>l. mu_count l < 2) Skipped, list_blocks e] @ multi_init e #
      [multi_opts e second_suffix, multi_create e, multi_start e, multi_wait e, multi_report e])
     (fio_multi_cleanup e) (test_end_specific e) multi_locals0"

section \<open>\<open>stress/stress.c\<close>\<close>

datatype stress_action =
    STRESS_ACTION_UNBIND | STRESS_ACTION_DROP_LINK_ARM | STRESS_ACTION_DROP_LINK_PARTNER | STRESS_ACTION_UNLOAD_SFC

definition STRESSS_ACTION_MAPPING_LIST :: "(string \<times> stress_action) list" where
  "STRESSS_ACTION_MAPPING_LIST =
     [(''unbind'', STRESS_ACTION_UNBIND), (''drop_link_arm'', STRESS_ACTION_DROP_LINK_ARM),
      (''drop_link_partner'', STRESS_ACTION_DROP_LINK_PARTNER), (''unload_sfc'', STRESS_ACTION_UNLOAD_SFC)]"

definition TIMEOUT_BETWEEN_REVERSE_ACTION_S :: nat where
  "TIMEOUT_BETWEEN_REVERSE_ACTION_S = 3"

record stress_locals = multi_locals +
  sl_action :: stress_action
  sl_reverse :: bool

text \<open>What is taken down, and after a while put back.\<close>

definition and_back :: "'w te_env \<Rightarrow> bool \<Rightarrow> ('w, unit) te \<Rightarrow> ('w, unit) te \<Rightarrow> ('w, unit) te" where
  "and_back e reverse down up =
     do_all (down # (if reverse then [sleep TIMEOUT_BETWEEN_REVERSE_ACTION_S e, up] else []))"

definition drop_link :: "'w te_env \<Rightarrow> bool \<Rightarrow> string \<Rightarrow> string \<Rightarrow> ('w, unit) te" where
  "drop_link e reverse ta if_param =
     bnd (start_env e) (\<lambda>_. bnd (test_get_if e if_param) (\<lambda>ifname.
       and_back e reverse (check_rc (call_rc e (Agent (IfDown ta ifname)))) (check_rc (call_rc e (Agent (IfUp ta ifname))))))"

definition stress_move :: "'w te_env \<Rightarrow> rcf_rpc_server \<Rightarrow> bool \<Rightarrow> stress_action \<Rightarrow> ('w, unit) te" where
  "stress_move e host reverse action = (case action of
       STRESS_ACTION_UNBIND \<Rightarrow> and_back e reverse (tsapi_virtio_blocks_bind_driver e host '''')
         (tsapi_virtio_blocks_bind_driver e host TSAPI_VIRTIO_BLOCK_DRIVER_NAME)
     | STRESS_ACTION_DROP_LINK_ARM \<Rightarrow> drop_link e reverse ''Agt_ARM'' ''clt_if''
     | STRESS_ACTION_DROP_LINK_PARTNER \<Rightarrow> drop_link e reverse ''Agt_disk'' ''srv_if''
     | STRESS_ACTION_UNLOAD_SFC \<Rightarrow> and_back e reverse (check_rc (call_rc e (Agent (ModuleUnload ''Agt_ARM'' ''sfc''))))
         (check_rc (call_rc e (Agent (ModuleLoad ''Agt_ARM'' ''sfc'')))))"

definition stress_params :: "'w te_env \<Rightarrow> ('w, stress_locals) step list" where
  "stress_params e =
     [plain (\<lambda>l. bnd (test_param_enum e ''action'' STRESSS_ACTION_MAPPING_LIST) (\<lambda>a. ret (l\<lparr>sl_action := a\<rparr>))),
      plain (\<lambda>l. bnd (test_param_bool e ''reverse'') (\<lambda>b. ret (l\<lparr>sl_reverse := b\<rparr>)))]"

definition stress_cleanup :: "'w te_env \<Rightarrow> stress_locals \<Rightarrow> ('w, bool) te" where
  "stress_cleanup e l = bnd (multi_destroy e l) (\<lambda>_. clean_all [ignored (multi_fini e l)])"

definition stress_main :: "'w te_env \<Rightarrow> ('w, verdict option) te" where
  "stress_main e = run_main
     ((multi_host e # stress_params e @ [multi_devices e]) @ multi_init e #
      [multi_opts e (\<lambda>_. ''''), multi_create e, multi_start e, act (\<lambda>l. sleep 3 e),
       act (\<lambda>l. stress_move e (mu_host l) (sl_reverse l) (sl_action l)), multi_wait e, multi_report e,
       when_step sl_reverse [multi_start e, multi_wait e, multi_report e]])
     (stress_cleanup e) (test_end_specific e)
     (multi_locals.extend multi_locals0 \<lparr>sl_action = STRESS_ACTION_UNBIND, sl_reverse = False\<rparr>)"

section \<open>Resources\<close>

datatype resource = ResProcess rcf_rpc_server | ResFactory handle | ResFio handle

fun made_steps :: "call \<Rightarrow> reply \<Rightarrow> resource list" where
  "made_steps (Agent (RpcsCreateProcess rpcs name)) r =
     (if r_rc r = 0 then [ResProcess \<lparr>rpcs_ta = rpcs_ta rpcs, rpcs_name = name\<rparr>] else [])"
| "made_steps (Job (JobFactoryCreate _)) r = (if r_rc r = 0 then [ResFactory (handle_of 0 r)] else [])"
| "made_steps (Tool (FioCreate _ _ _)) r = [ResFio (handle_of 0 r)]"
| "made_steps _ r = []"

fun freed_steps :: "call \<Rightarrow> resource list" where
  "freed_steps (Agent (RpcsDestroy (Some p))) = [ResProcess p]"
| "freed_steps (Job (JobFactoryDestroy h)) = [ResFactory h]"
| "freed_steps (Tool (FioDestroy h)) = [ResFio h]"
| "freed_steps _ = []"

definition made_res :: "event \<Rightarrow> resource list" where
  "made_res ev = made_steps (fst ev) (snd ev)"

definition freed_res :: "event \<Rightarrow> resource list" where
  "freed_res ev = freed_steps (fst ev)"

lemma res_call [simp]: "made_res (c, r) = made_steps c r" "freed_res (c, r) = freed_steps c"
  by (simp_all add: made_res_def freed_res_def)

interpretation mres: reader_blind made_res
  by unfold_locales (auto elim!: reading.elims)

interpretation fres: reader_blind freed_res
  by unfold_locales (auto elim!: reading.elims)

definition ctx_made :: "tsapi_fio_context \<Rightarrow> resource list" where
  "ctx_made c = (case ctx_forked_rpcs c of None \<Rightarrow> [] | Some p \<Rightarrow> [ResProcess p]) @ [ResFactory (ctx_forked_factory c)]"

definition ctx_freed :: "tsapi_fio_context \<Rightarrow> resource list" where
  "ctx_freed c = ResFactory (ctx_forked_factory c) # (case ctx_forked_rpcs c of None \<Rightarrow> [] | Some p \<Rightarrow> [ResProcess p])"

definition fio_res :: "tapi_fio \<Rightarrow> resource" where
  "fio_res fio = ResFio (fio_handle fio)"

lemma mset_ctx: "mset (concat (map ctx_freed cs)) = mset (concat (map ctx_made cs))"
  by (induction cs) (auto simp: ctx_freed_def ctx_made_def split: option.split)

lemma multi_init_res:
  "obeys (tsapi_fio_multi_init e rpcs n) (\<lambda>r t. in_trace freed_res t = [] \<and> (\<exists>rc ctxs. r = Val (rc, ctxs) \<and>
     (rc = 0 \<longrightarrow> length ctxs = n \<and> in_trace made_res t = concat (map ctx_made ctxs)) \<and> (n = 0 \<longrightarrow> rc = 0)))"
proof -
  have one: "obeys (multi_init_one e rpcs i) (\<lambda>r t. in_trace freed_res t = [] \<and> (\<exists>rc c. r = Val (rc, c) \<and>
      (rc = 0 \<longrightarrow> in_trace made_res t = ctx_made c)))" for i
    unfolding multi_init_one_def by (auto intro!: ev simp: ctx_made_def te_string_append_def Let_def)
  have "obeys (multi_init_loop e rpcs is ctxs) (\<lambda>r t. in_trace freed_res t = [] \<and> (\<exists>rc ctxs'. r = Val (rc, ctxs') \<and>
      (rc = 0 \<longrightarrow> length ctxs' = length ctxs + length is \<and>
         concat (map ctx_made ctxs) @ in_trace made_res t = concat (map ctx_made ctxs')) \<and> (is = [] \<longrightarrow> rc = 0)))" for "is" ctxs
  proof (induction "is" arbitrary: ctxs)
    case (Cons i "is")
    show ?case unfolding multi_init_loop.simps
      by (rule obeys_bnd, rule obeys_weaken [OF one])
         (auto intro!: obeys_ret obeys_weaken [OF Cons.IH])
  qed (auto intro!: ev)
  from this [of "[0..<n]" "[]"] show ?thesis
    by (auto simp: tsapi_fio_multi_init_def elim!: obeys_weaken)
qed

lemma multi_fini_res:
  "obeys (tsapi_fio_multi_fini e ctxs) (\<lambda>r t. in_trace made_res t = [] \<and> (\<exists>rc k. r = Val rc \<and>
     in_trace freed_res t = concat (map ctx_freed (take k ctxs)) \<and> (rc = 0 \<longrightarrow> take k ctxs = ctxs)))"
  unfolding tsapi_fio_multi_fini_def
proof (rule obeys_for_rc [where T = "\<lambda>c r t. in_trace made_res t = [] \<and> in_trace freed_res t = ctx_freed c \<and> (\<exists>rc. r = Val rc)"])
  fix c
  show "obeys (bnd (te_call e (Job (JobFactoryDestroy (ctx_forked_factory c)))) (\<lambda>_. call_rc e (Agent (RpcsDestroy (ctx_forked_rpcs c)))))
      (\<lambda>r t. in_trace made_res t = [] \<and> in_trace freed_res t = ctx_freed c \<and> (\<exists>rc. r = Val rc))"
    by (cases "ctx_forked_rpcs c") (auto intro!: ev simp: ctx_freed_def)
next
  fix c :: tsapi_fio_context and cs and rc :: te_errno and t
  assume "in_trace made_res t = [] \<and> in_trace freed_res t = ctx_freed c \<and> (\<exists>rc'. Val rc = Val rc')" "rc \<noteq> 0"
  then show "in_trace made_res t = [] \<and> (\<exists>rc' k. Val rc = Val rc' \<and>
      in_trace freed_res t = concat (map ctx_freed (take k (c # cs))) \<and> (rc' = 0 \<longrightarrow> take k (c # cs) = c # cs))"
    by (auto intro: exI [of _ "Suc 0"])
next
  fix c :: tsapi_fio_context and cs and t and r :: "te_errno outcome" and t'
  assume "in_trace made_res t = [] \<and> in_trace freed_res t = ctx_freed c \<and> (\<exists>rc. Val 0 = Val (rc :: te_errno))"
    and "in_trace made_res t' = [] \<and> (\<exists>rc k. r = Val rc \<and>
      in_trace freed_res t' = concat (map ctx_freed (take k cs)) \<and> (rc = 0 \<longrightarrow> take k cs = cs))"
  then obtain k rc where "r = Val rc" "in_trace freed_res t' = concat (map ctx_freed (take k cs))" "rc = 0 \<longrightarrow> take k cs = cs"
    and "in_trace made_res (t @ t') = []" "in_trace freed_res t = ctx_freed c" by auto
  then show "in_trace made_res (t @ t') = [] \<and> (\<exists>rc k. r = Val rc \<and>
      in_trace freed_res (t @ t') = concat (map ctx_freed (take k (c # cs))) \<and> (rc = 0 \<longrightarrow> take k (c # cs) = c # cs))"
    by (auto intro!: exI [of _ "Suc k"])
qed auto

subsection \<open>The variables\<close>

text \<open>Conditions on the variables and the trace: when the test goes on, and when it ends.\<close>

definition leads ::
    "('l \<Rightarrow> event list \<Rightarrow> bool) \<Rightarrow> ('l \<Rightarrow> event list \<Rightarrow> bool) \<Rightarrow> event list \<Rightarrow> (verdict option \<times> 'l) outcome \<Rightarrow>
     event list \<Rightarrow> bool" where
  "leads P Q t r t' \<longleftrightarrow> (\<exists>l'. r = Val (None, l') \<and> P l' (t @ t') \<or> (\<exists>w. r = Val (Some w, l') \<and> Q l' (t @ t')))"

lemma leads_simps [simp]:
  "leads P Q t (Val (None, l)) t' \<longleftrightarrow> P l (t @ t')" "leads P Q t (Val (Some w, l)) t' \<longleftrightarrow> Q l (t @ t')"
  "\<not> leads P Q t (Jump w) t'" "leads P Q t r (t' @ t'') \<longleftrightarrow> leads P Q (t @ t') r t''"
  by (auto simp: leads_def)

lemma leads_append: "leads P Q (t @ t') r t'' \<Longrightarrow> leads P Q t r (t' @ t'')"
  by simp

lemma leads_cases:
  assumes "leads P Q t r t'"
  obtains l' where "r = Val (None, l')" "P l' (t @ t')" | w l' where "r = Val (Some w, l')" "Q l' (t @ t')"
  using assms by (auto simp: leads_def)

lemma run_single: "run_steps [f] l = attempt l (f l)"
  by (auto simp: fun_eq_iff bnd_def ret_def attempt_def split: outcome.splits prod.splits)

lemma leads_bnd:
  assumes "obeys m (leads P Q t)" and "\<And>l' t'. P l' (t @ t') \<Longrightarrow> obeys (run_steps fs l') (leads R Q (t @ t'))"
  shows "obeys (bnd m (\<lambda>(v, l'). if v = None then run_steps fs l' else ret (v, l'))) (leads R Q t)"
  by (rule obeys_bnd, rule obeys_weaken [OF assms(1)])
     (auto intro!: obeys_ret obeys_weaken [OF assms(2)] elim!: leads_cases)

lemma leads_mono:
  "leads P Q t r t' \<Longrightarrow> (\<And>l t. P l t \<Longrightarrow> P' l t) \<Longrightarrow> (\<And>l t. Q l t \<Longrightarrow> Q' l t) \<Longrightarrow> leads P' Q' t r t'"
  by (auto simp: leads_def)

text \<open>A loop over the devices with a condition for each pass.\<close>

lemma counted_loop:
  assumes step: "\<And>i l t. i < n \<Longrightarrow> P i l t \<Longrightarrow> obeys (run_steps (body i) l) (leads (P (Suc i)) Q t)"
  shows "P k l t \<Longrightarrow> k \<le> n \<Longrightarrow> obeys (run_steps (concat (map body [k..<n])) l) (leads (P n) Q t)"
proof (induction "n - k" arbitrary: k l t)
  case 0
  then show ?case by (auto intro!: ev)
next
  case (Suc m)
  then have upt: "[k..<n] = k # [Suc k..<n]" and k: "k < n" by (simp_all add: upt_conv_Cons)
  show ?case unfolding upt list.map concat.simps
    by (rule obeys_steps_append, rule leads_bnd [OF step [OF k Suc.prems(1)]])
       (use Suc.hyps k in auto)
qed

text \<open>What the variables hold is what was made; nothing is freed before the cleanup.\<close>

definition holds :: "'a multi_locals_scheme \<Rightarrow> event list \<Rightarrow> bool" where
  "holds l t \<longleftrightarrow> in_trace freed_res t = [] \<and> length (mu_ctx l) = mu_count l \<and> length (mu_fios l) \<le> mu_count l \<and>
     in_trace made_res t = concat (map ctx_made (mu_ctx l)) @ map fio_res (mu_fios l)"

text \<open>On the way out: also when the contexts could not be made.\<close>

definition holds_some :: "'a multi_locals_scheme \<Rightarrow> event list \<Rightarrow> bool" where
  "holds_some l t \<longleftrightarrow> in_trace freed_res t = [] \<and>
     (holds l t \<or> mu_fios l = [] \<and> (mu_count l = 0 \<longrightarrow> mu_ctx l = []))"

lemma holds_some: "holds l t \<Longrightarrow> holds_some l t"
  by (simp add: holds_some_def holds_def)

lemma holds_some_early:
  "in_trace freed_res t = [] \<Longrightarrow> mu_ctx l = [] \<Longrightarrow> mu_fios l = [] \<Longrightarrow> holds_some l t"
  by (simp add: holds_some_def)

lemma entry_obeys:
  "(\<And>x. i < length xs \<Longrightarrow> x = xs ! i \<Longrightarrow> T (Val x) []) \<Longrightarrow> T (Jump Failed) [] \<Longrightarrow> obeys (entry xs i) T"
  unfolding entry_def get_local_def by (auto intro!: ev)

lemma quiet_entry [ln]: "leaves_none view (entry xs i)"
  unfolding entry_def get_local_def by (auto intro!: ln)

abbreviation multi_vars :: "'a multi_locals_scheme \<Rightarrow> nat \<times> tsapi_fio_context list \<times> tapi_fio list" where
  "multi_vars l \<equiv> (mu_count l, mu_ctx l, mu_fios l)"

lemma holds_idle: "idle made_res freed_res multi_vars f \<Longrightarrow> keeps holds f"
  unfolding idle_def keeps_def
  by (intro allI impI, drule spec, erule obeys_weaken) (auto simp: holds_def)

lemma idle_multi:
  "idle made_res freed_res multi_vars (multi_start e)" "idle made_res freed_res multi_vars (multi_wait e)"
  "idle made_res freed_res multi_vars (multi_report e)"
  unfolding multi_start_def multi_wait_def multi_report_def each_device_def tsapi_fio_flex_wait_def
  by (auto intro!: idl ln)

lemma leads_opts:
  assumes "holds l t" and "mu_fios l = []"
  shows "obeys (multi_opts e sfx l) (leads (\<lambda>l t. holds l t \<and> mu_fios l = []) (\<lambda>l t. holds l t \<and> mu_fios l = []) t)"
proof -
  let ?I = "\<lambda>l t. holds l t \<and> mu_fios l = []"
  have upd: "concat (map ctx_made (cs[i := c\<lparr>ctx_opts := opts\<rparr>])) = concat (map ctx_made cs)"
    if "i < length cs" "c = cs ! i" for cs i c opts
    by (rule arg_cong [of _ _ concat], rule nth_equalityI) (use that in \<open>auto simp: nth_list_update ctx_made_def\<close>)
  have "keeps ?I (plain (\<lambda>l. bnd (entry (mu_ctx l) i) (\<lambda>ctx. bnd (tsapi_fio_opts_read_suf e (ctx_opts ctx) (sfx i)) (\<lambda>opts.
      bnd (entry (case mu_blocks l of None \<Rightarrow> [] | Some bs \<Rightarrow> bs) i) (\<lambda>b.
        ret (l\<lparr>mu_ctx := (mu_ctx l)[i := ctx\<lparr>ctx_opts := opts\<lparr>fio_filename := Some b\<rparr>\<rparr>]\<rparr>))))))" for i
    by (auto simp: keeps_def intro!: ev entry_obeys obeys_weaken [OF leaves_both [OF mres.opts_read_suf fres.opts_read_suf]])
       (auto simp: holds_def upd)
  then show ?thesis unfolding multi_opts_def each_device_def for_each_def
    by (intro obeys_weaken [OF keeps_run_steps [where I = ?I and t = t]]) (use assms in \<open>auto simp: leads_def\<close>)
qed

text \<open>In pass \<open>i\<close> there are \<open>i\<close> instances.\<close>

definition created :: "nat \<Rightarrow> nat \<Rightarrow> 'a multi_locals_scheme \<Rightarrow> event list \<Rightarrow> bool" where
  "created n i l t \<longleftrightarrow> holds l t \<and> mu_count l = n \<and> length (mu_fios l) = i"

lemma create_pass:
  assumes "created n i l t" and "i < n"
  shows "obeys (run_steps [checked_out (\<lambda>l. bnd (entry (mu_ctx l) i) (\<lambda>ctx.
      bnd (tsapi_fio_create e (ctx_opts ctx) (ctx_forked_factory ctx) (Some ''Agt_host'')) (\<lambda>(rc, fio).
        ret (rc, l\<lparr>mu_fios := mu_fios l @ [fio]\<rparr>))))] l) (leads (created n (Suc i)) holds t)"
proof -
  have "obeys (tsapi_fio_create e opts h (Some ta)) (\<lambda>r t. in_trace freed_res t = [] \<and>
      (\<forall>v. r = Jump v \<longrightarrow> in_trace made_res t = []) \<and>
      (\<forall>rc fio. r = Val (rc, fio) \<longrightarrow> rc = 0 \<and> in_trace made_res t = [fio_res fio]))" for opts h ta
    unfolding tsapi_fio_create_def
    by (auto intro!: ev obeys_weaken [OF leaves_both [OF mres.agt_path fres.agt_path]] simp: fio_res_def)
  note create = obeys_weaken [OF this]
  show ?thesis unfolding run_single
    by (rule obeys_attempt, rule obeys_checked_out)
       (use assms in \<open>auto intro!: obeys_bnd obeys_prod obeys_ret entry_obeys create simp: created_def holds_def verdict_of_def\<close>)
qed

definition full :: "'a multi_locals_scheme \<Rightarrow> bool" where
  "full l \<longleftrightarrow> length (mu_fios l) = mu_count l"

lemma create_all:
  assumes "holds l t" and "mu_fios l = []"
  shows "obeys (multi_create e l) (leads (\<lambda>l t. holds l t \<and> full l) holds t)"
proof -
  have "obeys (multi_create e l) (leads (created (mu_count l) (mu_count l)) holds t)"
    unfolding multi_create_def each_device_def for_each_def
    by (rule counted_loop [where P = "created (mu_count l)"], erule (1) create_pass)
       (use assms in \<open>auto simp: created_def\<close>)
  then show ?thesis by (rule obeys_weaken) (auto elim!: leads_cases simp: created_def full_def)
qed

text \<open>The body: statements before the contexts, and statements after the instances.\<close>

lemma leads_Cons:
  assumes "obeys (f l) (leads P Q t)" and "\<And>l' t'. P l' (t @ t') \<Longrightarrow> obeys (run_steps fs l') (leads R Q (t @ t'))"
  shows "obeys (run_steps (f # fs) l) (leads R Q t)"
proof -
  have "obeys (attempt l (f l)) (leads P Q t)"
    by (rule obeys_attempt, rule obeys_weaken [OF assms(1)]) (auto elim!: leads_cases)
  then show ?thesis by (intro obeys_steps_Cons leads_bnd assms(2))
qed

lemma holds_init:
  assumes "in_trace made_res t = []" and "in_trace freed_res t = []" and "mu_ctx l = []" and "mu_fios l = []"
  shows "obeys (attempt l (multi_init e l)) (leads (\<lambda>l t. holds l t \<and> mu_fios l = []) holds_some t)"
  unfolding multi_init_def using assms
  by (auto intro!: ev obeys_weaken [OF multi_init_res] simp: holds_some_def holds_def verdict_of_def)

lemma keeps_leads:
  assumes "\<And>f. f \<in> set fs \<Longrightarrow> keeps holds f" and "holds l t"
  shows "obeys (run_steps fs l) (leads holds holds_some t)"
proof -
  have "obeys (run_steps fs l) (\<lambda>r t'. \<exists>v l'. r = Val (v, l') \<and> holds l' (t @ t'))"
    by (rule keeps_run_steps [where I = holds, OF assms])
  then show ?thesis
    by (rule obeys_weaken) (auto simp: holds_some leads_def)
qed

lemma multi_ready:
  assumes pre: "\<And>f. f \<in> set pre \<Longrightarrow> idle made_res freed_res (\<lambda>l. (mu_ctx l, mu_fios l)) f"
    and l: "mu_ctx l = []" "mu_fios l = []"
  shows "obeys (run_steps (pre @ [multi_init e, multi_opts e sfx, multi_create e]) l)
    (leads (\<lambda>l t. holds l t \<and> full l) holds_some [])"
proof -
  have opts: "obeys (multi_opts e sfx l) (leads (\<lambda>l t. holds l t \<and> mu_fios l = []) holds_some t)"
    if "holds l t" "mu_fios l = []" for l t
    by (rule obeys_weaken [OF leads_opts [OF that]]) (auto elim: leads_mono simp: holds_some)
  have create: "obeys (multi_create e l) (leads (\<lambda>l t. holds l t \<and> full l) holds_some t)" if "holds l t" "mu_fios l = []" for l t
    by (rule obeys_weaken [OF create_all [OF that]]) (auto elim: leads_mono simp: holds_some)
  have tail: "obeys (run_steps [multi_opts e sfx, multi_create e] l) (leads (\<lambda>l t. holds l t \<and> full l) holds_some t)"
    if "holds l t" "mu_fios l = []" for l t
    by (rule leads_Cons, rule opts [OF that], elim conjE, rule leads_Cons, erule (1) create) (auto intro!: obeys_ret simp: leads_def)
  have init: "obeys (run_steps [multi_init e, multi_opts e sfx, multi_create e] l) (leads (\<lambda>l t. holds l t \<and> full l) holds_some t)"
    if "in_trace made_res t = []" "in_trace freed_res t = []" "mu_ctx l = []" "mu_fios l = []" for l t
    by (rule obeys_steps_Cons, rule leads_bnd, rule holds_init [OF that], elim conjE, rule tail)
  show ?thesis
    by (rule obeys_steps_append, rule obeys_bnd, rule obeys_weaken [OF idle_run_steps [OF pre]])
       (use l in \<open>auto intro!: obeys_ret obeys_weaken [OF init] holds_some_early simp del: run_steps.simps\<close>)
qed

lemma multi_body:
  assumes pre: "\<And>f. f \<in> set pre \<Longrightarrow> idle made_res freed_res (\<lambda>l. (mu_ctx l, mu_fios l)) f"
    and post: "\<And>f. f \<in> set post \<Longrightarrow> keeps holds f" and l: "mu_ctx l = []" "mu_fios l = []"
  shows "obeys (run_steps (pre @ multi_init e # multi_opts e sfx # multi_create e # post) l)
    (leads holds holds_some [])"
proof -
  have "obeys (run_steps ((pre @ [multi_init e, multi_opts e sfx, multi_create e]) @ post) l) (leads holds holds_some [])"
    by (rule obeys_steps_append, rule leads_bnd, rule multi_ready [OF pre l], assumption, elim conjE,
        rule keeps_leads [OF post])
  then show ?thesis by simp
qed

subsection \<open>The cleanup\<close>

definition frees_entries :: "tapi_fio list \<Rightarrow> nat list \<Rightarrow> unit outcome \<Rightarrow> event list \<Rightarrow> bool" where
  "frees_entries fios is r t \<longleftrightarrow> in_trace made_res t = [] \<and> (\<exists>m.
     in_trace freed_res t = map (\<lambda>i. fio_res (fios ! i)) (take m is) \<and> list_all (\<lambda>i. i < length fios) (take m is) \<and>
     (r = Val () \<longrightarrow> take m is = is))"

lemma frees_entries_Nil: "frees_entries fios [] r []" "frees_entries fios is (Jump v) []"
  by (auto simp: frees_entries_def intro!: exI [of _ 0])

lemma frees_entries_Cons:
  assumes "frees_entries fios is r t" and "i < length fios" and "h = fio_handle (fios ! i)"
  shows "frees_entries fios (i # is) r ((Tool (FioDestroy h), a) # t)"
proof -
  from assms(1) obtain m where "in_trace made_res t = []" "in_trace freed_res t = map (\<lambda>i. fio_res (fios ! i)) (take m is)"
    "list_all (\<lambda>i. i < length fios) (take m is)" "r = Val () \<longrightarrow> take m is = is"
    by (auto simp: frees_entries_def)
  with assms(2,3) show ?thesis unfolding frees_entries_def
    by (auto intro!: exI [of _ "Suc m"] simp: fio_res_def)
qed

lemma destroy_entries:
  "obeys (do_all (map (\<lambda>i. bnd (entry fios i) (\<lambda>fio. quiet (te_call e (Tool (FioDestroy (fio_handle fio)))))) is))
     (frees_entries fios is)"
  by (induction "is") (auto intro!: ev entry_obeys frees_entries_Nil frees_entries_Cons elim!: obeys_weaken)

lemma multi_destroy_res:
  "obeys (multi_destroy e l) (\<lambda>r t. in_trace made_res t = [] \<and> (\<exists>m. in_trace freed_res t = map fio_res (take m (mu_fios l)) \<and>
     (r = Val () \<longrightarrow> m = mu_count l \<and> mu_count l \<le> length (mu_fios l))))"
proof -
  have "\<exists>k. map (\<lambda>i. fio_res (fios ! i)) (take m [0..<n]) = map fio_res (take k fios) \<and> (take m [0..<n] = [0..<n] \<longrightarrow> k = n \<and> n \<le> length fios)"
    if "list_all (\<lambda>i. i < length fios) (take m [0..<n])" for fios :: "tapi_fio list" and m n
  proof -
    have upt: "take m [0..<n] = [0..<min m n]" by (cases "m \<le> n") simp_all
    from that have len: "min m n \<le> length fios"
      by (cases "min m n") (auto simp: upt list_all_iff simp del: take_upt)
    then have "map (\<lambda>i. fio_res (fios ! i)) [0..<min m n] = map fio_res (take (min m n) fios)"
      by (intro nth_equalityI) auto
    moreover have "[0..<min m n] = [0..<n] \<Longrightarrow> min m n = n"
      by (metis length_upt diff_zero)
    ultimately show ?thesis using len unfolding upt by (intro exI [of _ "min m n"]) auto
  qed
  then show ?thesis unfolding multi_destroy_def
    by (intro obeys_weaken [OF destroy_entries]) (fastforce simp: frees_entries_def)
qed

text \<open>Nothing is destroyed twice, and nothing that was not made.\<close>

definition released_once :: "event list \<Rightarrow> bool" where
  "released_once t \<longleftrightarrow> mset (in_trace freed_res t) \<subseteq># mset (in_trace made_res t)"

definition all_released :: "event list \<Rightarrow> bool" where
  "all_released t \<longleftrightarrow> mset (in_trace freed_res t) = mset (in_trace made_res t)"

lemma mset_take: "mset (take k xs) \<subseteq># mset xs"
  using mset_subset_eq_add_left [of "mset (take k xs)" "mset (drop k xs)"] by (simp flip: mset_append)

lemma mset_ctx_take: "mset (concat (map ctx_freed (take k cs))) \<subseteq># mset (concat (map ctx_made cs))"
  using mset_subset_eq_add_left [of "mset (concat (map ctx_made (take k cs)))" "mset (concat (map ctx_made (drop k cs)))"]
  by (simp add: mset_ctx flip: mset_append concat_append map_append)

lemma mset_map_take: "mset (map f (take k xs)) \<subseteq># mset (map f xs)"
  using mset_take [of k "map f xs"] by (simp add: take_map)

lemma once_fios:
  assumes "holds_some l t" and "in_trace made_res t' = []" and "in_trace freed_res t' = map fio_res (take m (mu_fios l))"
  shows "released_once (t @ t')"
  using assms mset_map_take [of fio_res m "mu_fios l"]
  by (auto simp: released_once_def holds_some_def holds_def intro: subset_mset.order_trans)

text \<open>All instances, then contexts: the cleanup comes there only when it has all of them.\<close>

lemma once_ctxs:
  assumes l: "holds_some l t" "mu_count l \<le> length (mu_fios l)" "length (mu_ctx l) = mu_count l"
    and t1: "in_trace made_res t1 = []" "in_trace freed_res t1 = map fio_res (take (mu_count l) (mu_fios l))"
    and t2: "in_trace made_res t2 = []" "in_trace freed_res t2 = concat (map ctx_freed (take k (mu_ctx l)))"
  shows "released_once (t @ t1 @ t2)" and "take k (mu_ctx l) = mu_ctx l \<Longrightarrow> holds l t \<Longrightarrow> all_released (t @ t1 @ t2)"
proof -
  show "take k (mu_ctx l) = mu_ctx l \<Longrightarrow> holds l t \<Longrightarrow> all_released (t @ t1 @ t2)"
    using l t1 t2 by (auto simp: all_released_def holds_def mset_ctx)
  consider "holds l t" | "mu_fios l = []" "mu_ctx l = []" "in_trace freed_res t = []"
    using l by (auto simp: holds_some_def)
  then show "released_once (t @ t1 @ t2)"
  proof cases
    case 1
    then have "in_trace made_res (t @ t1 @ t2) = concat (map ctx_made (mu_ctx l)) @ map fio_res (mu_fios l)"
      "in_trace freed_res (t @ t1 @ t2) = map fio_res (take (mu_count l) (mu_fios l)) @ concat (map ctx_freed (take k (mu_ctx l)))"
      using t1 t2 by (auto simp: holds_def)
    then show ?thesis unfolding released_once_def
      using subset_mset.add_mono [OF mset_ctx_take [of k "mu_ctx l"] mset_map_take [of fio_res "mu_count l" "mu_fios l"]]
      by (simp add: add.commute)
  qed (use t1 t2 in \<open>simp add: released_once_def\<close>)
qed

lemma released_once_stop: "holds_some l t \<Longrightarrow> released_once t"
  by (simp add: released_once_def holds_some_def)

lemma fini_cleans:
  assumes l: "holds_some l t" "mu_count l \<le> length (mu_fios l)"
    and t1: "in_trace made_res t1 = []" "in_trace freed_res t1 = map fio_res (take (mu_count l) (mu_fios l))"
  shows "obeys (multi_fini e l) (\<lambda>r t2. released_once (t @ t1 @ t2) \<and>
    (r = Val 0 \<longrightarrow> holds l t \<longrightarrow> all_released (t @ t1 @ t2)))"
proof -
  have once: "released_once (t @ t1)" using once_fios [OF l(1) t1] .
  have fin: "released_once (t @ t1 @ t2) \<and> (r = Val 0 \<longrightarrow> holds l t \<longrightarrow> all_released (t @ t1 @ t2))"
    if len: "length (mu_ctx l) = mu_count l" and t2: "in_trace made_res t2 = [] \<and> (\<exists>rc k. r = Val rc \<and>
      in_trace freed_res t2 = concat (map ctx_freed (take k (mu_ctx l))) \<and> (rc = 0 \<longrightarrow> take k (mu_ctx l) = mu_ctx l))" for r t2
  proof -
    from t2 obtain rc k where "r = Val rc" "in_trace made_res t2 = []"
      "in_trace freed_res t2 = concat (map ctx_freed (take k (mu_ctx l)))" "rc = 0 \<longrightarrow> take k (mu_ctx l) = mu_ctx l" by blast
    with once_ctxs [OF l len t1, of t2 k] show ?thesis by auto
  qed
  have run: "obeys (tsapi_fio_multi_fini e (mu_ctx l)) (\<lambda>r t2. released_once (t @ t1 @ t2) \<and>
      (r = Val 0 \<longrightarrow> holds l t \<longrightarrow> all_released (t @ t1 @ t2)))" if "length (mu_ctx l) = mu_count l"
    by (rule obeys_weaken [OF multi_fini_res]) (rule fin [OF that])
  show ?thesis unfolding multi_fini_def get_local_def
    by (rule obeys_bnd, cases "length (mu_ctx l) = mu_count l")
       (use once run in \<open>auto intro!: obeys_ret obeys_jump\<close>)
qed

lemma fio_multi_cleans:
  assumes l: "holds_some l t"
  shows "obeys (fio_multi_cleanup e l) (\<lambda>r t'. released_once (t @ t') \<and>
    (r = Val False \<longrightarrow> holds l t \<longrightarrow> 2 \<le> mu_count l \<longrightarrow> all_released (t @ t')))"
proof -
  have last: "obeys (clean_all [multi_fini e l]) (\<lambda>r t2. released_once (t @ t1 @ t2) \<and>
      (r = Val False \<longrightarrow> holds l t \<longrightarrow> all_released (t @ t1 @ t2)))"
    if "mu_count l \<le> length (mu_fios l)" "in_trace made_res t1 = []"
      "in_trace freed_res t1 = map fio_res (take (mu_count l) (mu_fios l))" for t1
    unfolding clean_all.simps
    by (rule obeys_bnd, rule obeys_weaken [OF fini_cleans [OF l that]]) (auto intro!: ev)
  show ?thesis unfolding fio_multi_cleanup_def
    by (rule obeys_if, rule obeys_bnd, rule obeys_weaken [OF multi_destroy_res])
       (use l in \<open>auto intro!: obeys_ret obeys_weaken [OF last] intro: once_fios released_once_stop simp del: clean_all.simps(2)\<close>)
qed

lemma stress_cleans:
  assumes l: "holds_some l t"
  shows "obeys (stress_cleanup e l) (\<lambda>r t'. released_once (t @ t'))"
proof -
  have last: "obeys (clean_all [ignored (multi_fini e l)]) (\<lambda>r t2. released_once (t @ t1 @ t2))"
    if "mu_count l \<le> length (mu_fios l)" "in_trace made_res t1 = []"
      "in_trace freed_res t1 = map fio_res (take (mu_count l) (mu_fios l))" for t1
    unfolding clean_all.simps ignored_def
    by (rule obeys_bnd, rule obeys_bnd, rule obeys_weaken [OF fini_cleans [OF l that]]) (auto intro!: ev)
  show ?thesis unfolding stress_cleanup_def
    by (rule obeys_bnd, rule obeys_weaken [OF multi_destroy_res])
       (use l in \<open>auto intro!: obeys_weaken [OF last] intro: once_fios simp del: clean_all.simps(2)\<close>)
qed

lemma multi_end_quiet: "leaves_none made_res (test_end_specific e)" "leaves_none freed_res (test_end_specific e)"
  unfolding test_end_specific_def by (auto intro!: ln)

lemma quiet_to_str: "leaves_none view (fio_blocks_to_str e bs str)"
  by (induction bs arbitrary: str) (auto intro!: ln)

lemma multi_pre:
  "idle made_res freed_res (\<lambda>l. (mu_ctx l, mu_fios l)) (multi_host e)"
  "idle made_res freed_res (\<lambda>l. (mu_ctx l, mu_fios l)) (multi_devices e)"
  "idle made_res freed_res (\<lambda>l. (mu_ctx l, mu_fios l)) (list_blocks e)"
  unfolding multi_host_def multi_devices_def list_blocks_def
  by (auto intro!: idl ln mres.readers fres.readers quiet_to_str)
     (auto simp: idle_def intro!: ev obeys_weaken [OF leaves_both [OF mres.get_devices fres.get_devices]])

lemma keeps_count:
  "keeps (\<lambda>l t. n \<le> mu_count l) (multi_init e)" "keeps (\<lambda>l t. n \<le> mu_count l) (multi_opts e sfx)"
  "keeps (\<lambda>l t. n \<le> mu_count l) (multi_create e)" "keeps (\<lambda>l t. n \<le> mu_count l) (list_blocks e)"
  "keeps (\<lambda>l t. n \<le> mu_count l) (multi_start e)" "keeps (\<lambda>l t. n \<le> mu_count l) (multi_wait e)"
  "keeps (\<lambda>l t. n \<le> mu_count l) (multi_report e)"
proof -
  show "keeps (\<lambda>l t. n \<le> mu_count l) (multi_init e)"
    unfolding multi_init_def by (auto simp: keeps_def intro!: ev obeys_weaken [OF multi_init_res])
  show "keeps (\<lambda>l t. n \<le> mu_count l) (multi_opts e sfx)" unfolding multi_opts_def each_device_def
    by (rule keeps_for_each) (auto simp: keeps_def intro!: ev entry_obeys obeys_weaken [OF leaves_both [OF mres.opts_read_suf fres.opts_read_suf]])
  show "keeps (\<lambda>l t. n \<le> mu_count l) (multi_create e)" unfolding multi_create_def each_device_def tsapi_fio_create_def
    by (rule keeps_for_each) (auto simp: keeps_def intro!: ev entry_obeys obeys_weaken [OF leaves_both [OF mres.agt_path fres.agt_path]])
  show "keeps (\<lambda>l t. n \<le> mu_count l) (list_blocks e)" unfolding list_blocks_def
    by (auto simp: keeps_def intro!: ev obeys_weaken [OF leaves_both [OF quiet_to_str [of made_res] quiet_to_str [of freed_res]]])
  show "keeps (\<lambda>l t. n \<le> mu_count l) (multi_start e)" "keeps (\<lambda>l t. n \<le> mu_count l) (multi_wait e)"
    "keeps (\<lambda>l t. n \<le> mu_count l) (multi_report e)"
    unfolding multi_start_def multi_wait_def multi_report_def each_device_def tsapi_fio_flex_wait_def
    by (rule keeps_for_each; auto simp: keeps_def intro!: ev entry_obeys)+
qed

abbreviation multi_pre_steps :: "'w te_env \<Rightarrow> ('w, multi_locals) step list" where
  "multi_pre_steps e \<equiv> [multi_host e, multi_devices e, stop_if (\<lambda>l. mu_count l < 2) Skipped, list_blocks e]"

abbreviation multi_rest_steps :: "'w te_env \<Rightarrow> ('w, multi_locals) step list" where
  "multi_rest_steps e \<equiv> [multi_start e, multi_wait e, multi_report e]"

lemma fio_multi_count:
  "obeys (run_steps (multi_pre_steps e @ multi_init e # multi_opts e second_suffix # multi_create e # multi_rest_steps e) l)
     (\<lambda>r t. \<forall>l'. r = Val (None, l') \<longrightarrow> 2 \<le> mu_count l')"
proof -
  let ?rest = "list_blocks e # multi_init e # multi_opts e second_suffix # multi_create e # multi_rest_steps e"
  have two: "obeys (run_steps ?rest l) (\<lambda>r t. \<exists>v l'. r = Val (v, l') \<and> 2 \<le> mu_count l')" if "2 \<le> mu_count l" for l
    by (rule keeps_run_steps [where I = "\<lambda>l t. 2 \<le> mu_count l"]) (use that keeps_count in auto)
  have stop: "obeys (run_steps (stop_if (\<lambda>l. mu_count l < 2) Skipped # ?rest) l) (\<lambda>r t. \<forall>l'. r = Val (None, l') \<longrightarrow> 2 \<le> mu_count l')" for l
    unfolding run_steps.simps(2) [of "stop_if _ _"]
    by (rule obeys_bnd, rule obeys_attempt, rule obeys_stop_if)
       (auto intro!: obeys_ret obeys_weaken [OF two] simp del: run_steps.simps)
  have "obeys (run_steps ([multi_host e, multi_devices e] @ stop_if (\<lambda>l. mu_count l < 2) Skipped # ?rest) l)
      (\<lambda>r t. \<forall>l'. r = Val (None, l') \<longrightarrow> 2 \<le> mu_count l')"
    by (rule obeys_steps_append, rule obeys_bnd, rule obeys_weaken [OF idle_run_steps [where made = made_res and freed = freed_res
          and var = "\<lambda>l. (mu_ctx l, mu_fios l)"]])
       (auto intro: multi_pre intro!: obeys_ret obeys_weaken [OF stop] simp del: run_steps.simps)
  then show ?thesis by simp
qed

definition multi_releases :: "verdict option outcome \<Rightarrow> event list \<Rightarrow> bool" where
  "multi_releases r t \<longleftrightarrow> released_once t \<and> (r = Val None \<longrightarrow> all_released t)"

lemma tend_quiet:
  "obeys (bnd (test_end_specific e) (\<lambda>rc. ret (if failed \<or> rc \<noteq> 0 then Some Failed else v)))
     (\<lambda>r t. in_trace made_res t = [] \<and> in_trace freed_res t = [] \<and> (r = Val None \<longrightarrow> v = None \<and> \<not> failed))"
  by (rule obeys_bnd, rule obeys_weaken [OF leaves_both [OF multi_end_quiet]]) (auto intro!: obeys_ret split: if_splits)

lemma released_append:
  "in_trace made_res t' = [] \<Longrightarrow> in_trace freed_res t' = [] \<Longrightarrow> released_once (t @ t') \<longleftrightarrow> released_once t"
  "in_trace made_res t' = [] \<Longrightarrow> in_trace freed_res t' = [] \<Longrightarrow> all_released (t @ t') \<longleftrightarrow> all_released t"
  by (simp_all add: released_once_def all_released_def)

lemma fio_multi_released: "obeys (fio_multi_main e) multi_releases"
proof -
  have body: "obeys (run_steps (multi_pre_steps e @ multi_init e # multi_opts e second_suffix # multi_create e # multi_rest_steps e) multi_locals0)
      (\<lambda>r t. leads holds holds_some [] r t \<and> (\<forall>l'. r = Val (None, l') \<longrightarrow> 2 \<le> mu_count l'))"
    by (rule obeys_conj [OF multi_body fio_multi_count])
       (auto intro: multi_pre idl holds_idle idle_multi simp: multi_locals0_def)
  have clean: "obeys (bnd (fio_multi_cleanup e l) (\<lambda>failed. bnd (test_end_specific e) (\<lambda>rc.
      ret (if failed \<or> rc \<noteq> 0 then Some Failed else v)))) (\<lambda>r t'. multi_releases r (t @ t'))"
    if "holds_some l t" "v = None \<longrightarrow> holds l t \<and> 2 \<le> mu_count l" for l v t
    by (rule obeys_bnd, rule obeys_weaken [OF fio_multi_cleans [OF that(1)]])
       (use that in \<open>auto intro!: obeys_weaken [OF tend_quiet] simp: multi_releases_def released_append simp flip: append_assoc\<close>)
  show ?thesis unfolding fio_multi_main_def run_main_def
    by (rule obeys_bnd, rule obeys_weaken [OF body])
       (auto intro!: obeys_weaken [OF clean] intro: holds_some simp del: run_steps.simps elim!: leads_cases)
qed

subsection \<open>The stress test\<close>

lemma move_quiet: "leaves_none made_res (stress_move e host reverse a)" "leaves_none freed_res (stress_move e host reverse a)"
  unfolding stress_move_def drop_link_def and_back_def sleep_def tsapi_virtio_blocks_bind_driver_def
  by (cases a; auto intro!: ln mres.readers fres.readers)+

lemma stress_pre:
  "f \<in> set (multi_host e # stress_params e @ [multi_devices e]) \<Longrightarrow> idle made_res freed_res (\<lambda>l. (mu_ctx l, mu_fios l)) f"
  unfolding stress_params_def by (auto intro: multi_pre intro!: idl mres.params fres.params)

abbreviation stress_rest :: "'w te_env \<Rightarrow> ('w, stress_locals) step list" where
  "stress_rest e \<equiv> [multi_start e, act (\<lambda>l. sleep 3 e), act (\<lambda>l. stress_move e (mu_host l) (sl_reverse l) (sl_action l)),
     multi_wait e, multi_report e, when_step sl_reverse [multi_start e, multi_wait e, multi_report e]]"

lemma stress_post: "f \<in> set (stress_rest e) \<Longrightarrow> keeps holds f"
  by (auto intro!: holds_idle idle_when idle_multi idle_act move_quiet ln simp: sleep_def)

lemma stress_released: "obeys (stress_main e) (\<lambda>r t. released_once t)"
proof -
  have clean: "obeys (bnd (stress_cleanup e l) (\<lambda>failed. bnd (test_end_specific e) (\<lambda>rc.
      ret (if failed \<or> rc \<noteq> 0 then Some Failed else v)))) (\<lambda>r t'. released_once (t @ t'))"
    if "holds_some l t" for l v t
    by (rule obeys_bnd, rule obeys_weaken [OF stress_cleans [OF that]])
       (auto intro!: obeys_weaken [OF tend_quiet] simp: released_append simp flip: append_assoc)
  have body: "obeys (run_steps ((multi_host e # stress_params e @ [multi_devices e]) @ multi_init e # multi_opts e (\<lambda>_. '''') #
      multi_create e # stress_rest e) (multi_locals.extend multi_locals0 \<lparr>sl_action = STRESS_ACTION_UNBIND, sl_reverse = False\<rparr>))
      (leads holds holds_some [])"
    by (rule multi_body [OF stress_pre stress_post]) (simp_all add: multi_locals.defs multi_locals0_def)
  show ?thesis unfolding stress_main_def run_main_def
    by (rule obeys_bnd, rule obeys_weaken [OF body])
       (auto intro!: obeys_weaken [OF clean] intro: holds_some simp del: run_steps.simps elim!: leads_cases)
qed


section \<open>The order of the stress test\<close>

datatype stress_step =
    FioUp handle | FioDone handle | DiskTo string string | LinkDown string string | LinkUp string string |
    ModOut string string | ModIn string string

fun stress_steps :: "call \<Rightarrow> stress_step list" where
  "stress_steps (Tool (FioStart h)) = [FioUp h]"
| "stress_steps (Tool (FioStop h)) = [FioDone h]"
| "stress_steps (Agent (PciBindDriver d driver)) = [DiskTo d driver]"
| "stress_steps (Agent (IfDown ta i)) = [LinkDown ta i]"
| "stress_steps (Agent (IfUp ta i)) = [LinkUp ta i]"
| "stress_steps (Agent (ModuleUnload ta m)) = [ModOut ta m]"
| "stress_steps (Agent (ModuleLoad ta m)) = [ModIn ta m]"
| "stress_steps _ = []"

definition stress_view :: "event \<Rightarrow> stress_step list" where
  "stress_view ev = stress_steps (fst ev)"

lemma stress_view_call [simp]: "stress_view (c, r) = stress_steps c"
  by (simp add: stress_view_def)

interpretation sv: reader_blind stress_view
  by unfold_locales (auto elim!: reading.elims)

text \<open>What an action does, and what it does to put it back; the disks found the second time may be others.\<close>

definition all_disks :: "string \<Rightarrow> stress_step list set" where
  "all_disks driver = range (map (\<lambda>d. DiskTo d driver))"

definition put_back :: "bool \<Rightarrow> stress_step list set \<Rightarrow> stress_step list set" where
  "put_back reverse X = (if reverse then X else {[]})"

definition moves :: "bool \<Rightarrow> stress_action \<Rightarrow> stress_step list set" where
  "moves reverse a = (case a of
       STRESS_ACTION_UNBIND \<Rightarrow> seqs (all_disks '''') (put_back reverse (all_disks ''virtio-pci''))
     | STRESS_ACTION_DROP_LINK_ARM \<Rightarrow> (\<Union>i. seqs {[LinkDown ''Agt_ARM'' i]} (put_back reverse {[LinkUp ''Agt_ARM'' i]}))
     | STRESS_ACTION_DROP_LINK_PARTNER \<Rightarrow> (\<Union>i. seqs {[LinkDown ''Agt_disk'' i]} (put_back reverse {[LinkUp ''Agt_disk'' i]}))
     | STRESS_ACTION_UNLOAD_SFC \<Rightarrow> seqs {[ModOut ''Agt_ARM'' ''sfc'']} (put_back reverse {[ModIn ''Agt_ARM'' ''sfc'']}))"

text \<open>Calls in a row, as \<open>shows_steps\<close>.\<close>

lemma shows_then:
  assumes "obeys m (shows_steps view X (Val ()))" and "obeys k (shows_steps view Y (Val ()))" and "Y \<noteq> {}"
  shows "obeys (bnd m (\<lambda>_. k)) (shows_steps view (seqs X Y) (Val ()))"
proof -
  obtain y where y: "y \<in> Y" using assms(3) by blast
  have stop: "shows_steps view (seqs X Y) (Val ()) (Jump v) t" if part: "shows_steps view X (Val ()) (Jump v) t" for v t
  proof -
    from part obtain x where "x \<in> X" "prefix (in_trace view t) x" by (auto simp: shows_steps_def)
    with y have "x @ y \<in> seqs X Y" "prefix (in_trace view t) (x @ y)" by (auto simp: seqs_def)
    then show ?thesis by (auto simp: shows_steps_def)
  qed
  have on: "shows_steps view (seqs X Y) (Val ()) r (t @ t')"
    if parts: "shows_steps view X (Val ()) (Val ()) t" "shows_steps view Y (Val ()) r t'" for r t t'
  proof -
    from parts have x: "in_trace view t \<in> X" by (simp add: shows_steps_def)
    from parts obtain y' where "y' \<in> Y" "prefix (in_trace view t') y'" by (auto simp: shows_steps_def)
    with x have "in_trace view t @ y' \<in> seqs X Y" "prefix (in_trace view (t @ t')) (in_trace view t @ y')"
      by (auto simp: seqs_def)
    moreover have "r = Val () \<longrightarrow> in_trace view (t @ t') \<in> seqs X Y"
      using x parts(2) by (auto simp: shows_steps_def seqs_def)
    ultimately show ?thesis unfolding shows_steps_def by blast
  qed
  show ?thesis
    by (rule obeys_bnd, rule obeys_weaken [OF assms(1)]) (auto intro!: stop on obeys_weaken [OF assms(2)])
qed

lemma shows_none: "leaves_none view m \<Longrightarrow> obeys m (shows_steps view {[]} ok)"
  unfolding leaves_none_def by (erule obeys_weaken) (auto simp: shows_steps_def)

lemma and_back_shows:
  assumes "obeys down (shows_steps stress_view X (Val ()))" and "obeys up (shows_steps stress_view Y (Val ()))" and "Y \<noteq> {}"
  shows "obeys (and_back e reverse down up) (shows_steps stress_view (seqs X (put_back reverse Y)) (Val ()))"
proof -
  have sl: "obeys (sleep n e) (shows_steps stress_view {[]} (Val ()))" for n
    by (rule shows_none) (auto simp: sleep_def intro!: ln)
  have nil: "obeys (ret ()) (shows_steps stress_view {[]} (Val ()))"
    by (auto intro!: ev simp: shows_steps_def)
  have "obeys (bnd up (\<lambda>_. ret ())) (shows_steps stress_view (seqs Y {[]}) (Val ()))"
    by (rule shows_then [OF assms(2) nil]) simp
  then have "obeys (bnd (sleep n e) (\<lambda>_. bnd up (\<lambda>_. ret ()))) (shows_steps stress_view (seqs {[]} Y) (Val ()))" for n
    using assms(3) by (intro shows_then [OF sl]) simp_all
  note rev = shows_then [OF assms(1) this]
  note no_rev = shows_then [OF assms(1) nil]
  show ?thesis
    using assms(3) rev no_rev by (cases reverse) (simp_all add: and_back_def put_back_def)
qed

lemma disks_moved:
  "obeys (tsapi_virtio_blocks_bind_driver e rpcs driver) (shows_steps stress_view (all_disks driver) (Val ()))"
proof -
  have binds: "obeys (do_all (map (\<lambda>d. check_rc (call_rc e (Agent (PciBindDriver d drv)))) devs))
      (\<lambda>r t. prefix (in_trace stress_view t) (map (\<lambda>d. DiskTo d drv) devs) \<and>
         (r = Val () \<longrightarrow> in_trace stress_view t = map (\<lambda>d. DiskTo d drv) devs))" for devs drv
  proof (induction devs)
    case (Cons d devs)
    then show ?case by (auto intro!: ev elim!: obeys_weaken)
  qed (auto intro!: ev)
  show ?thesis unfolding tsapi_virtio_blocks_bind_driver_def
    by (rule obeys_bnd, rule leaves_noneD [OF sv.virtio_blocks])
       (auto intro!: ev obeys_weaken [OF binds] simp: all_disks_def shows_steps_def)
qed

lemma event_shows:
  "stress_steps c = [x] \<Longrightarrow> \<not> is_rpc c \<Longrightarrow> obeys (check_rc (call_rc e c)) (shows_steps stress_view {[x]} (Val ()))"
  by (auto intro!: ev simp: shows_steps_def)

lemma all_disks_nonempty: "all_disks driver \<noteq> {}"
  by (simp add: all_disks_def)

lemma link_moved:
  "obeys (drop_link e reverse ta p) (shows_steps stress_view (\<Union>i. seqs {[LinkDown ta i]} (put_back reverse {[LinkUp ta i]})) (Val ()))"
proof -
  have move: "obeys (and_back e reverse (check_rc (call_rc e (Agent (IfDown ta i)))) (check_rc (call_rc e (Agent (IfUp ta i)))))
      (shows_steps stress_view (\<Union>i. seqs {[LinkDown ta i]} (put_back reverse {[LinkUp ta i]})) (Val ()))" for i
    by (rule obeys_weaken [OF and_back_shows [where X = "{[LinkDown ta i]}" and Y = "{[LinkUp ta i]}"]])
       (auto intro!: event_shows simp: shows_steps_def)
  show ?thesis unfolding drop_link_def
    by (rule obeys_bnd, rule leaves_noneD [OF sv.start_env], rule conjI)
       (auto intro!: obeys_bnd leaves_noneD [OF sv.get_if] obeys_weaken [OF move], auto simp: shows_steps_def put_back_def)
qed

lemma stress_move_shows:
  "obeys (stress_move e host reverse a) (shows_steps stress_view (moves reverse a) (Val ()))"
  unfolding stress_move_def moves_def TSAPI_VIRTIO_BLOCK_DRIVER_NAME_def
  by (cases a) (auto simp del: seqs_simps intro!: link_moved and_back_shows disks_moved event_shows all_disks_nonempty)

subsection \<open>The passes over the devices\<close>

text \<open>What is known of the variables once the instances are created.\<close>

definition known :: "handle list \<times> bool \<times> stress_action \<Rightarrow> stress_locals \<Rightarrow> bool" where
  "known k l \<longleftrightarrow> k = (map fio_handle (mu_fios l), sl_reverse l, sl_action l) \<and> mu_count l = length (mu_fios l)"

lemma upt_handles: "map (\<lambda>i. f (hs ! i)) [0..<length hs] = map f hs"
  by (rule nth_equalityI) simp_all

lemma follows_devices:
  assumes "\<And>i. i < length hs \<Longrightarrow> follows (known (hs, r, a)) stress_view {[f (hs ! i)]} (run_steps (body i))"
  shows "follows (known (hs, r, a)) stress_view {map f hs} (each_device body)"
proof -
  have "follows (known (hs, r, a)) stress_view (\<Union>ys \<in> {[0..<length hs]}. prods (\<lambda>i. {[f (hs ! i)]}) ys) (each_device body)"
    unfolding each_device_def by (rule follows_for_each) (use assms in \<open>auto simp: known_def\<close>)
  then show ?thesis by (simp add: upt_handles)
qed

lemma follows_start: "follows (known (hs, r, a)) stress_view {map FioUp hs} (multi_start e)"
  unfolding multi_start_def
proof (rule follows_devices)
  fix i assume i: "i < length hs"
  have "follows (known (hs, r, a)) stress_view {[FioUp (hs ! i)]} (checked (\<lambda>l.
      bnd (entry (mu_fios l) i) (\<lambda>fio. call_rc e (Tool (FioStart (fio_handle fio))))))"
    by (rule follows_checked) (use i in \<open>auto intro!: ev entry_obeys simp: known_def shows_steps_def\<close>)
  from follows_Cons [OF this follows_Nil] show "follows (known (hs, r, a)) stress_view {[FioUp (hs ! i)]} (run_steps
      [checked (\<lambda>l. bnd (entry (mu_fios l) i) (\<lambda>fio. call_rc e (Tool (FioStart (fio_handle fio)))))])"
    by (simp del: run_steps.simps)
qed

lemma follows_wait: "follows (known (hs, r, a)) stress_view {map FioDone hs} (multi_wait e)"
  unfolding multi_wait_def
proof (rule follows_devices)
  fix i assume i: "i < length hs"
  have wait: "follows (known (hs, r, a)) stress_view {[]} (checked (\<lambda>l. bnd (entry (mu_fios l) i) (tsapi_fio_flex_wait e)))"
    unfolding tsapi_fio_flex_wait_def by (rule follows_quiet) (auto intro!: ln)
  have stop: "follows (known (hs, r, a)) stress_view {[FioDone (hs ! i)]} (checked (\<lambda>l.
      bnd (entry (mu_fios l) i) (\<lambda>fio. call_rc e (Tool (FioStop (fio_handle fio))))))"
    by (rule follows_checked) (use i in \<open>auto intro!: ev entry_obeys simp: known_def shows_steps_def\<close>)
  from follows_Cons [OF wait follows_Cons [OF stop follows_Nil]]
  show "follows (known (hs, r, a)) stress_view {[FioDone (hs ! i)]} (run_steps
      [checked (\<lambda>l. bnd (entry (mu_fios l) i) (tsapi_fio_flex_wait e)),
       checked (\<lambda>l. bnd (entry (mu_fios l) i) (\<lambda>fio. call_rc e (Tool (FioStop (fio_handle fio)))))])"
    by (simp del: run_steps.simps)
qed

lemma follows_report: "follows (known (hs, r, a)) stress_view {[]} (multi_report e)"
proof -
  have "follows (known (hs, r, a)) stress_view (\<Union>ys \<in> {[0..<length hs]}. prods (\<lambda>i. {[]}) ys) (multi_report e)"
    unfolding multi_report_def each_device_def
    by (rule follows_for_each) (auto intro!: follows_chain follows_quiet ln simp: known_def)
  then show ?thesis by (simp add: map_replicate_const)
qed

lemmas follows_stress = follows_start follows_wait follows_report

text \<open>What the test does once it has its instances.\<close>

definition stress_run :: "handle list \<times> bool \<times> stress_action \<Rightarrow> stress_step list set" where
  "stress_run k = (case k of (hs, reverse, a) \<Rightarrow>
     seqs {map FioUp hs} (seqs (moves reverse a) (seqs {map FioDone hs} (put_back reverse {map FioUp hs @ map FioDone hs}))))"

lemma put_back_nonempty [simp]: "X \<noteq> {} \<Longrightarrow> put_back r X \<noteq> {}"
  by (simp add: put_back_def)

lemma seqs_nonempty [simp]: "seqs X Y = {} \<longleftrightarrow> X = {} \<or> Y = {}"
  by (auto simp: seqs_def)

lemma stress_run_nonempty: "stress_run k \<noteq> {}"
  by (cases k) (auto simp: stress_run_def moves_def all_disks_nonempty put_back_def simp del: seqs_simps split: stress_action.split)

lemma follows_move:
  "follows (known (hs, r, a)) stress_view (moves r a) (act (\<lambda>l. stress_move e (mu_host l) (sl_reverse l) (sl_action l)))"
  unfolding follows_def
  by (intro allI impI obeys_act obeys_bnd, rule obeys_weaken [OF stress_move_shows])
     (auto intro!: ev simp: goes_def shows_steps_def known_def)

lemma follows_rest: "follows (known k) stress_view (stress_run k) (run_steps (stress_rest e))"
proof (cases k)
  case (fields hs r a)
  have again: "follows (known k) stress_view (seqs {map FioUp hs} (seqs {map FioDone hs} (seqs {[]} {[]})))
      (run_steps [multi_start e, multi_wait e, multi_report e])"
    unfolding fields by (intro follows_Cons follows_stress follows_Nil)
  have rev: "follows (known k) stress_view (put_back r {map FioUp hs @ map FioDone hs})
      (when_step sl_reverse [multi_start e, multi_wait e, multi_report e])"
    unfolding put_back_def by (rule follows_when_known) (use again in \<open>auto simp: known_def fields simp del: run_steps.simps\<close>)
  have sleep: "follows (known k) stress_view {[]} (act (\<lambda>l. sleep 3 e))"
    by (rule follows_quiet) (auto simp: sleep_def intro!: ln)
  have "follows (known k) stress_view (seqs {map FioUp hs} (seqs {[]} (seqs (moves r a) (seqs {map FioDone hs} (seqs {[]}
      (seqs (put_back r {map FioUp hs @ map FioDone hs}) {[]})))))) (run_steps (stress_rest e))"
    by (intro follows_Cons follows_Nil sleep rev; unfold fields; rule follows_stress follows_move)
  then show ?thesis by (simp add: stress_run_def fields image_def del: run_steps.simps)
qed

subsection \<open>The whole test\<close>

lemma stress_quiet:
  "leaves_none stress_view (multi_host e l)" "leaves_none stress_view (multi_devices e l)"
  "leaves_none stress_view (multi_init e l)" "leaves_none stress_view (multi_opts e sfx l)"
  "leaves_none stress_view (multi_create e l)"
proof -
  show "leaves_none stress_view (multi_host e l)" "leaves_none stress_view (multi_devices e l)"
    unfolding multi_host_def multi_devices_def by (auto intro!: ln sv.readers sv.get_devices)
  have "leaves_none stress_view (multi_init_loop e rpcs is ctxs)" for rpcs "is" ctxs
    by (induction "is" arbitrary: ctxs) (auto intro!: ln simp: multi_init_one_def Let_def)
  then show "leaves_none stress_view (multi_init e l)"
    unfolding multi_init_def tsapi_fio_multi_init_def by (auto intro!: ln)
  show "leaves_none stress_view (multi_opts e sfx l)" "leaves_none stress_view (multi_create e l)"
    unfolding multi_opts_def multi_create_def each_device_def for_each_def tsapi_fio_create_def
    by (auto intro!: ln sv.opts_read_suf sv.agt_path split: option.split)
qed

lemma stress_cleanup_quiet: "leaves_none stress_view (stress_cleanup e l)"
proof -
  have "leaves_none stress_view (do_all (map (\<lambda>i. bnd (entry fs i) (\<lambda>fio. quiet (te_call e (Tool (FioDestroy (fio_handle fio)))))) is))"
    for fs "is" by (induction "is") (auto intro!: ln)
  moreover have "leaves_none stress_view (tsapi_fio_multi_fini e ctxs)" for ctxs
    unfolding tsapi_fio_multi_fini_def by (induction ctxs) (auto intro!: ln)
  ultimately show ?thesis
    unfolding stress_cleanup_def multi_destroy_def multi_fini_def get_local_def clean_all.simps
    by (auto intro!: ln)
qed


end
