(* ===== verification/Test_Rbd.thy ===== *)
theory Test_Rbd
  imports Test_Multi
begin

text \<open>
  The tests under \<open>src/block-ts/rbd\<close>: the prologue \<open>prologue.c\<close> and \<open>rungtest.c\<close>, which runs one gtest
  of librbd on the ARM agent. They do not include \<open>tsapi.h\<close>, so that nothing is done at their end.
\<close>

section \<open>\<open>rbd/prologue.c\<close>\<close>

text \<open>A missing \<open>CEPH_BIN\<close> is logged only: NULL is then handed on as the directory.\<close>

definition append_path :: "'w te_env \<Rightarrow> string option \<Rightarrow> string \<Rightarrow> ('w, unit) te" where
  "append_path e path agent =
     bnd (te_call e (Cfg (CfgGetOid agent))) (\<lambda>oid. if r_rc oid \<noteq> 0 then jump Failed
       else check_rc (call_rc e (Agent (ShEnvPathAppend (out_str oid) path))))"

definition update_agents_gtest_path :: "'w te_env \<Rightarrow> ('w, unit) te" where
  "update_agents_gtest_path e =
     bnd (te_call e (Cfg (CfgFind ''/agent:*''))) (\<lambda>r. if r_rc r \<noteq> 0 then jump Failed
       else do_all (map (append_path e (getenv e ''CEPH_BIN'')) (r_list r)))"

definition rbd_prologue_main :: "'w te_env \<Rightarrow> ('w, verdict option) te" where
  "rbd_prologue_main e = run_main [act (\<lambda>_. update_agents_gtest_path e), print_tree e] (\<lambda>_. clean_all []) (ret 0) ()"

section \<open>\<open>rbd/rungtest.c\<close>\<close>

definition GTEST_RBD_MAX_TIME :: int where
  "GTEST_RBD_MAX_TIME = 30 * 60 * 1000"

text \<open>\<open>rg_hung\<close>: the conversion of the messages took more receives than the bound, so that the
  test is still waiting.\<close>

record rungtest_locals =
  rg_rpcs :: rcf_rpc_server
  rg_factory :: handle
  rg_gtest :: tapi_gtest
  rg_convs :: "log_conv list"
  rg_hung :: bool

definition rungtest_locals0 :: "'w te_env \<Rightarrow> rungtest_locals" where
  "rungtest_locals0 e =
     \<lparr>rg_rpcs = null_rpcs, rg_factory = 0, rg_gtest = gtest_defaults e, rg_convs = [], rg_hung = False\<rparr>"

text \<open>The parameters of the gtest: the answer holds the binary, then the group and the name.\<close>

definition get_gtest_param :: "'w te_env \<Rightarrow> tapi_gtest \<Rightarrow> ('w, tapi_gtest) te" where
  "get_gtest_param e g =
     bnd (te_call e (Test GetGtest)) (\<lambda>r. if r_rc r \<noteq> 0 then jump Failed
       else ret (g\<lparr>g_bin := r_str r,
                   g_group := (case r_list r of [] \<Rightarrow> None | grp # _ \<Rightarrow> Some grp),
                   g_name := (case r_list r of _ # name # _ \<Rightarrow> Some name | _ \<Rightarrow> None)\<rparr>))"

definition rungtest_prepare :: "'w te_env \<Rightarrow> ('w, rungtest_locals) step list" where
  "rungtest_prepare e =
     [plain (\<lambda>l. bnd (test_get_rpcs e ''Agt_ARM'') (\<lambda>r. ret (l\<lparr>rg_rpcs := r\<rparr>))),
      plain (\<lambda>l. bnd (get_gtest_param e (rg_gtest l)) (\<lambda>g. ret (l\<lparr>rg_gtest := g\<rparr>))),
      act (\<lambda>l. bnd (get_local (g_bin (rg_gtest l))) (\<lambda>bin. if bin = ''ceph_test_librbd'' then jump Skipped else ret ())),
      plain (\<lambda>l. bnd (bnd (get_local (g_bin (rg_gtest l))) (block_ts_gtest_absbin e)) (\<lambda>bin.
        ret (l\<lparr>rg_gtest := (rg_gtest l)\<lparr>g_bin := bin\<rparr>\<rparr>))),
      checked (\<lambda>l. block_ts_gtest_setenv e (rg_rpcs l))]"

definition rungtest_factory :: "'w te_env \<Rightarrow> ('w, rungtest_locals) step" where
  "rungtest_factory e = checked_out (\<lambda>l. bnd (te_call e (Job (JobFactoryCreate (rg_rpcs l)))) (\<lambda>r.
     ret (r_rc r, if r_rc r = 0 then l\<lparr>rg_factory := handle_of 0 r\<rparr> else l)))"

definition rungtest_init :: "'w te_env \<Rightarrow> ('w, rungtest_locals) step" where
  "rungtest_init e = checked_out (\<lambda>l. bnd (te_call e (Tool (GtestInit (rg_gtest l) (rg_factory l)))) (\<lambda>r.
     ret (r_rc r, if r_rc r = 0
                  then l\<lparr>rg_gtest := (rg_gtest l)\<lparr>g_handle := handle_of 0 r, g_out0 := handle_of 1 r\<rparr>\<rparr> else l)))"

definition convert_log :: "'w te_env \<Rightarrow> nat \<Rightarrow> ('w, rungtest_locals) step" where
  "convert_log e fuel l = bnd (block_ts_log_conv_run e fuel (rg_convs l)) (\<lambda>rc. case rc of
       None \<Rightarrow> ret (Some Failed, l\<lparr>rg_hung := True\<rparr>)
     | Some rc \<Rightarrow> ret (verdict_of rc, l\<lparr>rg_convs := []\<rparr>))"

definition rungtest_steps :: "'w te_env \<Rightarrow> nat \<Rightarrow> ('w, rungtest_locals) step list" where
  "rungtest_steps e fuel = rungtest_prepare e @
     [rungtest_factory e, rungtest_init e,
      checked_out (\<lambda>l. bnd (block_ts_log_conv_add e (g_out0 (rg_gtest l)) ''^SKIPPING'' BLOCK_TS_LOG_CONV_TEST_SKIP (rg_convs l))
        (\<lambda>(rc, convs). ret (rc, l\<lparr>rg_convs := convs\<rparr>))),
      checked (\<lambda>l. call_rc e (Tool (GtestStart (rg_gtest l)))),
      checked (\<lambda>l. call_rc e (Tool (GtestWait (rg_gtest l) GTEST_RBD_MAX_TIME))),
      convert_log e fuel,
      checked (\<lambda>l. call_rc e (Tool (GtestStop (rg_gtest l))))]"

definition rungtest_cleanup :: "'w te_env \<Rightarrow> rungtest_locals \<Rightarrow> ('w, bool) te" where
  "rungtest_cleanup e l = clean_all
     [call_rc e (Tool (GtestFini (rg_gtest l))), ignored (te_call e (Job (JobFactoryDestroy (rg_factory l))))]"

text \<open>\<open>None\<close> when the bound on the receives was too small, otherwise the result.\<close>

definition rungtest_main :: "'w te_env \<Rightarrow> nat \<Rightarrow> ('w, verdict option option) te" where
  "rungtest_main e fuel =
     bnd (run_steps (rungtest_steps e fuel) (rungtest_locals0 e)) (\<lambda>(v, l).
       if rg_hung l then ret None
       else bnd (rungtest_cleanup e l) (\<lambda>failed. ret (Some (if failed then Some Failed else v))))"

section \<open>The run of a gtest\<close>

datatype gtest_step = GInit | GMatch string | GStart | GWait int | GRead | GStop | GFini

fun gtest_steps :: "call \<Rightarrow> gtest_step list" where
  "gtest_steps (Tool (GtestInit _ _)) = [GInit]"
| "gtest_steps (Job (JobFilterRegexp _ re)) = [GMatch re]"
| "gtest_steps (Tool (GtestStart _)) = [GStart]"
| "gtest_steps (Tool (GtestWait _ ms)) = [GWait ms]"
| "gtest_steps (Job (JobReceive _ _)) = [GRead]"
| "gtest_steps (Tool (GtestStop _)) = [GStop]"
| "gtest_steps (Tool (GtestFini _)) = [GFini]"
| "gtest_steps _ = []"

definition gtest_view :: "event \<Rightarrow> gtest_step list" where
  "gtest_view ev = gtest_steps (fst ev)"

lemma gtest_view_call [simp]: "gtest_view (c, r) = gtest_steps c"
  by (simp add: gtest_view_def)

interpretation gv: reader_blind gtest_view
  by unfold_locales (auto elim!: reading.elims)

text \<open>The view of nothing, for conditions on the variables alone.\<close>

abbreviation no_steps :: "event \<Rightarrow> unit list" where
  "no_steps \<equiv> (\<lambda>_. [])"

interpretation nv: reader_blind no_steps
  by unfold_locales simp

definition gtest_head :: "gtest_step list" where
  "gtest_head = [GInit, GMatch ''^SKIPPING'', GStart, GWait 1800000]"

definition gtest_run :: "nat \<Rightarrow> gtest_step list" where
  "gtest_run n = gtest_head @ replicate n GRead @ [GStop]"

lemma append_all_quiet [ln]: "leaves_none view (append_all e strs s)"
  by (induction strs arbitrary: s) (auto intro!: ln)

lemma features_quiet [ln]: "leaves_none view (block_ts_rbd_features_string e f str)"
proof -
  have "leaves_none view (features_string_loop e entries f str)" for entries
    by (induction entries arbitrary: str) (auto intro!: ln)
  then show ?thesis unfolding block_ts_rbd_features_string_def .
qed

lemma gtest_env_quiet:
  "leaves_none gtest_view (block_ts_gtest_setenv e rpcs)" "leaves_none gtest_view (block_ts_gtest_absbin e bin)"
  "leaves_none no_steps (block_ts_gtest_setenv e rpcs)" "leaves_none no_steps (block_ts_gtest_absbin e bin)"
  unfolding block_ts_gtest_setenv_def block_ts_gtest_absbin_def gtest_setenv_ld_preload_def
    block_ts_test_specific_setenv_def rpc_or_errno_def
  by (auto intro!: ln gv.params nv.params split: option.split prod.split)

lemma prepare_quiet: "f \<in> set (rungtest_prepare e @ [rungtest_factory e]) \<Longrightarrow> leaves_none gtest_view (f l)"
  unfolding rungtest_prepare_def rungtest_factory_def get_gtest_param_def get_local_def
  by (auto intro!: ln gv.readers gtest_env_quiet split: option.split)

abbreviation gtest_mid :: "'w te_env \<Rightarrow> ('w, rungtest_locals) step list" where
  "gtest_mid e \<equiv> [rungtest_init e,
      checked_out (\<lambda>l. bnd (block_ts_log_conv_add e (g_out0 (rg_gtest l)) ''^SKIPPING'' BLOCK_TS_LOG_CONV_TEST_SKIP (rg_convs l))
        (\<lambda>(rc, convs). ret (rc, l\<lparr>rg_convs := convs\<rparr>))),
      checked (\<lambda>l. call_rc e (Tool (GtestStart (rg_gtest l)))),
      checked (\<lambda>l. call_rc e (Tool (GtestWait (rg_gtest l) GTEST_RBD_MAX_TIME)))]"

lemma paths_mid: "paths gtest_view {gtest_head} (run_steps (gtest_mid e))"
proof -
  have init: "paths gtest_view {[GInit]} (rungtest_init e)"
    unfolding follows_def rungtest_init_def by (auto intro!: ev simp: goes_def)
  have conv: "paths gtest_view {[GMatch ''^SKIPPING'']} (checked_out (\<lambda>l. bnd
      (block_ts_log_conv_add e (g_out0 (rg_gtest l)) ''^SKIPPING'' BLOCK_TS_LOG_CONV_TEST_SKIP (rg_convs l))
      (\<lambda>(rc, convs). ret (rc, l\<lparr>rg_convs := convs\<rparr>))))"
    unfolding follows_def block_ts_log_conv_add_def by (auto intro!: ev simp: goes_def verdict_of_def)
  have run: "paths gtest_view {[GStart]} (checked (\<lambda>l. call_rc e (Tool (GtestStart (rg_gtest l)))))"
    "paths gtest_view {[GWait 1800000]} (checked (\<lambda>l. call_rc e (Tool (GtestWait (rg_gtest l) GTEST_RBD_MAX_TIME))))"
    by (rule follows_event; simp add: GTEST_RBD_MAX_TIME_def)+
  have "paths gtest_view (seqs {[GInit]} (seqs {[GMatch ''^SKIPPING'']} (seqs {[GStart]} (seqs {[GWait 1800000]} {[]}))))
      (run_steps (gtest_mid e))"
    by (intro follows_Cons follows_Nil init conv run)
  then show ?thesis by (simp add: gtest_head_def del: run_steps.simps)
qed

lemma paths_head: "paths gtest_view {gtest_head} (run_steps ((rungtest_prepare e @ [rungtest_factory e]) @ gtest_mid e))"
proof -
  have "paths gtest_view {[]} (run_steps (rungtest_prepare e @ [rungtest_factory e]))"
    by (rule paths_quiet, rule prepare_quiet)
  from follows_append [OF this paths_mid] show ?thesis by (simp del: run_steps.simps append_assoc)
qed

text \<open>None of these statements is the one that may be waiting for ever.\<close>

lemma head_not_hung:
  assumes "f \<in> set ((rungtest_prepare e @ [rungtest_factory e]) @ gtest_mid e)"
  shows "idle no_steps no_steps rg_hung f"
proof -
  have hung: "rg_hung (if b then l\<lparr>rg_factory := h\<rparr> else l) = rg_hung l"
    "rg_hung (if b then l\<lparr>rg_gtest := g\<rparr> else l) = rg_hung l" for b l h g
    by simp_all
  show ?thesis using assms
    unfolding rungtest_prepare_def rungtest_factory_def rungtest_init_def get_gtest_param_def get_local_def
      block_ts_log_conv_add_def
    by (auto simp: idle_def hung intro!: ev nv.readers gtest_env_quiet
        obeys_weaken [OF leaves_both [where g = no_steps]])
qed

subsection \<open>The messages\<close>

definition reads :: "nat \<Rightarrow> ('a option) outcome \<Rightarrow> event list \<Rightarrow> bool" where
  "reads fuel r t \<longleftrightarrow> (\<exists>n. in_trace gtest_view t = replicate n GRead \<and> (r = Val None \<longrightarrow> fuel \<le> n))"

definition reads_only :: "event list \<Rightarrow> bool" where
  "reads_only t \<longleftrightarrow> (\<exists>n. in_trace gtest_view t = replicate n GRead)"

lemma reads_simps:
  "reads fuel (Val (Some x)) []" "reads 0 r []" "reads fuel (Jump v) []"
  "reads (Suc fuel) (Val (Some x)) [(Job (JobReceive c ms), a)]"
  by (auto simp: reads_def intro: exI [of _ 0] exI [of _ "Suc 0"])

lemma reads_more: "reads fuel r t \<Longrightarrow> reads (Suc fuel) r ((Job (JobReceive c ms), a) # t)"
  unfolding reads_def by (elim exE, rule_tac x = "Suc n" in exI) auto

lemma reads_then: "reads_only t \<Longrightarrow> reads fuel r t' \<Longrightarrow> reads fuel r (t @ t')"
  unfolding reads_def reads_only_def by (elim exE, rule_tac x = "n + na" in exI) (auto simp: replicate_add)

lemma reads_None: "reads fuel (Val None) t \<longleftrightarrow> (\<exists>n \<ge> fuel. in_trace gtest_view t = replicate n GRead)"
  by (auto simp: reads_def)

lemma reads_Some: "reads fuel (Val (Some x)) t \<longleftrightarrow> reads_only t" "reads fuel (Jump v) t \<longleftrightarrow> reads_only t"
  by (simp_all add: reads_def reads_only_def)

lemma receive_reads: "obeys (receive_until_eos e fuel chan) (reads fuel)"
proof (induction fuel)
  case (Suc fuel)
  then show ?case by (auto intro!: ev reads_simps reads_more elim!: obeys_weaken)
qed (auto intro!: ev reads_simps)

lemma convert_reads: "obeys (block_ts_log_conv_run e fuel convs) (reads fuel)"
proof (induction convs)
  case (Cons conv convs)
  have skip: "obeys (case lc_action conv of BLOCK_TS_LOG_CONV_TEST_SKIP \<Rightarrow> log_conv_action_test_skip)
      (\<lambda>r t'. reads fuel r (t @ t'))" if "reads_only t" for t
    using that by (cases "lc_action conv") (auto simp: log_conv_action_test_skip_def reads_Some intro!: obeys_jump)
  have rest: "obeys (block_ts_log_conv_run e fuel convs) (\<lambda>r t'. reads fuel r (t @ t'))" if "reads_only t" for t
    by (rule obeys_weaken [OF Cons]) (rule reads_then [OF that])
  have on: "obeys (case x of None \<Rightarrow> ret None
       | Some (rc, contents) \<Rightarrow>
           if rc \<noteq> 0 then ret (Some rc)
           else if contents \<noteq> '''' then
             (case lc_action conv of BLOCK_TS_LOG_CONV_TEST_SKIP \<Rightarrow> log_conv_action_test_skip)
           else block_ts_log_conv_run e fuel convs) (\<lambda>r t'. reads fuel r (t @ t'))"
    if "reads fuel (Val x) t" for x :: "(te_errno \<times> string) option" and t
    using that by (cases x) (auto intro!: obeys_ret skip rest simp: reads_Some reads_None)
  show ?case
    unfolding block_ts_log_conv_run.simps
    by (rule obeys_bnd, rule obeys_weaken [OF receive_reads]) (auto intro!: on simp: reads_Some)
qed (auto intro!: ev reads_simps)

subsection \<open>The whole test\<close>

text \<open>
  On the way out: the test is still waiting, having got as many messages as the bound allows; or it ended,
  in the beginning of a run, or at its end when it passed.
\<close>

definition ends_run :: "nat \<Rightarrow> verdict option option outcome \<Rightarrow> event list \<Rightarrow> bool" where
  "ends_run fuel r t \<longleftrightarrow>
     (r = Val None \<and> (\<exists>n \<ge> fuel. in_trace gtest_view t = gtest_head @ replicate n GRead)) \<or>
     (\<exists>v xs n. r = Val (Some v) \<and> in_trace gtest_view t = xs @ [GFini] \<and> prefix xs (gtest_run n) \<and>
        (v = None \<longrightarrow> xs = gtest_run n))"

definition so_far :: "nat \<Rightarrow> (verdict option \<times> rungtest_locals) outcome \<Rightarrow> event list \<Rightarrow> bool" where
  "so_far fuel r t \<longleftrightarrow> (\<exists>v l n. r = Val (v, l) \<and> prefix (in_trace gtest_view t) (gtest_run n) \<and>
     (v = None \<longrightarrow> in_trace gtest_view t = gtest_run n) \<and>
     (rg_hung l \<longrightarrow> fuel \<le> n \<and> in_trace gtest_view t = gtest_head @ replicate n GRead))"

lemma prefix_run:
  "prefix xs gtest_head \<Longrightarrow> prefix xs (gtest_run n)" "prefix (gtest_head @ replicate n GRead) (gtest_run n)"
  unfolding gtest_run_def by (auto intro: prefix_prefix)

lemma so_far_early:
  "prefix (in_trace gtest_view t) gtest_head \<Longrightarrow> \<not> rg_hung l \<Longrightarrow> so_far fuel (Val (Some v, l)) t"
  unfolding so_far_def by (auto intro: prefix_run)

lemma rest_so_far:
  assumes "in_trace gtest_view t = gtest_head" and l: "\<not> rg_hung l"
  shows "obeys (run_steps [convert_log e fuel, checked (\<lambda>l. call_rc e (Tool (GtestStop (rg_gtest l))))] l)
    (\<lambda>r t'. so_far fuel r (t @ t'))"
proof -
  have stop: "obeys (run_steps [checked (\<lambda>l. call_rc e (Tool (GtestStop (rg_gtest l))))] l')
      (\<lambda>r t''. so_far fuel r (t @ t' @ t''))" if "in_trace gtest_view t' = replicate n GRead" "\<not> rg_hung l'" for l' t' n
    using that assms(1)
    by (auto intro!: ev exI [of _ n] simp: so_far_def verdict_of_def gtest_run_def)
  have conv: "obeys (convert_log e fuel l) (\<lambda>r t'. \<exists>n. in_trace gtest_view t' = replicate n GRead \<and>
      (\<forall>v l'. r = Val (v, l') \<longrightarrow> rg_hung l' \<longrightarrow> v \<noteq> None \<and> fuel \<le> n))"
    unfolding convert_log_def
    by (rule obeys_bnd, rule obeys_weaken [OF convert_reads])
       (use l in \<open>auto intro!: ev simp: reads_def split: option.split\<close>)
  have early: "so_far fuel (Val (Some v, l')) (t @ t')"
    if "in_trace gtest_view t' = replicate n GRead" "rg_hung l' \<longrightarrow> fuel \<le> n" for v l' t' n
    using that assms(1) prefix_run(2) [of n] by (auto simp: so_far_def intro!: exI [of _ n])
  show ?thesis
    by (rule obeys_steps_Cons, rule obeys_bnd, rule obeys_attempt, rule obeys_weaken [OF conv])
       (use l in \<open>auto intro!: obeys_ret stop intro: early simp del: run_steps.simps\<close>)
qed

lemma steps_so_far: "obeys (run_steps (rungtest_steps e fuel) (rungtest_locals0 e)) (so_far fuel)"
proof -
  let ?head = "(rungtest_prepare e @ [rungtest_factory e]) @ gtest_mid e"
  let ?tail = "[convert_log e fuel, checked (\<lambda>l. call_rc e (Tool (GtestStop (rg_gtest l))))]"
  have goes: "obeys (run_steps ?head (rungtest_locals0 e)) (goes gtest_view {gtest_head})"
    by (rule followsD [OF paths_head]) auto
  have hung: "obeys (run_steps ?head (rungtest_locals0 e)) (\<lambda>r t. \<exists>v l'. r = Val (v, l') \<and> \<not> rg_hung l')"
    by (rule obeys_weaken [OF idle_run_steps [OF head_not_hung]]) (auto simp: rungtest_locals0_def)
  have "obeys (run_steps (?head @ ?tail) (rungtest_locals0 e)) (so_far fuel)"
    by (rule obeys_steps_append, rule obeys_bnd, rule obeys_weaken [OF obeys_conj [OF goes hung]])
       (auto intro!: obeys_ret rest_so_far so_far_early simp: goes_def simp del: run_steps.simps append.simps append_assoc)
  then show ?thesis by (simp add: rungtest_steps_def del: run_steps.simps)
qed

lemma cleanup_finalises:
  "obeys (bnd (rungtest_cleanup e l) (\<lambda>failed. ret (Some (if failed then Some Failed else v))))
     (\<lambda>r t. in_trace gtest_view t = [GFini] \<and> (\<exists>w. r = Val (Some w) \<and> (w = None \<longrightarrow> v = None)))"
proof -
  have "obeys (rungtest_cleanup e l) (\<lambda>r t. in_trace gtest_view t = [GFini] \<and> (\<exists>b. r = Val b))"
    unfolding rungtest_cleanup_def clean_all.simps by (auto intro!: ev)
  then show ?thesis
    by (intro obeys_bnd) (erule obeys_weaken, auto intro!: obeys_ret)
qed

lemma ends_hung: "so_far fuel (Val (v, l)) t \<Longrightarrow> rg_hung l \<Longrightarrow> ends_run fuel (Val None) t"
  by (auto simp: so_far_def ends_run_def)

lemma ends_fini:
  "so_far fuel (Val (v, l)) t \<Longrightarrow> in_trace gtest_view t' = [GFini] \<Longrightarrow> w = None \<longrightarrow> v = None \<Longrightarrow>
   ends_run fuel (Val (Some w)) (t @ t')"
  unfolding so_far_def ends_run_def by (intro disjI2) auto

lemma rungtest_run: "obeys (rungtest_main e fuel) (ends_run fuel)"
proof -
  have fin: "obeys (bnd (rungtest_cleanup e l) (\<lambda>failed. ret (Some (if failed then Some Failed else v))))
      (\<lambda>r t'. ends_run fuel r (t @ t'))" if "so_far fuel (Val (v, l)) t" for v l t
    by (rule obeys_weaken [OF cleanup_finalises]) (use that in \<open>auto intro: ends_fini\<close>)
  have "\<not> so_far fuel (Jump w) t" for w t by (simp add: so_far_def)
  then show ?thesis unfolding rungtest_main_def
    by (intro obeys_bnd obeys_weaken [OF steps_so_far]) (auto intro!: obeys_ret fin intro: ends_hung)
qed

section \<open>The path of the agents\<close>

datatype path_step = Agents "string list" | Named string string | Appended string "string option"

fun path_steps :: "call \<Rightarrow> reply \<Rightarrow> path_step list" where
  "path_steps (Cfg (CfgFind _)) r = [Agents (r_list r)]"
| "path_steps (Cfg (CfgGetOid inst)) r = [Named inst (out_str r)]"
| "path_steps (Agent (ShEnvPathAppend ta path)) r = [Appended ta path]"
| "path_steps _ r = []"

definition path_view :: "event \<Rightarrow> path_step list" where
  "path_view ev = path_steps (fst ev) (snd ev)"

lemma path_view_call [simp]: "path_view (c, r) = path_steps c r"
  by (simp add: path_view_def)

text \<open>Every agent that was found, in this order, gets the directory.\<close>

definition appended :: "string option \<Rightarrow> path_step list set" where
  "appended path = {Agents agents # concat (map2 (\<lambda>agent name. [Named agent name, Appended name path]) agents names) |
     agents names. length names = length agents}"

lemma append_agents:
  "obeys (do_all (map (append_path e path) agents)) (shows_steps path_view
     {concat (map2 (\<lambda>agent name. [Named agent name, Appended name path]) agents names) | names. length names = length agents} (Val ()))"
proof (induction agents)
  case (Cons a agents)
  let ?X = "\<lambda>agents. {concat (map2 (\<lambda>agent name. [Named agent name, Appended name path]) agents names) | names.
    length names = length agents}"
  have one: "obeys (append_path e path a) (shows_steps path_view (\<Union>n. {[Named a n, Appended n path]}) (Val ()))"
    unfolding append_path_def by (auto intro!: ev simp: shows_steps_def)
  have nonempty: "?X agents \<noteq> {}"
    by (auto intro: exI [of _ "replicate (length agents) ''''"])
  have grow: "?X (a # agents) = seqs (\<Union>n. {[Named a n, Appended n path]}) (?X agents)"
  proof (intro equalityI subsetI)
    fix xs assume "xs \<in> ?X (a # agents)"
    then obtain n names where "length names = length agents"
      "xs = [Named a n, Appended n path] @ concat (map2 (\<lambda>agent name. [Named agent name, Appended name path]) agents names)"
      by (auto simp: length_Suc_conv)
    then show "xs \<in> seqs (\<Union>n. {[Named a n, Appended n path]}) (?X agents)" by (auto simp: seqs_def)
  next
    fix xs assume "xs \<in> seqs (\<Union>n. {[Named a n, Appended n path]}) (?X agents)"
    then obtain n names where "length names = length agents"
      "xs = [Named a n, Appended n path] @ concat (map2 (\<lambda>agent name. [Named agent name, Appended name path]) agents names)"
      by (auto simp: seqs_def)
    then show "xs \<in> ?X (a # agents)" by (auto intro!: exI [of _ "n # names"])
  qed
  show ?case unfolding grow list.map do_all.simps by (rule shows_then [OF one Cons nonempty])
qed (auto intro!: ev simp: shows_steps_def)

lemma update_appends:
  "obeys (update_agents_gtest_path e) (shows_steps path_view (appended (getenv e ''CEPH_BIN'')) (Val ()))"
proof -
  let ?X = "\<lambda>agents. {concat (map2 (\<lambda>agent name. [Named agent name, Appended name (getenv e ''CEPH_BIN'')]) agents names) | names.
    length names = length agents}"
  have found: "shows_steps path_view (appended (getenv e ''CEPH_BIN'')) (Val ()) r ((Cfg (CfgFind inst), a) # t)"
    if "shows_steps path_view (?X (r_list a)) (Val ()) r t" for r inst a t
    using that unfolding shows_steps_def appended_def by (auto 4 4 simp: Cons_prefix_Cons)
  have early: "shows_steps path_view (appended (getenv e ''CEPH_BIN'')) (Val ()) (Jump v) [(Cfg (CfgFind inst), a)]" for v inst a
  proof (rule found)
    show "shows_steps path_view (?X (r_list a)) (Val ()) (Jump v) []"
      by (auto simp: shows_steps_def intro!: exI [of _ "replicate (length (r_list a)) ''''"])
  qed
  show ?thesis unfolding update_agents_gtest_path_def
    by (auto intro!: obeys_bnd obeys_call obeys_jump found early obeys_weaken [OF append_agents])
qed

lemma rbd_prologue_appends:
  "obeys (rbd_prologue_main e) (shows_steps path_view (appended (getenv e ''CEPH_BIN'')) (Val None))"
proof -
  have update: "paths path_view (appended (getenv e ''CEPH_BIN'')) (act (\<lambda>_. update_agents_gtest_path e))"
    by (rule follows_act, rule update_appends)
  have tree: "paths path_view {[]} (print_tree e)"
    unfolding print_tree_def by (rule follows_quiet) (auto intro!: ln)
  have "paths path_view (seqs (appended (getenv e ''CEPH_BIN'')) (seqs {[]} {[]}))
      (run_steps [act (\<lambda>_. update_agents_gtest_path e), print_tree e])"
    by (intro follows_Cons follows_Nil update tree)
  then show ?thesis unfolding rbd_prologue_main_def
    by (intro follows_main [where I = "\<lambda>_. True"]) (auto intro!: ln simp del: run_steps.simps)
qed

section \<open>Properties\<close>

text \<open>
  C26. A gtest of librbd runs in order: it is initialised, its messages are looked for, it is started, waited for,
  its messages read and it is stopped; on every way out that ends it is finalised once, after that, and the test
  passes only after a whole run. The test goes on waiting only when it got as many messages as the bound
  allows. Before, the prologue gives every agent it found, in this order, the directory of the environment
  variable, and this even when the variable is missing.
\<close>

theorem gtest_runs:
  "obeys (rungtest_main e fuel) (ends_run fuel) \<and>
   obeys (rbd_prologue_main e) (shows_steps path_view (appended (getenv e ''CEPH_BIN'')) (Val None))"
  by (intro conjI rungtest_run rbd_prologue_appends)

end
