(* ===== verification/Progress.thy ===== *)
theory Progress
  imports Test_Rbd
begin

text \<open>
  Progress: the tests that only read and set what TE keeps fail for a reason outside. A test passes
  unless one of the calls it made was answered in a way that hinders it. The locale \<open>hindrance\<close> is the
  interface of such answers: an error code is always one, and so is a jump out of a remote call.
\<close>

section \<open>Passing unless hindered\<close>

locale hindrance =
  fixes bad :: "event \<Rightarrow> bool"
  assumes refused: "r_rc r \<noteq> 0 \<Longrightarrow> bad (c, r)" and jumped: "r_jump r \<Longrightarrow> bad (c, r)"
begin

definition returns :: "('w, 'a) te \<Rightarrow> bool" where
  "returns m \<longleftrightarrow> obeys m (\<lambda>r t. (\<exists>x. r = Val x) \<or> list_ex bad t)"

definition succeeds :: "('w, te_errno) te \<Rightarrow> bool" where
  "succeeds m \<longleftrightarrow> obeys m (\<lambda>r t. r = Val 0 \<or> list_ex bad t)"

definition goes_on :: "('w, 'l) step \<Rightarrow> bool" where
  "goes_on f \<longleftrightarrow> (\<forall>l. obeys (f l) (\<lambda>r t. (\<exists>l'. r = Val (None, l')) \<or> list_ex bad t))"

lemma succeeds_call: "succeeds (call_rc e c)"
  unfolding succeeds_def by (auto intro!: ev intro: refused jumped)

lemma succeeds_end: "succeeds (test_end_specific e)"
  unfolding succeeds_def test_end_specific_def by (auto intro!: ev refused)

lemma returns_params:
  "returns (test_param_str e name)" "returns (test_param_num e name)" "returns (tsapi_virtio_blocks_count e ta)"
  unfolding returns_def test_param_str_def test_param_num_def tsapi_virtio_blocks_count_def virtio_blocks_checked_def
    tsapi_get_virtio_blocks_def
  by (auto intro!: ev refused)

lemma returns_sleep: "returns (sleep n e)"
  unfolding returns_def sleep_def by (auto intro!: ev)

lemma returns_all: "(\<And>x. returns (m x)) \<Longrightarrow> returns (do_all (map m xs))"
proof (induction xs)
  case (Cons x xs)
  have first: "obeys (m x) (\<lambda>r t. (\<exists>u. r = Val u) \<or> list_ex bad t)" using Cons.prems by (simp add: returns_def)
  have rest: "obeys (do_all (map m xs)) (\<lambda>r t. (\<exists>u. r = Val u) \<or> list_ex bad t)"
    using Cons by (simp add: returns_def)
  show ?case unfolding returns_def list.map do_all.simps
    by (rule obeys_bnd, rule obeys_weaken [OF first]) (auto intro: obeys_weaken [OF rest])
qed (auto simp: returns_def intro!: ev)

subsection \<open>Statements\<close>

lemma goes_checked:
  assumes "\<And>l. succeeds (m l)"
  shows "goes_on (checked m)"
  unfolding goes_on_def
  by (intro allI obeys_checked obeys_bnd, rule obeys_weaken [OF assms [unfolded succeeds_def]])
     (auto intro!: obeys_ret simp: verdict_of_def)

lemma goes_act:
  assumes "\<And>l. returns (m l)"
  shows "goes_on (act m)"
  unfolding goes_on_def
  by (intro allI obeys_act obeys_bnd, rule obeys_weaken [OF assms [unfolded returns_def]]) (auto intro!: obeys_ret)

lemma goes_plain:
  assumes "\<And>l. returns (m l)"
  shows "goes_on (plain (\<lambda>l. bnd (m l) (\<lambda>x. ret (upd l x))))"
  unfolding goes_on_def
  by (intro allI obeys_plain obeys_bnd, rule obeys_weaken [OF assms [unfolded returns_def]]) (auto intro!: obeys_ret)

lemma goes_Cons:
  assumes f: "goes_on f" and fs: "goes_on (run_steps fs)"
  shows "goes_on (run_steps (f # fs))"
proof -
  have rest: "obeys (run_steps fs l) (\<lambda>r t'. (\<exists>l'. r = Val (None, l')) \<or> list_ex bad (t @ t'))" for l t
    by (rule obeys_weaken [OF fs [unfolded goes_on_def, rule_format]]) auto
  show ?thesis unfolding goes_on_def
    by (intro allI obeys_steps_Cons obeys_bnd obeys_attempt, rule obeys_weaken [OF f [unfolded goes_on_def, rule_format]])
       (auto intro!: obeys_ret intro: obeys_weaken [OF rest] simp del: run_steps.simps)
qed

lemma goes_Nil: "goes_on (run_steps [])"
  unfolding goes_on_def by (auto intro!: ev)

lemma goes_steps: "(\<And>f. f \<in> set fs \<Longrightarrow> goes_on f) \<Longrightarrow> goes_on (run_steps fs)"
  by (induction fs) (auto intro: goes_Nil goes_Cons simp del: run_steps.simps)

lemma goes_append:
  assumes fs: "goes_on (run_steps fs)" and gs: "goes_on (run_steps gs)"
  shows "goes_on (run_steps (fs @ gs))"
  using goes_Cons [OF fs gs] unfolding goes_on_def by (simp add: run_steps_append attempt_steps)

lemma goes_when: "goes_on (run_steps fs) \<Longrightarrow> goes_on (when_step b fs)"
  unfolding goes_on_def when_step_def by (auto intro!: obeys_ret)

lemma goes_for_each: "(\<And>x. goes_on (run_steps (body x))) \<Longrightarrow> goes_on (for_each xs body)"
proof -
  assume body: "\<And>x. goes_on (run_steps (body x))"
  have "goes_on (run_steps (concat (map body ys)))" for ys
    by (induction ys) (auto intro: goes_Nil goes_append body simp del: run_steps.simps)
  then show ?thesis by (simp add: goes_on_def for_each_def)
qed

lemma passes_unless:
  assumes steps: "goes_on (run_steps fs)" and clean: "\<And>l. obeys (cleanup l) (\<lambda>r t. r = Val False \<or> list_ex bad t)"
    and finish: "succeeds tend"
  shows "obeys (run_main fs cleanup tend l) (\<lambda>r t. r = Val None \<or> list_ex bad t)"
proof -
  have last: "obeys (bnd (cleanup l) (\<lambda>failed. bnd tend (\<lambda>rc. ret (if failed \<or> rc \<noteq> 0 then Some Failed else v))))
      (\<lambda>r t. r = Val v \<or> list_ex bad t)" for l v
  proof -
    have "obeys (bnd tend (\<lambda>rc. ret (if failed \<or> rc \<noteq> 0 then Some Failed else v))) (\<lambda>r t. (\<not> failed \<and> r = Val v) \<or> failed \<or> list_ex bad t)" for failed
      by (rule obeys_bnd, rule obeys_weaken [OF finish [unfolded succeeds_def]]) (auto intro!: obeys_ret)
    note fin = obeys_weaken [OF this]
    show ?thesis by (rule obeys_bnd, rule obeys_weaken [OF clean]) (auto intro!: fin)
  qed
  show ?thesis unfolding run_main_def
    by (rule obeys_bnd, rule obeys_weaken [OF steps [unfolded goes_on_def, rule_format]])
       (auto intro: obeys_weaken [OF last] split: prod.split)
qed

end

section \<open>The tests\<close>

text \<open>
  What hinders them: an error, and, for the test that rebinds drivers, a count of zero and a device
  without a driver.
\<close>

definition refusal :: "event \<Rightarrow> bool" where
  "refusal ev \<longleftrightarrow> r_rc (snd ev) \<noteq> 0 \<or> r_jump (snd ev)"

fun useless :: "call \<Rightarrow> reply \<Rightarrow> bool" where
  "useless (Test (GetParam name)) r \<longleftrightarrow> name = ''rebind_count'' \<and> word_of_int (r_num r) = (0 :: 32 word)"
| "useless (Agent (PciGetDriver _ _ _ _)) r \<longleftrightarrow> out_str r = ''''"
| "useless _ r \<longleftrightarrow> False"

definition rebind_hindered :: "event \<Rightarrow> bool" where
  "rebind_hindered ev \<longleftrightarrow> refusal ev \<or> useless (fst ev) (snd ev)"

interpretation hr: hindrance refusal
  by unfold_locales (simp_all add: refusal_def)

interpretation hd: hindrance rebind_hindered
  by unfold_locales (simp_all add: rebind_hindered_def refusal_def)

lemma no_cleanup: "obeys (clean_all []) (\<lambda>r t. r = Val False \<or> P t)"
  by (auto intro!: ev)

lemma rebind_device_goes: "hd.goes_on (run_steps (rebind_device e j))"
proof -
  have found: "hd.goes_on (run_steps [get_driver e j, stop_if (\<lambda>l. rb_driver l = []) Failed])"
    unfolding hd.goes_on_def get_driver_def
    by (auto intro!: ev simp: rebind_hindered_def refusal_def verdict_of_def)
  have passes: "hd.goes_on (for_each (\<lambda>l. [0..<unat (rb_count l)]) (\<lambda>_. rebind_pass e j))"
    unfolding rebind_pass_def unbind_device_def bind_device_def
    by (intro hd.goes_for_each hd.goes_steps)
       (auto intro: hd.goes_checked hd.goes_act hd.succeeds_call hd.returns_sleep)
  show ?thesis
    using hd.goes_append [OF found hd.goes_Cons [OF passes hd.goes_Nil]]
    by (simp add: rebind_device_def del: run_steps.simps)
qed

lemma rebind_passes: "obeys (driver_rebind_main e) (\<lambda>r t. r = Val None \<or> list_ex rebind_hindered t)"
proof -
  let ?count = "plain (\<lambda>l. bnd (test_param_num e ''rebind_count'') (\<lambda>v. ret (l\<lparr>rb_count := v\<rparr>)))"
  have count: "hd.goes_on (run_steps [?count, stop_if (\<lambda>l. rb_count l = 0) Failed])"
    unfolding hd.goes_on_def test_param_num_def
    by (auto intro!: ev simp: rebind_hindered_def refusal_def)
  have names: "hd.goes_on (run_steps
     [plain (\<lambda>l. bnd (test_param_str e ''vendor_id'') (\<lambda>v. ret (l\<lparr>rb_vendor := v\<rparr>))),
      plain (\<lambda>l. bnd (test_param_str e ''device_id'') (\<lambda>v. ret (l\<lparr>rb_device := v\<rparr>)))])"
    by (rule hd.goes_steps) (auto intro: hd.goes_plain hd.returns_params)
  have devs: "hd.goes_on (run_steps [plain (\<lambda>l. bnd (tsapi_virtio_blocks_count e ''Agt_host'') (\<lambda>v. ret (l\<lparr>rb_devs := v\<rparr>))),
      for_each (\<lambda>l. [0..<unat (rb_devs l)]) (rebind_device e)])"
    by (rule hd.goes_steps) (auto intro: hd.goes_plain hd.returns_params hd.goes_for_each rebind_device_goes)
  show ?thesis unfolding driver_rebind_main_def
    by (rule hd.passes_unless [OF _ no_cleanup hd.succeeds_end])
       (use hd.goes_append [OF names hd.goes_append [OF count devs]] in \<open>simp add: rebind_params_def del: run_steps.simps\<close>)
qed

lemma network_prologue_passes: "obeys (network_prologue_main e) (\<lambda>r t. r = Val None \<or> list_ex refusal t)"
proof -
  have get: "hr.goes_on (checked_out (\<lambda>l. bnd (get_memlock e bound) (\<lambda>(rc, v). ret (rc, upd l v))))" for bound upd
    unfolding hr.goes_on_def get_memlock_def by (auto intro!: ev simp: refusal_def verdict_of_def)
  have set: "hr.goes_on (checked (\<lambda>l. set_memlock e bound))" for bound
    unfolding set_memlock_def by (intro hr.goes_checked hr.succeeds_call)
  show ?thesis unfolding network_prologue_main_def
    by (rule hr.passes_unless [OF hr.goes_steps _ hr.succeeds_end])
       (auto intro!: get set hr.goes_when hr.goes_steps ev)
qed

lemma rbd_prologue_passes: "obeys (rbd_prologue_main e) (\<lambda>r t. r = Val None \<or> list_ex refusal t)"
proof -
  have one: "hr.returns (append_path e path agent)" for path agent
    unfolding hr.returns_def append_path_def by (auto intro!: ev simp: refusal_def)
  have all: "obeys (do_all (map (append_path e path) agents)) (\<lambda>r t'. (\<exists>u. r = Val u) \<or> list_ex refusal (t @ t'))" for path agents t
    by (rule obeys_weaken [OF hr.returns_all [OF one, unfolded hr.returns_def]]) auto
  have "hr.returns (update_agents_gtest_path e)"
    unfolding hr.returns_def update_agents_gtest_path_def
    by (auto intro!: obeys_bnd obeys_call obeys_jump obeys_weaken [OF all [where t = "[]"]] simp: refusal_def)
  then show ?thesis unfolding rbd_prologue_main_def print_tree_def
    by (intro hr.passes_unless hr.goes_steps no_cleanup)
       (auto intro: hr.goes_act hr.goes_checked hr.succeeds_call simp: hr.succeeds_def intro!: obeys_ret)
qed

section \<open>The property\<close>

text \<open>
  C27. Progress of the tests that only read and set what TE keeps: the prologue of the network tests and the prologue of
  the rbd tests pass unless one of their calls was answered with an error; the test that rebinds drivers passes unless
  one was, or the count it was given is zero, or a device it asked for has no driver.
\<close>

theorem tests_pass_unless_hindered:
  "obeys (driver_rebind_main e) (\<lambda>r t. r = Val None \<or> list_ex rebind_hindered t) \<and>
   obeys (network_prologue_main e) (\<lambda>r t. r = Val None \<or> list_ex refusal t) \<and>
   obeys (rbd_prologue_main e) (\<lambda>r t. r = Val None \<or> list_ex refusal t)"
  by (intro conjI rebind_passes network_prologue_passes rbd_prologue_passes)

end
