(* ===== verification/Spec2Isabelle.thy ===== *)
theory Spec2Isabelle
  imports Progress
begin

text \<open>
  A verification library of the Virtio block device test suite \<open>block-ts\<close>: the C code that
  brings up a block proxy on the ARM of a network card, its storage backend (ceph, NVMe, or none) and the
  host that uses its disks, and runs benchmarks and stress tests on them.

  The program and its environment. The suite is a client of the OKTET Labs Test Environment (TE),
  which is not part of the repository. Every visible effect of its C code is a call of a TE function,
  so a function is modelled as a state transformer \<open>('w, 'a) te\<close> that makes calls answered by a
  parameter, the environment \<open>e\<close> of type \<open>'w te_env\<close>, and records them with their answers in a
  trace (theory \<open>TE_Prelude\<close>). Errors are values of type \<open>te_errno\<close>; a failed \<open>CHECK_RC\<close>, \<open>TEST_FAIL\<close>
  and \<open>TEST_SKIP\<close> leave by a jump. The predicate \<open>obeys m T\<close> says that for every environment and
  state the outcome of \<open>m\<close> and the events it adds satisfy \<open>T\<close>; its rules, collected in \<open>ev\<close>, push \<open>T\<close>
  backwards through the program. The environment \<open>calm_env\<close> (theory \<open>Calm\<close>) answers from a prepared list, so
  that a concrete run computes; the witnesses use it.

  Theories and sources, in the order of import:
  \<^item> \<open>C_Strings\<close>: the parts of the C library the suite computes with.
  \<^item> \<open>Tsapi\<close>: \<open>lib/tsapi.c\<close>, reading parameters, finding devices, writing files.
  \<^item> \<open>Conf\<close>: \<open>lib/tsapi-conf.c\<close>, configuration files; the locale \<open>section_store\<close> is what
    its client \<open>Blkproxy\<close> uses of it.
  \<^item> \<open>Inventory\<close>, \<open>Nvme\<close>, \<open>Backend_Mode\<close>: \<open>lib/tsapi-inventory.c\<close>, \<open>lib/tsapi-nvme.c\<close> and the first half
    of \<open>lib/tsapi-backend.c\<close>.
  \<^item> \<open>Blkproxy\<close>, \<open>Blkproxy_Log\<close>: \<open>lib/tsapi-blkproxy.c\<close>, the block proxy process, its configuration and
    its measurement keys.
  \<^item> \<open>Fio\<close>: \<open>lib/tsapi-fio.c\<close>.
  \<^item> \<open>Ceph\<close>, \<open>Block_Ts\<close>: \<open>lib/tsapi-ceph.c\<close> and \<open>lib/block-ts.c\<close>; the locale \<open>job_life\<close> is the contract of a
    job handle, interpreted for the four ceph tools here and for the four benchmarks in \<open>Tools\<close>.
  \<^item> \<open>Backend\<close>: the second half of \<open>lib/tsapi-backend.c\<close>; the locale \<open>backend_server\<close> is what the server
    scripts of ceph and NVMe promise.
  \<^item> \<open>Plugin\<close>, \<open>Tools\<close>, \<open>Fs\<close>: \<open>lib/tsapi-plugin.c\<close>, \<open>lib/tool/\<close>, and \<open>lib/tsapi-fs.c\<close> with
    \<open>lib/tsapi-mke2fs.c\<close> and \<open>lib/tsapi-xfs.c\<close>.

  The test programs, one theory or more for each directory under \<open>blk-proxy\<close>:
  \<^item> \<open>Tests\<close>: the frame of a test, after the macros of TE. The body of \<open>main\<close> is a list of statements over
    the record of its local variables; each may end the test, and the cleanup code then runs with the
    variables as they are, and after it \<open>TEST_END_SPECIFIC\<close> of \<open>lib/tsapi.h\<close>.
  \<^item> \<open>Observe\<close>: views of a trace and the ways through a test. The locale \<open>reader_blind\<close> is the interface of a
    view that does not show calls that only read; \<open>follows\<close> composes what a view shows along a list of statements.
  \<^item> \<open>Test_Fio\<close>, \<open>Test_Net\<close>: the tests with one FIO instance (\<open>readwrite/\<close> without \<open>fio_multi.c\<close>,
    \<open>performance/fio_perf.c\<close>, \<open>config/reboot_arm.c\<close>) and those that disturb the network (\<open>network_stimuli/\<close>).
    The locale \<open>fio_resource\<close> is what the job factory and the instance share, \<open>neutral_blind\<close> the views that
    do not show measurements.
  \<^item> \<open>Test_Proxy\<close>, \<open>Proxy_Order\<close>: \<open>prologue.c\<close>, \<open>epilogue.c\<close> and the rest of \<open>performance/\<close>, and the order in which
    they bring the proxy and its disks up and down.
  \<^item> \<open>Test_Config\<close>: \<open>config/driver_rebind.c\<close> and \<open>config/restart_blk_proxy.c\<close>.
  \<^item> \<open>Test_Fs\<close>: \<open>fs/\<close>, \<open>mke2fs/\<close> and \<open>xfs/\<close>. The locale \<open>benchmark\<close> is the contract of a benchmark tool, interpreted for
    the four of them.
  \<^item> \<open>Test_Multi\<close>: \<open>readwrite/fio_multi.c\<close> and \<open>stress/stress.c\<close>, with an instance for each device.
  \<^item> \<open>Test_Rbd\<close>: \<open>src/block-ts/rbd/\<close>, the run of a gtest.
  \<^item> \<open>Progress\<close>: when tests pass. The locale \<open>hindrance\<close> is the interface of the answers that can make a test fail.

  What the lemmas show. Configuration strings are parsed and stored as they were written, in sections
  in their order and of distinct names, and a printed file is read back up to the delimiter; processes are described
  completely before they are started, and a start is a success only when the process was seen alive;
  job factories, jobs, FIO instances and forked servers are released on the paths the code
  releases them; file systems are made, checked and mounted in this order; feature strings and CPU masks mean
  what they say; backends run the script of their mode. Of the tests: what they make they destroy once on
  every way through them; the network emulator is set up before there is traffic; disks are
  driven only while the proxy behind them runs; drivers and the automatic restart are given back; benchmarks
  leave a fresh file system; links, modules and disks that a stress action takes are put back before the
  traffic ends; a gtest is finalised on every way out; and the tests that only set what TE keeps pass unless
  they were refused something. Where the code does something else
  than it means to, the theorem states what it does (for example \<open>flush_loses_item_error\<close>,
  \<open>flex_timeout_negative\<close>, \<open>ceph_params_wrap\<close>).

  Bounds and fuel. The only loop without a bound in the code is the one that reads a channel to its end
  (\<open>receive_until_eos\<close>): it takes the number of receives it may make, and \<open>receive_ends\<close> shows that it
  has no result only when every one of them was answered without an error and without the end of the
  stream; the test that uses it (\<open>rungtest_main\<close>) has no result only then. All other loops recurse over the data they
  walk. Integers are words of their C width where
  they are computed with; finite doubles are rationals; path buffers have the size of \<open>PATH_MAX\<close>, 4096.

  Not modelled: functions that only return memory (\<open>tsapi_blkproxy_handle_free\<close>,
  \<open>tsapi_blkproxy_options_free\<close>; \<open>tsapi_conf_free\<close> is the list of the blocks it frees) and the lists of devices the tests free, log messages, and the file modes of created
  files; the scripts, package descriptions and configuration files of the suite, which hold no C code. The contents of
  memory behind an allocation are a parameter of the environment (\<open>heap_tail\<close>), since the parser
  copies keys without a terminator; so is what an uninitialised variable holds (\<open>stale_word\<close>, \<open>stale_buf\<close>). A read of
  memory that is not valid (an index past an array, a pointer that was not set, a
  dangling option string) is taken to end the test.
\<close>

end
